(* ===== verification/Telio_Prelude.thy ===== *)
theory Telio_Prelude
  imports Main "HOL-Library.Word"
begin

text \<open>
  Shared vocabulary of the development: the machine integers and byte strings of the Rust
  sources, time, public keys, and the generic facts on lists, association lists and maps that
  the component theories use.

  Time: a \<open>std::time::Instant\<close> is a count of clock ticks and a \<open>Duration\<close> a number of
  ticks, both natural numbers. A call to \<open>Instant::now()\<close> is an argument of the operation
  that makes it. \<open>Instant + Duration\<close> panics only beyond the end of the clock's range
  (centuries), which is not modelled.
\<close>

section \<open>Machine integers, bytes and time\<close>

type_synonym u8 = "8 word"
type_synonym u16 = "16 word"
type_synonym u32 = "32 word"
type_synonym u64 = "64 word"
type_synonym u128 = "128 word"
type_synonym bytes = "u8 list"
type_synonym instant = nat
type_synonym duration = nat

section \<open>Network addresses\<close>

text \<open>\<open>std::net::IpAddr\<close> and \<open>std::net::SocketAddr\<close> (V6: address, port, flow info, scope).\<close>

datatype StdIpAddr = V4 u32 | V6 u128

datatype SocketAddr = SockV4 u32 u16 | SockV6 u128 u16 u32 u32

definition sock_ip :: "SocketAddr \<Rightarrow> StdIpAddr" where
  "sock_ip a = (case a of SockV4 ip _ \<Rightarrow> V4 ip | SockV6 ip _ _ _ \<Rightarrow> V6 ip)"

definition sock_new :: "StdIpAddr \<Rightarrow> u16 \<Rightarrow> SocketAddr" where
  "sock_new ip port = (case ip of V4 a \<Rightarrow> SockV4 a port | V6 a \<Rightarrow> SockV6 a port 0 0)"

definition sock_port :: "SocketAddr \<Rightarrow> u16" where
  "sock_port a = (case a of SockV4 _ port \<Rightarrow> port | SockV6 _ port _ _ \<Rightarrow> port)"

lemma sock_new_simps [simp]: "sock_ip (sock_new ip port) = ip" "sock_port (sock_new ip port) = port"
  by (simp_all add: sock_ip_def sock_new_def sock_port_def split: StdIpAddr.splits)

section \<open>Public keys\<close>

text \<open>
  \<open>telio_crypto::PublicKey\<close> is a newtype over \<open>[u8; 32]\<close>; its derived \<open>Eq\<close> compares
  the bytes.
\<close>

datatype PublicKey = PublicKey (key_bytes: bytes)

section \<open>Collections of rewrite rules\<close>

named_theorems iter_simps \<open>effect of container operations on the entry sequence\<close>
named_theorems lookup_simps \<open>effect of operations on what a lookup returns\<close>
named_theorems frame_simps \<open>state components an operation leaves alone\<close>

section \<open>Association lists with an order\<close>

text \<open>\<open>drop_key\<close> removes the binding of a key and keeps the order of the others.\<close>

definition drop_key :: "'k \<Rightarrow> ('k \<times> 'e) list \<Rightarrow> ('k \<times> 'e) list" where
  "drop_key k es = filter (\<lambda>e. fst e \<noteq> k) es"

text \<open>\<open>put_key\<close> overwrites the value of a key in place.\<close>

definition put_key :: "'k \<Rightarrow> 'e \<Rightarrow> ('k \<times> 'e) list \<Rightarrow> ('k \<times> 'e) list" where
  "put_key k v es = map (\<lambda>e. if fst e = k then (k, v) else e) es"

lemma drop_key_simps [simp]:
  "drop_key k [] = []"
  "drop_key k (e # es) = (if fst e = k then drop_key k es else e # drop_key k es)"
  "drop_key k (es @ fs) = drop_key k es @ drop_key k fs"
  by (auto simp: drop_key_def)

lemma put_key_simps [simp]:
  "put_key k v [] = []"
  "put_key k v (e # es) = (if fst e = k then (k, v) else e) # put_key k v es"
  by (auto simp: put_key_def)

lemma set_drop_key [simp]: "set (drop_key k es) = {e \<in> set es. fst e \<noteq> k}"
  by (simp add: drop_key_def)

lemma drop_key_idle: "k \<notin> fst ` set es \<Longrightarrow> drop_key k es = es"
  by (induction es) auto

lemma map_of_drop_key [simp]: "map_of (drop_key k es) = (map_of es)(k := None)"
  by (induction es) (auto simp: fun_eq_iff)

lemma map_of_put_key [simp]:
  "map_of (put_key k v es) = (case map_of es k of None \<Rightarrow> map_of es | Some _ \<Rightarrow> (map_of es)(k \<mapsto> v))"
  by (induction es) (auto simp: fun_eq_iff split: option.splits)

lemma fst_put_key [simp]: "map fst (put_key k v es) = map fst es"
  by (induction es) auto

lemma length_put_key [simp]: "length (put_key k v es) = length es"
  by (simp add: put_key_def)

lemma distinct_drop_key [intro]: "distinct (map fst es) \<Longrightarrow> distinct (map fst (drop_key k es))"
  by (induction es) auto

lemma length_drop_key_le: "length (drop_key k es) \<le> length es"
  by (simp add: drop_key_def)

lemma length_drop_key:
  "distinct (map fst es) \<Longrightarrow> k \<in> fst ` set es \<Longrightarrow> Suc (length (drop_key k es)) = length es"
  by (induction es) (auto simp: drop_key_idle image_iff)

lemma drop_key_put_key [simp]: "drop_key k (put_key k v es) = drop_key k es"
  by (induction es) auto

lemma drop_key_filter: "drop_key k (filter P es) = filter P (drop_key k es)"
  by (induction es) auto

lemma fold_drop_key:
  "fold drop_key ks es = filter (\<lambda>e. fst e \<notin> set ks) es"
  by (induction ks arbitrary: es) (auto simp: drop_key_def intro: filter_cong)

lemma map_add_drop [simp]: "[k \<mapsto> v] ++ m(k := None) = m(k \<mapsto> v)"
  by (auto simp: fun_eq_iff map_add_def split: option.splits)

lemma map_of_in_keys: "map_of es k = Some v \<Longrightarrow> k \<in> fst ` set es"
  by (force dest: map_of_SomeD)

section \<open>Lists sorted by a key\<close>

lemma sorted_filter_map:
  fixes f :: "'a \<Rightarrow> 'b::linorder"
  shows "sorted (map f xs) \<Longrightarrow> sorted (map f (filter P xs))"
  by (induction xs) auto

lemma sorted_map_snoc:
  fixes f :: "'a \<Rightarrow> 'b::linorder"
  shows "sorted (map f (xs @ [x])) \<longleftrightarrow> sorted (map f xs) \<and> (\<forall>y \<in> set xs. f y \<le> f x)"
  by (auto simp: sorted_append)

lemma takeWhile_sorted:
  fixes f :: "'a \<Rightarrow> 'b::linorder"
  assumes "sorted (map f xs)" and "\<And>x y. f x \<le> f y \<Longrightarrow> P y \<Longrightarrow> P x"
  shows "takeWhile P xs = filter P xs" and "dropWhile P xs = filter (\<lambda>x. \<not> P x) xs"
proof -
  have "takeWhile P xs = filter P xs \<and> dropWhile P xs = filter (\<lambda>x. \<not> P x) xs"
    using assms(1)
  proof (induction xs)
    case (Cons x xs)
    show ?case
    proof (cases "P x")
      case False
      with Cons.prems assms(2) have "\<forall>y \<in> set xs. \<not> P y" by auto
      with False show ?thesis by (auto simp: filter_id_conv filter_empty_conv)
    qed (use Cons in auto)
  qed simp
  then show "takeWhile P xs = filter P xs" "dropWhile P xs = filter (\<lambda>x. \<not> P x) xs"
    by auto
qed

section \<open>Filtering maps\<close>

lemma map_filter_Cons [simp]:
  "List.map_filter f (x # xs) = (case f x of None \<Rightarrow> List.map_filter f xs | Some y \<Rightarrow> y # List.map_filter f xs)"
  by (simp add: List.map_filter_def split: option.split)

lemma map_filter_Nil [simp]: "List.map_filter f [] = []"
  by (simp add: List.map_filter_def)

lemma map_filter_append [simp]: "List.map_filter f (xs @ ys) = List.map_filter f xs @ List.map_filter f ys"
  by (simp add: List.map_filter_def)

section \<open>Digits\<close>

lemma four_digits:
  assumes "(n :: nat) < B * (B * (B * B))"
    and "n div B div B div B mod B = g0" "n div B div B mod B = g1" "n div B mod B = g2" "n mod B = g3"
  shows "n = ((g0 * B + g1) * B + g2) * B + g3"
proof -
  have "n div B div B div B < B"
    using assms(1) by (simp add: div_mult2_eq [symmetric] less_mult_imp_div_less mult.assoc)
  then have "n div B div B div B mod B = n div B div B div B" by simp
  then show ?thesis by (simp add: div_mult_mod_eq assms(2-) [symmetric])
qed

end
