(* ===== verification/Linked_Hash_Map.thy ===== *)
theory Linked_Hash_Map
  imports Telio_Prelude
begin

text \<open>
  The interface of \<open>hashlink::LinkedHashMap\<close>, a hash map that remembers an order of its
  entries. The crate is not part of the repository: its operations are a parameter
  (\<open>lhm_ops\<close>) of the definitions that use it, and its documented behaviour is the locale
  \<open>linked_hash_map\<close>, stated over the sequence that \<open>iter()\<close> returns. The association
  list \<open>alist_lhm\<close> is the executable reference instance the witnesses compute with.
\<close>

section \<open>Operations\<close>

record ('k, 'e, 'm) lhm_ops =
  lhm_empty :: 'm
  lhm_get :: "'m \<Rightarrow> 'k \<Rightarrow> 'e option"
  lhm_insert :: "'k \<Rightarrow> 'e \<Rightarrow> 'm \<Rightarrow> 'm"
  lhm_replace :: "'k \<Rightarrow> 'e \<Rightarrow> 'm \<Rightarrow> 'm"
  lhm_remove :: "'k \<Rightarrow> 'm \<Rightarrow> 'm"
  lhm_to_back :: "'k \<Rightarrow> 'm \<Rightarrow> 'm"
  lhm_pop_front :: "'m \<Rightarrow> 'm"
  lhm_iter :: "'m \<Rightarrow> ('k \<times> 'e) list"
  lhm_len :: "'m \<Rightarrow> nat"

text \<open>
  \<open>lhm_replace\<close> is a write through the reference of an occupied entry (\<open>get_mut\<close>,
  \<open>into_mut\<close>); \<open>lhm_to_back\<close> is \<open>RawOccupiedEntryMut::to_back\<close>.
\<close>

section \<open>Documented behaviour\<close>

locale linked_hash_map =
  fixes L :: "('k, 'e, 'm) lhm_ops"
    and invar :: "'m \<Rightarrow> bool"
  assumes invar_empty: "invar (lhm_empty L)"
    and invar_insert: "invar m \<Longrightarrow> invar (lhm_insert L k e m)"
    and invar_replace: "invar m \<Longrightarrow> invar (lhm_replace L k e m)"
    and invar_remove: "invar m \<Longrightarrow> invar (lhm_remove L k m)"
    and invar_to_back: "invar m \<Longrightarrow> invar (lhm_to_back L k m)"
    and invar_pop_front: "invar m \<Longrightarrow> invar (lhm_pop_front L m)"
    and iter_distinct: "invar m \<Longrightarrow> distinct (map fst (lhm_iter L m))"
    and iter_empty: "lhm_iter L (lhm_empty L) = []"
    and get_iter: "invar m \<Longrightarrow> lhm_get L m k = map_of (lhm_iter L m) k"
    and iter_insert: "invar m \<Longrightarrow>
          lhm_iter L (lhm_insert L k e m) = drop_key k (lhm_iter L m) @ [(k, e)]"
    and iter_replace: "invar m \<Longrightarrow>
          lhm_iter L (lhm_replace L k e m) = put_key k e (lhm_iter L m)"
    and iter_remove: "invar m \<Longrightarrow>
          lhm_iter L (lhm_remove L k m) = drop_key k (lhm_iter L m)"
    and iter_to_back: "invar m \<Longrightarrow> lhm_get L m k = Some e \<Longrightarrow>
          lhm_iter L (lhm_to_back L k m) = drop_key k (lhm_iter L m) @ [(k, e)]"
    and iter_pop_front: "invar m \<Longrightarrow>
          lhm_iter L (lhm_pop_front L m) = tl (lhm_iter L m)"
    and len_iter: "invar m \<Longrightarrow> lhm_len L m = length (lhm_iter L m)"
begin

lemmas invar_intros = invar_empty invar_insert invar_replace invar_remove invar_to_back
  invar_pop_front

lemmas iter_laws = iter_empty iter_insert iter_replace iter_remove iter_pop_front

lemma invar_fold_remove: "invar m \<Longrightarrow> invar (fold (lhm_remove L) ks m)"
  by (induction ks arbitrary: m) (auto intro: invar_remove)

lemma iter_fold_remove:
  "invar m \<Longrightarrow> lhm_iter L (fold (lhm_remove L) ks m) = filter (\<lambda>e. fst e \<notin> set ks) (lhm_iter L m)"
proof (induction ks arbitrary: m)
  case (Cons k ks)
  then show ?case
    by (auto simp: invar_remove iter_remove drop_key_def intro!: filter_cong)
qed simp

lemma get_None_iff: "invar m \<Longrightarrow> lhm_get L m k = None \<longleftrightarrow> k \<notin> fst ` set (lhm_iter L m)"
  by (simp add: get_iter map_of_eq_None_iff)

end

section \<open>The reference instance\<close>

definition alist_to_back :: "'k \<Rightarrow> ('k \<times> 'e) list \<Rightarrow> ('k \<times> 'e) list" where
  "alist_to_back k m = (case map_of m k of None \<Rightarrow> m | Some e \<Rightarrow> drop_key k m @ [(k, e)])"

definition alist_lhm :: "('k, 'e, ('k \<times> 'e) list) lhm_ops" where
  "alist_lhm = \<lparr>lhm_empty = [], lhm_get = map_of,
     lhm_insert = (\<lambda>k e m. drop_key k m @ [(k, e)]),
     lhm_replace = put_key, lhm_remove = drop_key,
     lhm_to_back = alist_to_back, lhm_pop_front = tl, lhm_iter = (\<lambda>m. m), lhm_len = length\<rparr>"

lemma alist_lhm_sel [simp]:
  "lhm_empty alist_lhm = []" "lhm_get alist_lhm = map_of"
  "lhm_insert alist_lhm k e m = drop_key k m @ [(k, e)]"
  "lhm_replace alist_lhm = put_key" "lhm_remove alist_lhm = drop_key"
  "lhm_to_back alist_lhm = alist_to_back" "lhm_pop_front alist_lhm = tl"
  "lhm_iter alist_lhm m = m" "lhm_len alist_lhm = length"
  by (simp_all add: alist_lhm_def)

interpretation alist_lhm: linked_hash_map alist_lhm "\<lambda>m. distinct (map fst m)"
  by unfold_locales
    (auto simp: alist_to_back_def distinct_tl map_tl intro!: distinct_drop_key
       split: option.splits)

end
