(* ===== verification/Lru_Cache.thy ===== *)
theory Lru_Cache
  imports Linked_Hash_Map
begin

text \<open>
  \<open>telio_utils::lru_cache\<close> (crates/telio-utils/src/lru_cache.rs): a cache bounded by size and
  by age, kept in a linked hash map whose order is the order of last use. The operations take
  the hash map's operations \<open>L\<close> first and, where the code reads the clock, the time it reads.
  An entry handle borrows the cache: \<open>entry\<close> returns the handle with the cache, and the
  handle's methods (\<open>occupied_*\<close>, \<open>vacant_insert\<close>) take the cache it borrows.

  The first part holds the definitions; the second shows, from the behaviour of the hash map,
  that the order of the entries is the order of their last access, so that the prefix scan of
  \<open>remove_expired\<close> finds every expired entry, that the capacity is never exceeded, and what
  each operation does to the live view \<open>peek\<close> of the cache.
\<close>

section \<open>The cache and its operations\<close>

record 'v TimedValue =
  data :: 'v
  last_access :: instant

definition TimedValue_new :: "'v \<Rightarrow> instant \<Rightarrow> 'v TimedValue" where
  "TimedValue_new v now = \<lparr>data = v, last_access = now\<rparr>"

definition update_last_access :: "'v TimedValue \<Rightarrow> instant \<Rightarrow> 'v TimedValue" where
  "update_last_access tv new_last_access = tv\<lparr>last_access := new_last_access\<rparr>"

definition is_expired :: "'v TimedValue \<Rightarrow> duration \<Rightarrow> instant \<Rightarrow> bool" where
  "is_expired tv t now \<longleftrightarrow> last_access tv + t < now"

record 'm LruCache =
  lru_map :: 'm
  ttl :: duration
  capacity :: nat

datatype ('k, 'v) Entry = Occupied 'k 'v | Vacant 'k

definition lru_new :: "('k, 'v TimedValue, 'm) lhm_ops \<Rightarrow> duration \<Rightarrow> nat \<Rightarrow> 'm LruCache" where
  "lru_new L t cap = \<lparr>lru_map = lhm_empty L, ttl = t, capacity = cap\<rparr>"

definition remove_expired ::
  "('k, 'v TimedValue, 'm) lhm_ops \<Rightarrow> 'm LruCache \<Rightarrow> instant \<Rightarrow> 'm LruCache \<times> 'k list" where
  "remove_expired L c now =
     (let expired_keys = map fst (takeWhile (\<lambda>e. is_expired (snd e) (ttl c) now)
                                   (lhm_iter L (lru_map c)))
      in (c\<lparr>lru_map := fold (lhm_remove L) expired_keys (lru_map c)\<rparr>, expired_keys))"

definition update_last_time ::
  "('k, 'v TimedValue, 'm) lhm_ops \<Rightarrow> 'k \<Rightarrow> 'v TimedValue \<Rightarrow> instant \<Rightarrow> 'm \<Rightarrow> 'm" where
  "update_last_time L k tv now m =
     lhm_to_back L k (lhm_replace L k (update_last_access tv now) m)"

definition lru_len ::
  "('k, 'v TimedValue, 'm) lhm_ops \<Rightarrow> 'm LruCache \<Rightarrow> instant \<Rightarrow> nat \<times> 'm LruCache" where
  "lru_len L c now = (let c' = fst (remove_expired L c now) in (lhm_len L (lru_map c'), c'))"

definition lru_is_empty ::
  "('k, 'v TimedValue, 'm) lhm_ops \<Rightarrow> 'm LruCache \<Rightarrow> instant \<Rightarrow> bool \<times> 'm LruCache" where
  "lru_is_empty L c now =
     (let c' = fst (remove_expired L c now) in (lhm_len L (lru_map c') = 0, c'))"

definition len_slow :: "('k, 'v TimedValue, 'm) lhm_ops \<Rightarrow> 'm LruCache \<Rightarrow> instant \<Rightarrow> nat" where
  "len_slow L c now =
     length (filter (\<lambda>e. \<not> is_expired (snd e) (ttl c) now) (lhm_iter L (lru_map c)))"

definition is_empty_slow :: "('k, 'v TimedValue, 'm) lhm_ops \<Rightarrow> 'm LruCache \<Rightarrow> instant \<Rightarrow> bool" where
  "is_empty_slow L c now \<longleftrightarrow> len_slow L c now = 0"

definition entry ::
  "('k, 'v TimedValue, 'm) lhm_ops \<Rightarrow> 'm LruCache \<Rightarrow> 'k \<Rightarrow> bool \<Rightarrow> instant
     \<Rightarrow> ('k, 'v) Entry \<times> 'm LruCache" where
  "entry L c k update_last_access_time now =
     (case lhm_get L (lru_map c) k of
        Some tv \<Rightarrow>
          if is_expired tv (ttl c) now
          then (Vacant k, c\<lparr>lru_map := lhm_remove L k (lru_map c)\<rparr>)
          else if update_last_access_time
          then (Occupied k (data tv), c\<lparr>lru_map := update_last_time L k tv now (lru_map c)\<rparr>)
          else (Occupied k (data tv), c)
      | None \<Rightarrow> (Vacant k, c))"

text \<open>
  The value of an occupied entry is looked up again through the handle; \<open>None\<close> is the
  \<open>unreachable!()\<close> branch.
\<close>

definition occupied_get :: "('k, 'v TimedValue, 'm) lhm_ops \<Rightarrow> 'm LruCache \<Rightarrow> 'k \<Rightarrow> 'v option" where
  "occupied_get L c k = map_option data (lhm_get L (lru_map c) k)"

definition occupied_set ::
  "('k, 'v TimedValue, 'm) lhm_ops \<Rightarrow> 'm LruCache \<Rightarrow> 'k \<Rightarrow> 'v \<Rightarrow> 'm LruCache" where
  "occupied_set L c k v =
     (case lhm_get L (lru_map c) k of
        Some tv \<Rightarrow> c\<lparr>lru_map := lhm_replace L k (tv\<lparr>data := v\<rparr>) (lru_map c)\<rparr>
      | None \<Rightarrow> c)"

definition occupied_remove ::
  "('k, 'v TimedValue, 'm) lhm_ops \<Rightarrow> 'm LruCache \<Rightarrow> 'k \<Rightarrow> 'm LruCache" where
  "occupied_remove L c k = c\<lparr>lru_map := lhm_remove L k (lru_map c)\<rparr>"

definition pop_over_capacity :: "('k, 'v TimedValue, 'm) lhm_ops \<Rightarrow> nat \<Rightarrow> 'm \<Rightarrow> 'm" where
  "pop_over_capacity L cap m = (if lhm_len L m > cap then lhm_pop_front L m else m)"

definition vacant_insert ::
  "('k, 'v TimedValue, 'm) lhm_ops \<Rightarrow> 'm LruCache \<Rightarrow> 'k \<Rightarrow> 'v \<Rightarrow> instant \<Rightarrow> 'm LruCache" where
  "vacant_insert L c k v now =
     (case lhm_get L (lru_map c) k of
        None \<Rightarrow> c\<lparr>lru_map := pop_over_capacity L (capacity c)
                              (lhm_insert L k (TimedValue_new v now) (lru_map c))\<rparr>
      | Some _ \<Rightarrow> c)"

definition lru_get_mut ::
  "('k, 'v TimedValue, 'm) lhm_ops \<Rightarrow> 'm LruCache \<Rightarrow> 'k \<Rightarrow> instant \<Rightarrow> 'v option \<times> 'm LruCache" where
  "lru_get_mut L c k now =
     (let c' = fst (remove_expired L c now)
      in case lhm_get L (lru_map c') k of
           Some tv \<Rightarrow> (Some (data tv), c'\<lparr>lru_map := update_last_time L k tv now (lru_map c')\<rparr>)
         | None \<Rightarrow> (None, c'))"

definition lru_get ::
  "('k, 'v TimedValue, 'm) lhm_ops \<Rightarrow> 'm LruCache \<Rightarrow> 'k \<Rightarrow> instant \<Rightarrow> 'v option \<times> 'm LruCache" where
  "lru_get L c k now = lru_get_mut L c k now"

definition lru_insert ::
  "('k, 'v TimedValue, 'm) lhm_ops \<Rightarrow> 'm LruCache \<Rightarrow> 'k \<Rightarrow> 'v \<Rightarrow> instant \<Rightarrow> 'm LruCache" where
  "lru_insert L c k v now =
     c\<lparr>lru_map := pop_over_capacity L (capacity c)
                    (lhm_insert L k (TimedValue_new v now) (lru_map c))\<rparr>"

definition lru_remove ::
  "('k, 'v TimedValue, 'm) lhm_ops \<Rightarrow> 'm LruCache \<Rightarrow> 'k \<Rightarrow> 'v option \<times> 'm LruCache" where
  "lru_remove L c k =
     (map_option data (lhm_get L (lru_map c) k), c\<lparr>lru_map := lhm_remove L k (lru_map c)\<rparr>)"

definition peek ::
  "('k, 'v TimedValue, 'm) lhm_ops \<Rightarrow> 'm LruCache \<Rightarrow> 'k \<Rightarrow> instant \<Rightarrow> 'v option" where
  "peek L c k now =
     (case lhm_get L (lru_map c) k of
        None \<Rightarrow> None
      | Some tv \<Rightarrow> if is_expired tv (ttl c) now then None else Some (data tv))"

definition lru_iter :: "('k, 'v TimedValue, 'm) lhm_ops \<Rightarrow> 'm LruCache \<Rightarrow> ('k \<times> 'v) list" where
  "lru_iter L c = map (\<lambda>(k, tv). (k, data tv)) (lhm_iter L (lru_map c))"

lemmas lru_op_defs = lru_len_def lru_is_empty_def entry_def occupied_get_def occupied_set_def
  occupied_remove_def vacant_insert_def lru_get_def lru_get_mut_def lru_insert_def lru_remove_def
  lru_new_def

section \<open>Invariant\<close>

text \<open>
  At time \<open>now\<close>: the hash map is well formed, the entries are in the order of their last
  access, none was accessed in the future, and there are at most \<open>capacity\<close> of them.
\<close>

definition accesses :: "('k, 'v TimedValue, 'm) lhm_ops \<Rightarrow> 'm LruCache \<Rightarrow> instant list" where
  "accesses L c = map (last_access \<circ> snd) (lhm_iter L (lru_map c))"

definition lru_inv ::
  "('k, 'v TimedValue, 'm) lhm_ops \<Rightarrow> ('m \<Rightarrow> bool) \<Rightarrow> 'm LruCache \<Rightarrow> instant \<Rightarrow> bool" where
  "lru_inv L invar c now \<longleftrightarrow>
     invar (lru_map c) \<and> sorted (accesses L c) \<and> (\<forall>t \<in> set (accesses L c). t \<le> now)
     \<and> length (lhm_iter L (lru_map c)) \<le> capacity c"

definition lru_all ::
  "('k, 'v TimedValue, 'm) lhm_ops \<Rightarrow> ('k \<Rightarrow> 'v \<Rightarrow> bool) \<Rightarrow> 'm LruCache \<Rightarrow> bool" where
  "lru_all L P c \<longleftrightarrow> (\<forall>(k, tv) \<in> set (lhm_iter L (lru_map c)). P k (data tv))"

lemma lru_all_mono: "lru_all L P c \<Longrightarrow> (\<And>k v. P k v \<Longrightarrow> Q k v) \<Longrightarrow> lru_all L Q c"
  by (auto simp: lru_all_def)

lemma lru_inv_later: "lru_inv L invar c now \<Longrightarrow> now \<le> now' \<Longrightarrow> lru_inv L invar c now'"
  by (auto simp: lru_inv_def)

section \<open>The cache as a client of the hash map\<close>

text \<open>
  Everything below holds for any hash map that behaves as documented. \<open>update_last_time\<close>
  and the two inserts put the touched entry at the back with the current time, which is what
  keeps the entries sorted.
\<close>

locale lru = linked_hash_map L invar
  for L :: "('k, 'v TimedValue, 'm) lhm_ops" and invar :: "'m \<Rightarrow> bool"
begin

lemma lru_invD:
  assumes "lru_inv L invar c now"
  shows "invar (lru_map c)" and "sorted (map (last_access \<circ> snd) (lhm_iter L (lru_map c)))"
    and "e \<in> set (lhm_iter L (lru_map c)) \<Longrightarrow> last_access (snd e) \<le> now"
    and "length (lhm_iter L (lru_map c)) \<le> capacity c"
  using assms by (auto simp: lru_inv_def accesses_def)

lemma iter_update_last_time:
  assumes "invar m" and "lhm_get L m k = Some tv"
  shows "lhm_iter L (update_last_time L k tv now m) =
           drop_key k (lhm_iter L m) @ [(k, update_last_access tv now)]"
    and "invar (update_last_time L k tv now m)"
proof -
  let ?m = "lhm_replace L k (update_last_access tv now) m"
  have m: "invar ?m" using assms(1) by (rule invar_replace)
  have "lhm_get L ?m k = Some (update_last_access tv now)"
    using assms m by (simp add: get_iter iter_replace)
  from iter_to_back [OF m this] assms(1)
  show "lhm_iter L (update_last_time L k tv now m) =
           drop_key k (lhm_iter L m) @ [(k, update_last_access tv now)]"
    by (simp add: update_last_time_def iter_replace)
  show "invar (update_last_time L k tv now m)"
    unfolding update_last_time_def using m by (rule invar_to_back)
qed

lemma pop_over_capacity_laws:
  assumes "invar m"
  shows "invar (pop_over_capacity L cap m)"
    and "lhm_iter L (pop_over_capacity L cap m) =
           (if length (lhm_iter L m) > cap then tl (lhm_iter L m) else lhm_iter L m)"
  using assms by (auto simp: pop_over_capacity_def len_iter iter_pop_front invar_pop_front)

text \<open>Touching an entry: it moves to the back with the current time.\<close>

lemma touched_inv:
  assumes inv: "lru_inv L invar c now" and m: "invar m'"
    and it: "lhm_iter L m' = drop_key k (lhm_iter L (lru_map c)) @ [(k, tv)]"
    and now: "last_access tv = now"
    and len: "length (lhm_iter L m') \<le> capacity c"
  shows "lru_inv L invar (c\<lparr>lru_map := m'\<rparr>) now"
  using inv m len unfolding lru_inv_def accesses_def
  by (auto simp: it now sorted_append drop_key_def intro: sorted_filter_map)

lemma dropped_inv:
  assumes inv: "lru_inv L invar c now" and m: "invar m'"
    and it: "lhm_iter L m' = filter P (lhm_iter L (lru_map c))"
  shows "lru_inv L invar (c\<lparr>lru_map := m'\<rparr>) now"
  using inv m le_trans [OF length_filter_le [of P "lhm_iter L (lru_map c)"]]
  unfolding lru_inv_def accesses_def
  by (auto simp: it intro: sorted_filter_map)

lemma length_touched:
  assumes inv: "lru_inv L invar c now" and "lhm_get L (lru_map c) k = Some tv"
  shows "length (drop_key k (lhm_iter L (lru_map c)) @ [(k, tv')]) \<le> capacity c"
proof -
  have "k \<in> fst ` set (lhm_iter L (lru_map c))"
    using assms lru_invD(1) [OF inv] get_None_iff by (metis option.distinct(1))
  with length_drop_key [OF iter_distinct] lru_invD(1,4) [OF inv] show ?thesis by fastforce
qed

section \<open>Expiry: the prefix scan is complete\<close>

lemma remove_expired_iter:
  assumes inv: "lru_inv L invar c now"
  shows "lhm_iter L (lru_map (fst (remove_expired L c now'))) =
           filter (\<lambda>e. \<not> is_expired (snd e) (ttl c) now') (lhm_iter L (lru_map c))"
proof -
  let ?es = "lhm_iter L (lru_map c)" and ?P = "\<lambda>e. is_expired (snd e) (ttl c) now'"
  have mono: "?P y \<Longrightarrow> ?P x" if "(last_access \<circ> snd) x \<le> (last_access \<circ> snd) y" for x y
    using that by (auto simp: is_expired_def)
  have tw: "takeWhile ?P ?es = filter ?P ?es"
    using lru_invD(2) [OF inv] by (rule takeWhile_sorted(1)) (rule mono)
  have "lhm_iter L (lru_map (fst (remove_expired L c now'))) =
          filter (\<lambda>e. fst e \<notin> fst ` set (filter ?P ?es)) ?es"
    using lru_invD(1) [OF inv] by (simp add: remove_expired_def Let_def iter_fold_remove tw)
  also have "\<dots> = filter (\<lambda>e. \<not> ?P e) ?es"
  proof (rule filter_cong)
    fix e assume e: "e \<in> set ?es"
    have "inj_on fst (set ?es)"
      using iter_distinct [OF lru_invD(1) [OF inv]] by (simp add: distinct_map)
    from inj_on_image_mem_iff [OF this e, of "set (filter ?P ?es)"] e
    show "fst e \<notin> fst ` set (filter ?P ?es) \<longleftrightarrow> \<not> ?P e" by auto
  qed simp
  finally show ?thesis .
qed

lemma remove_expired_keeps [simp]:
  "ttl (fst (remove_expired L c now)) = ttl c"
  "capacity (fst (remove_expired L c now)) = capacity c"
  by (simp_all add: remove_expired_def Let_def)

lemma remove_expired_inv:
  assumes inv: "lru_inv L invar c now"
  shows "lru_inv L invar (fst (remove_expired L c now')) now"
proof -
  have "fst (remove_expired L c now') =
          c\<lparr>lru_map := lru_map (fst (remove_expired L c now'))\<rparr>"
    by (simp add: remove_expired_def Let_def)
  moreover have "invar (lru_map (fst (remove_expired L c now')))"
    using lru_invD(1) [OF inv] by (simp add: remove_expired_def Let_def invar_fold_remove)
  ultimately show ?thesis
    using dropped_inv [OF inv _ remove_expired_iter [OF inv]] by metis
qed

lemma peek_iter:
  assumes "invar (lru_map c)"
  shows "peek L c k now =
           (case map_of (lhm_iter L (lru_map c)) k of
              None \<Rightarrow> None
            | Some tv \<Rightarrow> if is_expired tv (ttl c) now then None else Some (data tv))"
  using assms by (simp add: peek_def get_iter)

lemma map_of_filter_value:
  assumes "distinct (map fst es)"
  shows "map_of (filter (\<lambda>e. P (snd e)) es) k =
           (case map_of es k of None \<Rightarrow> None | Some v \<Rightarrow> if P v then Some v else None)"
  using assms by (induction es) (auto split: option.splits simp: map_of_eq_None_iff dest: map_of_in_keys)

text \<open>A lookup after the scan: an entry is found iff it was there and had not expired.\<close>

lemma get_remove_expired:
  assumes inv: "lru_inv L invar c now"
  shows "lhm_get L (lru_map (fst (remove_expired L c now'))) k =
           (case lhm_get L (lru_map c) k of
              None \<Rightarrow> None | Some tv \<Rightarrow> if is_expired tv (ttl c) now' then None else Some tv)"
  using lru_invD(1) [OF remove_expired_inv [OF inv, of now']] lru_invD(1) [OF inv]
    map_of_filter_value [OF iter_distinct [OF lru_invD(1) [OF inv]],
      where P = "\<lambda>tv. \<not> is_expired tv (ttl c) now'" and k = k]
  by (simp add: get_iter remove_expired_iter [OF inv] split: option.splits)

section \<open>The invariant is kept\<close>

lemma lru_new_inv: "lru_inv L invar (lru_new L t cap) now"
  by (simp add: lru_inv_def lru_new_def accesses_def invar_empty iter_empty)

lemma lru_len_inv: "lru_inv L invar c now \<Longrightarrow> lru_inv L invar (snd (lru_len L c now')) now"
  by (simp add: lru_len_def Let_def remove_expired_inv)

lemma lru_remove_inv: "lru_inv L invar c now \<Longrightarrow> lru_inv L invar (snd (lru_remove L c k)) now"
  using dropped_inv [of c now "lhm_remove L k (lru_map c)" "\<lambda>e. fst e \<noteq> k"]
  by (simp add: lru_remove_def lru_invD(1) invar_remove iter_remove drop_key_def)

lemma occupied_remove_inv:
  "lru_inv L invar c now \<Longrightarrow> lru_inv L invar (occupied_remove L c k) now"
  using lru_remove_inv [of c now k] by (simp add: occupied_remove_def lru_remove_def)

lemma occupied_set_inv:
  assumes inv: "lru_inv L invar c now"
  shows "lru_inv L invar (occupied_set L c k v) now"
proof (cases "lhm_get L (lru_map c) k")
  case (Some tv)
  have m: "invar (lru_map c)" by (rule lru_invD(1) [OF inv])
  have "map (last_access \<circ> snd) (put_key k (tv\<lparr>data := v\<rparr>) (lhm_iter L (lru_map c))) =
          map (last_access \<circ> snd) (lhm_iter L (lru_map c))"
    using Some m iter_distinct [OF m] by (auto simp: get_iter put_key_def dest: eq_key_imp_eq_value)
  with inv Some m show ?thesis
    by (simp add: occupied_set_def lru_inv_def accesses_def iter_replace invar_replace)
qed (use inv in \<open>simp add: occupied_set_def\<close>)

lemma update_inv:
  assumes "lru_inv L invar c now" and "lhm_get L (lru_map c) k = Some tv"
  shows "lru_inv L invar (c\<lparr>lru_map := update_last_time L k tv now (lru_map c)\<rparr>) now"
  using assms iter_update_last_time [OF lru_invD(1) [OF assms(1)] assms(2)]
    length_touched [OF assms]
  by (intro touched_inv [where k = k]) (auto simp: update_last_access_def)

lemma entry_inv:
  assumes "lru_inv L invar c now"
  shows "lru_inv L invar (snd (entry L c k upd now)) now"
  using assms update_inv [OF assms] lru_remove_inv [OF assms, of k]
  by (auto simp: entry_def lru_remove_def split: option.splits)

lemma lru_get_inv:
  assumes "lru_inv L invar c now"
  shows "lru_inv L invar (snd (lru_get L c k now)) now"
  using remove_expired_inv [OF assms, of now] update_inv [OF remove_expired_inv [OF assms]]
  by (auto simp: lru_get_def lru_get_mut_def Let_def split: option.splits)

lemma lru_insert_inv:
  assumes inv: "lru_inv L invar c now"
  shows "lru_inv L invar (lru_insert L c k v now) now"
proof -
  let ?tv = "TimedValue_new v now" and ?es = "lhm_iter L (lru_map c)"
  let ?m = "lhm_insert L k ?tv (lru_map c)"
  have m: "invar ?m" by (simp add: invar_insert lru_invD(1) [OF inv])
  have it: "lhm_iter L ?m = drop_key k ?es @ [(k, ?tv)]"
    by (simp add: iter_insert lru_invD(1) [OF inv])
  have t: "lru_inv L invar (c\<lparr>lru_map := ?m, capacity := Suc (capacity c)\<rparr>) now"
    using touched_inv [of "c\<lparr>capacity := Suc (capacity c)\<rparr>" now ?m k ?tv] inv m it
      length_drop_key_le [of k ?es]
    by (auto simp: lru_inv_def accesses_def TimedValue_new_def)
  then show ?thesis using m pop_over_capacity_laws [OF m, of "capacity c"]
    by (auto simp: lru_insert_def lru_inv_def accesses_def map_tl sorted_tl
         dest: list.set_sel(2) [rotated])
qed

lemma vacant_insert_inv:
  assumes "lru_inv L invar c now"
  shows "lru_inv L invar (vacant_insert L c k v now) now"
  using assms lru_insert_inv [OF assms, of k v]
  by (auto simp: vacant_insert_def lru_insert_def split: option.splits)

text \<open>The operation at one clock reading, the invariant at a later one.\<close>

lemma inv_later:
  assumes "lru_inv L invar c now" and "now \<le> now'"
  shows "lru_inv L invar (snd (entry L c k upd now)) now'"
    and "lru_inv L invar (snd (lru_get L c k now)) now'"
    and "lru_inv L invar (lru_insert L c k v now) now'"
    and "lru_inv L invar (snd (lru_len L c now)) now'"
  using assms entry_inv lru_get_inv lru_insert_inv lru_len_inv by (blast intro: lru_inv_later)+

lemmas lru_inv_intros = lru_new_inv lru_len_inv lru_remove_inv occupied_remove_inv
  occupied_set_inv entry_inv lru_get_inv lru_insert_inv vacant_insert_inv

section \<open>What a lookup returns after each operation\<close>

text \<open>
  Raw lookups first (\<open>lhm_get\<close> on the cache's map), then the live view \<open>peek\<close>. The
  rules are collected in \<open>lookup_simps\<close>.
\<close>

lemma peek_get:
  "peek L c k now =
     Option.bind (lhm_get L (lru_map c) k)
       (\<lambda>tv. if is_expired tv (ttl c) now then None else Some (data tv))"
  by (simp add: peek_def split: option.splits)

lemma get_update_last_time:
  assumes "invar m" and "lhm_get L m k = Some tv"
  shows "lhm_get L (update_last_time L k tv now m) k' =
           (if k' = k then Some (update_last_access tv now) else lhm_get L m k')"
  using assms iter_update_last_time [OF assms]
  by (auto simp: get_iter)

lemma entry_fst:
  "fst (entry L c k upd now) =
     (case peek L c k now of Some v \<Rightarrow> Occupied k v | None \<Rightarrow> Vacant k)"
  by (auto simp: entry_def peek_def split: option.splits)

lemma entry_keeps [simp]:
  "ttl (snd (entry L c k upd now)) = ttl c"
  "capacity (snd (entry L c k upd now)) = capacity c"
  by (auto simp: entry_def split: option.splits)

lemma get_entry_other:
  assumes "invar (lru_map c)" and "k' \<noteq> k"
  shows "lhm_get L (lru_map (snd (entry L c k upd now))) k' = lhm_get L (lru_map c) k'"
  using assms
  by (auto simp: entry_def get_update_last_time get_iter iter_remove invar_remove
      split: option.splits)

lemma get_entry_same:
  assumes "invar (lru_map c)"
  shows "lhm_get L (lru_map (snd (entry L c k upd now))) k =
           (case lhm_get L (lru_map c) k of
              None \<Rightarrow> None
            | Some tv \<Rightarrow> if is_expired tv (ttl c) now then None
                        else Some (if upd then update_last_access tv now else tv))"
  using assms
  by (auto simp: entry_def get_update_last_time get_iter iter_remove invar_remove
      split: option.splits)

text \<open>The re-lookup through an occupied handle never reaches \<open>unreachable!()\<close>.\<close>

lemma occupied_get_entry:
  assumes "invar (lru_map c)" and "entry L c k upd now = (Occupied k' v, c')"
  shows "k' = k" and "occupied_get L c' k = Some v"
  using assms get_entry_same [OF assms(1), of k upd now]
  by (auto simp: entry_def occupied_get_def update_last_access_def split: option.splits if_splits)

lemma peek_entry_other [lookup_simps]:
  "invar (lru_map c) \<Longrightarrow> k' \<noteq> k \<Longrightarrow> peek L (snd (entry L c k upd now)) k' t = peek L c k' t"
  by (simp add: peek_def get_entry_other split: option.split)

lemma peek_entry_touch [lookup_simps]:
  assumes "invar (lru_map c)" and "peek L c k now = Some v" and "t \<le> now + ttl c"
  shows "peek L (snd (entry L c k True now)) k t = Some v"
  using assms
  by (auto simp: peek_def get_entry_same is_expired_def update_last_access_def
      split: option.splits if_splits)

lemma peek_entry_look [lookup_simps]:
  assumes "invar (lru_map c)" and "peek L c k now = Some v"
  shows "peek L (snd (entry L c k False now)) k t = peek L c k t"
  using assms by (auto simp: peek_def get_entry_same split: option.splits if_splits)

lemma get_entry_vacant:
  assumes "invar (lru_map c)" and "peek L c k now = None"
  shows "lhm_get L (lru_map (snd (entry L c k upd now))) k = None"
  using assms by (auto simp: peek_def get_entry_same split: option.splits if_splits)

lemma peek_occupied_set [lookup_simps]:
  assumes "invar (lru_map c)"
  shows "peek L (occupied_set L c k v) k' t =
           (if k' = k then map_option (\<lambda>_. v) (peek L c k t) else peek L c k' t)"
  using assms
  by (auto simp: peek_def occupied_set_def get_iter iter_replace invar_replace is_expired_def
      split: option.splits)

lemma peek_lru_remove [lookup_simps]:
  assumes "invar (lru_map c)"
  shows "peek L (snd (lru_remove L c k)) k' t = (if k' = k then None else peek L c k' t)"
  using assms
  by (simp add: peek_def lru_remove_def get_iter iter_remove invar_remove split: option.split)

lemma peek_occupied_remove [lookup_simps]:
  assumes "invar (lru_map c)"
  shows "peek L (occupied_remove L c k) k' t = (if k' = k then None else peek L c k' t)"
  using peek_lru_remove [OF assms] by (simp add: occupied_remove_def lru_remove_def)

text \<open>
  An insertion may evict: the inserted key is found (unless the capacity is 0), any other key
  keeps its value or is gone, and nothing is gone while there is room.
\<close>

lemma get_lru_insert:
  assumes m: "invar (lru_map c)" and len: "length (lhm_iter L (lru_map c)) \<le> capacity c"
  shows "0 < capacity c \<Longrightarrow> lhm_get L (lru_map (lru_insert L c k v now)) k = Some (TimedValue_new v now)"
    and "k' \<noteq> k \<Longrightarrow> lhm_get L (lru_map (lru_insert L c k v now)) k' = Some tv
           \<Longrightarrow> lhm_get L (lru_map c) k' = Some tv"
    and "k' \<noteq> k \<Longrightarrow> length (lhm_iter L (lru_map c)) < capacity c
           \<Longrightarrow> lhm_get L (lru_map (lru_insert L c k v now)) k' = lhm_get L (lru_map c) k'"
proof -
  let ?tv = "TimedValue_new v now" and ?es = "lhm_iter L (lru_map c)"
  let ?m = "lhm_insert L k ?tv (lru_map c)"
  let ?ds = "drop_key k ?es @ [(k, ?tv)]"
  have m': "invar ?m" using m by (rule invar_insert)
  have it: "lhm_iter L ?m = ?ds" using m by (rule iter_insert)
  note pop = pop_over_capacity_laws [OF m', of "capacity c", unfolded it]
  have get: "lhm_get L (lru_map (lru_insert L c k v now)) x =
      map_of (if length ?ds > capacity c then tl ?ds else ?ds) x" for x
    using pop by (simp add: lru_insert_def get_iter)
  have d: "distinct (map fst ?ds)" using iter_distinct [OF m'] by (simp add: it)
  show "lhm_get L (lru_map (lru_insert L c k v now)) k = Some ?tv" if "0 < capacity c"
  proof (cases "drop_key k ?es")
    case Nil
    with that show ?thesis by (simp add: get)
  next
    case (Cons e ds)
    with d show ?thesis by (auto simp: get map_add_def map_of_eq_None_iff split: option.splits)
  qed
  have sub: "map_of (tl ds) x = Some y \<Longrightarrow> map_of ds x = Some y"
    if "distinct (map fst ds)" for ds :: "('k \<times> 'v TimedValue) list" and x y
    using that by (cases ds) (force dest: map_of_in_keys)+
  show "lhm_get L (lru_map c) k' = Some tv"
    if "k' \<noteq> k" and "lhm_get L (lru_map (lru_insert L c k v now)) k' = Some tv"
  proof -
    have "map_of ?ds k' = Some tv"
    proof (cases "length ?ds > capacity c")
      case True
      with that(2) have "map_of (tl ?ds) k' = Some tv" by (simp only: get if_True)
      with d show ?thesis by (rule sub)
    qed (use that(2) in \<open>simp only: get if_False\<close>)
    with that(1) m show ?thesis by (auto simp: get_iter)
  qed
  show "lhm_get L (lru_map (lru_insert L c k v now)) k' = lhm_get L (lru_map c) k'"
    if "k' \<noteq> k" and "length ?es < capacity c"
    using that m length_drop_key_le [of k ?es]
    by (auto simp: get get_iter)
qed

lemma lru_insert_keeps [simp]:
  "ttl (lru_insert L c k v now) = ttl c" "capacity (lru_insert L c k v now) = capacity c"
  by (simp_all add: lru_insert_def)

lemma vacant_insert_eq:
  "lhm_get L (lru_map c) k = None \<Longrightarrow> vacant_insert L c k v now = lru_insert L c k v now"
  by (simp add: vacant_insert_def lru_insert_def)

lemma peek_lru_insert_same [lookup_simps]:
  assumes "invar (lru_map c)" and "length (lhm_iter L (lru_map c)) \<le> capacity c"
    and "0 < capacity c" and "t \<le> now + ttl c"
  shows "peek L (lru_insert L c k v now) k t = Some v"
  using assms by (simp add: peek_def get_lru_insert(1) is_expired_def TimedValue_new_def)

lemma peek_lru_insert_other:
  assumes "invar (lru_map c)" and "length (lhm_iter L (lru_map c)) \<le> capacity c"
    and "k' \<noteq> k" and "peek L (lru_insert L c k v now) k' t = Some w"
  shows "peek L c k' t = Some w"
  using assms(4) get_lru_insert(2) [OF assms(1-3)]
  by (auto simp: peek_def split: option.splits if_splits)

text \<open>\<open>get\<close> returns the live value, refreshes it, and changes no other live value.\<close>

lemma lru_get_fst [lookup_simps]:
  assumes "lru_inv L invar c now"
  shows "fst (lru_get L c k now) = peek L c k now"
  by (simp add: lru_get_def lru_get_mut_def Let_def get_remove_expired [OF assms] peek_def
      split: option.splits)

lemma peek_lru_get [lookup_simps]:
  assumes inv: "lru_inv L invar c now" and t: "now \<le> t"
  shows "peek L (snd (lru_get L c k now)) k' t =
           (if k' = k \<and> t \<le> now + ttl c then peek L c k now else
            if k' = k then None else peek L c k' t)"
proof -
  let ?c = "fst (remove_expired L c now)"
  have m: "invar (lru_map ?c)" by (rule lru_invD(1) [OF remove_expired_inv [OF inv]])
  have old: "peek L ?c x t = peek L c x t" for x
    using t by (auto simp: peek_def get_remove_expired [OF inv] is_expired_def split: option.splits)
  have live: "lhm_get L (lru_map ?c) k = None \<Longrightarrow> peek L c k now = None \<and> peek L c k t = None"
    using old [of k] by (auto simp: get_remove_expired [OF inv] peek_def split: option.splits if_splits)
  show ?thesis
  proof (cases "lhm_get L (lru_map ?c) k")
    case None
    with live old show ?thesis by (auto simp: lru_get_def lru_get_mut_def Let_def)
  next
    case (Some tv)
    then have now: "peek L c k now = Some (data tv)"
      by (auto simp: get_remove_expired [OF inv] peek_def split: option.splits if_splits)
    have "peek L (snd (lru_get L c k now)) k' t =
            (if k' = k then if t \<le> now + ttl c then Some (data tv) else None else peek L ?c k' t)"
      using get_update_last_time [OF m Some, of now k'] Some
      by (simp add: lru_get_def lru_get_mut_def Let_def peek_def is_expired_def
          update_last_access_def split: option.split)
    with now old [of k'] show ?thesis by simp
  qed
qed

section \<open>Properties of every stored entry\<close>

text \<open>
  A property of key and value that holds of every entry of the cache, expired or not, is kept
  by every operation that stores only values with that property.
\<close>

lemma lru_all_intros:
  assumes m: "invar (lru_map c)" and P: "lru_all L P c"
  shows "lru_all L P (fst (remove_expired L c now))"
    and "lru_all L P (snd (lru_len L c now))"
    and "lru_all L P (snd (entry L c k upd now))"
    and "lru_all L P (occupied_remove L c k)"
    and "lru_all L P (snd (lru_remove L c k))"
    and "P k v \<Longrightarrow> lru_all L P (occupied_set L c k v)"
    and "P k v \<Longrightarrow> lru_all L P (lru_insert L c k v now)"
    and "P k v \<Longrightarrow> lru_all L P (vacant_insert L c k v now)"
    and "lru_all L P (snd (lru_get L c k now))"
proof -
  let ?in = "\<lambda>c e. e \<in> set (lhm_iter L (lru_map c))"
  have sub: "?in (fst (remove_expired L c now)) e \<Longrightarrow> ?in c e" for e
    using m by (auto simp: remove_expired_def Let_def iter_fold_remove)
  have inv': "invar (lru_map (fst (remove_expired L c now)))"
    using m by (simp add: remove_expired_def Let_def invar_fold_remove)
  have upd: "lru_all L P (d\<lparr>lru_map := update_last_time L k tv now (lru_map d)\<rparr>)"
    if "invar (lru_map d)" "lru_all L P d" "lhm_get L (lru_map d) k = Some tv" for d tv
  proof -
    have "(k, tv) \<in> set (lhm_iter L (lru_map d))" using that by (simp add: get_iter map_of_SomeD)
    with that show ?thesis
      by (auto simp: lru_all_def iter_update_last_time update_last_access_def)
  qed
  show re: "lru_all L P (fst (remove_expired L c now))" using P sub by (auto simp: lru_all_def)
  then show "lru_all L P (snd (lru_len L c now))" by (simp add: lru_len_def Let_def)
  show r: "lru_all L P (snd (lru_remove L c k))" and "lru_all L P (occupied_remove L c k)"
    using m P by (auto simp: lru_all_def lru_remove_def occupied_remove_def iter_remove)
  then show "lru_all L P (snd (entry L c k upd now))"
    using P upd [OF m P] by (auto simp: entry_def lru_remove_def split: option.split)
  show "lru_all L P (snd (lru_get L c k now))"
    using re upd [OF inv' re] by (auto simp: lru_get_def lru_get_mut_def Let_def split: option.split)
  show "lru_all L P (occupied_set L c k v)" if "P k v"
    using m P that
    by (auto simp: lru_all_def occupied_set_def iter_replace put_key_def split: option.split)
  show ins: "lru_all L P (lru_insert L c k v now)" if "P k v"
  proof -
    let ?m = "lhm_insert L k (TimedValue_new v now) (lru_map c)"
    have "invar ?m" using m by (rule invar_insert)
    from pop_over_capacity_laws(2) [OF this, of "capacity c"] m P that show ?thesis
      by (auto simp: lru_all_def lru_insert_def iter_insert TimedValue_new_def
          dest!: list.set_sel(2) [rotated] split: if_splits)
  qed
  show "lru_all L P (vacant_insert L c k v now)" if "P k v"
    using P ins [OF that] by (auto simp: vacant_insert_def lru_insert_def split: option.split)
qed

lemma lru_all_new: "lru_all L P (lru_new L t cap)"
  by (simp add: lru_all_def lru_new_def iter_empty)

lemma lru_all_peek: "invar (lru_map c) \<Longrightarrow> lru_all L P c \<Longrightarrow> peek L c k now = Some v \<Longrightarrow> P k v"
  by (auto simp: lru_all_def peek_def get_iter split: option.splits if_splits dest!: map_of_SomeD)

end

section \<open>The reference instance\<close>

interpretation alist_lru: lru alist_lhm "\<lambda>m. distinct (map fst m)"
  by unfold_locales

section \<open>Reachable caches\<close>

text \<open>
  The caches a client can produce: a new cache, and any sequence of the public operations, the
  clock never going back. The handle methods may come at any point, which is more than the
  borrow checker allows.
\<close>

inductive lru_reachable ::
  "('k, 'v TimedValue, 'm) lhm_ops \<Rightarrow> duration \<Rightarrow> nat \<Rightarrow> 'm LruCache \<Rightarrow> instant \<Rightarrow> bool"
  for L t cap where
  new: "lru_reachable L t cap (lru_new L t cap) now"
| tick: "lru_reachable L t cap c now \<Longrightarrow> now \<le> now' \<Longrightarrow> lru_reachable L t cap c now'"
| len: "lru_reachable L t cap c now \<Longrightarrow> lru_reachable L t cap (snd (lru_len L c now)) now"
| entry: "lru_reachable L t cap c now \<Longrightarrow> lru_reachable L t cap (snd (entry L c k upd now)) now"
| occ_set: "lru_reachable L t cap c now \<Longrightarrow> lru_reachable L t cap (occupied_set L c k v) now"
| occ_remove: "lru_reachable L t cap c now \<Longrightarrow> lru_reachable L t cap (occupied_remove L c k) now"
| vac_insert: "lru_reachable L t cap c now \<Longrightarrow> lru_reachable L t cap (vacant_insert L c k v now) now"
| get: "lru_reachable L t cap c now \<Longrightarrow> lru_reachable L t cap (snd (lru_get L c k now)) now"
| insert: "lru_reachable L t cap c now \<Longrightarrow> lru_reachable L t cap (lru_insert L c k v now) now"
| remove: "lru_reachable L t cap c now \<Longrightarrow> lru_reachable L t cap (snd (lru_remove L c k)) now"

lemma lru_reachable_keeps:
  "lru_reachable L t cap c now \<Longrightarrow> ttl c = t \<and> capacity c = cap"
  by (induction rule: lru_reachable.induct)
    (auto simp: lru_op_defs remove_expired_def Let_def split: option.splits)

lemma lru_reachable_inv:
  assumes "lru L invar"
  shows "lru_reachable L t cap c now \<Longrightarrow> lru_inv L invar c now"
  by (induction rule: lru_reachable.induct)
    (auto intro: lru_inv_later lru.lru_inv_intros [OF assms])

lemma lru_of_linked_hash_map: "linked_hash_map L invar \<Longrightarrow> lru L invar"
  by (rule lru.intro)

lemmas lru_reachable_laws = lru_reachable_inv [OF lru_of_linked_hash_map]

section \<open>Properties of the cache\<close>

text \<open>
  C34. In every reachable cache the amortised \<open>len()\<close>, which drops the expired prefix and
  counts what is left, returns the number of entries that have not expired (the reference
  \<open>len_slow\<close> of the tests), and this never exceeds the capacity.
\<close>

theorem lru_len_counts_live:
  assumes "linked_hash_map L invar" and "lru_reachable L t cap c now"
  shows "fst (lru_len L c now) = len_slow L c now \<and> fst (lru_len L c now) \<le> cap"
proof -
  have L: "lru L invar" using assms(1) by (rule lru_of_linked_hash_map)
  have inv: "lru_inv L invar c now" using L assms(2) by (rule lru_reachable_inv)
  have inv': "lru_inv L invar (fst (remove_expired L c now)) now"
    using L inv by (rule lru.remove_expired_inv)
  have "fst (lru_len L c now) = len_slow L c now"
    using linked_hash_map.len_iter [OF assms(1) lru.lru_invD(1) [OF L inv']]
      lru.remove_expired_iter [OF L inv, of now]
    by (simp add: lru_len_def len_slow_def Let_def)
  moreover have "len_slow L c now \<le> length (lhm_iter L (lru_map c))"
    by (simp add: len_slow_def)
  ultimately show ?thesis
    using lru.lru_invD(4) [OF L inv] lru_reachable_keeps [OF assms(2)] by simp
qed

theorem lru_len_counts_live_witness:
  "let c = lru_insert alist_lhm (lru_new alist_lhm 10 2) (5::nat) True 3
   in lru_reachable alist_lhm 10 2 c 20 \<and> fst (lru_len alist_lhm c 20) = len_slow alist_lhm c 20
      \<and> fst (lru_len alist_lhm c 20) \<le> 2"
proof -
  let ?c = "lru_insert alist_lhm (lru_new alist_lhm 10 2) (5::nat) True 3"
  have r: "lru_reachable alist_lhm 10 2 ?c 20"
    by (rule lru_reachable.tick [OF lru_reachable.insert [OF lru_reachable.new]]) simp
  from r lru_len_counts_live [OF alist_lhm.linked_hash_map_axioms r] show ?thesis
    by (simp add: Let_def)
qed

text \<open>
  Inserting a key that is not in a full cache evicts the front entry and no other, appends
  the new entry, and the evicted entry is one of the least recently used: no remaining entry
  was last accessed before it.
\<close>

theorem lru_insert_evicts_oldest:
  assumes "linked_hash_map L invar" and "lru_reachable L t cap c now"
    and "lhm_iter L (lru_map c) = (k0, tv0) # es" and "length (lru_iter L c) = cap"
    and "lhm_get L (lru_map c) k = None"
  shows "lru_iter L (lru_insert L c k v now) = tl (lru_iter L c) @ [(k, v)]
     \<and> (\<forall>(k', tv) \<in> set es. last_access tv0 \<le> last_access tv)"
proof -
  have L: "lru L invar" using assms(1) by (rule lru_of_linked_hash_map)
  have inv: "lru_inv L invar c now" using L assms(2) by (rule lru_reachable_inv)
  note m = lru.lru_invD(1) [OF L inv]
  let ?m = "lhm_insert L k (TimedValue_new v now) (lru_map c)"
  have m': "invar ?m" using assms(1) m by (rule linked_hash_map.invar_insert)
  have it: "lhm_iter L ?m = lhm_iter L (lru_map c) @ [(k, TimedValue_new v now)]"
    using linked_hash_map.iter_insert [OF assms(1) m]
      linked_hash_map.get_None_iff [OF assms(1) m, of k] assms(5) drop_key_idle by metis
  have cap: "capacity c = cap" using lru_reachable_keeps [OF assms(2)] by simp
  have "lhm_iter L (pop_over_capacity L cap ?m) = es @ [(k, TimedValue_new v now)]"
    using lru.pop_over_capacity_laws(2) [OF L m'] assms(3,4) by (simp add: it lru_iter_def)
  then have "lru_iter L (lru_insert L c k v now) = tl (lru_iter L c) @ [(k, v)]"
    by (simp add: lru_insert_def lru_iter_def cap assms(3) TimedValue_new_def)
  moreover have "\<forall>(k', tv) \<in> set es. last_access tv0 \<le> last_access tv"
    using lru.lru_invD(2) [OF L inv] assms(3) by auto
  ultimately show ?thesis by simp
qed

theorem lru_insert_evicts_oldest_witness:
  "lru_iter alist_lhm
     (lru_insert alist_lhm
        (lru_insert alist_lhm (lru_insert alist_lhm (lru_new alist_lhm 10 2) 7 True 3) 2 True 4)
        (5::nat) False 4) = [(2, True), (5, False)]"
proof -
  let ?c1 = "lru_insert alist_lhm (lru_new alist_lhm 10 2) (7::nat) True 3"
  let ?c2 = "lru_insert alist_lhm ?c1 2 True 4"
  have "lru_reachable alist_lhm 10 2 ?c1 4"
    by (rule lru_reachable.tick [OF lru_reachable.insert [OF lru_reachable.new]]) simp
  then have r: "lru_reachable alist_lhm 10 2 ?c2 4" by (rule lru_reachable.insert)
  have es: "lhm_iter alist_lhm (lru_map ?c2) =
      (7, TimedValue_new True 3) # [(2, TimedValue_new True 4)]"
    by (simp add: lru_insert_def lru_new_def pop_over_capacity_def)
  have "lru_iter alist_lhm ?c2 = [(7, True), (2, True)]"
    by (simp add: lru_iter_def es TimedValue_new_def del: alist_lhm_sel)
  moreover have "lhm_get alist_lhm (lru_map ?c2) 5 = None"
    by (simp add: lru_insert_def lru_new_def pop_over_capacity_def)
  ultimately show ?thesis
    using lru_insert_evicts_oldest [OF alist_lhm.linked_hash_map_axioms r es, of 5 False] by simp
qed

text \<open>
  \<open>get\<close> is the live view: it returns the value of a key exactly when the key is present
  and has not expired. Afterwards that key stays live for a full time to live from now, and
  the live value of every other key is what it was.
\<close>

theorem lru_get_live_view:
  assumes "linked_hash_map L invar" and "lru_reachable L t cap c now" and "now \<le> t'"
  shows "fst (lru_get L c k now) = peek L c k now
     \<and> peek L (snd (lru_get L c k now)) k' t' =
         (if k' = k then if t' \<le> now + t then peek L c k now else None else peek L c k' t')"
proof -
  have L: "lru L invar" using assms(1) by (rule lru_of_linked_hash_map)
  have inv: "lru_inv L invar c now" using L assms(2) by (rule lru_reachable_inv)
  from lru.lru_get_fst [OF L inv] lru.peek_lru_get [OF L inv assms(3)]
    lru_reachable_keeps [OF assms(2)]
  show ?thesis by simp
qed

theorem lru_get_live_view_witness:
  "let c = lru_insert alist_lhm (lru_new alist_lhm 10 2) (5::nat) True 3
   in fst (lru_get alist_lhm c 5 9) = Some True \<and> peek alist_lhm (snd (lru_get alist_lhm c 5 9)) 5 19 = Some True
      \<and> peek alist_lhm c 5 19 = None"
proof -
  let ?c = "lru_insert alist_lhm (lru_new alist_lhm 10 2) (5::nat) True 3"
  have r: "lru_reachable alist_lhm 10 2 ?c 9"
    by (rule lru_reachable.tick [OF lru_reachable.insert [OF lru_reachable.new]]) simp
  have "peek alist_lhm ?c 5 9 = Some True" "peek alist_lhm ?c 5 19 = None"
    by (simp_all add: peek_def lru_insert_def lru_new_def pop_over_capacity_def is_expired_def
        TimedValue_new_def)
  with lru_get_live_view [OF alist_lhm.linked_hash_map_axioms r, of 19 5 5] show ?thesis
    by (simp add: Let_def)
qed

end
