(* ===== verification/Firewall_Types.thy ===== *)
theory Firewall_Types
  imports Lru_Cache
begin

unbundle bit_operations_syntax

text \<open>
  Data model of crates/telio-firewall/src/firewall.rs: addresses, connection keys, connection
  tracking records, whitelists, the firewall's state, and the extraction of connection keys
  from packets.

  Packet parsing and building is the third-party crate \<open>pnet_packet\<close>, prefix containment is
  \<open>ipnet\<close>, the ordered hash map is \<open>hashlink\<close>. They are the fields of the environment
  record \<open>fw_env\<close>, an argument of every definition that uses one of them; the views
  (\<open>Ipv4Packet\<close>, \<open>UdpPacket\<close>, ...) hold the header fields the firewall reads. The
  process-wide cache of interface addresses (\<open>LOCAL_ADDRS_CACHE\<close>) is read only by the
  firewall and is a field of the environment as well.
\<close>

section \<open>Protocol constants\<close>

abbreviation (input) EchoReply :: u8 where "EchoReply \<equiv> 0"
abbreviation (input) DestinationUnreachable :: u8 where "DestinationUnreachable \<equiv> 3"
abbreviation (input) EchoRequest :: u8 where "EchoRequest \<equiv> 8"
abbreviation (input) TimeExceeded :: u8 where "TimeExceeded \<equiv> 11"
abbreviation (input) ParameterProblem :: u8 where "ParameterProblem \<equiv> 12"
abbreviation (input) Timestamp :: u8 where "Timestamp \<equiv> 13"
abbreviation (input) TimestampReply :: u8 where "TimestampReply \<equiv> 14"
abbreviation (input) InformationRequest :: u8 where "InformationRequest \<equiv> 15"
abbreviation (input) InformationReply :: u8 where "InformationReply \<equiv> 16"
abbreviation (input) AddressMaskRequest :: u8 where "AddressMaskRequest \<equiv> 17"
abbreviation (input) AddressMaskReply :: u8 where "AddressMaskReply \<equiv> 18"
abbreviation (input) V6_DestinationUnreachable :: u8 where "V6_DestinationUnreachable \<equiv> 1"
abbreviation (input) V6_PacketTooBig :: u8 where "V6_PacketTooBig \<equiv> 2"
abbreviation (input) V6_TimeExceeded :: u8 where "V6_TimeExceeded \<equiv> 3"
abbreviation (input) V6_ParameterProblem :: u8 where "V6_ParameterProblem \<equiv> 4"
abbreviation (input) V6_EchoRequest :: u8 where "V6_EchoRequest \<equiv> 128"
abbreviation (input) V6_EchoReply :: u8 where "V6_EchoReply \<equiv> 129"
abbreviation (input) V6_RouterAdvert :: u8 where "V6_RouterAdvert \<equiv> 134"
abbreviation (input) V6_NeighborSolicit :: u8 where "V6_NeighborSolicit \<equiv> 135"
abbreviation (input) V6_NeighborAdvert :: u8 where "V6_NeighborAdvert \<equiv> 136"

abbreviation (input) Proto_Icmp :: u8 where "Proto_Icmp \<equiv> 1"
abbreviation (input) Proto_Tcp :: u8 where "Proto_Tcp \<equiv> 6"
abbreviation (input) Proto_Udp :: u8 where "Proto_Udp \<equiv> 17"
abbreviation (input) Proto_Icmpv6 :: u8 where "Proto_Icmpv6 \<equiv> 58"

abbreviation (input) TcpFlags_FIN :: u8 where "TcpFlags_FIN \<equiv> 1"
abbreviation (input) TcpFlags_SYN :: u8 where "TcpFlags_SYN \<equiv> 2"
abbreviation (input) TcpFlags_RST :: u8 where "TcpFlags_RST \<equiv> 4"
abbreviation (input) TcpFlags_ACK :: u8 where "TcpFlags_ACK \<equiv> 16"

definition LRU_CAPACITY :: nat where "LRU_CAPACITY = 4096"

definition LRU_TIMEOUT :: nat where "LRU_TIMEOUT = 120000"

definition TCP_FIRST_PKT_MASK :: u8 where "TCP_FIRST_PKT_MASK = TcpFlags_SYN OR TcpFlags_ACK"

definition ICMP_BLOCKED_TYPES :: "u8 list" where
  "ICMP_BLOCKED_TYPES = [EchoRequest, Timestamp, InformationRequest, AddressMaskRequest]"

definition ICMPV6_BLOCKED_TYPES :: "u8 list" where
  "ICMPV6_BLOCKED_TYPES = [V6_EchoRequest, V6_RouterAdvert, V6_NeighborSolicit, V6_NeighborAdvert]"

section \<open>Addresses and packet views\<close>

datatype IpAddr = Ipv4 u32 | Ipv6 u128

record Ipv4Packet =
  v4_version :: nat
  v4_header_length :: nat
  v4_next_level_protocol :: u8
  v4_source :: u32
  v4_destination :: u32
  v4_payload :: bytes
  v4_packet :: bytes

record Ipv6Packet =
  v6_version :: nat
  v6_payload_length :: u16
  v6_next_header :: u8
  v6_source :: u128
  v6_destination :: u128
  v6_payload :: bytes
  v6_packet :: bytes

record UdpPacket =
  udp_source :: u16
  udp_destination :: u16

record TcpPacket =
  tcp_source :: u16
  tcp_destination :: u16
  tcp_flags :: u8
  tcp_sequence :: u32
  tcp_payload :: bytes

record IcmpPacket =
  icmp_type :: u8
  icmp_payload :: bytes

text \<open>The trait \<open>IpPacket\<close> with its two implementations.\<close>

datatype IpPacket = IpV4 Ipv4Packet | IpV6 Ipv6Packet

fun check_valid :: "IpPacket \<Rightarrow> bool" where
  "check_valid (IpV4 p) =
     (if v4_version p \<noteq> 4 then False else if v4_header_length p < 5 then False else True)"
| "check_valid (IpV6 p) =
     (if v6_version p \<noteq> 6 then False
      else if unat (v6_payload_length p) \<noteq> length (v6_payload p) then False else True)"

fun get_next_level_protocol :: "IpPacket \<Rightarrow> u8" where
  "get_next_level_protocol (IpV4 p) = v4_next_level_protocol p"
| "get_next_level_protocol (IpV6 p) = v6_next_header p"

fun get_destination :: "IpPacket \<Rightarrow> IpAddr" where
  "get_destination (IpV4 p) = Ipv4 (v4_destination p)"
| "get_destination (IpV6 p) = Ipv6 (v6_destination p)"

fun get_source :: "IpPacket \<Rightarrow> IpAddr" where
  "get_source (IpV4 p) = Ipv4 (v4_source p)"
| "get_source (IpV6 p) = Ipv6 (v6_source p)"

fun ip_payload :: "IpPacket \<Rightarrow> bytes" where
  "ip_payload (IpV4 p) = v4_payload p"
| "ip_payload (IpV6 p) = v6_payload p"

fun ip_packet :: "IpPacket \<Rightarrow> bytes" where
  "ip_packet (IpV4 p) = v4_packet p"
| "ip_packet (IpV6 p) = v6_packet p"

fun BLOCKED_TYPES :: "IpPacket \<Rightarrow> u8 list" where
  "BLOCKED_TYPES (IpV4 _) = ICMP_BLOCKED_TYPES"
| "BLOCKED_TYPES (IpV6 _) = ICMPV6_BLOCKED_TYPES"

section \<open>Connection tracking data and the firewall's state\<close>

datatype Permissions = IncomingConnections | LocalAreaConnections | RoutingConnections

datatype PacketAction = PassThrough | Drop | HandleLocally

record Whitelist =
  port_whitelist :: "PublicKey \<rightharpoonup> u16"
  peer_whitelists :: "Permissions \<Rightarrow> PublicKey set"
  vpn_peer :: "PublicKey option"

definition Whitelist_default :: Whitelist where
  "Whitelist_default =
     \<lparr>port_whitelist = Map.empty, peer_whitelists = (\<lambda>_. {}), vpn_peer = None\<rparr>"

definition is_port_whitelisted :: "Whitelist \<Rightarrow> PublicKey \<Rightarrow> u16 \<Rightarrow> bool" where
  "is_port_whitelisted w peer port =
     (case port_whitelist w peer of None \<Rightarrow> False | Some p \<Rightarrow> p = port)"

record UdpConnectionInfo =
  is_remote_initiated :: bool
  last_out_pkg_chunk :: "bytes option"

definition LAST_PKG_MAX_CHUNK_LEN :: nat where "LAST_PKG_MAX_CHUNK_LEN = 60 + 8"

record TcpConnectionInfo =
  tx_alive :: bool
  rx_alive :: bool
  conn_remote_initiated :: bool
  next_seq :: "u32 option"

record IpConnWithPort =
  remote_addr :: IpAddr
  remote_port :: u16
  local_addr :: IpAddr
  local_port :: u16

record Connection =
  link :: IpConnWithPort
  conn_pubkey :: PublicKey

record IcmpConn =
  icmp_remote_addr :: IpAddr
  icmp_local_addr :: IpAddr
  response_type :: u8
  identifier_sequence :: u32
  icmp_pubkey :: PublicKey

datatype IcmpErrorKey =
    IcmpErr_Udp "IpConnWithPort option"
  | IcmpErr_Tcp "IpConnWithPort option"
  | IcmpErr_Icmp "IcmpConn option"
  | IcmpErr_None

type_synonym IcmpKey = "IcmpErrorKey + IcmpConn"

record Ipv4Net =
  net_addr :: u32
  net_prefix_len :: nat

record ('mu, 'mt, 'mi) StatefullFirewall =
  udp :: "'mu LruCache"
  tcp :: "'mt LruCache"
  icmp :: "'mi LruCache"
  whitelist :: Whitelist
  allow_ipv6 :: bool
  record_whitelisted :: bool
  ip_addresses :: "IpAddr list"
  exclude_ip_range :: "Ipv4Net option"

record FeatureFirewall =
  boringtun_reset_conns :: bool
  neptun_reset_conns :: bool
  exclude_private_ip_range :: "Ipv4Net option"

text \<open>Headers the connection reset writes; the crate serialises them and sums them up.\<close>

record TcpHeader =
  th_source :: u16
  th_destination :: u16
  th_sequence :: u32
  th_data_offset :: nat
  th_flags :: u8
  th_checksum :: u16

record Ipv4Header =
  ih_version :: nat
  ih_header_length :: nat
  ih_total_length :: u16
  ih_flags :: u8
  ih_ttl :: u8
  ih_next_level_protocol :: u8
  ih_checksum :: u16
  ih_source :: u32
  ih_destination :: u32

record IcmpHeader =
  ch_type :: u8
  ch_code :: u8
  ch_checksum :: u16

datatype ('mu, 'mt, 'mi) fw_env = FwEnv
  (Ipv4Packet_new: "bytes \<Rightarrow> Ipv4Packet option")
  (Ipv6Packet_new: "bytes \<Rightarrow> Ipv6Packet option")
  (UdpPacket_new: "bytes \<Rightarrow> UdpPacket option")
  (TcpPacket_new: "bytes \<Rightarrow> TcpPacket option")
  (IcmpPacket_new: "bytes \<Rightarrow> IcmpPacket option")
  (tcp_bytes: "TcpHeader \<Rightarrow> bytes")
  (tcp_ipv4_checksum: "TcpHeader \<Rightarrow> u32 \<Rightarrow> u32 \<Rightarrow> u16")
  (ipv4_bytes: "Ipv4Header \<Rightarrow> bytes")
  (ipv4_checksum: "Ipv4Header \<Rightarrow> u16")
  (icmp_bytes: "IcmpHeader \<Rightarrow> bytes \<Rightarrow> bytes")
  (icmp_checksum: "IcmpHeader \<Rightarrow> bytes \<Rightarrow> u16")
  (ipnet_contains: "Ipv4Net \<Rightarrow> u32 \<Rightarrow> bool")
  (local_addrs_cache: "IpAddr list")
  (udp_lhm: "(Connection, UdpConnectionInfo TimedValue, 'mu) lhm_ops")
  (tcp_lhm: "(Connection, TcpConnectionInfo TimedValue, 'mt) lhm_ops")
  (icmp_lhm: "(IcmpConn, unit TimedValue, 'mi) lhm_ops")

section \<open>Connection keys\<close>

definition mk_conn_with_port :: "IpPacket \<Rightarrow> bool \<Rightarrow> u16 \<Rightarrow> u16 \<Rightarrow> IpConnWithPort" where
  "mk_conn_with_port ip inbound src dest =
     (if inbound
      then \<lparr>remote_addr = get_source ip, remote_port = src,
            local_addr = get_destination ip, local_port = dest\<rparr>
      else \<lparr>remote_addr = get_destination ip, remote_port = dest,
            local_addr = get_source ip, local_port = src\<rparr>)"

definition build_conn_info ::
  "('mu, 'mt, 'mi) fw_env \<Rightarrow> IpPacket \<Rightarrow> bool \<Rightarrow> (IpConnWithPort \<times> TcpPacket option) option" where
  "build_conn_info E ip inbound =
     (let proto = get_next_level_protocol ip in
      if proto = Proto_Udp then
        (case UdpPacket_new E (ip_payload ip) of
           Some p \<Rightarrow> Some (mk_conn_with_port ip inbound (udp_source p) (udp_destination p), None)
         | None \<Rightarrow> None)
      else if proto = Proto_Tcp then
        (case TcpPacket_new E (ip_payload ip) of
           Some p \<Rightarrow> Some (mk_conn_with_port ip inbound (tcp_source p) (tcp_destination p), Some p)
         | None \<Rightarrow> None)
      else None)"

text \<open>
  \<open>u32::from_ne_bytes\<close> on a little-endian target. It is applied to the first four payload
  bytes of both directions, so only its injectivity matters.
\<close>

definition u32_from_ne_bytes :: "u8 \<Rightarrow> u8 \<Rightarrow> u8 \<Rightarrow> u8 \<Rightarrow> u32" where
  "u32_from_ne_bytes b0 b1 b2 b3 =
     ucast b0 OR push_bit 8 (ucast b1) OR push_bit 16 (ucast b2) OR push_bit 24 (ucast b3)"

definition identifier_of :: "bytes \<Rightarrow> u32 option" where
  "identifier_of payload =
     (case payload of
        b0 # b1 # b2 # b3 # _ \<Rightarrow> Some (u32_from_ne_bytes b0 b1 b2 b3)
      | _ \<Rightarrow> None)"

definition mk_icmp_conn :: "PublicKey \<Rightarrow> IpPacket \<Rightarrow> bool \<Rightarrow> u8 \<Rightarrow> u32 \<Rightarrow> IcmpConn" where
  "mk_icmp_conn pk ip inbound ty ident =
     \<lparr>icmp_remote_addr = (if inbound then get_source ip else get_destination ip),
      icmp_local_addr = (if inbound then get_destination ip else get_source ip),
      response_type = ty, identifier_sequence = ident, icmp_pubkey = pk\<rparr>"

text \<open>
  The response type of an outbound request; a request that expects no tracked answer has none.
\<close>

definition reply_type_of_request :: "u8 \<Rightarrow> u8 option" where
  "reply_type_of_request it =
     (if it = EchoRequest then Some EchoReply
      else if it = Timestamp then Some TimestampReply
      else if it = InformationRequest then Some InformationReply
      else if it = AddressMaskRequest then Some AddressMaskReply
      else if it = V6_EchoRequest then Some V6_EchoReply
      else None)"

definition is_tracked_reply :: "u8 \<Rightarrow> bool" where
  "is_tracked_reply it \<longleftrightarrow>
     it = EchoReply \<or> it = TimestampReply \<or> it = InformationReply \<or> it = AddressMaskReply
     \<or> it = V6_EchoReply"

text \<open>The tail of \<open>build_icmp_key\<close> once the response type is known.\<close>

definition finish_icmp_key :: "PublicKey \<Rightarrow> IpPacket \<Rightarrow> bool \<Rightarrow> bytes \<Rightarrow> u8 \<Rightarrow> IcmpKey" where
  "finish_icmp_key pk ip inbound payload ty =
     (case identifier_of payload of
        None \<Rightarrow> Inl IcmpErr_None
      | Some ident \<Rightarrow> Inr (mk_icmp_conn pk ip inbound ty ident))"

text \<open>
  \<open>build_icmp_key\<close> for an outbound packet, which never inspects a nested packet, then
  \<open>build_icmp_error_key\<close>, which builds keys of the nested outbound packet, then
  \<open>build_icmp_key\<close> for both directions.
\<close>

definition build_icmp_key_outbound ::
  "('mu, 'mt, 'mi) fw_env \<Rightarrow> PublicKey \<Rightarrow> IpPacket \<Rightarrow> IcmpKey" where
  "build_icmp_key_outbound E pk ip =
     (case IcmpPacket_new E (ip_payload ip) of
        None \<Rightarrow> Inl IcmpErr_None
      | Some p \<Rightarrow>
          (case reply_type_of_request (icmp_type p) of
             None \<Rightarrow> Inl IcmpErr_None
           | Some ty \<Rightarrow> finish_icmp_key pk ip False (icmp_payload p) ty))"

definition ok_of_sum :: "'e + 'a \<Rightarrow> 'a option" where
  "ok_of_sum r = (case r of Inl _ \<Rightarrow> None | Inr a \<Rightarrow> Some a)"

definition nested_error_key ::
  "('mu, 'mt, 'mi) fw_env \<Rightarrow> PublicKey \<Rightarrow> u8 \<Rightarrow> IpPacket option \<Rightarrow> IcmpErrorKey" where
  "nested_error_key E pk icmp_proto nested =
     (case nested of
        None \<Rightarrow> IcmpErr_None
      | Some ip \<Rightarrow>
          let proto = get_next_level_protocol ip in
          if proto = Proto_Udp then IcmpErr_Udp (map_option fst (build_conn_info E ip False))
          else if proto = Proto_Tcp then IcmpErr_Tcp (map_option fst (build_conn_info E ip False))
          else if proto = icmp_proto then IcmpErr_Icmp (ok_of_sum (build_icmp_key_outbound E pk ip))
          else IcmpErr_None)"

definition build_icmp_error_key ::
  "('mu, 'mt, 'mi) fw_env \<Rightarrow> PublicKey \<Rightarrow> IcmpPacket \<Rightarrow> bool \<Rightarrow> IcmpKey" where
  "build_icmp_error_key E pk p is_v4 =
     (if length (icmp_payload p) < 4 then Inl IcmpErr_None
      else let inner = drop 4 (icmp_payload p) in
        if is_v4
        then Inl (nested_error_key E pk Proto_Icmp (map_option IpV4 (Ipv4Packet_new E inner)))
        else Inl (nested_error_key E pk Proto_Icmpv6 (map_option IpV6 (Ipv6Packet_new E inner))))"

definition build_icmp_key ::
  "('mu, 'mt, 'mi) fw_env \<Rightarrow> PublicKey \<Rightarrow> IpPacket \<Rightarrow> bool \<Rightarrow> IcmpKey" where
  "build_icmp_key E pk ip inbound =
     (if \<not> inbound then build_icmp_key_outbound E pk ip else
      case IcmpPacket_new E (ip_payload ip) of
        None \<Rightarrow> Inl IcmpErr_None
      | Some p \<Rightarrow>
          let it = icmp_type p in
          if is_tracked_reply it then finish_icmp_key pk ip True (icmp_payload p) it
          else if (it = DestinationUnreachable \<or> it = TimeExceeded \<or> it = ParameterProblem)
                  \<and> get_next_level_protocol ip = Proto_Icmp
          then build_icmp_error_key E pk p True
          else if (it = V6_DestinationUnreachable \<or> it = V6_PacketTooBig
                   \<or> it = V6_ParameterProblem \<or> it = V6_TimeExceeded)
                  \<and> get_next_level_protocol ip = Proto_Icmpv6
          then build_icmp_error_key E pk p False
          else Inl IcmpErr_None)"

end
