(* ===== verification/Firewall.thy ===== *)
theory Firewall
  imports Firewall_Types
begin

unbundle bit_operations_syntax

text \<open>
  The operations of \<open>StatefullFirewall\<close> (crates/telio-firewall/src/firewall.rs), one
  definition per method, in the order of the source. A method takes the environment, the clock
  readings it makes (\<open>clk 0\<close> is the first reading inside the method, \<open>clk 1\<close> the
  second), and the firewall, and returns its verdict with the new state. Every method runs
  under the locks of the caches it touches; a poisoned lock (a thread that panicked while it
  held it) is not modelled. Log statements have no effect on the state and are left out. The
  \<open>u32\<close> additions wrap, as the release profile compiles them.
\<close>

type_synonym clock = "nat \<Rightarrow> instant"

section \<open>Construction\<close>

definition new_custom ::
  "('mu, 'mt, 'mi) fw_env \<Rightarrow> nat \<Rightarrow> nat \<Rightarrow> bool \<Rightarrow> FeatureFirewall
     \<Rightarrow> ('mu, 'mt, 'mi) StatefullFirewall" where
  "new_custom E cap ttl_ms use_ipv6 feature =
     \<lparr>udp = lru_new (udp_lhm E) ttl_ms cap, tcp = lru_new (tcp_lhm E) ttl_ms cap,
      icmp = lru_new (icmp_lhm E) ttl_ms cap, whitelist = Whitelist_default,
      allow_ipv6 = use_ipv6,
      record_whitelisted = boringtun_reset_conns feature \<or> neptun_reset_conns feature,
      ip_addresses = [], exclude_ip_range = exclude_private_ip_range feature\<rparr>"

definition fw_new ::
  "('mu, 'mt, 'mi) fw_env \<Rightarrow> bool \<Rightarrow> FeatureFirewall \<Rightarrow> ('mu, 'mt, 'mi) StatefullFirewall" where
  "fw_new E use_ipv6 feature = new_custom E LRU_CAPACITY LRU_TIMEOUT use_ipv6 feature"

definition get_state ::
  "('mu, 'mt, 'mi) fw_env \<Rightarrow> clock \<Rightarrow> ('mu, 'mt, 'mi) StatefullFirewall
     \<Rightarrow> (nat \<times> nat) \<times> ('mu, 'mt, 'mi) StatefullFirewall" where
  "get_state E clk fw =
     (let (t, tc) = lru_len (tcp_lhm E) (tcp fw) (clk 0);
          (u, uc) = lru_len (udp_lhm E) (udp fw) (clk 1)
      in ((t, u), fw\<lparr>tcp := tc, udp := uc\<rparr>))"

section \<open>Outbound packets\<close>

definition handle_outbound_udp ::
  "('mu, 'mt, 'mi) fw_env \<Rightarrow> clock \<Rightarrow> ('mu, 'mt, 'mi) StatefullFirewall \<Rightarrow> PublicKey \<Rightarrow> IpPacket
     \<Rightarrow> ('mu, 'mt, 'mi) StatefullFirewall" where
  "handle_outbound_udp E clk fw pk ip =
     (case build_conn_info E ip False of
        None \<Rightarrow> fw
      | Some (lnk, _) \<Rightarrow>
          let key = \<lparr>link = lnk, conn_pubkey = pk\<rparr> in
          if ip_packet ip = [] then fw
          else
            let pkg_chunk = take LAST_PKG_MAX_CHUNK_LEN (ip_packet ip);
                (e, c) = entry (udp_lhm E) (udp fw) key True (clk 0)
            in fw\<lparr>udp :=
                 (case e of
                    Vacant k \<Rightarrow>
                      vacant_insert (udp_lhm E) c k
                        \<lparr>is_remote_initiated = False, last_out_pkg_chunk = Some pkg_chunk\<rparr> (clk 1)
                  | Occupied k v \<Rightarrow>
                      occupied_set (udp_lhm E) c k (v\<lparr>last_out_pkg_chunk := Some pkg_chunk\<rparr>))\<rparr>)"

definition handle_outbound_tcp ::
  "('mu, 'mt, 'mi) fw_env \<Rightarrow> clock \<Rightarrow> ('mu, 'mt, 'mi) StatefullFirewall \<Rightarrow> PublicKey \<Rightarrow> IpPacket
     \<Rightarrow> ('mu, 'mt, 'mi) StatefullFirewall" where
  "handle_outbound_tcp E clk fw pk ip =
     (case build_conn_info E ip False of
        None \<Rightarrow> fw
      | Some (lnk, pkt) \<Rightarrow>
          let key = \<lparr>link = lnk, conn_pubkey = pk\<rparr>;
              flags = (case pkt of Some p \<Rightarrow> tcp_flags p | None \<Rightarrow> 0)
          in
          if flags AND TCP_FIRST_PKT_MASK = TcpFlags_SYN then
            fw\<lparr>tcp := lru_insert (tcp_lhm E) (tcp fw) key
                 \<lparr>tx_alive = True, rx_alive = True, conn_remote_initiated = False,
                  next_seq = None\<rparr> (clk 0)\<rparr>
          else if flags AND TcpFlags_RST = TcpFlags_RST then
            fw\<lparr>tcp := snd (lru_remove (tcp_lhm E) (tcp fw) key)\<rparr>
          else if flags AND TcpFlags_FIN = TcpFlags_FIN then
            (case entry (tcp_lhm E) (tcp fw) key False (clk 0) of
               (Occupied k v, c) \<Rightarrow>
                 fw\<lparr>tcp := occupied_set (tcp_lhm E) c k (v\<lparr>tx_alive := False\<rparr>)\<rparr>
             | (Vacant _, c) \<Rightarrow> fw\<lparr>tcp := c\<rparr>)
          else fw)"

definition handle_outbound_icmp ::
  "('mu, 'mt, 'mi) fw_env \<Rightarrow> clock \<Rightarrow> ('mu, 'mt, 'mi) StatefullFirewall \<Rightarrow> PublicKey \<Rightarrow> IpPacket
     \<Rightarrow> ('mu, 'mt, 'mi) StatefullFirewall" where
  "handle_outbound_icmp E clk fw pk ip =
     (case build_icmp_key E pk ip False of
        Inl _ \<Rightarrow> fw
      | Inr key \<Rightarrow>
          (case entry (icmp_lhm E) (icmp fw) key True (clk 0) of
             (Vacant k, c) \<Rightarrow> fw\<lparr>icmp := vacant_insert (icmp_lhm E) c k () (clk 1)\<rparr>
           | (Occupied _ _, c) \<Rightarrow> fw\<lparr>icmp := c\<rparr>))"

definition process_outbound_ip_packet ::
  "('mu, 'mt, 'mi) fw_env \<Rightarrow> clock \<Rightarrow> ('mu, 'mt, 'mi) StatefullFirewall \<Rightarrow> PublicKey
     \<Rightarrow> IpPacket option \<Rightarrow> bool \<times> ('mu, 'mt, 'mi) StatefullFirewall" where
  "process_outbound_ip_packet E clk fw peer parsed =
     (case parsed of
        None \<Rightarrow> (False, fw)
      | Some ip \<Rightarrow>
          let proto = get_next_level_protocol ip in
          if peer \<in> peer_whitelists (whitelist fw) IncomingConnections then
            (True,
             if record_whitelisted fw then
               if proto = Proto_Udp then handle_outbound_udp E clk fw peer ip
               else if proto = Proto_Tcp then handle_outbound_tcp E clk fw peer ip
               else fw
             else fw)
          else if \<not> check_valid ip then (False, fw)
          else
            (True,
             if proto = Proto_Udp then handle_outbound_udp E clk fw peer ip
             else if proto = Proto_Tcp then handle_outbound_tcp E clk fw peer ip
             else if proto = Proto_Icmp then handle_outbound_icmp E clk fw peer ip
             else if proto = Proto_Icmpv6 then handle_outbound_icmp E clk fw peer ip
             else fw))"

section \<open>Policy\<close>

text \<open>\<open>Ipv4Addr::is_private\<close>: 10.0.0.0/8, 172.16.0.0/12 and 192.168.0.0/16.\<close>

definition ipv4_is_private :: "u32 \<Rightarrow> bool" where
  "ipv4_is_private a \<longleftrightarrow>
     drop_bit 24 a = 10 \<or> drop_bit 20 a = 0xAC1 \<or> drop_bit 16 a = 0xC0A8"

text \<open>\<open>Ipv6Addr::segments\<close>: the \<open>i\<close>-th 16-bit group from the left.\<close>

definition ipv6_segment :: "u128 \<Rightarrow> nat \<Rightarrow> u16" where
  "ipv6_segment a i = ucast (drop_bit (112 - 16 * i) a)"

definition is_private_address_except_local_interface ::
  "('mu, 'mt, 'mi) fw_env \<Rightarrow> ('mu, 'mt, 'mi) StatefullFirewall \<Rightarrow> IpAddr \<Rightarrow> bool" where
  "is_private_address_except_local_interface E fw ip =
     (if ip \<in> set (local_addrs_cache E) then False
      else case ip of
        Ipv4 a \<Rightarrow> ipv4_is_private a \<and>
          \<not> (case exclude_ip_range fw of None \<Rightarrow> False | Some net \<Rightarrow> ipnet_contains E net a)
      | Ipv6 a \<Rightarrow>
          if ipv6_segment a 0 = 0xfd74 \<and> ipv6_segment a 1 = 0x656c \<and> ipv6_segment a 2 = 0x696f
             \<and> ipv6_segment a 3 = 0
          then False
          else ipv6_segment a 0 AND 0xfc00 = 0xfc00)"

definition decide_packet_handling ::
  "('mu, 'mt, 'mi) fw_env \<Rightarrow> ('mu, 'mt, 'mi) StatefullFirewall \<Rightarrow> PublicKey \<Rightarrow> IpAddr
     \<Rightarrow> PacketAction" where
  "decide_packet_handling E fw pk addr =
     (if is_private_address_except_local_interface E fw addr then
        if pk \<in> peer_whitelists (whitelist fw) LocalAreaConnections then PassThrough else Drop
      else if addr \<in> set (ip_addresses fw) then HandleLocally
      else if pk \<in> peer_whitelists (whitelist fw) RoutingConnections then PassThrough
      else Drop)"

definition decide_connection_handling ::
  "('mu, 'mt, 'mi) StatefullFirewall \<Rightarrow> PublicKey \<Rightarrow> u16 \<Rightarrow> PacketAction" where
  "decide_connection_handling fw pk port =
     (if pk \<in> peer_whitelists (whitelist fw) IncomingConnections then
        if record_whitelisted fw then HandleLocally else PassThrough
      else if is_port_whitelisted (whitelist fw) pk port then HandleLocally
      else Drop)"

section \<open>Inbound packets\<close>

definition handle_inbound_udp ::
  "('mu, 'mt, 'mi) fw_env \<Rightarrow> clock \<Rightarrow> ('mu, 'mt, 'mi) StatefullFirewall
     \<Rightarrow> (PublicKey \<Rightarrow> u16 \<Rightarrow> PacketAction) \<Rightarrow> PublicKey \<Rightarrow> IpPacket
     \<Rightarrow> bool \<times> ('mu, 'mt, 'mi) StatefullFirewall" where
  "handle_inbound_udp E clk fw decide peer ip =
     (case build_conn_info E ip True of
        None \<Rightarrow> (False, fw)
      | Some (lnk, _) \<Rightarrow>
          let key = \<lparr>link = lnk, conn_pubkey = peer\<rparr>;
              port = local_port lnk;
              (e, c) = entry (udp_lhm E) (udp fw) key True (clk 0)
          in case e of
            Occupied k v \<Rightarrow>
              if is_remote_initiated v \<and> decide peer port = Drop
              then (False, fw\<lparr>udp := occupied_remove (udp_lhm E) c k\<rparr>)
              else (True, fw\<lparr>udp := c\<rparr>)
          | Vacant k \<Rightarrow>
              (case decide peer port of
                 PassThrough \<Rightarrow> (True, fw\<lparr>udp := c\<rparr>)
               | Drop \<Rightarrow> (False, fw\<lparr>udp := c\<rparr>)
               | HandleLocally \<Rightarrow>
                   (True, fw\<lparr>udp := vacant_insert (udp_lhm E) c k
                      \<lparr>is_remote_initiated = True, last_out_pkg_chunk = None\<rparr> (clk 1)\<rparr>)))"

text \<open>The sequence number expected next from the remote side.\<close>

definition next_sequence :: "TcpPacket \<Rightarrow> u32" where
  "next_sequence p =
     (if tcp_flags p AND TcpFlags_SYN = TcpFlags_SYN then tcp_sequence p + 1
      else tcp_sequence p + of_nat (length (tcp_payload p)))"

text \<open>The occupied branch of \<open>handle_inbound_tcp\<close> for a parsed segment.\<close>

definition inbound_tcp_segment ::
  "(Connection, TcpConnectionInfo TimedValue, 'mt) lhm_ops \<Rightarrow> 'mt LruCache \<Rightarrow> Connection
     \<Rightarrow> TcpConnectionInfo \<Rightarrow> TcpPacket \<Rightarrow> bool \<times> 'mt LruCache" where
  "inbound_tcp_segment L c k v p =
     (let flags = tcp_flags p;
          is_rst = (flags AND TcpFlags_RST = TcpFlags_RST);
          is_fin = (flags AND TcpFlags_FIN = TcpFlags_FIN)
      in
      if \<not> is_rst \<and> \<not> is_fin \<and> \<not> tx_alive v \<and> \<not> rx_alive v \<and> \<not> conn_remote_initiated v then
        if flags AND TcpFlags_ACK = TcpFlags_ACK then (True, occupied_remove L c k) else (False, c)
      else
        let v1 = (if \<not> is_rst \<and> is_fin then v\<lparr>rx_alive := False\<rparr> else v);
            c1 = occupied_set L c k (v1\<lparr>next_seq := Some (next_sequence p)\<rparr>)
        in (True, if is_rst then occupied_remove L c1 k else c1))"

definition handle_inbound_tcp ::
  "('mu, 'mt, 'mi) fw_env \<Rightarrow> clock \<Rightarrow> ('mu, 'mt, 'mi) StatefullFirewall
     \<Rightarrow> (PublicKey \<Rightarrow> u16 \<Rightarrow> PacketAction) \<Rightarrow> PublicKey \<Rightarrow> IpPacket
     \<Rightarrow> bool \<times> ('mu, 'mt, 'mi) StatefullFirewall" where
  "handle_inbound_tcp E clk fw decide peer ip =
     (case build_conn_info E ip True of
        None \<Rightarrow> (False, fw)
      | Some (lnk, pkt) \<Rightarrow>
          let key = \<lparr>link = lnk, conn_pubkey = peer\<rparr>;
              port = local_port lnk;
              (e, c) = entry (tcp_lhm E) (tcp fw) key False (clk 0)
          in case e of
            Occupied k v \<Rightarrow>
              if conn_remote_initiated v \<and> decide peer port = Drop
              then (False, fw\<lparr>tcp := occupied_remove (tcp_lhm E) c k\<rparr>)
              else (case pkt of
                      Some p \<Rightarrow> let (ok, c') = inbound_tcp_segment (tcp_lhm E) c k v p
                               in (ok, fw\<lparr>tcp := c'\<rparr>)
                    | None \<Rightarrow> (True, fw\<lparr>tcp := c\<rparr>))
          | Vacant k \<Rightarrow>
              (case decide peer port of
                 PassThrough \<Rightarrow> (True, fw\<lparr>tcp := c\<rparr>)
               | Drop \<Rightarrow> (False, fw\<lparr>tcp := c\<rparr>)
               | HandleLocally \<Rightarrow>
                   (True,
                    (case pkt of
                       Some p \<Rightarrow>
                         if tcp_flags p AND TCP_FIRST_PKT_MASK = TcpFlags_SYN then
                           fw\<lparr>tcp := vacant_insert (tcp_lhm E) c k
                              \<lparr>tx_alive = True, rx_alive = True, conn_remote_initiated = True,
                               next_seq = Some (tcp_sequence p + 1)\<rparr> (clk 1)\<rparr>
                         else fw\<lparr>tcp := c\<rparr>
                     | None \<Rightarrow> fw\<lparr>tcp := c\<rparr>))))"

definition handle_icmp_error ::
  "('mu, 'mt, 'mi) fw_env \<Rightarrow> clock \<Rightarrow> ('mu, 'mt, 'mi) StatefullFirewall \<Rightarrow> PublicKey \<Rightarrow> IcmpErrorKey
     \<Rightarrow> bool \<times> ('mu, 'mt, 'mi) StatefullFirewall" where
  "handle_icmp_error E clk fw pk error_key =
     (case error_key of
        IcmpErr_Icmp (Some icmp_key) \<Rightarrow>
          (case lru_get (icmp_lhm E) (icmp fw) icmp_key (clk 0) of
             (Some _, c) \<Rightarrow> (True, fw\<lparr>icmp := snd (lru_remove (icmp_lhm E) c icmp_key)\<rparr>)
           | (None, c) \<Rightarrow> (False, fw\<lparr>icmp := c\<rparr>))
      | IcmpErr_Tcp (Some lnk) \<Rightarrow>
          let tcp_key = \<lparr>link = lnk, conn_pubkey = pk\<rparr> in
          (case lru_get (tcp_lhm E) (tcp fw) tcp_key (clk 0) of
             (Some _, c) \<Rightarrow> (True, fw\<lparr>tcp := snd (lru_remove (tcp_lhm E) c tcp_key)\<rparr>)
           | (None, c) \<Rightarrow> (False, fw\<lparr>tcp := c\<rparr>))
      | IcmpErr_Udp (Some lnk) \<Rightarrow>
          let udp_key = \<lparr>link = lnk, conn_pubkey = pk\<rparr> in
          (case lru_get (udp_lhm E) (udp fw) udp_key (clk 0) of
             (Some _, c) \<Rightarrow> (True, fw\<lparr>udp := snd (lru_remove (udp_lhm E) c udp_key)\<rparr>)
           | (None, c) \<Rightarrow> (False, fw\<lparr>udp := c\<rparr>))
      | _ \<Rightarrow> (False, fw))"

definition handle_inbound_icmp ::
  "('mu, 'mt, 'mi) fw_env \<Rightarrow> clock \<Rightarrow> ('mu, 'mt, 'mi) StatefullFirewall \<Rightarrow> PublicKey \<Rightarrow> IpPacket
     \<Rightarrow> bool \<times> ('mu, 'mt, 'mi) StatefullFirewall" where
  "handle_inbound_icmp E clk fw peer ip =
     (case IcmpPacket_new E (ip_payload ip) of
        None \<Rightarrow> (False, fw)
      | Some icmp_packet \<Rightarrow>
          if peer \<in> peer_whitelists (whitelist fw) IncomingConnections then (True, fw)
          else if icmp_type icmp_packet \<in> set (BLOCKED_TYPES ip) then (False, fw)
          else case build_icmp_key E peer ip True of
            Inr key \<Rightarrow>
              (case lru_get (icmp_lhm E) (icmp fw) key (clk 0) of
                 (Some _, c) \<Rightarrow> (True, fw\<lparr>icmp := snd (lru_remove (icmp_lhm E) c key)\<rparr>)
               | (None, c) \<Rightarrow> (False, fw\<lparr>icmp := c\<rparr>))
          | Inl icmp_error_key \<Rightarrow> handle_icmp_error E clk fw peer icmp_error_key)"

definition process_inbound_ip_packet ::
  "('mu, 'mt, 'mi) fw_env \<Rightarrow> clock \<Rightarrow> ('mu, 'mt, 'mi) StatefullFirewall \<Rightarrow> PublicKey
     \<Rightarrow> IpPacket option \<Rightarrow> bool \<times> ('mu, 'mt, 'mi) StatefullFirewall" where
  "process_inbound_ip_packet E clk fw peer parsed =
     (case parsed of
        None \<Rightarrow> (False, fw)
      | Some ip \<Rightarrow>
          let proto = get_next_level_protocol ip in
          if vpn_peer (whitelist fw) = Some peer then
            (True,
             if record_whitelisted fw then
               if proto = Proto_Udp
               then snd (handle_inbound_udp E clk fw (\<lambda>_ _. HandleLocally) peer ip)
               else if proto = Proto_Tcp
               then snd (handle_inbound_tcp E clk fw (\<lambda>_ _. HandleLocally) peer ip)
               else fw
             else fw)
          else if \<not> check_valid ip then (False, fw)
          else case decide_packet_handling E fw peer (get_destination ip) of
            Drop \<Rightarrow> (False, fw)
          | PassThrough \<Rightarrow> (True, fw)
          | HandleLocally \<Rightarrow>
              if proto = Proto_Udp
              then handle_inbound_udp E clk fw (decide_connection_handling fw) peer ip
              else if proto = Proto_Tcp
              then handle_inbound_tcp E clk fw (decide_connection_handling fw) peer ip
              else if proto = Proto_Icmp then handle_inbound_icmp E clk fw peer ip
              else if proto = Proto_Icmpv6 \<and> allow_ipv6 fw then handle_inbound_icmp E clk fw peer ip
              else (False, fw))"

section \<open>The trait \<open>Firewall\<close>\<close>

definition clear_port_whitelist ::
  "('mu, 'mt, 'mi) StatefullFirewall \<Rightarrow> ('mu, 'mt, 'mi) StatefullFirewall" where
  "clear_port_whitelist fw = fw\<lparr>whitelist := (whitelist fw)\<lparr>port_whitelist := Map.empty\<rparr>\<rparr>"

definition add_to_port_whitelist ::
  "('mu, 'mt, 'mi) StatefullFirewall \<Rightarrow> PublicKey \<Rightarrow> u16 \<Rightarrow> ('mu, 'mt, 'mi) StatefullFirewall" where
  "add_to_port_whitelist fw peer port =
     fw\<lparr>whitelist := (whitelist fw)
          \<lparr>port_whitelist := (port_whitelist (whitelist fw))(peer \<mapsto> port)\<rparr>\<rparr>"

definition remove_from_port_whitelist ::
  "('mu, 'mt, 'mi) StatefullFirewall \<Rightarrow> PublicKey \<Rightarrow> ('mu, 'mt, 'mi) StatefullFirewall" where
  "remove_from_port_whitelist fw peer =
     fw\<lparr>whitelist := (whitelist fw)
          \<lparr>port_whitelist := (port_whitelist (whitelist fw))(peer := None)\<rparr>\<rparr>"

definition get_port_whitelist ::
  "('mu, 'mt, 'mi) StatefullFirewall \<Rightarrow> (PublicKey \<rightharpoonup> u16)" where
  "get_port_whitelist fw = port_whitelist (whitelist fw)"

definition clear_peer_whitelists ::
  "('mu, 'mt, 'mi) StatefullFirewall \<Rightarrow> ('mu, 'mt, 'mi) StatefullFirewall" where
  "clear_peer_whitelists fw = fw\<lparr>whitelist := (whitelist fw)\<lparr>peer_whitelists := (\<lambda>_. {})\<rparr>\<rparr>"

definition add_to_peer_whitelist ::
  "('mu, 'mt, 'mi) StatefullFirewall \<Rightarrow> PublicKey \<Rightarrow> Permissions
     \<Rightarrow> ('mu, 'mt, 'mi) StatefullFirewall" where
  "add_to_peer_whitelist fw peer perm =
     fw\<lparr>whitelist := (whitelist fw)\<lparr>peer_whitelists := (peer_whitelists (whitelist fw))
          (perm := insert peer (peer_whitelists (whitelist fw) perm))\<rparr>\<rparr>"

definition remove_from_peer_whitelist ::
  "('mu, 'mt, 'mi) StatefullFirewall \<Rightarrow> PublicKey \<Rightarrow> Permissions
     \<Rightarrow> ('mu, 'mt, 'mi) StatefullFirewall" where
  "remove_from_peer_whitelist fw peer perm =
     fw\<lparr>whitelist := (whitelist fw)\<lparr>peer_whitelists := (peer_whitelists (whitelist fw))
          (perm := peer_whitelists (whitelist fw) perm - {peer})\<rparr>\<rparr>"

definition get_peer_whitelist ::
  "('mu, 'mt, 'mi) StatefullFirewall \<Rightarrow> Permissions \<Rightarrow> PublicKey set" where
  "get_peer_whitelist fw perm = peer_whitelists (whitelist fw) perm"

definition add_vpn_peer ::
  "('mu, 'mt, 'mi) StatefullFirewall \<Rightarrow> PublicKey \<Rightarrow> ('mu, 'mt, 'mi) StatefullFirewall" where
  "add_vpn_peer fw peer = fw\<lparr>whitelist := (whitelist fw)\<lparr>vpn_peer := Some peer\<rparr>\<rparr>"

definition remove_vpn_peer ::
  "('mu, 'mt, 'mi) StatefullFirewall \<Rightarrow> ('mu, 'mt, 'mi) StatefullFirewall" where
  "remove_vpn_peer fw = fw\<lparr>whitelist := (whitelist fw)\<lparr>vpn_peer := None\<rparr>\<rparr>"

text \<open>
  The first nibble selects the parser; \<open>try_from\<close> is the crate's constructor.
\<close>

definition process_outbound_packet ::
  "('mu, 'mt, 'mi) fw_env \<Rightarrow> clock \<Rightarrow> ('mu, 'mt, 'mi) StatefullFirewall \<Rightarrow> bytes \<Rightarrow> bytes
     \<Rightarrow> bool \<times> ('mu, 'mt, 'mi) StatefullFirewall" where
  "process_outbound_packet E clk fw public_key buffer =
     (case buffer of
        [] \<Rightarrow> (False, fw)
      | b # _ \<Rightarrow>
          if drop_bit 4 b = 4 then
            process_outbound_ip_packet E clk fw (PublicKey public_key)
              (map_option IpV4 (Ipv4Packet_new E buffer))
          else if drop_bit 4 b = 6 \<and> allow_ipv6 fw then
            process_outbound_ip_packet E clk fw (PublicKey public_key)
              (map_option IpV6 (Ipv6Packet_new E buffer))
          else (False, fw))"

definition process_inbound_packet ::
  "('mu, 'mt, 'mi) fw_env \<Rightarrow> clock \<Rightarrow> ('mu, 'mt, 'mi) StatefullFirewall \<Rightarrow> bytes \<Rightarrow> bytes
     \<Rightarrow> bool \<times> ('mu, 'mt, 'mi) StatefullFirewall" where
  "process_inbound_packet E clk fw public_key buffer =
     (case buffer of
        [] \<Rightarrow> (False, fw)
      | b # _ \<Rightarrow>
          if drop_bit 4 b = 4 then
            process_inbound_ip_packet E clk fw (PublicKey public_key)
              (map_option IpV4 (Ipv4Packet_new E buffer))
          else if drop_bit 4 b = 6 \<and> allow_ipv6 fw then
            process_inbound_ip_packet E clk fw (PublicKey public_key)
              (map_option IpV6 (Ipv6Packet_new E buffer))
          else (False, fw))"

definition set_ip_addresses ::
  "('mu, 'mt, 'mi) StatefullFirewall \<Rightarrow> IpAddr list \<Rightarrow> ('mu, 'mt, 'mi) StatefullFirewall" where
  "set_ip_addresses fw ip_addrs = fw\<lparr>ip_addresses := ip_addresses fw @ ip_addrs\<rparr>"

end
