(* ===== verification/Firewall_Reset.thy ===== *)
theory Firewall_Reset
  imports Firewall
begin

text \<open>
  Connection reset of the firewall (\<open>reset_connections\<close>, \<open>reset_tcp_conns\<close>,
  \<open>reset_udp_conns\<close> in crates/telio-firewall/src/firewall.rs): for every tracked connection
  with a peer, a packet that makes the local application give the connection up is written to a
  sink. The sink is an \<open>io::Write\<close>: \<open>write_all\<close> is an argument that returns the new sink
  or an error, and the first error ends the loop. Expired entries are dropped by the call of
  \<open>len\<close>, which is an argument of a debug log message and is evaluated only when that level
  is enabled: \<open>dbg\<close>. The header fields that the code sets once,
  before the loop, and the fields it overwrites for each connection are the same header record.
\<close>

section \<open>Packets\<close>

definition IPV4_LEN :: nat where "IPV4_LEN = 20"
definition TCP_LEN :: nat where "TCP_LEN = 20"
definition ICMP_HEADER_LEN :: nat where "ICMP_HEADER_LEN = 8"

text \<open>IPv4 flags \<open>DontFragment\<close>, ICMP code \<open>DestinationPortUnreachable\<close>.\<close>

definition ipv4_base_header :: "nat \<Rightarrow> u8 \<Rightarrow> u32 \<Rightarrow> u32 \<Rightarrow> Ipv4Header" where
  "ipv4_base_header total_len proto src dst =
     \<lparr>ih_version = 4, ih_header_length = 5, ih_total_length = of_nat total_len, ih_flags = 2,
      ih_ttl = 0xFF, ih_next_level_protocol = proto, ih_checksum = 0,
      ih_source = src, ih_destination = dst\<rparr>"

definition with_ipv4_checksum :: "('mu, 'mt, 'mi) fw_env \<Rightarrow> Ipv4Header \<Rightarrow> Ipv4Header" where
  "with_ipv4_checksum E h = h\<lparr>ih_checksum := ipv4_checksum E (h\<lparr>ih_checksum := 0\<rparr>)\<rparr>"

definition tcp_rst_header :: "IpConnWithPort \<Rightarrow> u32 \<Rightarrow> u16 \<Rightarrow> TcpHeader" where
  "tcp_rst_header key seq old_checksum =
     \<lparr>th_source = remote_port key, th_destination = local_port key, th_sequence = seq,
      th_data_offset = 5, th_flags = TcpFlags_RST, th_checksum = old_checksum\<rparr>"

section \<open>TCP\<close>

text \<open>
  One iteration. The checksum field of the shared TCP buffer still holds the previous packet's
  checksum when the next one is computed, so it is threaded through the loop.
\<close>

definition tcp_rst_packet ::
  "('mu, 'mt, 'mi) fw_env \<Rightarrow> IpConnWithPort \<Rightarrow> u32 \<Rightarrow> u16 \<Rightarrow> u32 \<Rightarrow> u32 \<Rightarrow> bytes \<times> u16" where
  "tcp_rst_packet E key seq old_checksum local remote =
     (let tcppkg = tcp_rst_header key seq old_checksum;
          csum = tcp_ipv4_checksum E tcppkg remote local;
          ipv4pkg = with_ipv4_checksum E
                      (ipv4_base_header (IPV4_LEN + TCP_LEN) Proto_Tcp remote local)
      in (ipv4_bytes E ipv4pkg @ tcp_bytes E (tcppkg\<lparr>th_checksum := csum\<rparr>), csum))"

fun reset_tcp_loop ::
  "('mu, 'mt, 'mi) fw_env \<Rightarrow> (bytes \<Rightarrow> 's \<Rightarrow> 'err + 's) \<Rightarrow> u16
     \<Rightarrow> (IpConnWithPort \<times> TcpConnectionInfo) list \<Rightarrow> 's \<Rightarrow> 'err + 's" where
  "reset_tcp_loop E write_all csum [] sink = Inr sink"
| "reset_tcp_loop E write_all csum ((key, val) # rest) sink =
     (case next_seq val of
        None \<Rightarrow> reset_tcp_loop E write_all csum rest sink
      | Some seq \<Rightarrow>
          (case (local_addr key, remote_addr key) of
             (Ipv4 local, Ipv4 remote) \<Rightarrow>
               let (pkt, csum') = tcp_rst_packet E key seq csum local remote
               in (case write_all pkt sink of
                     Inl err \<Rightarrow> Inl err
                   | Inr sink' \<Rightarrow> reset_tcp_loop E write_all csum' rest sink')
           | _ \<Rightarrow> reset_tcp_loop E write_all csum rest sink))"

definition reset_tcp_conns ::
  "('mu, 'mt, 'mi) fw_env \<Rightarrow> (bytes \<Rightarrow> 's \<Rightarrow> 'err + 's) \<Rightarrow> bool \<Rightarrow> instant
     \<Rightarrow> ('mu, 'mt, 'mi) StatefullFirewall \<Rightarrow> PublicKey \<Rightarrow> 's
     \<Rightarrow> ('err + 's) \<times> ('mu, 'mt, 'mi) StatefullFirewall" where
  "reset_tcp_conns E write_all dbg now fw pk sink =
     (let cache = (if dbg then snd (lru_len (tcp_lhm E) (tcp fw) now) else tcp fw);
          conns = map (\<lambda>(k, v). (link k, v))
                    (filter (\<lambda>(k, v). conn_pubkey k = pk) (lru_iter (tcp_lhm E) cache))
      in (reset_tcp_loop E write_all 0 conns sink, fw\<lparr>tcp := cache\<rparr>))"

section \<open>UDP\<close>

definition icmp_unreachable_packet ::
  "('mu, 'mt, 'mi) fw_env \<Rightarrow> u32 \<Rightarrow> u32 \<Rightarrow> bytes \<Rightarrow> bytes" where
  "icmp_unreachable_packet E endpoint_ipv4 local last_headers =
     (let icmppkg = \<lparr>ch_type = DestinationUnreachable, ch_code = 3, ch_checksum = 0\<rparr>;
          icmppkg' = icmppkg\<lparr>ch_checksum := icmp_checksum E icmppkg last_headers\<rparr>;
          ipv4pkg = with_ipv4_checksum E
                      (ipv4_base_header (IPV4_LEN + ICMP_HEADER_LEN + length last_headers)
                         Proto_Icmp endpoint_ipv4 local)
      in ipv4_bytes E ipv4pkg @ icmp_bytes E icmppkg' last_headers)"

fun reset_udp_loop ::
  "('mu, 'mt, 'mi) fw_env \<Rightarrow> (bytes \<Rightarrow> 's \<Rightarrow> 'err + 's) \<Rightarrow> u32
     \<Rightarrow> (IpConnWithPort \<times> bytes) list \<Rightarrow> 's \<Rightarrow> 'err + 's" where
  "reset_udp_loop E write_all endpoint_ipv4 [] sink = Inr sink"
| "reset_udp_loop E write_all endpoint_ipv4 ((key, last_headers) # rest) sink =
     (case (local_addr key, remote_addr key) of
        (Ipv4 local, Ipv4 _) \<Rightarrow>
          (case write_all (icmp_unreachable_packet E endpoint_ipv4 local last_headers) sink of
             Inl err \<Rightarrow> Inl err
           | Inr sink' \<Rightarrow> reset_udp_loop E write_all endpoint_ipv4 rest sink')
      | _ \<Rightarrow> reset_udp_loop E write_all endpoint_ipv4 rest sink)"

definition udp_reset_candidates ::
  "PublicKey \<Rightarrow> (Connection \<times> UdpConnectionInfo) list \<Rightarrow> (IpConnWithPort \<times> bytes) list" where
  "udp_reset_candidates pk conns =
     List.map_filter (\<lambda>(k, v). case last_out_pkg_chunk v of
                        None \<Rightarrow> None
                      | Some last_headers \<Rightarrow>
                          if conn_pubkey k \<noteq> pk then None else Some (link k, last_headers)) conns"

definition reset_udp_conns ::
  "('mu, 'mt, 'mi) fw_env \<Rightarrow> (bytes \<Rightarrow> 's \<Rightarrow> 'err + 's) \<Rightarrow> bool \<Rightarrow> instant
     \<Rightarrow> ('mu, 'mt, 'mi) StatefullFirewall \<Rightarrow> PublicKey \<Rightarrow> u32 \<Rightarrow> 's
     \<Rightarrow> ('err + 's) \<times> ('mu, 'mt, 'mi) StatefullFirewall" where
  "reset_udp_conns E write_all dbg now fw pk endpoint_ipv4 sink =
     (let cache = (if dbg then snd (lru_len (udp_lhm E) (udp fw) now) else udp fw)
      in (reset_udp_loop E write_all endpoint_ipv4
            (udp_reset_candidates pk (lru_iter (udp_lhm E) cache)) sink,
          fw\<lparr>udp := cache\<rparr>))"

definition reset_connections ::
  "('mu, 'mt, 'mi) fw_env \<Rightarrow> (bytes \<Rightarrow> 's \<Rightarrow> 'err + 's) \<Rightarrow> bool \<Rightarrow> clock
     \<Rightarrow> ('mu, 'mt, 'mi) StatefullFirewall \<Rightarrow> PublicKey \<Rightarrow> u32 \<Rightarrow> 's
     \<Rightarrow> ('err + 's) \<times> ('mu, 'mt, 'mi) StatefullFirewall" where
  "reset_connections E write_all dbg clk fw pk endpoint_ipv4 sink =
     (case reset_tcp_conns E write_all dbg (clk 0) fw pk sink of
        (Inl err, fw') \<Rightarrow> (Inl err, fw')
      | (Inr sink', fw') \<Rightarrow> reset_udp_conns E write_all dbg (clk 1) fw' pk endpoint_ipv4 sink')"

end
