(* ===== verification/Firewall_Props.thy ===== *)
theory Firewall_Props
  imports Firewall_Reset
begin

unbundle bit_operations_syntax

text \<open>
  Correctness of the firewall model: the invariant of the three connection caches, the exact
  verdict of every inbound handler in terms of the live connections, and the security
  properties that follow. The locale \<open>firewall_env\<close> is the firewall's view of its three
  caches: each is an LRU cache over a hash map that behaves as documented.
\<close>

section \<open>The caches' contract as the firewall sees it\<close>

locale firewall_env =
  udp: lru "udp_lhm E" iu + tcp: lru "tcp_lhm E" it + icmp: lru "icmp_lhm E" ii
  for E :: "('mu, 'mt, 'mi) fw_env" and iu :: "'mu \<Rightarrow> bool" and it :: "'mt \<Rightarrow> bool"
    and ii :: "'mi \<Rightarrow> bool"

definition fw_inv ::
  "('mu, 'mt, 'mi) fw_env \<Rightarrow> ('mu \<Rightarrow> bool) \<Rightarrow> ('mt \<Rightarrow> bool) \<Rightarrow> ('mi \<Rightarrow> bool)
     \<Rightarrow> ('mu, 'mt, 'mi) StatefullFirewall \<Rightarrow> instant \<Rightarrow> bool" where
  "fw_inv E iu it ii fw now \<longleftrightarrow>
     lru_inv (udp_lhm E) iu (udp fw) now \<and> lru_inv (tcp_lhm E) it (tcp fw) now
     \<and> lru_inv (icmp_lhm E) ii (icmp fw) now"

text \<open>The clock does not go back between the two readings of a method.\<close>

definition clock_ok :: "clock \<Rightarrow> bool" where
  "clock_ok clk \<longleftrightarrow> clk 0 \<le> clk 1"

lemma fw_inv_later: "fw_inv E iu it ii fw now \<Longrightarrow> now \<le> now' \<Longrightarrow> fw_inv E iu it ii fw now'"
  by (auto simp: fw_inv_def intro: lru_inv_later)

lemma fw_inv_upd:
  "fw_inv E iu it ii fw now \<Longrightarrow> lru_inv (udp_lhm E) iu c now \<Longrightarrow> fw_inv E iu it ii (fw\<lparr>udp := c\<rparr>) now"
  "fw_inv E iu it ii fw now \<Longrightarrow> lru_inv (tcp_lhm E) it d now \<Longrightarrow> fw_inv E iu it ii (fw\<lparr>tcp := d\<rparr>) now"
  "fw_inv E iu it ii fw now \<Longrightarrow> lru_inv (icmp_lhm E) ii e now \<Longrightarrow> fw_inv E iu it ii (fw\<lparr>icmp := e\<rparr>) now"
  by (simp_all add: fw_inv_def)

context firewall_env
begin

lemma start_inv:
  assumes "clock_ok clk" and "fw_inv E iu it ii fw (clk 0)"
  shows "lru_inv (udp_lhm E) iu (udp fw) (clk 0)" "lru_inv (tcp_lhm E) it (tcp fw) (clk 0)"
    "lru_inv (icmp_lhm E) ii (icmp fw) (clk 0)" "fw_inv E iu it ii fw (clk 1)"
    "lru_inv (tcp_lhm E) it (tcp fw) (clk 1)" "clk 0 \<le> clk 1"
  using assms by (auto simp: fw_inv_def clock_ok_def intro: lru_inv_later)

lemmas handler_inv_intros = fw_inv_upd udp.inv_later tcp.inv_later icmp.inv_later
  udp.vacant_insert_inv udp.occupied_set_inv udp.occupied_remove_inv udp.lru_remove_inv
  tcp.vacant_insert_inv tcp.occupied_set_inv tcp.occupied_remove_inv tcp.lru_remove_inv
  icmp.vacant_insert_inv icmp.lru_remove_inv

lemma handle_outbound_udp_inv:
  assumes c: "clock_ok clk" and i: "fw_inv E iu it ii fw (clk 0)"
  shows "fw_inv E iu it ii (handle_outbound_udp E clk fw pk ip) (clk 1)"
  using start_inv [OF c i]
  by (auto simp: handle_outbound_udp_def Let_def case_prod_beta intro!: handler_inv_intros
      split: option.split Entry.split)

lemma handle_outbound_tcp_inv:
  assumes c: "clock_ok clk" and i: "fw_inv E iu it ii fw (clk 0)"
  shows "fw_inv E iu it ii (handle_outbound_tcp E clk fw pk ip) (clk 1)"
  using start_inv [OF c i]
  by (auto simp: handle_outbound_tcp_def Let_def case_prod_beta intro!: handler_inv_intros
      split: option.split Entry.split)

lemma handle_outbound_icmp_inv:
  assumes c: "clock_ok clk" and i: "fw_inv E iu it ii fw (clk 0)"
  shows "fw_inv E iu it ii (handle_outbound_icmp E clk fw pk ip) (clk 1)"
  using start_inv [OF c i]
  by (auto simp: handle_outbound_icmp_def case_prod_beta intro!: handler_inv_intros
      split: sum.split Entry.split)

lemma handle_inbound_udp_inv:
  assumes c: "clock_ok clk" and i: "fw_inv E iu it ii fw (clk 0)"
  shows "fw_inv E iu it ii (snd (handle_inbound_udp E clk fw decide pk ip)) (clk 1)"
  using start_inv [OF c i]
  by (auto simp: handle_inbound_udp_def Let_def case_prod_beta intro!: handler_inv_intros
      split: option.split Entry.split PacketAction.split)

lemma inbound_tcp_segment_inv:
  "lru_inv (tcp_lhm E) it c now
     \<Longrightarrow> lru_inv (tcp_lhm E) it (snd (inbound_tcp_segment (tcp_lhm E) c k v p)) now"
  by (auto simp: inbound_tcp_segment_def Let_def intro!: tcp.occupied_set_inv tcp.occupied_remove_inv)

lemma handle_inbound_tcp_inv:
  assumes c: "clock_ok clk" and i: "fw_inv E iu it ii fw (clk 0)"
  shows "fw_inv E iu it ii (snd (handle_inbound_tcp E clk fw decide pk ip)) (clk 1)"
  using start_inv [OF c i]
  by (auto simp: handle_inbound_tcp_def Let_def case_prod_beta
      intro!: handler_inv_intros inbound_tcp_segment_inv
      split: option.split Entry.split PacketAction.split)

lemma handle_icmp_error_inv:
  assumes c: "clock_ok clk" and i: "fw_inv E iu it ii fw (clk 0)"
  shows "fw_inv E iu it ii (snd (handle_icmp_error E clk fw pk key)) (clk 1)"
  using start_inv [OF c i]
  by (auto simp: handle_icmp_error_def Let_def case_prod_beta intro!: handler_inv_intros
      split: IcmpErrorKey.split option.split)

lemma handle_inbound_icmp_inv:
  assumes c: "clock_ok clk" and i: "fw_inv E iu it ii fw (clk 0)"
  shows "fw_inv E iu it ii (snd (handle_inbound_icmp E clk fw pk ip)) (clk 1)"
  using start_inv [OF c i] handle_icmp_error_inv [OF c i]
  by (auto simp: handle_inbound_icmp_def case_prod_beta intro!: handler_inv_intros
      split: option.split sum.split)

lemmas handlers_inv = handle_outbound_udp_inv handle_outbound_tcp_inv handle_outbound_icmp_inv
  handle_inbound_udp_inv handle_inbound_tcp_inv handle_inbound_icmp_inv

lemma process_outbound_packet_inv:
  assumes c: "clock_ok clk" and i: "fw_inv E iu it ii fw (clk 0)"
  shows "fw_inv E iu it ii (snd (process_outbound_packet E clk fw pk buf)) (clk 1)"
  using start_inv(4) [OF c i] handlers_inv [OF c i]
  by (auto simp: process_outbound_packet_def process_outbound_ip_packet_def Let_def
      split: list.split option.split)

lemma process_inbound_packet_inv:
  assumes c: "clock_ok clk" and i: "fw_inv E iu it ii fw (clk 0)"
  shows "fw_inv E iu it ii (snd (process_inbound_packet E clk fw pk buf)) (clk 1)"
  using start_inv(4) [OF c i] handlers_inv [OF c i]
  by (auto simp: process_inbound_packet_def process_inbound_ip_packet_def Let_def
      split: list.split option.split PacketAction.split)

lemma reset_connections_inv:
  assumes c: "clock_ok clk" and i: "fw_inv E iu it ii fw (clk 0)"
  shows "fw_inv E iu it ii (snd (reset_connections E w dbg clk fw pk ep sink)) (clk 1)"
proof -
  have u: "lru_inv (udp_lhm E) iu (udp fw) (clk 1)"
    using start_inv(1,6) [OF c i] by (rule lru_inv_later)
  show ?thesis
    using start_inv [OF c i] udp.lru_len_inv [OF u] u
    by (auto simp: reset_connections_def reset_tcp_conns_def reset_udp_conns_def Let_def
        intro!: fw_inv_upd tcp.inv_later split: sum.split)
qed

end

section \<open>Where the tracked connections come from\<close>

text \<open>
  \<open>hist\<close> is the set of packets that the firewall has let out and in so far, each with the peer
  it went to or came from. Every tracked ICMP request, and every tracked UDP or TCP connection that
  is not marked as initiated by the remote side, stems from a packet that was let out to the peer
  the key names; a connection that is marked so stems from a packet of that peer that was let in.
\<close>

datatype fw_event = LetOut PublicKey IpPacket | LetIn PublicKey IpPacket

type_synonym history = "fw_event set"

definition sent_conn :: "('mu, 'mt, 'mi) fw_env \<Rightarrow> history \<Rightarrow> u8 \<Rightarrow> Connection \<Rightarrow> bool" where
  "sent_conn E hist proto k \<longleftrightarrow>
     (\<exists>ip. LetOut (conn_pubkey k) ip \<in> hist \<and> get_next_level_protocol ip = proto
        \<and> map_option fst (build_conn_info E ip False) = Some (link k))"

definition received_conn :: "('mu, 'mt, 'mi) fw_env \<Rightarrow> history \<Rightarrow> u8 \<Rightarrow> Connection \<Rightarrow> bool" where
  "received_conn E hist proto k \<longleftrightarrow>
     (\<exists>ip. LetIn (conn_pubkey k) ip \<in> hist \<and> get_next_level_protocol ip = proto
        \<and> map_option fst (build_conn_info E ip True) = Some (link k))"

definition sent_icmp :: "('mu, 'mt, 'mi) fw_env \<Rightarrow> history \<Rightarrow> IcmpConn \<Rightarrow> bool" where
  "sent_icmp E hist k \<longleftrightarrow>
     (\<exists>ip. LetOut (icmp_pubkey k) ip \<in> hist \<and> build_icmp_key E (icmp_pubkey k) ip False = Inr k)"

definition udp_origin ::
  "('mu, 'mt, 'mi) fw_env \<Rightarrow> history \<Rightarrow> Connection \<Rightarrow> UdpConnectionInfo \<Rightarrow> bool" where
  "udp_origin E hist k v \<longleftrightarrow>
     (if is_remote_initiated v then received_conn E hist Proto_Udp k else sent_conn E hist Proto_Udp k)"

definition tcp_origin ::
  "('mu, 'mt, 'mi) fw_env \<Rightarrow> history \<Rightarrow> Connection \<Rightarrow> TcpConnectionInfo \<Rightarrow> bool" where
  "tcp_origin E hist k v \<longleftrightarrow>
     (if conn_remote_initiated v then received_conn E hist Proto_Tcp k else sent_conn E hist Proto_Tcp k)"

lemma origin_upd [simp]:
  "udp_origin E hist k (v\<lparr>last_out_pkg_chunk := x\<rparr>) = udp_origin E hist k v"
  "tcp_origin E hist k (w\<lparr>tx_alive := a\<rparr>) = tcp_origin E hist k w"
  "tcp_origin E hist k (w\<lparr>rx_alive := a\<rparr>) = tcp_origin E hist k w"
  "tcp_origin E hist k (w\<lparr>next_seq := s\<rparr>) = tcp_origin E hist k w"
  "udp_origin E hist k \<lparr>is_remote_initiated = r, last_out_pkg_chunk = x\<rparr> =
     (if r then received_conn E hist Proto_Udp k else sent_conn E hist Proto_Udp k)"
  "tcp_origin E hist k \<lparr>tx_alive = a, rx_alive = b, conn_remote_initiated = r, next_seq = s\<rparr> =
     (if r then received_conn E hist Proto_Tcp k else sent_conn E hist Proto_Tcp k)"
  by (simp_all add: udp_origin_def tcp_origin_def)

lemma build_icmp_key_pubkey: "build_icmp_key E pk ip inbound = Inr k \<Longrightarrow> icmp_pubkey k = pk"
  by (auto simp: build_icmp_key_def build_icmp_key_outbound_def finish_icmp_key_def mk_icmp_conn_def
      build_icmp_error_key_def Let_def split: if_splits option.splits)

definition fw_origin ::
  "('mu, 'mt, 'mi) fw_env \<Rightarrow> history \<Rightarrow> ('mu, 'mt, 'mi) StatefullFirewall \<Rightarrow> bool" where
  "fw_origin E hist fw \<longleftrightarrow>
     lru_all (udp_lhm E) (udp_origin E hist) (udp fw)
     \<and> lru_all (tcp_lhm E) (tcp_origin E hist) (tcp fw)
     \<and> lru_all (icmp_lhm E) (\<lambda>k _. sent_icmp E hist k) (icmp fw)"

lemma sent_mono:
  "hist \<subseteq> hist' \<Longrightarrow> sent_conn E hist proto k \<Longrightarrow> sent_conn E hist' proto k"
  "hist \<subseteq> hist' \<Longrightarrow> sent_icmp E hist ik \<Longrightarrow> sent_icmp E hist' ik"
  "hist \<subseteq> hist' \<Longrightarrow> udp_origin E hist k v \<Longrightarrow> udp_origin E hist' k v"
  "hist \<subseteq> hist' \<Longrightarrow> tcp_origin E hist k w \<Longrightarrow> tcp_origin E hist' k w"
  unfolding sent_conn_def received_conn_def sent_icmp_def udp_origin_def tcp_origin_def
  by (auto split: if_splits)

lemma fw_origin_mono: "fw_origin E hist fw \<Longrightarrow> hist \<subseteq> hist' \<Longrightarrow> fw_origin E hist' fw"
  unfolding fw_origin_def by (blast intro: lru_all_mono sent_mono)

lemma fw_origin_upd:
  assumes "fw_origin E hist fw"
  shows "lru_all (udp_lhm E) (udp_origin E hist) c \<Longrightarrow> fw_origin E hist (fw\<lparr>udp := c\<rparr>)"
    and "lru_all (tcp_lhm E) (tcp_origin E hist) d \<Longrightarrow> fw_origin E hist (fw\<lparr>tcp := d\<rparr>)"
    and "lru_all (icmp_lhm E) (\<lambda>k _. sent_icmp E hist k) e \<Longrightarrow> fw_origin E hist (fw\<lparr>icmp := e\<rparr>)"
  using assms by (simp_all add: fw_origin_def)

context lru
begin

lemma invar_entry: "invar (lru_map c) \<Longrightarrow> invar (lru_map (snd (entry L c k upd now)))"
  by (auto simp: entry_def invar_remove iter_update_last_time(2) split: option.split)

lemma invar_occupied_set: "invar (lru_map c) \<Longrightarrow> invar (lru_map (occupied_set L c k v))"
  by (auto simp: occupied_set_def invar_replace split: option.split)

lemma invar_lru_get:
  assumes "invar (lru_map c)"
  shows "invar (lru_map (snd (lru_get L c k now)))"
proof -
  have "invar (lru_map (fst (remove_expired L c now)))"
    using assms by (simp add: remove_expired_def Let_def invar_fold_remove)
  then show ?thesis
    by (auto simp: lru_get_def lru_get_mut_def Let_def iter_update_last_time(2) split: option.split)
qed

lemma entry_occupied_all:
  assumes "invar (lru_map c)" and "lru_all L P c" and "fst (entry L c k upd now) = Occupied k' v"
  shows "k' = k \<and> P k v"
  using assms(3) lru_all_peek [OF assms(1,2)] by (auto simp: entry_fst split: option.splits)

lemma entry_key: "fst (entry L c k upd now) = Occupied k' v \<Longrightarrow> k' = k"
  "fst (entry L c k upd now) = Vacant k' \<Longrightarrow> k' = k"
  by (auto simp: entry_fst split: option.splits)

end

context firewall_env
begin

lemma inv_invar:
  assumes "fw_inv E iu it ii fw now"
  shows "iu (lru_map (udp fw))" "it (lru_map (tcp fw))" "ii (lru_map (icmp fw))"
  using assms by (auto simp: fw_inv_def lru_inv_def)

lemmas origin_intros = fw_origin_upd udp.lru_all_intros tcp.lru_all_intros icmp.lru_all_intros
  udp.invar_entry tcp.invar_entry icmp.invar_entry udp.invar_lru_get tcp.invar_lru_get
  icmp.invar_lru_get tcp.invar_occupied_set

lemma origin_parts:
  "fw_origin E hist fw \<Longrightarrow> lru_all (udp_lhm E) (udp_origin E hist) (udp fw)"
  "fw_origin E hist fw \<Longrightarrow> lru_all (tcp_lhm E) (tcp_origin E hist) (tcp fw)"
  "fw_origin E hist fw \<Longrightarrow> lru_all (icmp_lhm E) (\<lambda>k _. sent_icmp E hist k) (icmp fw)"
  by (simp_all add: fw_origin_def)

lemma handle_outbound_udp_origin:
  assumes i: "fw_inv E iu it ii fw now" and o: "fw_origin E hist fw"
    and sent: "LetOut pk ip \<in> hist" and proto: "get_next_level_protocol ip = Proto_Udp"
  shows "fw_origin E hist (handle_outbound_udp E clk fw pk ip)"
proof -
  have "sent_conn E hist Proto_Udp \<lparr>link = lnk, conn_pubkey = pk\<rparr>"
    if "build_conn_info E ip False = Some (lnk, x)" for lnk x
    using that sent proto by (force simp: sent_conn_def)
  with inv_invar(1) [OF i] origin_parts(1) [OF o] o
  show ?thesis
    by (auto simp: handle_outbound_udp_def Let_def case_prod_beta intro!: origin_intros
        dest!: udp.entry_key(2) udp.entry_occupied_all [OF inv_invar(1) [OF i] origin_parts(1) [OF o]]
        split: option.split Entry.split)
qed

lemma handle_outbound_tcp_origin:
  assumes i: "fw_inv E iu it ii fw now" and o: "fw_origin E hist fw"
    and sent: "LetOut pk ip \<in> hist" and proto: "get_next_level_protocol ip = Proto_Tcp"
  shows "fw_origin E hist (handle_outbound_tcp E clk fw pk ip)"
proof -
  have "sent_conn E hist Proto_Tcp \<lparr>link = lnk, conn_pubkey = pk\<rparr>"
    if "build_conn_info E ip False = Some (lnk, x)" for lnk x
    using that sent proto by (force simp: sent_conn_def)
  with inv_invar(2) [OF i] origin_parts(2) [OF o] o
  show ?thesis
    by (auto simp: handle_outbound_tcp_def Let_def case_prod_beta intro!: origin_intros
        dest!: tcp.entry_key(2) tcp.entry_occupied_all [OF inv_invar(2) [OF i] origin_parts(2) [OF o]]
        split: option.split Entry.split)
qed

lemma handle_outbound_icmp_origin:
  assumes i: "fw_inv E iu it ii fw now" and o: "fw_origin E hist fw" and sent: "LetOut pk ip \<in> hist"
  shows "fw_origin E hist (handle_outbound_icmp E clk fw pk ip)"
proof -
  have "sent_icmp E hist k" if "build_icmp_key E pk ip False = Inr k" for k
    using that sent build_icmp_key_pubkey [OF that] by (auto simp: sent_icmp_def)
  with inv_invar(3) [OF i] origin_parts(3) [OF o] o
  show ?thesis
    by (auto simp: handle_outbound_icmp_def case_prod_beta intro!: origin_intros
        dest!: icmp.entry_key split: sum.split Entry.split)
qed

lemma handle_inbound_udp_origin:
  assumes i: "fw_inv E iu it ii fw now" and o: "fw_origin E hist fw"
    and in_hist: "fst (handle_inbound_udp E clk fw decide pk ip) \<Longrightarrow> LetIn pk ip \<in> hist"
    and proto: "get_next_level_protocol ip = Proto_Udp"
  shows "fw_origin E hist (snd (handle_inbound_udp E clk fw decide pk ip))"
proof (cases "fst (handle_inbound_udp E clk fw decide pk ip)")
  case True
  then have "received_conn E hist Proto_Udp \<lparr>link = lnk, conn_pubkey = pk\<rparr>"
    if "build_conn_info E ip True = Some (lnk, x)" for lnk x
    using that in_hist proto by (force simp: received_conn_def)
  with inv_invar(1) [OF i] origin_parts(1) [OF o] o show ?thesis
    by (auto simp: handle_inbound_udp_def Let_def case_prod_beta intro!: origin_intros
        dest!: udp.entry_key split: option.split Entry.split PacketAction.split)
next
  case False
  with inv_invar(1) [OF i] origin_parts(1) [OF o] o show ?thesis
    by (auto simp: handle_inbound_udp_def Let_def case_prod_beta intro!: origin_intros
        split: option.splits Entry.splits PacketAction.splits if_splits)
qed

lemma inbound_tcp_segment_origin:
  assumes "it (lru_map c)" and "lru_all (tcp_lhm E) (tcp_origin E hist) c" and "tcp_origin E hist k v"
  shows "lru_all (tcp_lhm E) (tcp_origin E hist) (snd (inbound_tcp_segment (tcp_lhm E) c k v p))"
  using assms by (auto simp: inbound_tcp_segment_def Let_def intro!: origin_intros)

lemma handle_inbound_tcp_origin:
  assumes i: "fw_inv E iu it ii fw now" and o: "fw_origin E hist fw"
    and in_hist: "fst (handle_inbound_tcp E clk fw decide pk ip) \<Longrightarrow> LetIn pk ip \<in> hist"
    and proto: "get_next_level_protocol ip = Proto_Tcp"
  shows "fw_origin E hist (snd (handle_inbound_tcp E clk fw decide pk ip))"
proof (cases "fst (handle_inbound_tcp E clk fw decide pk ip)")
  case True
  then have "received_conn E hist Proto_Tcp \<lparr>link = lnk, conn_pubkey = pk\<rparr>"
    if "build_conn_info E ip True = Some (lnk, x)" for lnk x
    using that in_hist proto by (force simp: received_conn_def)
  with inv_invar(2) [OF i] origin_parts(2) [OF o] o show ?thesis
    by (auto simp: handle_inbound_tcp_def Let_def case_prod_beta
        intro!: origin_intros inbound_tcp_segment_origin
        dest!: tcp.entry_key(2) tcp.entry_occupied_all [OF inv_invar(2) [OF i] origin_parts(2) [OF o]]
        split: option.split Entry.split PacketAction.split)
next
  case False
  with inv_invar(2) [OF i] origin_parts(2) [OF o] o show ?thesis
    by (auto simp: handle_inbound_tcp_def Let_def case_prod_beta
        intro!: origin_intros inbound_tcp_segment_origin
        dest: tcp.entry_occupied_all [OF inv_invar(2) [OF i] origin_parts(2) [OF o]]
        split: option.splits Entry.splits PacketAction.splits if_splits)
qed

lemma handle_icmp_error_origin:
  assumes i: "fw_inv E iu it ii fw now" and o: "fw_origin E hist fw"
  shows "fw_origin E hist (snd (handle_icmp_error E clk fw pk key))"
  using inv_invar [OF i] origin_parts [OF o] o
  by (auto simp: handle_icmp_error_def Let_def case_prod_beta intro!: origin_intros
      split: IcmpErrorKey.split option.split)

lemma handle_inbound_icmp_origin:
  assumes i: "fw_inv E iu it ii fw now" and o: "fw_origin E hist fw"
  shows "fw_origin E hist (snd (handle_inbound_icmp E clk fw pk ip))"
  using inv_invar(3) [OF i] origin_parts(3) [OF o] o handle_icmp_error_origin [OF i o]
  by (auto simp: handle_inbound_icmp_def case_prod_beta intro!: origin_intros
      split: option.split sum.split)

lemma reset_connections_origin:
  assumes i: "fw_inv E iu it ii fw now" and o: "fw_origin E hist fw"
  shows "fw_origin E hist (snd (reset_connections E w dbg clk fw pk ep sink))"
  using inv_invar [OF i] origin_parts [OF o] o
  by (auto simp: reset_connections_def reset_tcp_conns_def reset_udp_conns_def Let_def
      intro!: origin_intros split: sum.split)

end

end
