(* ===== verification/Firewall_Security.thy ===== *)
theory Firewall_Security
  imports Firewall_Props
begin

unbundle bit_operations_syntax

text \<open>
  Runs of the firewall and the security properties over them. A run is any interleaving of the
  methods of the trait \<open>Firewall\<close> from a new firewall, with a clock that does not go back; it
  records the packets that the firewall let out and in.
\<close>

section \<open>Verdicts of the inbound handlers\<close>

definition parse_buffer ::
  "('mu, 'mt, 'mi) fw_env \<Rightarrow> ('mu, 'mt, 'mi) StatefullFirewall \<Rightarrow> bytes \<Rightarrow> IpPacket option" where
  "parse_buffer E fw buf =
     (case buf of
        [] \<Rightarrow> None
      | b # _ \<Rightarrow> if drop_bit 4 b = 4 then map_option IpV4 (Ipv4Packet_new E buf)
                 else if drop_bit 4 b = 6 \<and> allow_ipv6 fw
                 then map_option IpV6 (Ipv6Packet_new E buf)
                 else None)"

lemma process_packet_parse:
  "process_outbound_packet E clk fw key buf =
     process_outbound_ip_packet E clk fw (PublicKey key) (parse_buffer E fw buf)"
  "process_inbound_packet E clk fw key buf =
     process_inbound_ip_packet E clk fw (PublicKey key) (parse_buffer E fw buf)"
  by (auto simp: process_outbound_packet_def process_inbound_packet_def parse_buffer_def
      process_outbound_ip_packet_def process_inbound_ip_packet_def split: list.split)

text \<open>A live connection the nested packet of an ICMP error belongs to.\<close>

definition nested_tracked ::
  "('mu, 'mt, 'mi) fw_env \<Rightarrow> ('mu, 'mt, 'mi) StatefullFirewall \<Rightarrow> PublicKey \<Rightarrow> IcmpErrorKey
     \<Rightarrow> instant \<Rightarrow> bool" where
  "nested_tracked E fw pk ek now =
     (case ek of
        IcmpErr_Udp (Some lnk) \<Rightarrow>
          peek (udp_lhm E) (udp fw) \<lparr>link = lnk, conn_pubkey = pk\<rparr> now \<noteq> None
      | IcmpErr_Tcp (Some lnk) \<Rightarrow>
          peek (tcp_lhm E) (tcp fw) \<lparr>link = lnk, conn_pubkey = pk\<rparr> now \<noteq> None
      | IcmpErr_Icmp (Some k) \<Rightarrow> peek (icmp_lhm E) (icmp fw) k now \<noteq> None
      | _ \<Rightarrow> False)"

context firewall_env
begin

lemma handle_inbound_udp_verdict:
  "fst (handle_inbound_udp E clk fw decide pk ip) =
     (case build_conn_info E ip True of
        None \<Rightarrow> False
      | Some (lnk, _) \<Rightarrow>
          (case peek (udp_lhm E) (udp fw) \<lparr>link = lnk, conn_pubkey = pk\<rparr> (clk 0) of
             Some v \<Rightarrow> \<not> is_remote_initiated v \<or> decide pk (local_port lnk) \<noteq> Drop
           | None \<Rightarrow> decide pk (local_port lnk) \<noteq> Drop))"
  by (auto simp: handle_inbound_udp_def Let_def case_prod_beta udp.entry_fst
      split: option.split PacketAction.split)

lemma inbound_tcp_segment_verdict:
  "fst (inbound_tcp_segment L c k v p) \<longleftrightarrow>
     \<not> (tcp_flags p AND TcpFlags_RST \<noteq> TcpFlags_RST \<and> tcp_flags p AND TcpFlags_FIN \<noteq> TcpFlags_FIN
        \<and> tcp_flags p AND TcpFlags_ACK \<noteq> TcpFlags_ACK
        \<and> \<not> tx_alive v \<and> \<not> rx_alive v \<and> \<not> conn_remote_initiated v)"
  by (auto simp: inbound_tcp_segment_def Let_def)

lemma handle_inbound_tcp_verdict:
  "fst (handle_inbound_tcp E clk fw decide pk ip) =
     (case build_conn_info E ip True of
        None \<Rightarrow> False
      | Some (lnk, pkt) \<Rightarrow>
          (case peek (tcp_lhm E) (tcp fw) \<lparr>link = lnk, conn_pubkey = pk\<rparr> (clk 0) of
             Some v \<Rightarrow> (\<not> conn_remote_initiated v \<or> decide pk (local_port lnk) \<noteq> Drop)
               \<and> (case pkt of None \<Rightarrow> True
                            | Some p \<Rightarrow> fst (inbound_tcp_segment (tcp_lhm E)
                                (snd (entry (tcp_lhm E) (tcp fw) \<lparr>link = lnk, conn_pubkey = pk\<rparr> False (clk 0)))
                                \<lparr>link = lnk, conn_pubkey = pk\<rparr> v p))
           | None \<Rightarrow> decide pk (local_port lnk) \<noteq> Drop))"
  by (auto simp: handle_inbound_tcp_def Let_def case_prod_beta tcp.entry_fst
      split: option.split PacketAction.split)

lemma handle_icmp_error_verdict:
  assumes "fw_inv E iu it ii fw (clk 0)"
  shows "fst (handle_icmp_error E clk fw pk ek) = nested_tracked E fw pk ek (clk 0)"
  using assms udp.lru_get_fst tcp.lru_get_fst icmp.lru_get_fst
  by (auto simp: handle_icmp_error_def nested_tracked_def Let_def fw_inv_def case_prod_beta
      split: IcmpErrorKey.split option.split)

lemma handle_inbound_icmp_verdict:
  assumes "fw_inv E iu it ii fw (clk 0)"
  shows "fst (handle_inbound_icmp E clk fw pk ip) =
     (case IcmpPacket_new E (ip_payload ip) of
        None \<Rightarrow> False
      | Some p \<Rightarrow>
          pk \<in> peer_whitelists (whitelist fw) IncomingConnections
          \<or> (icmp_type p \<notin> set (BLOCKED_TYPES ip)
             \<and> (case build_icmp_key E pk ip True of
                  Inr k \<Rightarrow> peek (icmp_lhm E) (icmp fw) k (clk 0) \<noteq> None
                | Inl ek \<Rightarrow> nested_tracked E fw pk ek (clk 0))))"
  using assms icmp.lru_get_fst handle_icmp_error_verdict [where clk = clk, OF assms]
  by (auto simp: handle_inbound_icmp_def fw_inv_def case_prod_beta split: option.split sum.split)

end

section \<open>Runs\<close>

inductive config_step ::
  "('mu, 'mt, 'mi) StatefullFirewall \<Rightarrow> ('mu, 'mt, 'mi) StatefullFirewall \<Rightarrow> bool" where
  "config_step fw (clear_port_whitelist fw)"
| "config_step fw (add_to_port_whitelist fw pk port)"
| "config_step fw (remove_from_port_whitelist fw pk)"
| "config_step fw (clear_peer_whitelists fw)"
| "config_step fw (add_to_peer_whitelist fw pk perm)"
| "config_step fw (remove_from_peer_whitelist fw pk perm)"
| "config_step fw (add_vpn_peer fw pk)"
| "config_step fw (remove_vpn_peer fw)"
| "config_step fw (set_ip_addresses fw addrs)"

lemmas config_defs = clear_port_whitelist_def add_to_port_whitelist_def
  remove_from_port_whitelist_def clear_peer_whitelists_def add_to_peer_whitelist_def
  remove_from_peer_whitelist_def add_vpn_peer_def remove_vpn_peer_def set_ip_addresses_def

lemma config_step_frame:
  "config_step fw fw' \<Longrightarrow> udp fw' = udp fw \<and> tcp fw' = tcp fw \<and> icmp fw' = icmp fw"
  by (induction rule: config_step.induct) (auto simp: config_defs)

text \<open>What a packet adds to the history: nothing, unless the firewall lets it pass.\<close>

definition sent_now ::
  "('mu, 'mt, 'mi) fw_env \<Rightarrow> clock \<Rightarrow> ('mu, 'mt, 'mi) StatefullFirewall \<Rightarrow> bytes \<Rightarrow> bytes \<Rightarrow> history" where
  "sent_now E clk fw key buf =
     (if fst (process_outbound_packet E clk fw key buf) then LetOut (PublicKey key) ` set_option (parse_buffer E fw buf)
      else {})"

definition received_now ::
  "('mu, 'mt, 'mi) fw_env \<Rightarrow> clock \<Rightarrow> ('mu, 'mt, 'mi) StatefullFirewall \<Rightarrow> bytes \<Rightarrow> bytes \<Rightarrow> history" where
  "received_now E clk fw key buf =
     (if fst (process_inbound_packet E clk fw key buf) then LetIn (PublicKey key) ` set_option (parse_buffer E fw buf)
      else {})"

inductive fw_run ::
  "('mu, 'mt, 'mi) fw_env \<Rightarrow> history \<Rightarrow> ('mu, 'mt, 'mi) StatefullFirewall \<Rightarrow> instant \<Rightarrow> bool"
  for E where
  run_new: "fw_run E {} (fw_new E v6 feature) now"
| run_tick: "fw_run E hist fw now \<Longrightarrow> now \<le> now' \<Longrightarrow> fw_run E hist fw now'"
| run_config: "fw_run E hist fw now \<Longrightarrow> config_step fw fw' \<Longrightarrow> fw_run E hist fw' now"
| run_outbound: "fw_run E hist fw (clk 0) \<Longrightarrow> clock_ok clk \<Longrightarrow>
     fw_run E (hist \<union> sent_now E clk fw key buf) (snd (process_outbound_packet E clk fw key buf)) (clk 1)"
| run_inbound: "fw_run E hist fw (clk 0) \<Longrightarrow> clock_ok clk \<Longrightarrow>
     fw_run E (hist \<union> received_now E clk fw key buf) (snd (process_inbound_packet E clk fw key buf)) (clk 1)"
| run_reset: "fw_run E hist fw (clk 0) \<Longrightarrow> clock_ok clk \<Longrightarrow>
     fw_run E hist (snd (reset_connections E (write_all :: bytes \<Rightarrow> bytes list \<Rightarrow> unit + bytes list)
       dbg clk fw pk endpoint sink)) (clk 1)"

context firewall_env
begin

lemma process_outbound_origin:
  assumes i: "fw_inv E iu it ii fw now" and o: "fw_origin E hist fw"
  shows "fw_origin E (hist \<union> sent_now E clk fw key buf) (snd (process_outbound_packet E clk fw key buf))"
proof -
  let ?h = "hist \<union> sent_now E clk fw key buf"
  have o': "fw_origin E ?h fw" using o by (rule fw_origin_mono) simp
  have "LetOut (PublicKey key) ip \<in> ?h"
    if "parse_buffer E fw buf = Some ip" "fst (process_outbound_ip_packet E clk fw (PublicKey key) (Some ip))" for ip
    using that by (simp add: sent_now_def process_packet_parse)
  then show ?thesis
    using o' handle_outbound_udp_origin [OF i o'] handle_outbound_tcp_origin [OF i o']
      handle_outbound_icmp_origin [OF i o']
    by (auto simp: process_packet_parse process_outbound_ip_packet_def Let_def split: option.split)
qed

lemma process_inbound_origin:
  assumes i: "fw_inv E iu it ii fw now" and o: "fw_origin E hist fw"
  shows "fw_origin E (hist \<union> received_now E clk fw key buf) (snd (process_inbound_packet E clk fw key buf))"
proof (cases "parse_buffer E fw buf")
  case None
  then show ?thesis
    using o by (simp add: process_packet_parse process_inbound_ip_packet_def received_now_def)
next
  case (Some ip)
  let ?h = "hist \<union> received_now E clk fw key buf" and ?pk = "PublicKey key"
  have o': "fw_origin E ?h fw" using o by (rule fw_origin_mono) simp
  have h: "LetIn ?pk ip \<in> ?h" if "fst (process_inbound_ip_packet E clk fw ?pk (Some ip))"
    using Some that by (simp add: received_now_def process_packet_parse)
  note udp = handle_inbound_udp_origin [where clk = clk and pk = ?pk and ip = ip, OF i o']
    and tcp = handle_inbound_tcp_origin [where clk = clk and pk = ?pk and ip = ip, OF i o']
  show ?thesis
  proof (cases "vpn_peer (whitelist fw) = Some ?pk")
    case True
    with h have "LetIn ?pk ip \<in> ?h" by (simp add: process_inbound_ip_packet_def Let_def)
    with True Some o' udp tcp show ?thesis
      by (simp add: process_packet_parse process_inbound_ip_packet_def Let_def)
  next
    case False
    with h Some o' udp tcp handle_inbound_icmp_origin [OF i o'] show ?thesis
      by (simp add: process_packet_parse process_inbound_ip_packet_def Let_def split: PacketAction.split)
  qed
qed

lemma fw_run_ok:
  "fw_run E hist fw now \<Longrightarrow> fw_inv E iu it ii fw now \<and> fw_origin E hist fw"
proof (induction rule: fw_run.induct)
  case (run_new v6 feature now)
  show ?case
    by (simp add: fw_new_def new_custom_def fw_inv_def fw_origin_def udp.lru_new_inv
        tcp.lru_new_inv icmp.lru_new_inv udp.lru_all_new tcp.lru_all_new icmp.lru_all_new)
next
  case (run_tick hist fw now now')
  then show ?case by (blast intro: fw_inv_later)
next
  case (run_config hist fw now fw')
  then show ?case
    using config_step_frame [of fw fw'] by (simp add: fw_inv_def fw_origin_def)
next
  case (run_outbound hist fw clk key buf)
  then show ?case by (blast intro: process_outbound_packet_inv process_outbound_origin)
next
  case (run_inbound hist fw clk key buf)
  then show ?case by (blast intro: process_inbound_packet_inv process_inbound_origin)
next
  case (run_reset hist fw clk write_all pk endpoint sink)
  then show ?case by (blast intro: reset_connections_inv reset_connections_origin)
qed

end

section \<open>A reference environment\<close>

text \<open>
  A concrete environment for the witnesses: association lists for the hash maps and parsers
  that read the header fields at their standard offsets.
\<close>

definition be16 :: "u8 \<Rightarrow> u8 \<Rightarrow> u16" where
  "be16 a b = 256 * ucast a + ucast b"

definition be32 :: "u8 \<Rightarrow> u8 \<Rightarrow> u8 \<Rightarrow> u8 \<Rightarrow> u32" where
  "be32 a b c d = 16777216 * ucast a + 65536 * ucast b + 256 * ucast c + ucast d"

definition ref_ipv4 :: "bytes \<Rightarrow> Ipv4Packet option" where
  "ref_ipv4 b =
     (if length b < 20 then None
      else Some \<lparr>v4_version = unat (drop_bit 4 (b ! 0)), v4_header_length = unat (b ! 0 AND 15),
        v4_next_level_protocol = b ! 9,
        v4_source = be32 (b ! 12) (b ! 13) (b ! 14) (b ! 15),
        v4_destination = be32 (b ! 16) (b ! 17) (b ! 18) (b ! 19),
        v4_payload = drop (4 * unat (b ! 0 AND 15)) b, v4_packet = b\<rparr>)"

definition ref_udp :: "bytes \<Rightarrow> UdpPacket option" where
  "ref_udp b = (if length b < 8 then None
     else Some \<lparr>udp_source = be16 (b ! 0) (b ! 1), udp_destination = be16 (b ! 2) (b ! 3)\<rparr>)"

definition ref_tcp :: "bytes \<Rightarrow> TcpPacket option" where
  "ref_tcp b = (if length b < 20 then None
     else Some \<lparr>tcp_source = be16 (b ! 0) (b ! 1), tcp_destination = be16 (b ! 2) (b ! 3),
       tcp_flags = b ! 13, tcp_sequence = be32 (b ! 4) (b ! 5) (b ! 6) (b ! 7),
       tcp_payload = drop (4 * unat (drop_bit 4 (b ! 12))) b\<rparr>)"

definition ref_icmp :: "bytes \<Rightarrow> IcmpPacket option" where
  "ref_icmp b = (if length b < 4 then None else Some \<lparr>icmp_type = b ! 0, icmp_payload = drop 4 b\<rparr>)"

type_synonym ref_udp_map = "(Connection \<times> UdpConnectionInfo TimedValue) list"
type_synonym ref_tcp_map = "(Connection \<times> TcpConnectionInfo TimedValue) list"
type_synonym ref_icmp_map = "(IcmpConn \<times> unit TimedValue) list"
type_synonym ref_firewall = "(ref_udp_map, ref_tcp_map, ref_icmp_map) StatefullFirewall"

definition ref_env :: "(ref_udp_map, ref_tcp_map, ref_icmp_map) fw_env" where
  "ref_env = FwEnv ref_ipv4 (\<lambda>_. None) ref_udp ref_tcp ref_icmp
     (\<lambda>h. [ucast (th_source h), ucast (th_destination h), th_flags h]) (\<lambda>_ _ _. 7)
     (\<lambda>h. [ucast (ih_source h), ucast (ih_destination h), ih_next_level_protocol h]) (\<lambda>_. 9)
     (\<lambda>h b. ch_type h # ch_code h # b) (\<lambda>_ _. 5)
     (\<lambda>n a. drop_bit (32 - net_prefix_len n) a = drop_bit (32 - net_prefix_len n) (net_addr n))
     [] alist_lhm alist_lhm alist_lhm"

lemma ref_env_sel [simp]:
  "Ipv4Packet_new ref_env = ref_ipv4" "Ipv6Packet_new ref_env = (\<lambda>_. None)"
  "UdpPacket_new ref_env = ref_udp" "TcpPacket_new ref_env = ref_tcp"
  "IcmpPacket_new ref_env = ref_icmp" "local_addrs_cache ref_env = []"
  "udp_lhm ref_env = alist_lhm" "tcp_lhm ref_env = alist_lhm" "icmp_lhm ref_env = alist_lhm"
  by (simp_all add: ref_env_def)

interpretation ref: firewall_env ref_env "\<lambda>m. distinct (map fst m)" "\<lambda>m. distinct (map fst m)"
  "\<lambda>m. distinct (map fst m)"
  by (intro firewall_env.intro) (simp_all add: alist_lru.lru_axioms)

end
