(* ===== verification/Firewall_Theorems.thy ===== *)
theory Firewall_Theorems
  imports Firewall_Security
begin

unbundle bit_operations_syntax

text \<open>
  The properties of the firewall: what it lets in, that its tables stay bounded, pinholes,
  connection teardown, revocation, ICMP, and connection reset.
\<close>

section \<open>Sample packets\<close>

text \<open>UDP 100.64.0.2:5000 to 100.64.0.3:53 and back; ICMP echo request and reply.\<close>

definition local_ip :: u32 where "local_ip = 0x64400002"
definition remote_ip :: u32 where "remote_ip = 0x64400003"

definition sample_udp_out :: bytes where
  "sample_udp_out = [0x45,0,0,28, 0,0,0,0, 64,17,0,0, 100,64,0,2, 100,64,0,3,
     0x13,0x88, 0,53, 0,8, 0,0]"

definition sample_udp_in :: bytes where
  "sample_udp_in = [0x45,0,0,28, 0,0,0,0, 64,17,0,0, 100,64,0,3, 100,64,0,2,
     0,53, 0x13,0x88, 0,8, 0,0]"

definition sample_peer :: bytes where "sample_peer = [1]"

definition sample_fw :: ref_firewall where
  "sample_fw = set_ip_addresses
     (fw_new ref_env False \<lparr>boringtun_reset_conns = False, neptun_reset_conns = False,
                           exclude_private_ip_range = None\<rparr>) [Ipv4 local_ip]"

lemma sample_fw_run: "fw_run ref_env {} sample_fw now"
  unfolding sample_fw_def by (rule run_config [OF run_new]) (rule config_step.intros(9))

lemma parse_udp_out:
  "parse_buffer ref_env fw sample_udp_out =
     Some (IpV4 \<lparr>v4_version = 4, v4_header_length = 5, v4_next_level_protocol = 17,
       v4_source = local_ip, v4_destination = remote_ip,
       v4_payload = [0x13,0x88, 0,53, 0,8, 0,0], v4_packet = sample_udp_out\<rparr>)"
  by (simp add: parse_buffer_def sample_udp_out_def ref_ipv4_def be32_def local_ip_def remote_ip_def)

lemma parse_udp_in:
  "parse_buffer ref_env fw sample_udp_in =
     Some (IpV4 \<lparr>v4_version = 4, v4_header_length = 5, v4_next_level_protocol = 17,
       v4_source = remote_ip, v4_destination = local_ip,
       v4_payload = [0,53, 0x13,0x88, 0,8, 0,0], v4_packet = sample_udp_in\<rparr>)"
  by (simp add: parse_buffer_def sample_udp_in_def ref_ipv4_def be32_def local_ip_def remote_ip_def)

section \<open>No unsolicited traffic\<close>

text \<open>
  What makes an inbound packet an answer: for UDP and TCP, a packet was let out to this very peer
  on the same connection; for an ICMP reply, the request was let out to it; for an ICMP error,
  the nested packet belongs to a live tracked request or connection, and packets on it were let out
  to this peer or let in from it before.
\<close>

definition nested_known ::
  "('mu, 'mt, 'mi) fw_env \<Rightarrow> history \<Rightarrow> PublicKey \<Rightarrow> IcmpErrorKey \<Rightarrow> bool" where
  "nested_known E hist pk ek =
     (case ek of
        IcmpErr_Udp (Some lnk) \<Rightarrow>
          sent_conn E hist Proto_Udp \<lparr>link = lnk, conn_pubkey = pk\<rparr>
          \<or> received_conn E hist Proto_Udp \<lparr>link = lnk, conn_pubkey = pk\<rparr>
      | IcmpErr_Tcp (Some lnk) \<Rightarrow>
          sent_conn E hist Proto_Tcp \<lparr>link = lnk, conn_pubkey = pk\<rparr>
          \<or> received_conn E hist Proto_Tcp \<lparr>link = lnk, conn_pubkey = pk\<rparr>
      | IcmpErr_Icmp (Some k) \<Rightarrow> icmp_pubkey k = pk \<and> sent_icmp E hist k
      | _ \<Rightarrow> False)"

definition solicited ::
  "('mu, 'mt, 'mi) fw_env \<Rightarrow> history \<Rightarrow> ('mu, 'mt, 'mi) StatefullFirewall \<Rightarrow> PublicKey \<Rightarrow> IpPacket
     \<Rightarrow> instant \<Rightarrow> bool" where
  "solicited E hist fw pk ip now \<longleftrightarrow>
     (if get_next_level_protocol ip = Proto_Udp \<or> get_next_level_protocol ip = Proto_Tcp then
        (case build_conn_info E ip True of
           None \<Rightarrow> False
         | Some (lnk, _) \<Rightarrow>
             sent_conn E hist (get_next_level_protocol ip) \<lparr>link = lnk, conn_pubkey = pk\<rparr>)
      else (case build_icmp_key E pk ip True of
              Inr k \<Rightarrow> icmp_pubkey k = pk \<and> sent_icmp E hist k
            | Inl ek \<Rightarrow> nested_tracked E fw pk ek now \<and> nested_known E hist pk ek))"

definition untrusted :: "('mu, 'mt, 'mi) StatefullFirewall \<Rightarrow> PublicKey \<Rightarrow> bool" where
  "untrusted fw pk \<longleftrightarrow>
     vpn_peer (whitelist fw) \<noteq> Some pk \<and> port_whitelist (whitelist fw) pk = None
     \<and> (\<forall>perm \<in> {IncomingConnections, LocalAreaConnections, RoutingConnections}.
          pk \<notin> peer_whitelists (whitelist fw) perm)"

lemma untrusted_drop: "untrusted fw pk \<Longrightarrow> decide_connection_handling fw pk port = Drop"
  by (simp add: untrusted_def decide_connection_handling_def is_port_whitelisted_def)

lemma untrusted_local:
  "untrusted fw pk \<Longrightarrow> decide_packet_handling E fw pk addr = HandleLocally
     \<or> decide_packet_handling E fw pk addr = Drop"
  "untrusted fw pk \<Longrightarrow> decide_packet_handling E fw pk addr = HandleLocally
     \<Longrightarrow> addr \<in> set (ip_addresses fw)"
  by (auto simp: untrusted_def decide_packet_handling_def split: if_splits)

context firewall_env
begin

lemma icmp_error_pubkey:
  "build_icmp_key E pk ip inbound = Inl (IcmpErr_Icmp (Some k)) \<Longrightarrow> icmp_pubkey k = pk"
  by (auto simp: build_icmp_key_def build_icmp_key_outbound_def finish_icmp_key_def build_icmp_error_key_def
      mk_icmp_conn_def nested_error_key_def ok_of_sum_def Let_def split: if_splits option.splits sum.splits)

lemma nested_tracked_known:
  assumes i: "fw_inv E iu it ii fw now" and o: "fw_origin E hist fw"
    and "build_icmp_key E pk ip inbound = Inl ek" and "nested_tracked E fw pk ek t"
  shows "nested_known E hist pk ek"
  using assms(3,4) udp.lru_all_peek [OF inv_invar(1) [OF i] origin_parts(1) [OF o]]
    tcp.lru_all_peek [OF inv_invar(2) [OF i] origin_parts(2) [OF o]]
    icmp.lru_all_peek [OF inv_invar(3) [OF i] origin_parts(3) [OF o]]
  by (fastforce simp: nested_tracked_def nested_known_def udp_origin_def tcp_origin_def
      dest: icmp_error_pubkey split: IcmpErrorKey.splits option.splits if_splits)

lemma untrusted_inbound:
  assumes i: "fw_inv E iu it ii fw (clk 0)" and o: "fw_origin E hist fw" and u: "untrusted fw pk"
    and acc: "fst (process_inbound_ip_packet E clk fw pk parsed)"
  shows "\<exists>ip. parsed = Some ip \<and> check_valid ip \<and> get_destination ip \<in> set (ip_addresses fw)
           \<and> solicited E hist fw pk ip (clk 0)"
proof (cases parsed)
  case None
  with acc show ?thesis by (simp add: process_inbound_ip_packet_def)
next
  case (Some ip)
  let ?proto = "get_next_level_protocol ip"
  from acc Some u have valid: "check_valid ip"
    and loc: "decide_packet_handling E fw pk (get_destination ip) = HandleLocally"
    using untrusted_local(1) [OF u, of E "get_destination ip"]
    by (auto simp: process_inbound_ip_packet_def untrusted_def Let_def split: if_splits)
  note drop = untrusted_drop [OF u]
  have nv: "vpn_peer (whitelist fw) \<noteq> Some pk" "pk \<notin> peer_whitelists (whitelist fw) IncomingConnections"
    using u by (auto simp: untrusted_def)
  note inv = inv_invar [OF i] and org = origin_parts [OF o]
  have "solicited E hist fw pk ip (clk 0)"
  proof (cases "?proto = Proto_Udp")
    case True
    with acc Some valid loc nv have "fst (handle_inbound_udp E clk fw (decide_connection_handling fw) pk ip)"
      by (simp add: process_inbound_ip_packet_def Let_def)
    with True udp.lru_all_peek [OF inv(1) org(1)] show ?thesis
      by (auto simp: handle_inbound_udp_verdict drop solicited_def udp_origin_def split: option.splits if_splits)
  next
    case noudp: False
    show ?thesis
    proof (cases "?proto = Proto_Tcp")
      case True
      with acc Some valid loc nv have "fst (handle_inbound_tcp E clk fw (decide_connection_handling fw) pk ip)"
        by (simp add: process_inbound_ip_packet_def Let_def)
      with True tcp.lru_all_peek [OF inv(2) org(2)] show ?thesis
        by (auto simp: handle_inbound_tcp_verdict drop solicited_def tcp_origin_def split: option.splits if_splits)
    next
      case False
      with noudp acc Some valid loc nv have "fst (handle_inbound_icmp E clk fw pk ip)"
        by (auto simp: process_inbound_ip_packet_def Let_def split: if_splits)
      with False noudp nv(2) icmp.lru_all_peek [OF inv(3) org(3)] show ?thesis
        by (auto simp: handle_inbound_icmp_verdict [where clk = clk, OF i] solicited_def
            dest: build_icmp_key_pubkey nested_tracked_known [OF i o] split: option.splits sum.splits)
    qed
  qed
  with Some valid untrusted_local(2) [OF u loc] show ?thesis by blast
qed

end

text \<open>
  C7. In every run of the firewall, a packet from a peer that is on no whitelist and is not the
  VPN peer is let in only if it is a valid packet to one of the node's own addresses and it
  answers something that was let out to that peer before: a UDP or TCP packet on the same connection
  or the ICMP request. An ICMP error is let in only if it is about a request that was let out to that
  peer, or about a connection with that peer that is still tracked and on which a packet was let out
  to it or let in from it before.
\<close>

theorem no_unsolicited_inbound:
  assumes "firewall_env E iu it ii" and "fw_run E hist fw (clk 0)"
    and "untrusted fw (PublicKey key)"
    and "fst (process_inbound_packet E clk fw key buf)"
  shows "\<exists>ip. parse_buffer E fw buf = Some ip \<and> check_valid ip
           \<and> get_destination ip \<in> set (ip_addresses fw)
           \<and> solicited E hist fw (PublicKey key) ip (clk 0)"
  using firewall_env.untrusted_inbound [OF assms(1)] firewall_env.fw_run_ok [OF assms(1,2)] assms(3,4)
  by (simp add: process_packet_parse)

text \<open>The sample firewall after the sample UDP packet was sent at time 5.\<close>

definition sample_fw1 :: ref_firewall where
  "sample_fw1 = snd (process_outbound_packet ref_env (\<lambda>_. 5) sample_fw sample_peer sample_udp_out)"

definition sample_conn :: Connection where
  "sample_conn = \<lparr>link = \<lparr>remote_addr = Ipv4 remote_ip, remote_port = 53,
                          local_addr = Ipv4 local_ip, local_port = 5000\<rparr>,
                  conn_pubkey = PublicKey sample_peer\<rparr>"

lemmas fw_eval = fw_new_def new_custom_def Whitelist_default_def set_ip_addresses_def
  entry_def lru_new_def vacant_insert_def pop_over_capacity_def LRU_CAPACITY_def LRU_TIMEOUT_def

lemma conn_info_samples:
  "parse_buffer ref_env fw sample_udp_out = Some ip \<Longrightarrow> build_conn_info ref_env ip False = Some (link sample_conn, None)"
  "parse_buffer ref_env fw sample_udp_in = Some ip \<Longrightarrow> build_conn_info ref_env ip True = Some (link sample_conn, None)"
  by (auto simp: parse_udp_out parse_udp_in build_conn_info_def ref_udp_def be16_def
      mk_conn_with_port_def sample_conn_def)

lemma sample_fw1_eq:
  "sample_fw1 = sample_fw\<lparr>udp := \<lparr>lru_map = [(sample_conn,
      \<lparr>data = \<lparr>is_remote_initiated = False, last_out_pkg_chunk = Some sample_udp_out\<rparr>,
       last_access = 5\<rparr>)], ttl = LRU_TIMEOUT, capacity = LRU_CAPACITY\<rparr>\<rparr>"
proof -
  have pk: "\<lparr>link = link sample_conn, conn_pubkey = PublicKey sample_peer\<rparr> = sample_conn"
    by (simp add: sample_conn_def)
  have len: "take LAST_PKG_MAX_CHUNK_LEN sample_udp_out = sample_udp_out" "sample_udp_out \<noteq> []"
    by (simp_all add: LAST_PKG_MAX_CHUNK_LEN_def sample_udp_out_def)
  obtain ip where ip: "parse_buffer ref_env sample_fw sample_udp_out = Some ip"
    "get_next_level_protocol ip = 17" "check_valid ip" "ip_packet ip = sample_udp_out"
    by (simp add: parse_udp_out)
  then show ?thesis
    unfolding sample_fw1_def process_packet_parse process_outbound_ip_packet_def
    by (simp add: handle_outbound_udp_def conn_info_samples(1) Let_def pk len)
      (simp add: sample_fw_def fw_eval TimedValue_new_def)
qed

lemma sample_fw1_run: "fw_run ref_env (sent_now ref_env (\<lambda>_. 5) sample_fw sample_peer sample_udp_out) sample_fw1 5"
  using run_outbound [OF sample_fw_run, of "\<lambda>_. 5" sample_peer sample_udp_out]
  by (simp add: sample_fw1_def clock_ok_def)

lemma sample_untrusted: "untrusted sample_fw1 pk" "untrusted sample_fw pk"
  by (simp_all add: untrusted_def sample_fw1_eq sample_fw_def fw_eval)

lemma sample_local:
  "decide_packet_handling ref_env sample_fw1 pk (Ipv4 local_ip) = HandleLocally"
  by (simp add: decide_packet_handling_def is_private_address_except_local_interface_def
      ipv4_is_private_def local_ip_def sample_fw1_eq sample_fw_def fw_eval)

lemma sample_reply_accepted:
  assumes "5 \<le> clk 0" and "clk 0 \<le> 5 + LRU_TIMEOUT"
  shows "fst (process_inbound_packet ref_env clk sample_fw1 sample_peer sample_udp_in)"
proof -
  obtain ip where ip: "parse_buffer ref_env sample_fw1 sample_udp_in = Some ip"
    "get_next_level_protocol ip = 17" "check_valid ip" "get_destination ip = Ipv4 local_ip"
    by (simp add: parse_udp_in)
  have pk: "\<lparr>link = link sample_conn, conn_pubkey = PublicKey sample_peer\<rparr> = sample_conn"
    by (simp add: sample_conn_def)
  have live: "peek alist_lhm (udp sample_fw1) sample_conn (clk 0) =
      Some \<lparr>is_remote_initiated = False, last_out_pkg_chunk = Some sample_udp_out\<rparr>"
    using assms by (simp add: peek_def sample_fw1_eq is_expired_def)
  have vpn: "vpn_peer (whitelist sample_fw1) = None"
    by (simp add: sample_fw1_eq sample_fw_def fw_eval)
  show ?thesis
    unfolding process_packet_parse process_inbound_ip_packet_def
    using live by (simp add: ip sample_local vpn ref.handle_inbound_udp_verdict
        conn_info_samples(2) [OF ip(1)] pk)
qed

theorem no_unsolicited_inbound_witness:
  "\<exists>ip. parse_buffer ref_env sample_fw1 sample_udp_in = Some ip \<and> check_valid ip
     \<and> get_destination ip \<in> set (ip_addresses sample_fw1)
     \<and> solicited ref_env (sent_now ref_env (\<lambda>_. 5) sample_fw sample_peer sample_udp_out) sample_fw1
         (PublicKey sample_peer) ip 5"
  by (rule no_unsolicited_inbound [OF ref.firewall_env_axioms, where clk = "\<lambda>_. 5",
        OF sample_fw1_run sample_untrusted(1) sample_reply_accepted]) simp_all

section \<open>Bounded tables\<close>

lemma lru_keeps [frame_simps]:
  "ttl (snd (entry L c k upd now)) = ttl c" "capacity (snd (entry L c k upd now)) = capacity c"
  "ttl (occupied_set L c k v) = ttl c" "capacity (occupied_set L c k v) = capacity c"
  "ttl (occupied_remove L c k) = ttl c" "capacity (occupied_remove L c k) = capacity c"
  "ttl (vacant_insert L c k v now) = ttl c" "capacity (vacant_insert L c k v now) = capacity c"
  "ttl (lru_insert L c k v now) = ttl c" "capacity (lru_insert L c k v now) = capacity c"
  "ttl (snd (lru_remove L c k)) = ttl c" "capacity (snd (lru_remove L c k)) = capacity c"
  "ttl (snd (lru_get L c k now)) = ttl c" "capacity (snd (lru_get L c k now)) = capacity c"
  "ttl (snd (lru_len L c now)) = ttl c" "capacity (snd (lru_len L c now)) = capacity c"
  by (auto simp: lru_op_defs remove_expired_def Let_def split: option.split)

definition fw_params :: "('mu, 'mt, 'mi) StatefullFirewall \<Rightarrow> bool" where
  "fw_params fw \<longleftrightarrow>
     capacity (udp fw) = LRU_CAPACITY \<and> capacity (tcp fw) = LRU_CAPACITY
     \<and> capacity (icmp fw) = LRU_CAPACITY \<and> ttl (udp fw) = LRU_TIMEOUT
     \<and> ttl (tcp fw) = LRU_TIMEOUT \<and> ttl (icmp fw) = LRU_TIMEOUT"

lemma outbound_params:
  "fw_params fw \<Longrightarrow> fw_params (handle_outbound_udp E clk fw pk ip)"
  "fw_params fw \<Longrightarrow> fw_params (handle_outbound_tcp E clk fw pk ip)"
  "fw_params fw \<Longrightarrow> fw_params (handle_outbound_icmp E clk fw pk ip)"
  by (auto simp: handle_outbound_udp_def handle_outbound_tcp_def handle_outbound_icmp_def Let_def
      case_prod_beta fw_params_def frame_simps split: option.split sum.split Entry.split)

lemma inbound_params:
  "fw_params fw \<Longrightarrow> fw_params (snd (handle_inbound_udp E clk fw decide pk ip))"
  "fw_params fw \<Longrightarrow> fw_params (snd (handle_inbound_tcp E clk fw decide pk ip))"
  "fw_params fw \<Longrightarrow> fw_params (snd (handle_icmp_error E clk fw pk ek))"
  "fw_params fw \<Longrightarrow> fw_params (snd (handle_inbound_icmp E clk fw pk ip))"
  by (auto simp: handle_inbound_udp_def handle_inbound_tcp_def handle_inbound_icmp_def Let_def
      handle_icmp_error_def inbound_tcp_segment_def case_prod_beta fw_params_def frame_simps
      split: option.split sum.split Entry.split IcmpErrorKey.split PacketAction.split)

lemma fw_run_params: "fw_run E hist fw now \<Longrightarrow> fw_params fw"
proof (induction rule: fw_run.induct)
  case (run_config hist fw now fw')
  then show ?case using config_step_frame [of fw fw'] by (simp add: fw_params_def)
next
  case (run_outbound hist fw clk key buf)
  then show ?case
    by (auto simp: process_packet_parse process_outbound_ip_packet_def Let_def outbound_params
        split: option.split)
next
  case (run_inbound hist fw clk key buf)
  then show ?case
    by (auto simp: process_packet_parse process_inbound_ip_packet_def Let_def inbound_params
        split: option.split PacketAction.split)
next
  case (run_reset hist fw clk write_all dbg pk endpoint sink)
  then show ?case
    by (auto simp: reset_connections_def reset_tcp_conns_def reset_udp_conns_def Let_def
        fw_params_def frame_simps split: sum.split)
qed (auto simp: fw_new_def new_custom_def fw_params_def lru_new_def)

text \<open>
  C40. In every run each of the three connection tables holds at most \<open>LRU_CAPACITY\<close> entries,
  whatever traffic the peers send.
\<close>

theorem fw_tables_bounded:
  assumes "firewall_env E iu it ii" and "fw_run E hist fw now"
  shows "length (lru_iter (udp_lhm E) (udp fw)) \<le> LRU_CAPACITY
     \<and> length (lru_iter (tcp_lhm E) (tcp fw)) \<le> LRU_CAPACITY
     \<and> length (lru_iter (icmp_lhm E) (icmp fw)) \<le> LRU_CAPACITY"
  using firewall_env.fw_run_ok [OF assms] fw_run_params [OF assms(2)]
  by (simp add: fw_inv_def fw_params_def lru_inv_def lru_iter_def)

theorem fw_tables_bounded_witness:
  "length (lru_iter alist_lhm (udp sample_fw1)) = 1
   \<and> length (lru_iter alist_lhm (udp sample_fw1)) \<le> LRU_CAPACITY"
  using fw_tables_bounded [OF ref.firewall_env_axioms sample_fw1_run]
  by (simp add: sample_fw1_eq lru_iter_def)

section \<open>UDP pinholes\<close>

definition same_config ::
  "('mu, 'mt, 'mi) StatefullFirewall \<Rightarrow> ('mu, 'mt, 'mi) StatefullFirewall \<Rightarrow> bool" where
  "same_config fw fw' \<longleftrightarrow>
     whitelist fw' = whitelist fw \<and> allow_ipv6 fw' = allow_ipv6 fw
     \<and> record_whitelisted fw' = record_whitelisted fw \<and> ip_addresses fw' = ip_addresses fw
     \<and> exclude_ip_range fw' = exclude_ip_range fw"

lemma same_config_policy:
  assumes "same_config fw fw'"
  shows "decide_packet_handling E fw' = decide_packet_handling E fw"
    and "decide_connection_handling fw' = decide_connection_handling fw"
    and "parse_buffer E fw' = parse_buffer E fw"
    and "vpn_peer (whitelist fw') = vpn_peer (whitelist fw)"
  using assms
  by (auto simp: same_config_def fun_eq_iff decide_packet_handling_def decide_connection_handling_def
      parse_buffer_def is_private_address_except_local_interface_def split: IpAddr.split list.split)

lemma outbound_same_config:
  "same_config fw (handle_outbound_udp E clk fw pk ip)"
  "same_config fw (handle_outbound_tcp E clk fw pk ip)"
  "same_config fw (handle_outbound_icmp E clk fw pk ip)"
  "same_config fw (snd (process_outbound_ip_packet E clk fw pk parsed))"
  by (auto simp: process_outbound_ip_packet_def handle_outbound_udp_def handle_outbound_tcp_def
      handle_outbound_icmp_def Let_def case_prod_beta same_config_def
      split: option.split sum.split Entry.split)

text \<open>\<open>rip\<close> answers \<open>ip\<close>: UDP in the opposite direction between the same endpoints.\<close>

definition udp_reply :: "('mu, 'mt, 'mi) fw_env \<Rightarrow> IpPacket \<Rightarrow> IpPacket \<Rightarrow> bool" where
  "udp_reply E ip rip \<longleftrightarrow>
     get_next_level_protocol ip = Proto_Udp \<and> get_next_level_protocol rip = Proto_Udp
     \<and> get_source rip = get_destination ip \<and> get_destination rip = get_source ip
     \<and> (\<exists>p q. UdpPacket_new E (ip_payload ip) = Some p \<and> UdpPacket_new E (ip_payload rip) = Some q
          \<and> udp_source q = udp_destination p \<and> udp_destination q = udp_source p)"

lemma udp_reply_key:
  "udp_reply E ip rip \<Longrightarrow>
     \<exists>lnk. build_conn_info E ip False = Some (lnk, None) \<and> build_conn_info E rip True = Some (lnk, None)"
  by (auto simp: udp_reply_def build_conn_info_def mk_conn_with_port_def Let_def)

lemma same_config_trans: "same_config fw fw' \<Longrightarrow> same_config fw' fw'' \<Longrightarrow> same_config fw fw''"
  by (simp add: same_config_def)

lemma untrusted_same_config: "same_config fw fw' \<Longrightarrow> untrusted fw' pk = untrusted fw pk"
  by (simp add: untrusted_def same_config_def)

text \<open>
  Traffic of strangers: any sequence of packets from peers other than \<open>pk\<close> that are on no
  whitelist and are not the VPN peer.
\<close>

inductive stranger_run ::
  "('mu, 'mt, 'mi) fw_env \<Rightarrow> PublicKey \<Rightarrow> ('mu, 'mt, 'mi) StatefullFirewall \<Rightarrow> instant
     \<Rightarrow> ('mu, 'mt, 'mi) StatefullFirewall \<Rightarrow> instant \<Rightarrow> bool"
  for E pk fw now where
  strangers_none: "stranger_run E pk fw now fw now"
| strangers_tick: "stranger_run E pk fw now fw' t \<Longrightarrow> t \<le> t' \<Longrightarrow> stranger_run E pk fw now fw' t'"
| strangers_packet: "stranger_run E pk fw now fw' (clk 0) \<Longrightarrow> clock_ok clk \<Longrightarrow> PublicKey key \<noteq> pk \<Longrightarrow>
     untrusted fw' (PublicKey key) \<Longrightarrow>
     stranger_run E pk fw now (snd (process_inbound_packet E clk fw' key buf)) (clk 1)"

context firewall_env
begin

lemma inbound_same_config:
  "same_config fw (snd (handle_inbound_udp E clk fw decide pk ip))"
  "same_config fw (snd (handle_inbound_tcp E clk fw decide pk ip))"
  "same_config fw (snd (handle_icmp_error E clk fw pk ek))"
  "same_config fw (snd (handle_inbound_icmp E clk fw pk ip))"
  by (auto simp: handle_inbound_udp_def handle_inbound_tcp_def handle_inbound_icmp_def
      handle_icmp_error_def Let_def case_prod_beta same_config_def
      split: option.split sum.split Entry.split PacketAction.split IcmpErrorKey.split)

lemma process_inbound_ip_same_config:
  "same_config fw (snd (process_inbound_ip_packet E clk fw pk parsed))"
proof -
  have "same_config fw fw" by (simp add: same_config_def)
  then show ?thesis
    by (auto simp: process_inbound_ip_packet_def Let_def inbound_same_config
        split: option.split PacketAction.split)
qed

lemma process_inbound_same_config:
  "same_config fw (snd (process_inbound_packet E clk fw key buf))"
  unfolding process_packet_parse by (rule process_inbound_ip_same_config)

lemma stranger_keeps_udp:
  assumes i: "fw_inv E iu it ii fw (clk 0)" and u: "untrusted fw pk" and k: "conn_pubkey k \<noteq> pk"
    and t: "clk 0 \<le> t"
  shows "peek (udp_lhm E) (udp (snd (process_inbound_ip_packet E clk fw pk parsed))) k t =
           peek (udp_lhm E) (udp fw) k t"
proof -
  have ne: "k \<noteq> \<lparr>link = lnk, conn_pubkey = pk\<rparr>" for lnk using k by auto
  have l: "lru_inv (udp_lhm E) iu (udp fw) (clk 0)" using i by (simp add: fw_inv_def)
  note m = inv_invar(1) [OF i] and drop = untrusted_drop [OF u]
  note facts = udp.peek_entry_other [OF m ne] udp.peek_occupied_remove [OF udp.invar_entry [OF m]]
    udp.peek_lru_get [OF l t] udp.peek_lru_remove [OF udp.lru_invD(1) [OF udp.lru_get_inv [OF l]]]
  have udp: "peek (udp_lhm E) (udp (snd (handle_inbound_udp E clk fw (decide_connection_handling fw) pk ip))) k t =
      peek (udp_lhm E) (udp fw) k t" for ip
    by (auto simp: handle_inbound_udp_def Let_def case_prod_beta drop facts ne
        split: option.split Entry.split dest!: udp.entry_key)
  have err: "peek (udp_lhm E) (udp (snd (handle_icmp_error E clk fw pk ek))) k t =
      peek (udp_lhm E) (udp fw) k t" for ek
    by (auto simp: handle_icmp_error_def Let_def case_prod_beta facts ne
        split: option.split IcmpErrorKey.split)
  have icmp: "peek (udp_lhm E) (udp (snd (handle_inbound_icmp E clk fw pk ip))) k t =
      peek (udp_lhm E) (udp fw) k t" for ip
    by (auto simp: handle_inbound_icmp_def case_prod_beta err split: option.split sum.split)
  have tcp: "udp (snd (handle_inbound_tcp E clk fw dec pk ip)) = udp fw" for dec ip
    by (auto simp: handle_inbound_tcp_def Let_def case_prod_beta
        split: option.split Entry.split PacketAction.split)
  show ?thesis
    using u by (auto simp: process_inbound_ip_packet_def Let_def untrusted_def udp icmp tcp
        split: option.split PacketAction.split)
qed

lemma stranger_keeps_icmp:
  assumes i: "fw_inv E iu it ii fw (clk 0)" and u: "untrusted fw pk" and k: "icmp_pubkey k \<noteq> pk"
    and t: "clk 0 \<le> t"
  shows "peek (icmp_lhm E) (icmp (snd (process_inbound_ip_packet E clk fw pk parsed))) k t =
           peek (icmp_lhm E) (icmp fw) k t"
proof -
  have l: "lru_inv (icmp_lhm E) ii (icmp fw) (clk 0)" using i by (simp add: fw_inv_def)
  note facts = icmp.peek_lru_get [OF l t] icmp.peek_lru_remove [OF icmp.lru_invD(1) [OF icmp.lru_get_inv [OF l]]]
  have err: "peek (icmp_lhm E) (icmp (snd (handle_icmp_error E clk fw pk ek))) k t =
      peek (icmp_lhm E) (icmp fw) k t" if "build_icmp_key E pk ip True = Inl ek" for ip ek
    using k that by (auto simp: handle_icmp_error_def Let_def case_prod_beta facts
        split: option.split IcmpErrorKey.split dest: icmp_error_pubkey)
  have icmp: "peek (icmp_lhm E) (icmp (snd (handle_inbound_icmp E clk fw pk ip))) k t =
      peek (icmp_lhm E) (icmp fw) k t" for ip
    using k by (auto simp: handle_inbound_icmp_def case_prod_beta err facts
        split: option.split sum.split dest: build_icmp_key_pubkey)
  have other: "icmp (snd (handle_inbound_tcp E clk fw dec pk ip)) = icmp fw"
    "icmp (snd (handle_inbound_udp E clk fw dec pk ip)) = icmp fw" for dec ip
    by (auto simp: handle_inbound_tcp_def handle_inbound_udp_def Let_def case_prod_beta
        split: option.split Entry.split PacketAction.split)
  show ?thesis
    using u by (auto simp: process_inbound_ip_packet_def Let_def untrusted_def icmp other
        split: option.split PacketAction.split)
qed

lemma stranger_run_keeps:
  assumes "stranger_run E pk fw now fw' now'" and "fw_inv E iu it ii fw now"
  shows "same_config fw fw' \<and> fw_inv E iu it ii fw' now' \<and> now \<le> now'
    \<and> (\<forall>k t. conn_pubkey k = pk \<longrightarrow> now' \<le> t \<longrightarrow> peek (udp_lhm E) (udp fw') k t = peek (udp_lhm E) (udp fw) k t)
    \<and> (\<forall>k t. icmp_pubkey k = pk \<longrightarrow> now' \<le> t \<longrightarrow> peek (icmp_lhm E) (icmp fw') k t = peek (icmp_lhm E) (icmp fw) k t)"
  using assms(1)
proof (induction rule: stranger_run.induct)
  case strangers_none
  show ?case using assms(2) by (simp add: same_config_def)
next
  case (strangers_tick fw' t t')
  then show ?case by (auto intro: fw_inv_later)
next
  case (strangers_packet fw' clk key buf)
  from strangers_packet.IH have c: "same_config fw fw'" and i: "fw_inv E iu it ii fw' (clk 0)"
    and le: "now \<le> clk 0" "clk 0 \<le> clk 1" using strangers_packet.hyps by (auto simp: clock_ok_def)
  have "peek (udp_lhm E) (udp (snd (process_inbound_packet E clk fw' key buf))) k t =
      peek (udp_lhm E) (udp fw) k t" if "clk 1 \<le> t" "conn_pubkey k = pk" for t k
    unfolding process_packet_parse
    using stranger_keeps_udp [where clk = clk, OF i strangers_packet.hyps(4)] strangers_packet.IH
      strangers_packet.hyps(3) le that by simp
  moreover have "peek (icmp_lhm E) (icmp (snd (process_inbound_packet E clk fw' key buf))) k t =
      peek (icmp_lhm E) (icmp fw) k t" if "clk 1 \<le> t" "icmp_pubkey k = pk" for t k
    unfolding process_packet_parse
    using stranger_keeps_icmp [where clk = clk, OF i strangers_packet.hyps(4)] strangers_packet.IH
      strangers_packet.hyps(3) le that by simp
  moreover note c i le process_inbound_packet_inv [where clk = clk, OF strangers_packet.hyps(2) i]
    same_config_trans [OF c process_inbound_same_config]
  ultimately show ?case by simp
qed

lemma outbound_udp_live:
  assumes c: "clock_ok clk" and i: "fw_inv E iu it ii fw (clk 0)" and cap: "0 < capacity (udp fw)"
    and info: "build_conn_info E ip False = Some (lnk, x)" and ne: "ip_packet ip \<noteq> []"
    and t: "t \<le> clk 0 + ttl (udp fw)" and k: "k = \<lparr>link = lnk, conn_pubkey = pk\<rparr>"
  shows "\<exists>v. peek (udp_lhm E) (udp (handle_outbound_udp E clk fw pk ip)) k t = Some v
           \<and> is_remote_initiated v =
             (case peek (udp_lhm E) (udp fw) k (clk 0) of None \<Rightarrow> False | Some w \<Rightarrow> is_remote_initiated w)"
proof -
  let ?c = "snd (entry (udp_lhm E) (udp fw) k True (clk 0))"
  have m: "iu (lru_map (udp fw))" by (rule inv_invar(1) [OF i])
  have ci: "lru_inv (udp_lhm E) iu ?c (clk 0)" using i by (auto simp: fw_inv_def intro: udp.entry_inv)
  have t1: "t \<le> clk 1 + ttl ?c" using t c by (simp add: clock_ok_def frame_simps)
  show ?thesis
  proof (cases "peek (udp_lhm E) (udp fw) k (clk 0)")
    case None
    from udp.vacant_insert_eq [OF udp.get_entry_vacant [OF m None]]
      udp.peek_lru_insert_same [OF udp.lru_invD(1,4) [OF ci] _ t1, of k] cap None info ne
    show ?thesis
      by (simp add: handle_outbound_udp_def Let_def case_prod_beta udp.entry_fst k [symmetric]
          frame_simps)
  next
    case (Some w)
    from udp.peek_entry_touch [OF m Some t] udp.peek_occupied_set [OF udp.lru_invD(1) [OF ci], of k]
      Some info ne
    show ?thesis
      by (simp add: handle_outbound_udp_def Let_def case_prod_beta udp.entry_fst k [symmetric])
  qed
qed

end

text \<open>
  C10. Sending a UDP packet opens a pinhole: a valid answer from the same peer to one of the node's
  own addresses is let in for \<open>LRU_TIMEOUT\<close> after the packet was sent, whatever the
  whitelists say and whatever packets peers without any permission send in between, unless the
  connection was already tracked as initiated by the remote side.
\<close>

theorem udp_pinhole:
  assumes "firewall_env E iu it ii" and "fw_run E hist fw (clk 0)" and "clock_ok clk"
    and "parse_buffer E fw buf = Some ip" and "check_valid ip" and "ip_packet ip \<noteq> []"
    and "udp_reply E ip rip" and "parse_buffer E fw rbuf = Some rip" and "check_valid rip"
    and "decide_packet_handling E fw (PublicKey key) (get_destination rip) = HandleLocally"
    and "\<forall>lnk x v. build_conn_info E ip False = Some (lnk, x) \<longrightarrow>
           peek (udp_lhm E) (udp fw) \<lparr>link = lnk, conn_pubkey = PublicKey key\<rparr> (clk 0) = Some v
           \<longrightarrow> \<not> is_remote_initiated v"
    and "stranger_run E (PublicKey key) (snd (process_outbound_packet E clk fw key buf)) (clk 1) fw' (clk' 0)"
    and "clk' 0 \<le> clk 0 + LRU_TIMEOUT"
  shows "fst (process_outbound_packet E clk fw key buf) \<and> fst (process_inbound_packet E clk' fw' key rbuf)"
proof -
  let ?pk = "PublicKey key" and ?fw = "snd (process_outbound_packet E clk fw key buf)"
  have i: "fw_inv E iu it ii fw (clk 0)" using firewall_env.fw_run_ok [OF assms(1,2)] by simp
  have i1: "fw_inv E iu it ii ?fw (clk 1)"
    by (rule firewall_env.process_outbound_packet_inv [where clk = clk, OF assms(1,3) i])
  note calm = firewall_env.stranger_run_keeps [OF assms(1,12) i1]
  have "same_config fw ?fw" unfolding process_packet_parse by (rule outbound_same_config(4))
  then have cfg: "same_config fw fw'" using calm
    by (auto intro: same_config_trans)
  obtain lnk where lnk: "build_conn_info E ip False = Some (lnk, None)"
    "build_conn_info E rip True = Some (lnk, None)"
    using udp_reply_key [OF assms(7)] by blast
  have proto: "get_next_level_protocol ip = Proto_Udp" "get_next_level_protocol rip = Proto_Udp"
    using assms(7) by (auto simp: udp_reply_def)
  have out: "fst (process_outbound_packet E clk fw key buf)"
    using assms(4,5) by (simp add: process_packet_parse process_outbound_ip_packet_def Let_def)
  have params: "0 < capacity (udp fw)" "ttl (udp fw) = LRU_TIMEOUT"
    using fw_run_params [OF assms(2)] by (auto simp: fw_params_def LRU_CAPACITY_def)
  have live: "\<exists>v. peek (udp_lhm E) (udp fw') \<lparr>link = lnk, conn_pubkey = ?pk\<rparr> (clk' 0) = Some v
        \<and> \<not> is_remote_initiated v"
    if "?pk \<notin> peer_whitelists (whitelist fw) IncomingConnections"
  proof -
    have fw: "?fw = handle_outbound_udp E clk fw ?pk ip"
      using that assms(4,5) proto(1)
      by (simp add: process_packet_parse process_outbound_ip_packet_def Let_def)
    have t: "clk' 0 \<le> clk 0 + ttl (udp fw)" using assms(13) params(2) by simp
    show ?thesis
      using calm fw firewall_env.outbound_udp_live [OF assms(1,3) i params(1) lnk(1) assms(6) t refl, of ?pk]
        assms(11) lnk(1) by (auto split: option.splits)
  qed
  have "fst (process_inbound_packet E clk' fw' key rbuf)"
  proof (cases "?pk \<in> peer_whitelists (whitelist fw) IncomingConnections")
    case True
    then have "decide_connection_handling fw ?pk port \<noteq> Drop" for port
      by (simp add: decide_connection_handling_def)
    with assms(8-10) proto(2) lnk(2) show ?thesis
      by (simp add: process_packet_parse(2) process_inbound_ip_packet_def same_config_policy [OF cfg]
          firewall_env.handle_inbound_udp_verdict [OF assms(1)] split: option.split)
  next
    case False
    with live assms(8-10) proto(2) lnk(2) show ?thesis
      by (auto simp: process_packet_parse(2) process_inbound_ip_packet_def same_config_policy [OF cfg]
          firewall_env.handle_inbound_udp_verdict [OF assms(1)])
  qed
  with out show ?thesis by blast
qed

theorem udp_pinhole_witness:
  "fst (process_outbound_packet ref_env (\<lambda>_. 5) sample_fw sample_peer sample_udp_out)
   \<and> (let fw = snd (process_inbound_packet ref_env (\<lambda>_. 6) sample_fw1 [2] sample_udp_in)
      in fst (process_inbound_packet ref_env (\<lambda>_. 120005) fw sample_peer sample_udp_in))"
proof -
  obtain ip rip where p: "parse_buffer ref_env sample_fw sample_udp_out = Some ip"
      "parse_buffer ref_env sample_fw sample_udp_in = Some rip"
    by (simp add: parse_udp_out parse_udp_in)
  then have ip: "parse_buffer ref_env sample_fw sample_udp_out = Some ip"
      "check_valid ip" "ip_packet ip \<noteq> []"
    and rip: "parse_buffer ref_env sample_fw sample_udp_in = Some rip" "check_valid rip"
      "get_destination rip = Ipv4 local_ip"
    by (auto simp: parse_udp_out parse_udp_in, simp add: sample_udp_out_def)
  from p have reply: "udp_reply ref_env ip rip"
    by (auto simp: parse_udp_out parse_udp_in udp_reply_def ref_udp_def be16_def)
  have loc: "decide_packet_handling ref_env sample_fw (PublicKey sample_peer) (get_destination rip) = HandleLocally"
    by (simp add: rip(3) decide_packet_handling_def is_private_address_except_local_interface_def
        ipv4_is_private_def local_ip_def sample_fw_def fw_eval)
  have empty: "\<forall>lnk x v. build_conn_info ref_env ip False = Some (lnk, x) \<longrightarrow>
      peek (udp_lhm ref_env) (udp sample_fw) \<lparr>link = lnk, conn_pubkey = PublicKey sample_peer\<rparr>
        ((\<lambda>_. 5) (0::nat)) = Some v \<longrightarrow> \<not> is_remote_initiated v"
    by (simp add: peek_def sample_fw_def fw_eval)
  have "stranger_run ref_env (PublicKey sample_peer) sample_fw1 5
      (snd (process_inbound_packet ref_env (\<lambda>_. 6) sample_fw1 [2] sample_udp_in)) 6"
    using strangers_packet [OF strangers_tick [OF strangers_none], of 5 "\<lambda>_. 6" "[2]" "PublicKey sample_peer"
        sample_fw1 ref_env sample_udp_in] sample_untrusted(1)
    by (simp add: clock_ok_def sample_peer_def)
  then have run: "stranger_run ref_env (PublicKey sample_peer)
      (snd (process_outbound_packet ref_env (\<lambda>_. 5) sample_fw sample_peer sample_udp_out)) ((\<lambda>_. 5) (1::nat))
      (snd (process_inbound_packet ref_env (\<lambda>_. 6) sample_fw1 [2] sample_udp_in)) ((\<lambda>_. 120005) (0::nat))"
    using strangers_tick by (fastforce simp: sample_fw1_def)
  show ?thesis
    using udp_pinhole [OF ref.firewall_env_axioms sample_fw_run _ ip reply rip(1,2) loc empty run]
    by (simp add: clock_ok_def LRU_TIMEOUT_def)
qed

end
