(* ===== verification/Firewall_Lifecycle.thy ===== *)
theory Firewall_Lifecycle
  imports Firewall_Theorems
begin

unbundle bit_operations_syntax

text \<open>
  The life of a tracked connection: ICMP replies are consumed, TCP connections are taken down
  by the FIN handshake and expire, revoked permissions take effect on connections that exist,
  and the reset packets.
\<close>

section \<open>ICMP replies\<close>

context firewall_env
begin

lemma handle_inbound_icmp_consumes:
  assumes i: "fw_inv E iu it ii fw (clk 0)"
    and "pk \<notin> peer_whitelists (whitelist fw) IncomingConnections"
    and "build_icmp_key E pk ip True = Inr k"
    and "fst (handle_inbound_icmp E clk fw pk ip)" and t: "clk 0 \<le> t"
  shows "peek (icmp_lhm E) (icmp (snd (handle_inbound_icmp E clk fw pk ip))) k t = None"
proof -
  let ?c = "snd (lru_get (icmp_lhm E) (icmp fw) k (clk 0))"
  have "lru_inv (icmp_lhm E) ii ?c (clk 0)" using i by (auto simp: fw_inv_def intro: icmp.lru_get_inv)
  from icmp.peek_lru_remove [OF icmp.lru_invD(1) [OF this], of k k t] assms(2-4) show ?thesis
    by (auto simp: handle_inbound_icmp_def case_prod_beta split: option.splits if_splits)
qed

end

text \<open>
  A packet to one of the node's own addresses from a peer that may not open connections: the
  packets that only the connection tables can let in.
\<close>

definition guarded ::
  "('mu, 'mt, 'mi) fw_env \<Rightarrow> ('mu, 'mt, 'mi) StatefullFirewall \<Rightarrow> PublicKey \<Rightarrow> IpPacket \<Rightarrow> bool" where
  "guarded E fw pk ip \<longleftrightarrow>
     check_valid ip \<and> vpn_peer (whitelist fw) \<noteq> Some pk
     \<and> pk \<notin> peer_whitelists (whitelist fw) IncomingConnections
     \<and> port_whitelist (whitelist fw) pk = None
     \<and> decide_packet_handling E fw pk (get_destination ip) = HandleLocally"

lemma guarded_drop: "guarded E fw pk ip \<Longrightarrow> decide_connection_handling fw pk port = Drop"
  by (simp add: guarded_def decide_connection_handling_def is_port_whitelisted_def)

lemma guarded_same_config: "same_config fw fw' \<Longrightarrow> guarded E fw' pk ip = guarded E fw pk ip"
  by (simp add: guarded_def same_config_policy) (simp add: same_config_def)

lemma inbound_same_config_parse:
  "same_config fw fw' \<Longrightarrow> parse_buffer E fw buf = Some ip \<Longrightarrow>
     process_inbound_packet E clk fw' key buf =
       process_inbound_ip_packet E clk fw' (PublicKey key) (Some ip)"
  by (simp add: process_packet_parse(2) same_config_policy(3))

lemma guarded_inbound:
  assumes "guarded E fw pk ip"
  shows "get_next_level_protocol ip = Proto_Udp \<Longrightarrow> process_inbound_ip_packet E clk fw pk (Some ip) =
           handle_inbound_udp E clk fw (decide_connection_handling fw) pk ip"
    and "get_next_level_protocol ip = Proto_Tcp \<Longrightarrow> process_inbound_ip_packet E clk fw pk (Some ip) =
           handle_inbound_tcp E clk fw (decide_connection_handling fw) pk ip"
    and "get_next_level_protocol ip = Proto_Icmp \<Longrightarrow> process_inbound_ip_packet E clk fw pk (Some ip) =
           handle_inbound_icmp E clk fw pk ip"
  using assms by (simp_all add: guarded_def process_inbound_ip_packet_def Let_def)

text \<open>
  \<open>rip\<close> answers \<open>ip\<close>: the reply type that belongs to the type of the request, in the
  opposite direction, with the same identifier and sequence number.
\<close>

definition icmp_reply :: "('mu, 'mt, 'mi) fw_env \<Rightarrow> IpPacket \<Rightarrow> IpPacket \<Rightarrow> bool" where
  "icmp_reply E ip rip \<longleftrightarrow>
     get_source rip = get_destination ip \<and> get_destination rip = get_source ip
     \<and> (\<exists>p q. IcmpPacket_new E (ip_payload ip) = Some p \<and> IcmpPacket_new E (ip_payload rip) = Some q
          \<and> (icmp_type p, icmp_type q) \<in> {(8, 0), (13, 14), (15, 16), (17, 18), (128, 129)}
          \<and> 4 \<le> length (icmp_payload p) \<and> take 4 (icmp_payload q) = take 4 (icmp_payload p))"

lemma identifier_take: "identifier_of b = identifier_of (take 4 b)"
  by (simp add: identifier_of_def numeral_eq_Suc split: list.split)

lemma icmp_reply_key:
  assumes "icmp_reply E ip rip"
  shows "\<exists>k p. build_icmp_key E pk ip False = Inr k \<and> build_icmp_key E pk rip True = Inr k
    \<and> IcmpPacket_new E (ip_payload rip) = Some p \<and> icmp_type p \<notin> set (BLOCKED_TYPES rip)"
proof -
  from assms obtain p q where pq: "IcmpPacket_new E (ip_payload ip) = Some p" "IcmpPacket_new E (ip_payload rip) = Some q"
    "(icmp_type p, icmp_type q) \<in> {(8, 0), (13, 14), (15, 16), (17, 18), (128, 129)}"
    "4 \<le> length (icmp_payload p)" "take 4 (icmp_payload q) = take 4 (icmp_payload p)"
    "get_source rip = get_destination ip" "get_destination rip = get_source ip"
    by (auto simp: icmp_reply_def)
  obtain b0 b1 b2 b3 r where "icmp_payload p = b0 # b1 # b2 # b3 # r"
    using pq(4) by (auto simp: numeral_eq_Suc Suc_le_length_iff)
  then obtain i where "identifier_of (icmp_payload p) = Some i" by (simp add: identifier_of_def)
  then have "identifier_of (icmp_payload p) = Some i" "identifier_of (icmp_payload q) = Some i"
    using pq(5) identifier_take by metis+
  then show ?thesis
    using pq(1-3,6,7)
    by (cases rip) (auto simp: build_icmp_key_def build_icmp_key_outbound_def finish_icmp_key_def mk_icmp_conn_def
        reply_type_of_request_def is_tracked_reply_def ICMP_BLOCKED_TYPES_def ICMPV6_BLOCKED_TYPES_def)
qed

context firewall_env
begin

lemma outbound_icmp_live:
  assumes c: "clock_ok clk" and i: "fw_inv E iu it ii fw (clk 0)" and cap: "0 < capacity (icmp fw)"
    and k: "build_icmp_key E pk ip False = Inr k" and t: "t \<le> clk 0 + ttl (icmp fw)"
  shows "peek (icmp_lhm E) (icmp (handle_outbound_icmp E clk fw pk ip)) k t \<noteq> None"
proof -
  let ?c = "snd (entry (icmp_lhm E) (icmp fw) k True (clk 0))"
  have m: "ii (lru_map (icmp fw))" by (rule inv_invar(3) [OF i])
  have ci: "lru_inv (icmp_lhm E) ii ?c (clk 0)" using i by (auto simp: fw_inv_def intro: icmp.entry_inv)
  have t1: "t \<le> clk 1 + ttl ?c" using t c by (simp add: clock_ok_def frame_simps)
  show ?thesis
  proof (cases "peek (icmp_lhm E) (icmp fw) k (clk 0)")
    case None
    from icmp.vacant_insert_eq [OF icmp.get_entry_vacant [OF m None]]
      icmp.peek_lru_insert_same [OF icmp.lru_invD(1,4) [OF ci] _ t1, of k] cap None k
    show ?thesis by (simp add: handle_outbound_icmp_def case_prod_beta icmp.entry_fst frame_simps)
  next
    case (Some w)
    from icmp.peek_entry_touch [OF m Some t] Some k
    show ?thesis by (simp add: handle_outbound_icmp_def case_prod_beta icmp.entry_fst)
  qed
qed

lemma inbound_icmp_packet:
  assumes "vpn_peer (whitelist fw) \<noteq> Some pk" and "check_valid ip"
    and "decide_packet_handling E fw pk (get_destination ip) = HandleLocally"
    and "get_next_level_protocol ip = Proto_Icmp \<or> get_next_level_protocol ip = Proto_Icmpv6 \<and> allow_ipv6 fw"
  shows "process_inbound_ip_packet E clk fw pk (Some ip) = handle_inbound_icmp E clk fw pk ip"
  using assms by (auto simp: process_inbound_ip_packet_def Let_def)

end

text \<open>
  C16. An ICMP reply is let in exactly once per request: after a request was let out to a peer
  without the permission for incoming connections (and not the VPN peer), the peer's reply, addressed
  to the node, is let in within \<open>LRU_TIMEOUT\<close>, and the same reply is dropped when it comes
  again, whatever packets other peers without any permission send before, between and after. This holds
  for ICMP and, where IPv6 is allowed, for ICMPv6.
\<close>

theorem icmp_reply_accepted_once:
  assumes "firewall_env E iu it ii" and "fw_run E hist fw (clk 0)" and "clock_ok clk" and "clock_ok clk'"
    and "parse_buffer E fw buf = Some ip" and "check_valid ip"
    and "get_next_level_protocol ip = Proto_Icmp \<or> get_next_level_protocol ip = Proto_Icmpv6"
    and "icmp_reply E ip rip" and "parse_buffer E fw rbuf = Some rip" and "check_valid rip"
    and "get_next_level_protocol rip = Proto_Icmp \<or> get_next_level_protocol rip = Proto_Icmpv6 \<and> allow_ipv6 fw"
    and "decide_packet_handling E fw (PublicKey key) (get_destination rip) = HandleLocally"
    and "PublicKey key \<notin> peer_whitelists (whitelist fw) IncomingConnections"
    and "vpn_peer (whitelist fw) \<noteq> Some (PublicKey key)"
    and "stranger_run E (PublicKey key) (snd (process_outbound_packet E clk fw key buf)) (clk 1) fw1 (clk' 0)"
    and "clk' 0 \<le> clk 0 + LRU_TIMEOUT"
    and "stranger_run E (PublicKey key) (snd (process_inbound_packet E clk' fw1 key rbuf)) (clk' 1) fw2 (clk'' 0)"
  shows "fst (process_outbound_packet E clk fw key buf) \<and> fst (process_inbound_packet E clk' fw1 key rbuf)
    \<and> \<not> fst (process_inbound_packet E clk'' fw2 key rbuf)"
proof -
  let ?pk = "PublicKey key" and ?fw = "snd (process_outbound_packet E clk fw key buf)"
    and ?r = "process_inbound_packet E clk' fw1 key rbuf"
  have i: "fw_inv E iu it ii fw (clk 0)" using firewall_env.fw_run_ok [OF assms(1,2)] by simp
  obtain k p where k: "build_icmp_key E ?pk ip False = Inr k" "build_icmp_key E ?pk rip True = Inr k"
    and p: "IcmpPacket_new E (ip_payload rip) = Some p" "icmp_type p \<notin> set (BLOCKED_TYPES rip)"
    using icmp_reply_key [OF assms(8)] by blast
  note kpk = build_icmp_key_pubkey [OF k(1)]
  have out: "process_outbound_packet E clk fw key buf = (True, handle_outbound_icmp E clk fw ?pk ip)"
    using assms(5-7,13) by (auto simp: process_packet_parse process_outbound_ip_packet_def Let_def)
  have i1: "fw_inv E iu it ii ?fw (clk 1)"
    by (rule firewall_env.process_outbound_packet_inv [where clk = clk, OF assms(1,3) i])
  note calm1 = firewall_env.stranger_run_keeps [OF assms(1,15) i1]
  have cfg1: "same_config fw fw1"
    using calm1 outbound_same_config(3) [of fw E clk ?pk ip] by (auto simp: out intro: same_config_trans)
  have i2: "fw_inv E iu it ii (snd ?r) (clk' 1)"
    by (rule firewall_env.process_inbound_packet_inv [where clk = clk', OF assms(1,4)]) (use calm1 in blast)
  note calm2 = firewall_env.stranger_run_keeps [OF assms(1,17) i2]
  have cfg2: "same_config fw fw2"
    using cfg1 calm2 firewall_env.process_inbound_same_config [OF assms(1), of fw1 clk' key rbuf]
    by (blast intro: same_config_trans)
  have step: "process_inbound_packet E c fw' key rbuf = handle_inbound_icmp E c fw' ?pk rip"
    and nw: "?pk \<notin> peer_whitelists (whitelist fw') IncomingConnections" if "same_config fw fw'" for c fw'
    using that assms(9-14) firewall_env.inbound_icmp_packet [OF assms(1), of fw' ?pk rip c]
      same_config_policy [OF that]
    by (auto simp: process_packet_parse(2) same_config_def)
  have "peek (icmp_lhm E) (icmp ?fw) k (clk' 0) \<noteq> None"
    using firewall_env.outbound_icmp_live [where clk = clk, OF assms(1,3) i _ k(1)] assms(16)
      fw_run_params [OF assms(2)] by (simp add: out fw_params_def LRU_CAPACITY_def)
  then have "peek (icmp_lhm E) (icmp fw1) k (clk' 0) \<noteq> None" using calm1 kpk by simp
  then have acc: "fst ?r"
    using firewall_env.handle_inbound_icmp_verdict [where clk = clk', OF assms(1)] calm1 k(2) p
    by (simp add: step [OF cfg1] nw [OF cfg1])
  have "clk' 0 \<le> clk'' 0" using calm2 assms(4) by (auto simp: clock_ok_def)
  then have "peek (icmp_lhm E) (icmp (snd ?r)) k (clk'' 0) = None"
    using firewall_env.handle_inbound_icmp_consumes [where clk = clk', OF assms(1) _ nw [OF cfg1] k(2)]
      acc calm1 by (simp add: step [OF cfg1])
  then have "peek (icmp_lhm E) (icmp fw2) k (clk'' 0) = None" using calm2 kpk by simp
  then have "\<not> fst (process_inbound_packet E clk'' fw2 key rbuf)"
    using firewall_env.handle_inbound_icmp_verdict [where clk = clk'', OF assms(1)] calm2 k(2) p
    by (simp add: step [OF cfg2] nw [OF cfg2])
  with acc out show ?thesis by simp
qed

text \<open>ICMP echo request 100.64.0.2 to 100.64.0.3 and the reply.\<close>

definition sample_echo_out :: bytes where
  "sample_echo_out = [0x45,0,0,28, 0,0,0,0, 64,1,0,0, 100,64,0,2, 100,64,0,3,
     8,0,0,0, 1,2,3,4]"

definition sample_echo_in :: bytes where
  "sample_echo_in = [0x45,0,0,28, 0,0,0,0, 64,1,0,0, 100,64,0,3, 100,64,0,2,
     0,0,0,0, 1,2,3,4]"

definition sample_icmp :: IcmpConn where
  "sample_icmp = \<lparr>icmp_remote_addr = Ipv4 remote_ip, icmp_local_addr = Ipv4 local_ip,
     response_type = 0, identifier_sequence = u32_from_ne_bytes 1 2 3 4,
     icmp_pubkey = PublicKey sample_peer\<rparr>"

lemma parse_echo:
  "parse_buffer ref_env fw sample_echo_out =
     Some (IpV4 \<lparr>v4_version = 4, v4_header_length = 5, v4_next_level_protocol = 1,
       v4_source = local_ip, v4_destination = remote_ip,
       v4_payload = [8,0,0,0, 1,2,3,4], v4_packet = sample_echo_out\<rparr>)"
  "parse_buffer ref_env fw sample_echo_in =
     Some (IpV4 \<lparr>v4_version = 4, v4_header_length = 5, v4_next_level_protocol = 1,
       v4_source = remote_ip, v4_destination = local_ip,
       v4_payload = [0,0,0,0, 1,2,3,4], v4_packet = sample_echo_in\<rparr>)"
  by (simp_all add: parse_buffer_def sample_echo_out_def sample_echo_in_def ref_ipv4_def be32_def
      local_ip_def remote_ip_def)

lemma echo_keys:
  "parse_buffer ref_env fw sample_echo_out = Some ip \<Longrightarrow>
     build_icmp_key ref_env (PublicKey sample_peer) ip False = Inr sample_icmp"
  "parse_buffer ref_env fw sample_echo_in = Some ip \<Longrightarrow>
     build_icmp_key ref_env (PublicKey sample_peer) ip True = Inr sample_icmp"
  by (auto simp: parse_echo build_icmp_key_def build_icmp_key_outbound_def ref_icmp_def
      reply_type_of_request_def is_tracked_reply_def finish_icmp_key_def identifier_of_def
      mk_icmp_conn_def sample_icmp_def)

definition sample_fw2 :: ref_firewall where
  "sample_fw2 = snd (process_outbound_packet ref_env (\<lambda>_. 5) sample_fw sample_peer sample_echo_out)"

lemma sample_fw2_eq:
  "sample_fw2 = sample_fw\<lparr>icmp := \<lparr>lru_map = [(sample_icmp, \<lparr>data = (), last_access = 5\<rparr>)],
     ttl = LRU_TIMEOUT, capacity = LRU_CAPACITY\<rparr>\<rparr>"
proof -
  obtain ip where ip: "parse_buffer ref_env sample_fw sample_echo_out = Some ip"
    "get_next_level_protocol ip = 1" "check_valid ip"
    by (simp add: parse_echo)
  then show ?thesis
    unfolding sample_fw2_def process_packet_parse process_outbound_ip_packet_def
    by (simp add: handle_outbound_icmp_def echo_keys(1) Let_def)
      (simp add: sample_fw_def fw_eval TimedValue_new_def)
qed

lemma sample_guarded:
  "get_destination ip = Ipv4 local_ip \<Longrightarrow> check_valid ip \<Longrightarrow> guarded ref_env sample_fw pk ip"
  by (simp add: guarded_def decide_packet_handling_def ipv4_is_private_def local_ip_def
      is_private_address_except_local_interface_def sample_fw_def fw_eval)

theorem icmp_reply_accepted_once_witness:
  "fst (process_outbound_packet ref_env (\<lambda>_. 5) sample_fw sample_peer sample_echo_out)
   \<and> fst (process_inbound_packet ref_env (\<lambda>_. 6) sample_fw2 sample_peer sample_echo_in)
   \<and> \<not> fst (process_inbound_packet ref_env (\<lambda>_. 7)
        (snd (process_inbound_packet ref_env (\<lambda>_. 6) sample_fw2 sample_peer sample_echo_in))
        sample_peer sample_echo_in)"
proof -
  obtain ip rip where p: "parse_buffer ref_env sample_fw sample_echo_out = Some ip"
      "parse_buffer ref_env sample_fw sample_echo_in = Some rip"
    by (simp add: parse_echo)
  then have ip: "get_next_level_protocol ip = 1" "check_valid ip"
    and rip: "get_next_level_protocol rip = 1" "check_valid rip" "get_destination rip = Ipv4 local_ip"
    and reply: "icmp_reply ref_env ip rip"
    by (auto simp: parse_echo icmp_reply_def ref_icmp_def)
  have loc: "decide_packet_handling ref_env sample_fw (PublicKey sample_peer) (get_destination rip) = HandleLocally"
    by (simp add: rip(3) decide_packet_handling_def is_private_address_except_local_interface_def
        ipv4_is_private_def local_ip_def sample_fw_def fw_eval)
  have nw: "PublicKey sample_peer \<notin> peer_whitelists (whitelist sample_fw) IncomingConnections"
    "vpn_peer (whitelist sample_fw) \<noteq> Some (PublicKey sample_peer)"
    by (simp_all add: sample_fw_def fw_eval)
  have run: "stranger_run ref_env (PublicKey sample_peer) fw t fw t'" if "t \<le> t'" for fw t t'
    using strangers_tick [OF strangers_none that] .
  show ?thesis
    using icmp_reply_accepted_once [where clk = "\<lambda>_. 5" and clk' = "\<lambda>_. 6" and clk'' = "\<lambda>_. 7",
        OF ref.firewall_env_axioms sample_fw_run _ _ p(1) ip(2) _ reply p(2) rip(2) _ loc nw run _ run]
      ip(1) rip(1)
    by (simp add: sample_fw2_def clock_ok_def LRU_TIMEOUT_def)
qed

section \<open>TCP teardown\<close>

lemma peek_earlier: "peek L c k t' = Some v \<Longrightarrow> t \<le> t' \<Longrightarrow> peek L c k t = Some v"
  by (auto simp: peek_def is_expired_def split: option.splits if_splits)

text \<open>The flag combinations the handlers look at.\<close>

definition closes_write :: "TcpPacket \<Rightarrow> bool" where
  "closes_write p \<longleftrightarrow> tcp_flags p AND TCP_FIRST_PKT_MASK \<noteq> TcpFlags_SYN
     \<and> tcp_flags p AND TcpFlags_RST \<noteq> TcpFlags_RST \<and> tcp_flags p AND TcpFlags_FIN = TcpFlags_FIN"

definition plain_ack :: "TcpPacket \<Rightarrow> bool" where
  "plain_ack p \<longleftrightarrow> tcp_flags p AND TcpFlags_RST \<noteq> TcpFlags_RST
     \<and> tcp_flags p AND TcpFlags_FIN \<noteq> TcpFlags_FIN \<and> tcp_flags p AND TcpFlags_ACK = TcpFlags_ACK"

context firewall_env
begin

lemma outbound_fin:
  assumes m: "it (lru_map (tcp fw))" and info: "build_conn_info E ip False = Some (lnk, Some p)"
    and fin: "closes_write p" and k: "k = \<lparr>link = lnk, conn_pubkey = pk\<rparr>"
    and live: "peek (tcp_lhm E) (tcp fw) k (clk 0) = Some v"
  shows "peek (tcp_lhm E) (tcp (handle_outbound_tcp E clk fw pk ip)) k t =
           map_option (\<lambda>_. v\<lparr>tx_alive := False\<rparr>) (peek (tcp_lhm E) (tcp fw) k t)"
  using tcp.peek_occupied_set [OF tcp.invar_entry [OF m, of k False "clk 0"], of k _ k t]
    tcp.peek_entry_look [OF m live] tcp.entry_fst [of "tcp fw" k False "clk 0"] info fin live
  by (simp add: handle_outbound_tcp_def Let_def case_prod_beta closes_write_def k [symmetric])

lemma inbound_tcp_occupied:
  assumes "build_conn_info E ip True = Some (lnk, Some p)"
    and k: "k = \<lparr>link = lnk, conn_pubkey = pk\<rparr>"
    and live: "peek (tcp_lhm E) (tcp fw) k (clk 0) = Some v" and "\<not> conn_remote_initiated v"
  shows "handle_inbound_tcp E clk fw decide pk ip =
     (let (ok, c') = inbound_tcp_segment (tcp_lhm E) (snd (entry (tcp_lhm E) (tcp fw) k False (clk 0))) k v p
      in (ok, fw\<lparr>tcp := c'\<rparr>))"
  using assms tcp.entry_fst [of "tcp fw" k False "clk 0"]
  by (simp add: handle_inbound_tcp_def Let_def case_prod_beta)

lemma segment_live:
  assumes m: "it (lru_map c)"
  shows "closes_write p \<Longrightarrow> peek (tcp_lhm E) (snd (inbound_tcp_segment (tcp_lhm E) c k v p)) k t =
            map_option (\<lambda>_. v\<lparr>rx_alive := False, next_seq := Some (next_sequence p)\<rparr>)
              (peek (tcp_lhm E) c k t)"
    and "plain_ack p \<Longrightarrow> \<not> tx_alive v \<Longrightarrow> \<not> rx_alive v \<Longrightarrow> \<not> conn_remote_initiated v \<Longrightarrow>
            peek (tcp_lhm E) (snd (inbound_tcp_segment (tcp_lhm E) c k v p)) k t = None"
    and "peek (tcp_lhm E) c k t = None \<Longrightarrow>
            peek (tcp_lhm E) (snd (inbound_tcp_segment (tcp_lhm E) c k v p)) k t = None"
  using m tcp.peek_occupied_set tcp.peek_occupied_remove tcp.invar_occupied_set
  by (auto simp: inbound_tcp_segment_def Let_def closes_write_def plain_ack_def)

text \<open>One inbound segment of a locally initiated connection of a guarded peer.\<close>

lemma inbound_segment:
  assumes m: "it (lru_map (tcp fw))" and g: "guarded E fw pk ip"
    and proto: "get_next_level_protocol ip = Proto_Tcp"
    and info: "build_conn_info E ip True = Some (lnk, Some p)"
    and k: "k = \<lparr>link = lnk, conn_pubkey = pk\<rparr>"
    and live: "peek (tcp_lhm E) (tcp fw) k (clk 0) = Some v" and ri: "\<not> conn_remote_initiated v"
  shows "closes_write p \<Longrightarrow> fst (process_inbound_ip_packet E clk fw pk (Some ip))"
    and "plain_ack p \<Longrightarrow> fst (process_inbound_ip_packet E clk fw pk (Some ip))"
    and "closes_write p \<Longrightarrow>
           peek (tcp_lhm E) (tcp (snd (process_inbound_ip_packet E clk fw pk (Some ip)))) k t =
             map_option (\<lambda>_. v\<lparr>rx_alive := False, next_seq := Some (next_sequence p)\<rparr>)
               (peek (tcp_lhm E) (tcp fw) k t)"
    and "plain_ack p \<Longrightarrow> \<not> tx_alive v \<Longrightarrow> \<not> rx_alive v \<Longrightarrow>
           peek (tcp_lhm E) (tcp (snd (process_inbound_ip_packet E clk fw pk (Some ip)))) k t = None"
    and "peek (tcp_lhm E) (tcp fw) k t = None \<Longrightarrow>
           peek (tcp_lhm E) (tcp (snd (process_inbound_ip_packet E clk fw pk (Some ip)))) k t = None"
    and "it (lru_map (tcp (snd (process_inbound_ip_packet E clk fw pk (Some ip)))))"
proof -
  let ?c = "snd (entry (tcp_lhm E) (tcp fw) k False (clk 0))"
  note step = guarded_inbound(2) [OF g proto, of clk] inbound_tcp_occupied [where clk = clk, OF info k live ri]
  have mc: "it (lru_map ?c)" using m by (rule tcp.invar_entry)
  note look = tcp.peek_entry_look [where now = "clk 0", OF m live] and seg = segment_live [OF mc]
  show "fst (process_inbound_ip_packet E clk fw pk (Some ip))" if "closes_write p"
    using that by (simp add: step case_prod_beta Let_def inbound_tcp_segment_verdict closes_write_def)
  show "fst (process_inbound_ip_packet E clk fw pk (Some ip))" if "plain_ack p"
    using that by (simp add: step case_prod_beta Let_def inbound_tcp_segment_verdict plain_ack_def)
  show "peek (tcp_lhm E) (tcp (snd (process_inbound_ip_packet E clk fw pk (Some ip)))) k t =
          map_option (\<lambda>_. v\<lparr>rx_alive := False, next_seq := Some (next_sequence p)\<rparr>)
            (peek (tcp_lhm E) (tcp fw) k t)" if "closes_write p"
    using seg(1) [OF that] look by (simp add: step case_prod_beta Let_def)
  show "peek (tcp_lhm E) (tcp (snd (process_inbound_ip_packet E clk fw pk (Some ip)))) k t = None"
    if "plain_ack p" "\<not> tx_alive v" "\<not> rx_alive v"
    using seg(2) [OF that ri] by (simp add: step case_prod_beta Let_def)
  show "peek (tcp_lhm E) (tcp (snd (process_inbound_ip_packet E clk fw pk (Some ip)))) k t = None"
    if "peek (tcp_lhm E) (tcp fw) k t = None"
    using seg(3) look that by (simp add: step case_prod_beta Let_def)
  show "it (lru_map (tcp (snd (process_inbound_ip_packet E clk fw pk (Some ip)))))"
    using mc
    by (auto simp: step case_prod_beta Let_def inbound_tcp_segment_def occupied_remove_def
        tcp.invar_remove tcp.invar_occupied_set)
qed

lemma guarded_untracked_tcp:
  assumes "guarded E fw pk ip" and "get_next_level_protocol ip = Proto_Tcp"
    and "build_conn_info E ip True = Some (lnk, x)"
    and "peek (tcp_lhm E) (tcp fw) \<lparr>link = lnk, conn_pubkey = pk\<rparr> (clk 0) = None"
  shows "\<not> fst (process_inbound_ip_packet E clk fw pk (Some ip))"
  using assms guarded_drop [OF assms(1)]
  by (simp add: guarded_inbound(2) handle_inbound_tcp_verdict)

end

lemma invar_outbound_tcp:
  assumes "firewall_env E iu it ii" and "it (lru_map (tcp fw))"
  shows "it (lru_map (tcp (handle_outbound_tcp E clk fw pk ip)))"
proof -
  have L: "lru (tcp_lhm E) it" using assms(1) by (simp add: firewall_env_def)
  note M = lru.axioms [OF L]
  from assms(2) show ?thesis
    by (auto simp: handle_outbound_tcp_def Let_def case_prod_beta lru_insert_def lru_remove_def
        linked_hash_map.invar_insert [OF M] linked_hash_map.invar_remove [OF M]
        lru.pop_over_capacity_laws(1) [OF L] lru.invar_entry [OF L] lru.invar_occupied_set [OF L]
        split: option.split Entry.split)
qed

lemma guarded_outbound_tcp:
  assumes "guarded E fw pk ip'" and "check_valid ip" and "get_next_level_protocol ip = Proto_Tcp"
  shows "process_outbound_ip_packet E clk fw pk (Some ip) = (True, handle_outbound_tcp E clk fw pk ip)"
  using assms by (simp add: guarded_def process_outbound_ip_packet_def Let_def)

text \<open>
  The FINs of the two sides, the node's first (active close) or the peer's first (passive close):
  whether both were let through, and the firewall after them.
\<close>

definition fin_exchange ::
  "('mu, 'mt, 'mi) fw_env \<Rightarrow> bool \<Rightarrow> clock \<Rightarrow> clock \<Rightarrow> ('mu, 'mt, 'mi) StatefullFirewall \<Rightarrow> PublicKey
     \<Rightarrow> IpPacket \<Rightarrow> IpPacket \<Rightarrow> bool \<times> ('mu, 'mt, 'mi) StatefullFirewall" where
  "fin_exchange E active c1 c2 fw pk ours theirs =
     (if active then
        let (a, fw) = process_outbound_ip_packet E c1 fw pk (Some ours);
            (b, fw) = process_inbound_ip_packet E c2 fw pk (Some theirs) in (a \<and> b, fw)
      else
        let (a, fw) = process_inbound_ip_packet E c1 fw pk (Some theirs);
            (b, fw) = process_outbound_ip_packet E c2 fw pk (Some ours) in (a \<and> b, fw))"

context firewall_env
begin

lemma fin_exchange_live:
  assumes m: "it (lru_map (tcp fw))" and k: "k = \<lparr>link = lnk, conn_pubkey = pk\<rparr>"
    and live: "\<And>t. t \<le> T \<Longrightarrow> peek (tcp_lhm E) (tcp fw) k t = Some v" and ri: "\<not> conn_remote_initiated v"
    and time: "c1 0 \<le> T" "c2 0 \<le> T"
    and ours: "check_valid ours" "get_next_level_protocol ours = Proto_Tcp"
      "build_conn_info E ours False = Some (lnk, Some p1)" "closes_write p1"
    and theirs: "guarded E fw pk theirs" "get_next_level_protocol theirs = Proto_Tcp"
      "build_conn_info E theirs True = Some (lnk, Some p2)" "closes_write p2"
    and r: "r = fin_exchange E active c1 c2 fw pk ours theirs"
  shows "fst r \<and> same_config fw (snd r) \<and> it (lru_map (tcp (snd r)))
    \<and> (\<forall>t \<le> T. peek (tcp_lhm E) (tcp (snd r)) k t =
          Some (v\<lparr>tx_alive := False, rx_alive := False, next_seq := Some (next_sequence p2)\<rparr>))"
proof -
  note out = guarded_outbound_tcp [OF _ ours(1,2)]
    and in_seg = inbound_segment [where ip = theirs and k = k, OF _ _ theirs(2,3) k]
    and in_cfg = process_inbound_ip_same_config
    and out_fin = outbound_fin [OF _ ours(3,4) k]
  show ?thesis
  proof (cases active)
    case True
    let ?fw = "handle_outbound_tcp E c1 fw pk ours"
    have cfg: "same_config fw ?fw" by (rule outbound_same_config)
    have l: "peek (tcp_lhm E) (tcp ?fw) k t = Some (v\<lparr>tx_alive := False\<rparr>)" if "t \<le> T" for t
      using out_fin [where clk = c1, OF m live [OF time(1)], of t] live [OF that] by simp
    have mm: "it (lru_map (tcp ?fw))" by (rule invar_outbound_tcp [OF firewall_env_axioms m])
    note seg = in_seg [where clk = c2, OF mm guarded_same_config [OF cfg, THEN iffD2, OF theirs(1)] l [OF time(2)]]
    show ?thesis
      using seg(1,3) [OF _ theirs(4)] l ri True same_config_trans [OF cfg in_cfg] seg(6)
      by (simp add: r fin_exchange_def case_prod_beta out [OF theirs(1)])
  next
    case False
    let ?r = "process_inbound_ip_packet E c1 fw pk (Some theirs)"
    note seg = in_seg [where clk = c1, OF m theirs(1) live [OF time(1)] ri]
    have cfg: "same_config fw (snd ?r)" by (rule in_cfg)
    have l: "peek (tcp_lhm E) (tcp (snd ?r)) k t = Some (v\<lparr>rx_alive := False, next_seq := Some (next_sequence p2)\<rparr>)"
      if "t \<le> T" for t
      using seg(3) [OF theirs(4), of t] live [OF that] by simp
    have "peek (tcp_lhm E) (tcp (handle_outbound_tcp E c2 (snd ?r) pk ours)) k t =
        Some (v\<lparr>tx_alive := False, rx_alive := False, next_seq := Some (next_sequence p2)\<rparr>)" if "t \<le> T" for t
      using out_fin [where clk = c2, OF seg(6) l [OF time(2)], of t] l [OF that] by simp
    then show ?thesis
      using seg(1) [OF theirs(4)] False same_config_trans [OF cfg outbound_same_config(2)]
        invar_outbound_tcp [OF firewall_env_axioms seg(6)]
      by (simp add: r fin_exchange_def case_prod_beta out [OF guarded_same_config [OF cfg, THEN iffD2, OF theirs(1)]])
  qed
qed

end

text \<open>
  C24. The FIN handshake takes down a TCP connection that the node opened to a peer that may not
  open connections: the FINs of the two sides are let through in either order, the peer's final ACK
  is let in and ends the tracking, and then every further segment of the connection is dropped.
\<close>

theorem tcp_fin_handshake_closes:
  assumes "firewall_env E iu it ii" and "it (lru_map (tcp fw))"
    and "peek (tcp_lhm E) (tcp fw) \<lparr>link = lnk, conn_pubkey = pk\<rparr> (c3 0) = Some v"
    and "\<not> conn_remote_initiated v" and "c1 0 \<le> c3 0" and "c2 0 \<le> c3 0"
    and "check_valid fin1" and "get_next_level_protocol fin1 = Proto_Tcp"
    and "build_conn_info E fin1 False = Some (lnk, Some p1)" and "closes_write p1"
    and "guarded E fw pk fin2" and "get_next_level_protocol fin2 = Proto_Tcp"
    and "build_conn_info E fin2 True = Some (lnk, Some p2)" and "closes_write p2"
    and "get_next_level_protocol ack = Proto_Tcp" and "guarded E fw pk ack"
    and "build_conn_info E ack True = Some (lnk, Some p3)" and "plain_ack p3"
    and "get_next_level_protocol late = Proto_Tcp" and "guarded E fw pk late"
    and "build_conn_info E late True = Some (lnk, x)"
    and "r2 = fin_exchange E active c1 c2 fw pk fin1 fin2"
    and "r3 = process_inbound_ip_packet E c3 (snd r2) pk (Some ack)"
  shows "fst r2 \<and> fst r3 \<and> \<not> fst (process_inbound_ip_packet E c4 (snd r3) pk (Some late))"
proof -
  let ?k = "\<lparr>link = lnk, conn_pubkey = pk\<rparr>"
  have live: "peek (tcp_lhm E) (tcp fw) ?k t = Some v" if "t \<le> c3 0" for t
    using assms(3) that by (rule peek_earlier)
  note fins = firewall_env.fin_exchange_live [OF assms(1,2) refl live assms(4-14,22)]
  then have cfg2: "same_config fw (snd r2)" and m2: "it (lru_map (tcp (snd r2)))"
    and live2: "peek (tcp_lhm E) (tcp (snd r2)) ?k (c3 0) =
      Some (v\<lparr>tx_alive := False, rx_alive := False, next_seq := Some (next_sequence p2)\<rparr>)"
    by simp_all
  note g3 = guarded_same_config [OF cfg2, THEN iffD2, OF assms(16)]
  note seg3 = firewall_env.inbound_segment [where clk = c3, OF assms(1) m2 g3 assms(15,17) refl live2, folded assms(23)]
  have gone: "peek (tcp_lhm E) (tcp (snd r3)) ?k t = None" for t
    using seg3(4) [OF _ assms(18)] assms(4) by simp
  have cfg3: "same_config fw (snd r3)"
    unfolding assms(23) using cfg2 firewall_env.process_inbound_ip_same_config [OF assms(1)] by (rule same_config_trans)
  note g4 = guarded_same_config [OF cfg3, THEN iffD2, OF assms(20)]
  have "\<not> fst (process_inbound_ip_packet E c4 (snd r3) pk (Some late))"
    using firewall_env.guarded_untracked_tcp [OF assms(1) g4 assms(19,21)] gone by blast
  then show ?thesis using fins seg3(2) [OF _ assms(18)] assms(4) by simp
qed

text \<open>Segments of a TCP connection 100.64.0.2:5000 to 100.64.0.3:80, by direction and flags.\<close>

definition sample_seg :: "bool \<Rightarrow> u8 \<Rightarrow> IpPacket" where
  "sample_seg out fl = IpV4 \<lparr>v4_version = 4, v4_header_length = 5, v4_next_level_protocol = 6,
     v4_source = (if out then local_ip else remote_ip),
     v4_destination = (if out then remote_ip else local_ip),
     v4_payload = (if out then [0x13,0x88,0,80] else [0,80,0x13,0x88])
                  @ [0,0,0,1, 0,0,0,0, 0x50,fl, 0,0, 0,0, 0,0],
     v4_packet = []\<rparr>"

definition sample_tcp_conn :: Connection where
  "sample_tcp_conn = \<lparr>link = \<lparr>remote_addr = Ipv4 remote_ip, remote_port = 80,
                              local_addr = Ipv4 local_ip, local_port = 5000\<rparr>,
                      conn_pubkey = PublicKey sample_peer\<rparr>"

lemma sample_seg_info:
  "get_next_level_protocol (sample_seg out fl) = 6" "check_valid (sample_seg out fl)"
  "get_destination (sample_seg False fl) = Ipv4 local_ip"
  "build_conn_info ref_env (sample_seg (\<not> inbound) fl) inbound =
     Some (link sample_tcp_conn,
       Some \<lparr>tcp_source = (if inbound then 80 else 5000), tcp_destination = (if inbound then 5000 else 80),
             tcp_flags = fl, tcp_sequence = 1, tcp_payload = []\<rparr>)"
  by (cases inbound; simp add: sample_seg_def build_conn_info_def ref_tcp_def be16_def be32_def
      mk_conn_with_port_def sample_tcp_conn_def)+

definition sample_fw3 :: ref_firewall where
  "sample_fw3 = handle_outbound_tcp ref_env (\<lambda>_. 5) sample_fw (PublicKey sample_peer) (sample_seg True 2)"

lemma sample_fw3_eq:
  "sample_fw3 = sample_fw\<lparr>tcp := \<lparr>lru_map = [(sample_tcp_conn,
     \<lparr>data = \<lparr>tx_alive = True, rx_alive = True, conn_remote_initiated = False, next_seq = None\<rparr>,
      last_access = 5\<rparr>)], ttl = LRU_TIMEOUT, capacity = LRU_CAPACITY\<rparr>\<rparr>"
proof -
  have pk: "\<lparr>link = link sample_tcp_conn, conn_pubkey = PublicKey sample_peer\<rparr> = sample_tcp_conn"
    by (simp add: sample_tcp_conn_def)
  show ?thesis
    using sample_seg_info(4) [of False 2]
    by (simp add: sample_fw3_def handle_outbound_tcp_def TCP_FIRST_PKT_MASK_def pk Let_def)
      (simp add: sample_fw_def fw_eval lru_insert_def TimedValue_new_def)
qed

lemma sample_guarded3:
  "guarded ref_env sample_fw3 pk (sample_seg False fl)"
proof -
  have "same_config sample_fw sample_fw3" by (simp add: same_config_def sample_fw3_eq)
  then show ?thesis using sample_guarded sample_seg_info guarded_same_config by metis
qed

theorem tcp_fin_handshake_closes_witness:
  "\<forall>active.
     let pk = PublicKey sample_peer;
         r2 = fin_exchange ref_env active (\<lambda>_. 6) (\<lambda>_. 7) sample_fw3 pk (sample_seg True 17) (sample_seg False 17);
         r3 = process_inbound_ip_packet ref_env (\<lambda>_. 8) (snd r2) pk (Some (sample_seg False 16))
     in fst r2 \<and> fst r3
        \<and> \<not> fst (process_inbound_ip_packet ref_env (\<lambda>_. 9) (snd r3) pk (Some (sample_seg False 24)))"
proof (rule allI)
  fix active
  let ?pk = "PublicKey sample_peer"
  have pk: "\<lparr>link = link sample_tcp_conn, conn_pubkey = ?pk\<rparr> = sample_tcp_conn"
    by (simp add: sample_tcp_conn_def)
  have live: "peek (tcp_lhm ref_env) (tcp sample_fw3) \<lparr>link = link sample_tcp_conn, conn_pubkey = ?pk\<rparr>
      ((\<lambda>_. 8) (0::nat)) =
      Some \<lparr>tx_alive = True, rx_alive = True, conn_remote_initiated = False, next_seq = None\<rparr>"
    unfolding pk by (simp add: sample_fw3_eq peek_def is_expired_def LRU_TIMEOUT_def)
  have m: "distinct (map fst (lru_map (tcp sample_fw3)))" by (simp add: sample_fw3_eq)
  note in_info = sample_seg_info(4) [of True, simplified] and out_info = sample_seg_info(4) [of False, simplified]
  show "let pk = ?pk;
         r2 = fin_exchange ref_env active (\<lambda>_. 6) (\<lambda>_. 7) sample_fw3 pk (sample_seg True 17) (sample_seg False 17);
         r3 = process_inbound_ip_packet ref_env (\<lambda>_. 8) (snd r2) pk (Some (sample_seg False 16))
     in fst r2 \<and> fst r3
        \<and> \<not> fst (process_inbound_ip_packet ref_env (\<lambda>_. 9) (snd r3) pk (Some (sample_seg False 24)))"
    unfolding Let_def
    by (rule tcp_fin_handshake_closes [OF ref.firewall_env_axioms m live _ _ _ sample_seg_info(2,1) out_info _
          sample_guarded3 sample_seg_info(1) in_info _ sample_seg_info(1) sample_guarded3 in_info _
          sample_seg_info(1) sample_guarded3 in_info refl refl])
      (simp_all add: closes_write_def plain_ack_def TCP_FIRST_PKT_MASK_def)
qed

section \<open>TCP entries are not refreshed\<close>

text \<open>
  An inbound segment of a locally initiated TCP connection never prolongs the life of the
  tracking entry: if the entry would have expired by time \<open>t\<close> without the segment, it is
  gone by \<open>t\<close> with it. (The comment in the handler says that the timeout is restarted.)
\<close>

theorem tcp_segment_does_not_restart_timeout:
  assumes "firewall_env E iu it ii" and "it (lru_map (tcp fw))" and "guarded E fw pk ip"
    and "get_next_level_protocol ip = Proto_Tcp" and "build_conn_info E ip True = Some (lnk, Some p)"
    and "peek (tcp_lhm E) (tcp fw) \<lparr>link = lnk, conn_pubkey = pk\<rparr> (clk 0) = Some v"
    and "\<not> conn_remote_initiated v"
    and "peek (tcp_lhm E) (tcp fw) \<lparr>link = lnk, conn_pubkey = pk\<rparr> t = None"
  shows "peek (tcp_lhm E) (tcp (snd (process_inbound_ip_packet E clk fw pk (Some ip))))
           \<lparr>link = lnk, conn_pubkey = pk\<rparr> t = None"
  using firewall_env.inbound_segment(5) [where clk = clk, OF assms(1-5) refl assms(6,7)] assms(8) .

theorem tcp_segment_does_not_restart_timeout_witness:
  "peek alist_lhm (tcp (snd (process_inbound_ip_packet ref_env (\<lambda>_. 120005) sample_fw3
       (PublicKey sample_peer) (Some (sample_seg False 16))))) sample_tcp_conn 120006 = None"
proof -
  let ?pk = "PublicKey sample_peer"
  have pk: "\<lparr>link = link sample_tcp_conn, conn_pubkey = ?pk\<rparr> = sample_tcp_conn"
    by (simp add: sample_tcp_conn_def)
  have live: "peek (tcp_lhm ref_env) (tcp sample_fw3) \<lparr>link = link sample_tcp_conn, conn_pubkey = ?pk\<rparr>
      ((\<lambda>_. 120005) (0::nat)) =
      Some \<lparr>tx_alive = True, rx_alive = True, conn_remote_initiated = False, next_seq = None\<rparr>"
    "peek (tcp_lhm ref_env) (tcp sample_fw3) \<lparr>link = link sample_tcp_conn, conn_pubkey = ?pk\<rparr> 120006 = None"
    unfolding pk by (simp_all add: sample_fw3_eq peek_def is_expired_def LRU_TIMEOUT_def)
  have m: "distinct (map fst (lru_map (tcp sample_fw3)))" by (simp add: sample_fw3_eq)
  from tcp_segment_does_not_restart_timeout [OF ref.firewall_env_axioms m sample_guarded3
      sample_seg_info(1) sample_seg_info(4) [of True, simplified] live(1) _ live(2)]
  show ?thesis unfolding pk by simp
qed

section \<open>Revocation\<close>

lemma revocation:
  assumes "fw' = remove_from_peer_whitelist fw pk IncomingConnections"
  shows "udp fw' = udp fw" "tcp fw' = tcp fw" "icmp fw' = icmp fw" "parse_buffer E fw' = parse_buffer E fw"
    and "vpn_peer (whitelist fw') = vpn_peer (whitelist fw)"
    and "\<not> is_port_whitelisted (whitelist fw) pk port \<Longrightarrow> decide_connection_handling fw' pk port = Drop"
    and "decide_packet_handling E fw pk a = HandleLocally \<Longrightarrow> decide_packet_handling E fw' pk a = HandleLocally"
  by (auto simp: assms remove_from_peer_whitelist_def parse_buffer_def fun_eq_iff decide_connection_handling_def
      is_port_whitelisted_def decide_packet_handling_def is_private_address_except_local_interface_def
      split: list.split IpAddr.split if_splits)

text \<open>
  C30. Revoking the permission for incoming connections takes effect on the connections that exist:
  a packet of a UDP or TCP connection that the peer opened is let in while the peer has the permission;
  once it is taken from the peer, the next such packet is dropped and the connection is no longer
  tracked. (The peer is not the VPN peer, and the local port is not whitelisted for it on its own.)
\<close>

theorem revoked_peer_is_cut_off:
  assumes "firewall_env E iu it ii" and "fw_run E hist fw (clk 0)"
    and "parse_buffer E fw buf = Some ip" and "check_valid ip"
    and "decide_packet_handling E fw (PublicKey key) (get_destination ip) = HandleLocally"
    and "build_conn_info E ip True = Some (lnk, x)" and "k = \<lparr>link = lnk, conn_pubkey = PublicKey key\<rparr>"
    and "(get_next_level_protocol ip = Proto_Udp
            \<and> (\<exists>v. peek (udp_lhm E) (udp fw) k (clk 0) = Some v \<and> is_remote_initiated v))
         \<or> (get_next_level_protocol ip = Proto_Tcp
            \<and> (\<exists>v. peek (tcp_lhm E) (tcp fw) k (clk 0) = Some v \<and> conn_remote_initiated v))"
    and "PublicKey key \<in> peer_whitelists (whitelist fw) IncomingConnections"
    and "vpn_peer (whitelist fw) \<noteq> Some (PublicKey key)"
    and "\<not> is_port_whitelisted (whitelist fw) (PublicKey key) (local_port lnk)"
    and "fw' = remove_from_peer_whitelist fw (PublicKey key) IncomingConnections"
    and "r = process_inbound_packet E clk fw' key buf"
  shows "fst (process_inbound_packet E clk fw key buf) \<and> \<not> fst r
     \<and> (get_next_level_protocol ip = Proto_Udp \<longrightarrow> peek (udp_lhm E) (udp (snd r)) k t = None)
     \<and> (get_next_level_protocol ip = Proto_Tcp \<longrightarrow> peek (tcp_lhm E) (tcp (snd r)) k t = None)"
proof -
  have i: "fw_inv E iu it ii fw (clk 0)" using firewall_env.fw_run_ok [OF assms(1,2)] by simp
  have U: "lru (udp_lhm E) iu" and T: "lru (tcp_lhm E) it" using assms(1) by (simp_all add: firewall_env_def)
  note m = firewall_env.inv_invar [OF assms(1) i]
  have ru: "peek (udp_lhm E) (occupied_remove (udp_lhm E)
      (snd (entry (udp_lhm E) (udp fw) k True (clk 0))) k) k t = None"
    using lru.peek_occupied_remove [OF U lru.invar_entry [OF U m(1)]] by simp
  have rt: "peek (tcp_lhm E) (occupied_remove (tcp_lhm E)
      (snd (entry (tcp_lhm E) (tcp fw) k False (clk 0))) k) k t = None"
    using lru.peek_occupied_remove [OF T lru.invar_entry [OF T m(2)]] by simp
  note rev = revocation [OF assms(12)] and drop = revocation(6) [OF assms(12,11)]
    and loc = revocation(7) [OF assms(12,5)]
  have allowed: "decide_connection_handling fw (PublicKey key) port \<noteq> Drop" for port
    using assms(9) by (simp add: decide_connection_handling_def)
  from assms(8) show ?thesis
  proof (elim disjE conjE exE)
    fix v assume "get_next_level_protocol ip = Proto_Udp" "is_remote_initiated v"
      "peek (udp_lhm E) (udp fw) k (clk 0) = Some v"
    with assms(3-7,10) ru drop allowed loc show ?thesis
      by (simp add: assms(13) process_packet_parse rev(1-5) process_inbound_ip_packet_def Let_def
          handle_inbound_udp_def case_prod_beta lru.entry_fst [OF U])
  next
    fix v assume "get_next_level_protocol ip = Proto_Tcp" "conn_remote_initiated v"
      "peek (tcp_lhm E) (tcp fw) k (clk 0) = Some v"
    with assms(3-7,10) rt drop allowed loc show ?thesis
      by (simp add: assms(13) process_packet_parse rev(1-5) process_inbound_ip_packet_def Let_def
          handle_inbound_tcp_def case_prod_beta lru.entry_fst [OF T]
          firewall_env.inbound_tcp_segment_verdict [OF assms(1)] split: option.split)
  qed
qed

text \<open>
  A firewall that records the connections of permitted peers lets the sample UDP packet in from a
  peer that is allowed to open connections.
\<close>

definition sample_fw_allowing :: ref_firewall where
  "sample_fw_allowing = add_to_peer_whitelist (set_ip_addresses
     (fw_new ref_env False \<lparr>boringtun_reset_conns = True, neptun_reset_conns = False,
                           exclude_private_ip_range = None\<rparr>) [Ipv4 local_ip])
     (PublicKey sample_peer) IncomingConnections"

definition sample_fw4 :: ref_firewall where
  "sample_fw4 = snd (process_inbound_packet ref_env (\<lambda>_. 5) sample_fw_allowing sample_peer sample_udp_in)"

lemma sample_fw4_run: "\<exists>hist. fw_run ref_env hist sample_fw4 6"
proof -
  have "fw_run ref_env {} sample_fw_allowing ((\<lambda>_. 5) (0::nat))"
    unfolding sample_fw_allowing_def
    by (rule run_config [OF run_config [OF run_new]]) (rule config_step.intros)+
  from run_tick [OF run_inbound [where clk = "\<lambda>_. 5", OF this, of sample_peer sample_udp_in], of 6]
  show ?thesis by (auto simp: sample_fw4_def clock_ok_def)
qed

lemma sample_fw4_eq:
  "sample_fw4 = sample_fw_allowing\<lparr>udp := \<lparr>lru_map = [(sample_conn,
      \<lparr>data = \<lparr>is_remote_initiated = True, last_out_pkg_chunk = None\<rparr>, last_access = 5\<rparr>)],
      ttl = LRU_TIMEOUT, capacity = LRU_CAPACITY\<rparr>\<rparr>"
proof -
  obtain ip where ip: "parse_buffer ref_env sample_fw_allowing sample_udp_in = Some ip"
    "get_next_level_protocol ip = 17" "check_valid ip" "get_destination ip = Ipv4 local_ip"
    by (simp add: parse_udp_in)
  have pk: "\<lparr>link = link sample_conn, conn_pubkey = PublicKey sample_peer\<rparr> = sample_conn"
    by (simp add: sample_conn_def)
  have loc: "decide_packet_handling ref_env sample_fw_allowing (PublicKey sample_peer) (Ipv4 local_ip) = HandleLocally"
    "decide_connection_handling sample_fw_allowing (PublicKey sample_peer) port = HandleLocally"
    "vpn_peer (whitelist sample_fw_allowing) = None" for port
    by (simp_all add: decide_packet_handling_def decide_connection_handling_def ipv4_is_private_def local_ip_def
        is_private_address_except_local_interface_def sample_fw_allowing_def add_to_peer_whitelist_def fw_eval)
  show ?thesis
    unfolding sample_fw4_def process_packet_parse process_inbound_ip_packet_def
    by (simp add: ip loc handle_inbound_udp_def conn_info_samples(2) [OF ip(1)] Let_def pk)
      (simp add: sample_fw_allowing_def add_to_peer_whitelist_def decide_connection_handling_def fw_eval
        TimedValue_new_def)
qed

theorem revoked_peer_is_cut_off_witness:
  "let r = process_inbound_packet ref_env (\<lambda>_. 6)
         (remove_from_peer_whitelist sample_fw4 (PublicKey sample_peer) IncomingConnections) sample_peer sample_udp_in
   in fst (process_inbound_packet ref_env (\<lambda>_. 6) sample_fw4 sample_peer sample_udp_in) \<and> \<not> fst r
      \<and> peek alist_lhm (udp (snd r)) sample_conn 7 = None"
proof -
  obtain ip where ip: "parse_buffer ref_env sample_fw4 sample_udp_in = Some ip"
    "get_next_level_protocol ip = 17" "check_valid ip" "get_destination ip = Ipv4 local_ip"
    by (simp add: parse_udp_in)
  have pk: "sample_conn = \<lparr>link = link sample_conn, conn_pubkey = PublicKey sample_peer\<rparr>"
    by (simp add: sample_conn_def)
  have loc: "decide_packet_handling ref_env sample_fw4 (PublicKey sample_peer) (get_destination ip) = HandleLocally"
    and wl: "PublicKey sample_peer \<in> peer_whitelists (whitelist sample_fw4) IncomingConnections"
    "vpn_peer (whitelist sample_fw4) \<noteq> Some (PublicKey sample_peer)"
    "\<not> is_port_whitelisted (whitelist sample_fw4) (PublicKey sample_peer) (local_port (link sample_conn))"
    by (simp_all add: ip(4) decide_packet_handling_def ipv4_is_private_def local_ip_def is_port_whitelisted_def
        is_private_address_except_local_interface_def sample_fw4_eq sample_fw_allowing_def add_to_peer_whitelist_def
        fw_eval)
  have live: "peek alist_lhm (udp sample_fw4) sample_conn 6 =
      Some \<lparr>is_remote_initiated = True, last_out_pkg_chunk = None\<rparr>"
    by (simp add: sample_fw4_eq peek_def is_expired_def LRU_TIMEOUT_def)
  obtain hist where run: "fw_run ref_env hist sample_fw4 ((\<lambda>_. 6) (0::nat))" using sample_fw4_run by blast
  from revoked_peer_is_cut_off [OF ref.firewall_env_axioms run ip(1,3) loc conn_info_samples(2) [OF ip(1)] pk _ wl refl refl,
      of 7] live ip(2)
  show ?thesis by (simp add: Let_def)
qed

section \<open>Inbound UDP keeps the pinhole open\<close>

text \<open>
  An inbound UDP packet of a locally initiated connection is let in and restarts the
  timeout of the pinhole: the connection stays tracked for a full time to live from that packet.
  (The documentation of \<open>process_inbound_packet\<close> says that it does not extend the lifetime.)
\<close>

theorem udp_inbound_extends_pinhole:
  assumes "firewall_env E iu it ii" and "iu (lru_map (udp fw))" and "guarded E fw pk ip"
    and "get_next_level_protocol ip = Proto_Udp" and "build_conn_info E ip True = Some (lnk, x)"
    and "peek (udp_lhm E) (udp fw) \<lparr>link = lnk, conn_pubkey = pk\<rparr> (clk 0) = Some v"
    and "\<not> is_remote_initiated v" and "t \<le> clk 0 + ttl (udp fw)"
    and "r = process_inbound_ip_packet E clk fw pk (Some ip)"
  shows "fst r \<and> peek (udp_lhm E) (udp (snd r)) \<lparr>link = lnk, conn_pubkey = pk\<rparr> t = Some v"
proof -
  have U: "lru (udp_lhm E) iu" using assms(1) by (simp add: firewall_env_def)
  from lru.peek_entry_touch [OF U assms(2,6,8)] assms(3-7) show ?thesis
    by (simp add: assms(9) guarded_inbound(1) handle_inbound_udp_def Let_def case_prod_beta
        lru.entry_fst [OF U])
qed

theorem udp_inbound_extends_pinhole_witness:
  "\<exists>ip. parse_buffer ref_env sample_fw1 sample_udp_in = Some ip
     \<and> fst (process_inbound_ip_packet ref_env (\<lambda>_. 100000) sample_fw1 (PublicKey sample_peer) (Some ip))
     \<and> peek alist_lhm (udp (snd (process_inbound_ip_packet ref_env (\<lambda>_. 100000) sample_fw1
          (PublicKey sample_peer) (Some ip)))) sample_conn 220000 \<noteq> None"
proof -
  let ?pk = "PublicKey sample_peer"
  obtain ip where ip: "parse_buffer ref_env sample_fw1 sample_udp_in = Some ip"
    "get_next_level_protocol ip = 17" "check_valid ip" "get_destination ip = Ipv4 local_ip"
    by (simp add: parse_udp_in)
  have pk: "\<lparr>link = link sample_conn, conn_pubkey = ?pk\<rparr> = sample_conn"
    by (simp add: sample_conn_def)
  have "same_config sample_fw sample_fw1" by (simp add: same_config_def sample_fw1_eq)
  then have g: "guarded ref_env sample_fw1 ?pk ip"
    using sample_guarded [OF ip(4,3)] guarded_same_config by blast
  have live: "peek alist_lhm (udp sample_fw1) sample_conn 100000 =
      Some \<lparr>is_remote_initiated = False, last_out_pkg_chunk = Some sample_udp_out\<rparr>"
    by (simp add: sample_fw1_eq peek_def is_expired_def LRU_TIMEOUT_def)
  have m: "distinct (map fst (lru_map (udp sample_fw1)))" by (simp add: sample_fw1_eq)
  from udp_inbound_extends_pinhole [OF ref.firewall_env_axioms m g ip(2) conn_info_samples(2) [OF ip(1)],
      of "\<lambda>_. 100000" _ 220000, OF _ _ _ refl] live ip(1)
  show ?thesis unfolding pk by (simp add: sample_fw1_eq LRU_TIMEOUT_def)
qed

section \<open>Connection reset\<close>

text \<open>The packets due, in the order of the tables.\<close>

definition tcp_rst_for ::
  "('mu, 'mt, 'mi) fw_env \<Rightarrow> PublicKey \<Rightarrow> Connection \<times> TcpConnectionInfo \<Rightarrow> bytes option" where
  "tcp_rst_for E pk kv =
     (case (next_seq (snd kv), local_addr (link (fst kv)), remote_addr (link (fst kv))) of
        (Some seq, Ipv4 l, Ipv4 r) \<Rightarrow>
          if conn_pubkey (fst kv) = pk then Some (fst (tcp_rst_packet E (link (fst kv)) seq 0 l r))
          else None
      | _ \<Rightarrow> None)"

definition icmp_for ::
  "('mu, 'mt, 'mi) fw_env \<Rightarrow> PublicKey \<Rightarrow> u32 \<Rightarrow> Connection \<times> UdpConnectionInfo \<Rightarrow> bytes option" where
  "icmp_for E pk ep kv =
     (case (last_out_pkg_chunk (snd kv), local_addr (link (fst kv)), remote_addr (link (fst kv))) of
        (Some chunk, Ipv4 l, Ipv4 _) \<Rightarrow>
          if conn_pubkey (fst kv) = pk then Some (icmp_unreachable_packet E ep l chunk) else None
      | _ \<Rightarrow> None)"

definition list_sink :: "bytes \<Rightarrow> bytes list \<Rightarrow> unit + bytes list" where
  "list_sink pkt sink = Inr (sink @ [pkt])"

text \<open>The TCP checksum does not cover the checksum field itself.\<close>

definition tcp_checksum_ignores_field :: "('mu, 'mt, 'mi) fw_env \<Rightarrow> bool" where
  "tcp_checksum_ignores_field E \<longleftrightarrow>
     (\<forall>h c s d. tcp_ipv4_checksum E (h\<lparr>th_checksum := c\<rparr>) s d = tcp_ipv4_checksum E h s d)"

lemma tcp_rst_packet_sum:
  assumes "tcp_checksum_ignores_field E"
  shows "fst (tcp_rst_packet E key seq c l r) = fst (tcp_rst_packet E key seq 0 l r)"
proof -
  have "tcp_rst_header key seq c = (tcp_rst_header key seq 0)\<lparr>th_checksum := c\<rparr>"
    by (simp add: tcp_rst_header_def)
  with assms show ?thesis by (simp add: tcp_rst_packet_def Let_def tcp_checksum_ignores_field_def)
qed

lemma reset_tcp_loop_list:
  assumes "tcp_checksum_ignores_field E"
  shows "reset_tcp_loop E list_sink c
           (map (\<lambda>(k, v). (link k, v)) (filter (\<lambda>(k, v). conn_pubkey k = pk) conns)) sink =
         Inr (sink @ List.map_filter (tcp_rst_for E pk) conns)"
proof (induction conns arbitrary: c sink)
  case (Cons kv conns)
  then show ?case
    using tcp_rst_packet_sum [OF assms, of "link (fst kv)" _ c]
    by (auto simp: tcp_rst_for_def list_sink_def case_prod_beta split: option.split IpAddr.split)
qed simp

lemma reset_udp_loop_list:
  "reset_udp_loop E list_sink ep (udp_reset_candidates pk conns) sink =
     Inr (sink @ List.map_filter (icmp_for E pk ep) conns)"
proof (induction conns arbitrary: sink)
  case (Cons kv conns)
  then show ?case
    by (auto simp: icmp_for_def list_sink_def udp_reset_candidates_def case_prod_beta
        split: option.split IpAddr.split)
qed (simp add: udp_reset_candidates_def)

text \<open>
  \<open>reset_connections\<close> on a sink that accepts every packet writes exactly one TCP RST for
  each tracked IPv4 connection with the peer whose next sequence number is known, and then exactly
  one ICMP port-unreachable message for each tracked IPv4 UDP connection with the peer over which
  a packet was sent, in the order of the tables, and nothing else. With debug logging on, only
  connections that have not expired are considered.
\<close>

theorem reset_connections_writes_exactly:
  assumes "tcp_checksum_ignores_field E"
  shows "fst (reset_connections E list_sink dbg clk fw pk ep sink) =
     Inr (sink
        @ List.map_filter (tcp_rst_for E pk)
            (lru_iter (tcp_lhm E) (if dbg then fst (remove_expired (tcp_lhm E) (tcp fw) (clk 0)) else tcp fw))
        @ List.map_filter (icmp_for E pk ep)
            (lru_iter (udp_lhm E) (if dbg then fst (remove_expired (udp_lhm E) (udp fw) (clk 1)) else udp fw)))"
  using reset_tcp_loop_list [OF assms]
  by (simp add: reset_connections_def reset_tcp_conns_def reset_udp_conns_def Let_def
      reset_udp_loop_list lru_len_def)

theorem reset_connections_writes_exactly_witness:
  "fst (reset_connections ref_env list_sink True (\<lambda>_. 6) sample_fw1 (PublicKey sample_peer) remote_ip []) =
     Inr [icmp_unreachable_packet ref_env remote_ip local_ip sample_udp_out]"
proof -
  have "tcp_checksum_ignores_field ref_env"
    by (simp add: tcp_checksum_ignores_field_def ref_env_def)
  from reset_connections_writes_exactly [OF this, of True "\<lambda>_. 6" sample_fw1 "PublicKey sample_peer" remote_ip "[]"]
  show ?thesis
    by (simp add: sample_fw1_eq sample_fw_def fw_eval remove_expired_def is_expired_def lru_iter_def
        icmp_for_def sample_conn_def)
qed

end
