(* ===== verification/Firewall_Addresses.thy ===== *)
theory Firewall_Addresses
  imports Firewall
begin

text \<open>
  The address classes of the firewall as prefixes. \<open>is_private_address_except_local_interface\<close>
  tests 16-bit groups of an IPv6 address; here the test is read as a set of prefixes of the
  address, which shows what the mask in the code admits.
\<close>

lemma segment_unat: "unat (ipv6_segment a i) = unat a div 2 ^ (112 - 16 * i) mod 65536"
  by (simp add: ipv6_segment_def unsigned_ucast_eq unat_drop_bit_eq drop_bit_eq_div [where ?'a = nat]
      take_bit_eq_mod)

lemma unat_lt_128: "unat (a :: u128) < 2 ^ 128"
  using unsigned_less [of a] by simp

lemma fc00_mask: "(x :: u16) AND 0xfc00 = 0xfc00 \<longleftrightarrow> unat x div 1024 = 63"
proof -
  have m: "(0xfc00 :: u16) = NOT (mask 10)" by (simp add: mask_eq_exp_minus_1 not_eq_complement)
  have "x AND 0xfc00 = push_bit 10 (drop_bit 10 x)"
    by (rule bit_word_eqI) (auto simp: m bit_simps)
  moreover have "unat x < 65536" using unsigned_less [of x] by simp
  then have "unat (push_bit 10 (drop_bit 10 x)) = unat x div 1024 * 1024"
    by (simp add: unsigned_push_bit_eq unat_drop_bit_eq drop_bit_eq_div [where ?'a = nat]
        push_bit_eq_mult [where ?'a = nat] take_bit_eq_mod)
  ultimately show ?thesis by (simp add: word_unat_eq_iff)
qed

lemma prefix_unat: "unat (drop_bit n (a :: u128)) = unat a div 2 ^ n"
  by (simp add: unat_drop_bit_eq drop_bit_eq_div [where ?'a = nat])

text \<open>The match on the first group is a match on the first six bits.\<close>

lemma first_segment_mask: "ipv6_segment a 0 AND 0xfc00 = 0xfc00 \<longleftrightarrow> drop_bit 122 a = 63"
proof -
  have "unat a div 2 ^ 112 < 65536"
    using unat_lt_128 [of a] by (simp add: less_mult_imp_div_less)
  then have "unat (ipv6_segment a 0) div 1024 = unat a div 2 ^ 122"
    by (simp add: segment_unat div_mult2_eq [symmetric])
  then show ?thesis by (simp add: fc00_mask word_unat_eq_iff [of "drop_bit 122 a"] prefix_unat)
qed

text \<open>The match on the first four groups is a match on the first 64 bits.\<close>

lemma meshnet_groups:
  "ipv6_segment a 0 = 0xfd74 \<and> ipv6_segment a 1 = 0x656c \<and> ipv6_segment a 2 = 0x696f
     \<and> ipv6_segment a 3 = 0 \<longleftrightarrow> drop_bit 64 a = 0xfd74656c696f0000"
proof -
  define n where "n = unat a div 2 ^ 64"
  have n: "n < 65536 * (65536 * (65536 * 65536))"
    using unat_lt_128 [of a] by (simp add: n_def less_mult_imp_div_less)
  have s: "unat (ipv6_segment a 0) = n div 65536 div 65536 div 65536 mod 65536"
    "unat (ipv6_segment a 1) = n div 65536 div 65536 mod 65536"
    "unat (ipv6_segment a 2) = n div 65536 mod 65536" "unat (ipv6_segment a 3) = n mod 65536"
    by (simp_all add: segment_unat n_def div_mult2_eq [symmetric])
  have d: "drop_bit 64 a = 0xfd74656c696f0000 \<longleftrightarrow> n = 0xfd74656c696f0000"
    by (simp add: word_unat_eq_iff prefix_unat n_def)
  have "ipv6_segment a 0 = 0xfd74 \<Longrightarrow> ipv6_segment a 1 = 0x656c \<Longrightarrow> ipv6_segment a 2 = 0x696f
     \<Longrightarrow> ipv6_segment a 3 = 0 \<Longrightarrow> n = 0xfd74656c696f0000"
    using four_digits [OF n s [symmetric]] by simp
  then show ?thesis
    unfolding d by (auto simp: word_unat_eq_iff s s(2) [unfolded One_nat_def])
qed

text \<open>
  An IPv6 address counts as private exactly when it is in fc00::/6, is not in the meshnet
  prefix fd74:656c:696f::/64 and is not an address of a local interface. The comment in the code
  speaks of the unique local addresses, fc00::/7; the mask also covers fe80::/10 and ff00::/8.
\<close>

theorem ipv6_private_prefixes:
  "is_private_address_except_local_interface E fw (Ipv6 a) \<longleftrightarrow>
     drop_bit 122 a = 63 \<and> drop_bit 64 a \<noteq> 0xfd74656c696f0000 \<and> Ipv6 a \<notin> set (local_addrs_cache E)"
  using meshnet_groups [of a] first_segment_mask [of a]
  by (auto simp: is_private_address_except_local_interface_def)

end
