(* ===== verification/Crypto.thy ===== *)
theory Crypto
  imports Telio_Prelude "HOL-Library.List_Lexorder"
begin

text \<open>
  Keys (crates/telio-crypto/src/lib.rs): the secret, public and preshared keys, the clamping of
  secret keys, the canonical order of public keys, and the text forms of keys. The codecs of the
  \<open>hex\<close> and \<open>base64\<close> crates are parameters; what the code relies on is the locale
  \<open>key_codecs\<close>, interpreted on the two encodings at the end of the theory. A string is the
  list of its bytes. \<open>base64::decode_config_slice\<close> is documented to panic when the output
  slice is too short: \<open>Panics\<close>.
\<close>

unbundle bit_operations_syntax

section \<open>Keys\<close>

definition KEY_SIZE :: nat where "KEY_SIZE = 32"

datatype SecretKey = SecretKey (secret_bytes: bytes)
datatype PresharedKey = PresharedKey (psk_bytes: bytes)

definition clamp :: "bytes \<Rightarrow> bytes" where
  "clamp bytes =
     (let b0 = bytes[0 := bytes ! 0 AND 248];
          b1 = b0[31 := b0 ! 31 AND 127]
      in b1[31 := b1 ! 31 OR 64])"

definition SecretKey_new :: "bytes \<Rightarrow> SecretKey" where
  "SecretKey_new bytes = SecretKey (clamp bytes)"

text \<open>\<open>fill_bytes\<close> is the random generator, which overwrites the whole slice.\<close>

definition gen_with :: "(nat \<Rightarrow> bytes) \<Rightarrow> SecretKey" where
  "gen_with fill_bytes =
     (let key = fill_bytes KEY_SIZE;
          key1 = (case key of [] \<Rightarrow> key | first # rest \<Rightarrow> (first AND 248) # rest);
          key2 = (if key1 = [] then key1 else butlast key1 @ [(last key1 AND 127) OR 64])
      in SecretKey key2)"

definition PublicKey_new :: "bytes \<Rightarrow> PublicKey" where "PublicKey_new bytes = PublicKey bytes"
definition PresharedKey_new :: "bytes \<Rightarrow> PresharedKey" where "PresharedKey_new bytes = PresharedKey bytes"

text \<open>\<open>TryFrom<&[u8]>\<close>: any 32 bytes, without clamping.\<close>

definition key_try_from :: "(bytes \<Rightarrow> 'key) \<Rightarrow> bytes \<Rightarrow> 'key option" where
  "key_try_from wrap bs = (if length bs = KEY_SIZE then Some (wrap bs) else None)"

section \<open>Canonical order\<close>

text \<open>The derived order of \<open>PublicKey\<close> is the lexicographic order of the bytes.\<close>

instantiation PublicKey :: linorder
begin

definition less_eq_PublicKey :: "PublicKey \<Rightarrow> PublicKey \<Rightarrow> bool" where
  "less_eq_PublicKey a b \<longleftrightarrow> key_bytes a \<le> key_bytes b"

definition less_PublicKey :: "PublicKey \<Rightarrow> PublicKey \<Rightarrow> bool" where
  "less_PublicKey a b \<longleftrightarrow> key_bytes a < key_bytes b"

instance
  by standard (auto simp: less_eq_PublicKey_def less_PublicKey_def PublicKey.expand)

end

datatype Ordering = Less | Equal | Greater

definition meshnet_canonical_key_order :: "PublicKey \<Rightarrow> PublicKey \<Rightarrow> Ordering" where
  "meshnet_canonical_key_order lhs rhs =
     (if lhs < rhs then Less else if lhs = rhs then Equal else Greater)"

definition smaller_key_in_meshnet_canonical_order :: "PublicKey \<Rightarrow> PublicKey \<Rightarrow> PublicKey" where
  "smaller_key_in_meshnet_canonical_order lhs rhs =
     (case meshnet_canonical_key_order lhs rhs of Greater \<Rightarrow> rhs | _ \<Rightarrow> lhs)"

section \<open>Text form\<close>

datatype 'a outcome = Returns 'a | Panics

datatype KeyDecodeError = InvalidLength nat | Base64 string | Hex string

datatype codecs = Codecs
  (hex_encode: "bytes \<Rightarrow> string") (hex_decode: "string \<Rightarrow> string + bytes")
  (base64_encode: "bytes \<Rightarrow> string") (base64_decode: "string \<Rightarrow> string + bytes")

definition PublicKey_display :: "codecs \<Rightarrow> PublicKey \<Rightarrow> string" where
  "PublicKey_display K pk = base64_encode K (key_bytes pk)"

definition PublicKey_lower_hex :: "codecs \<Rightarrow> PublicKey \<Rightarrow> string" where
  "PublicKey_lower_hex K pk = hex_encode K (key_bytes pk)"

text \<open>\<open>decode_config_slice\<close>: the decoded bytes overwrite the beginning of the slice.\<close>

definition base64_decode_slice :: "codecs \<Rightarrow> string \<Rightarrow> bytes \<Rightarrow> (string + bytes) outcome" where
  "base64_decode_slice K s out =
     (case base64_decode K s of
        Inl e \<Rightarrow> Returns (Inl e)
      | Inr bs \<Rightarrow> if length bs \<le> length out then Returns (Inr (bs @ drop (length bs) out)) else Panics)"

definition key_from_str ::
  "codecs \<Rightarrow> (bytes \<Rightarrow> 'key) \<Rightarrow> string \<Rightarrow> (KeyDecodeError + 'key) outcome" where
  "key_from_str K new s =
     (if length s = 64 then
        (case hex_decode K s of
           Inl e \<Rightarrow> Returns (Inl (Hex e))
         | Inr key \<Rightarrow> Returns (Inr (new key)))
      else if length s = 44 then
        (case base64_decode_slice K s (replicate KEY_SIZE 0) of
           Panics \<Rightarrow> Panics
         | Returns (Inl e) \<Rightarrow> Returns (Inl (Base64 e))
         | Returns (Inr key) \<Rightarrow> Returns (Inr (new key)))
      else Returns (Inl (InvalidLength (length s))))"

section \<open>What the codecs promise\<close>

locale key_codecs =
  fixes K :: codecs
  assumes hex_round: "hex_decode K (hex_encode K bs) = Inr bs"
    and hex_len: "length (hex_encode K bs) = 2 * length bs"
    and base64_round: "base64_decode K (base64_encode K bs) = Inr bs"
    and base64_len: "length (base64_encode K bs) = 4 * ((length bs + 2) div 3)"
begin

lemma from_hex: "length bs = 32 \<Longrightarrow> key_from_str K new (hex_encode K bs) = Returns (Inr (new bs))"
  by (simp add: key_from_str_def hex_round hex_len)

lemma from_base64:
  "length bs = 32 \<Longrightarrow> key_from_str K new (base64_encode K bs) = Returns (Inr (new bs))"
  by (simp add: key_from_str_def base64_decode_slice_def base64_round base64_len KEY_SIZE_def)

end

section \<open>The two encodings\<close>

definition hex_char :: "nat \<Rightarrow> char" where
  "hex_char n = char_of (if n < 10 then 48 + n else 87 + n)"

definition hex_val :: "char \<Rightarrow> nat option" where
  "hex_val c = (let n = of_char c :: nat in
     if 48 \<le> n \<and> n \<le> 57 then Some (n - 48)
     else if 97 \<le> n \<and> n \<le> 102 then Some (n - 87)
     else if 65 \<le> n \<and> n \<le> 70 then Some (n - 55)
     else None)"

fun hex_enc :: "bytes \<Rightarrow> string" where
  "hex_enc [] = []"
| "hex_enc (b # bs) = hex_char (unat b div 16) # hex_char (unat b mod 16) # hex_enc bs"

fun hex_dec :: "string \<Rightarrow> string + bytes" where
  "hex_dec [] = Inr []"
| "hex_dec [_] = Inl ''Odd number of digits''"
| "hex_dec (c # d # cs) =
     (case (hex_val c, hex_val d) of
        (Some x, Some y) \<Rightarrow>
          (case hex_dec cs of Inl e \<Rightarrow> Inl e | Inr bs \<Rightarrow> Inr (of_nat (16 * x + y) # bs))
      | _ \<Rightarrow> Inl ''Invalid character'')"

definition b64_char :: "nat \<Rightarrow> char" where
  "b64_char n = char_of (if n < 26 then 65 + n else if n < 52 then 71 + n
     else if n < 62 then n - 4 else if n = 62 then 43 else 47)"

definition b64_val :: "char \<Rightarrow> nat option" where
  "b64_val c = (let n = of_char c :: nat in
     if 65 \<le> n \<and> n \<le> 90 then Some (n - 65)
     else if 97 \<le> n \<and> n \<le> 122 then Some (n - 71)
     else if 48 \<le> n \<and> n \<le> 57 then Some (n + 4)
     else if n = 43 then Some 62 else if n = 47 then Some 63 else None)"

definition sextets :: "nat \<Rightarrow> string" where
  "sextets n = [b64_char (n div 64 div 64 div 64 mod 64), b64_char (n div 64 div 64 mod 64),
                b64_char (n div 64 mod 64), b64_char (n mod 64)]"

fun b64_enc :: "bytes \<Rightarrow> string" where
  "b64_enc [] = []"
| "b64_enc [a] = take 2 (sextets (unat a * 65536)) @ ''==''"
| "b64_enc [a, b] = take 3 (sextets ((unat a * 256 + unat b) * 256)) @ ''=''"
| "b64_enc (a # b # c # bs) = sextets ((unat a * 256 + unat b) * 256 + unat c) @ b64_enc bs"

definition octets :: "nat \<Rightarrow> nat \<Rightarrow> nat \<Rightarrow> nat \<Rightarrow> bytes" where
  "octets w x y z = (let n = ((w * 64 + x) * 64 + y) * 64 + z in
     [of_nat (n div 65536), of_nat (n div 256 mod 256), of_nat (n mod 256)])"

fun b64_dec :: "string \<Rightarrow> string + bytes" where
  "b64_dec [] = Inr []"
| "b64_dec (c # d # e # f # cs) =
     (if cs = [] \<and> f = CHR ''='' then
        (case (b64_val c, b64_val d, if e = CHR ''='' then Some 0 else b64_val e) of
           (Some w, Some x, Some y) \<Rightarrow>
             Inr (take (if e = CHR ''='' then 1 else 2) (octets w x y 0))
         | _ \<Rightarrow> Inl ''Invalid byte'')
      else
        (case (b64_val c, b64_val d, b64_val e, b64_val f, b64_dec cs) of
           (Some w, Some x, Some y, Some z, Inr bs) \<Rightarrow> Inr (octets w x y z @ bs)
         | _ \<Rightarrow> Inl ''Invalid byte''))"
| "b64_dec _ = Inl ''Encoded text cannot have a 6-bit remainder.''"

definition std_codecs :: codecs where
  "std_codecs = Codecs hex_enc hex_dec b64_enc b64_dec"

lemma hex_val_char [simp]: "n < 16 \<Longrightarrow> hex_val (hex_char n) = Some n"
  by (auto simp: hex_val_def hex_char_def Let_def)

lemma b64_val_char [simp]: "n < 64 \<Longrightarrow> b64_val (b64_char n) = Some n"
  by (auto simp: b64_val_def b64_char_def Let_def)

lemma b64_char_pad [simp]: "n < 64 \<Longrightarrow> b64_char n \<noteq> CHR ''=''"
  using b64_val_char [of n] by (auto simp: b64_val_def simp del: b64_val_char)

lemma unat_u8: "unat (b :: u8) < 256"
  using unsigned_less [of b] by simp

lemma hex_dec_enc: "hex_dec (hex_enc bs) = Inr bs"
proof (induction bs)
  case (Cons b bs)
  have "unat b div 16 < 16" using unat_u8 [of b] by simp
  then show ?case using Cons by simp
qed simp

lemma octets_sextets:
  assumes "n < 64 * (64 * (64 * 64))"
  shows "octets (n div 64 div 64 div 64 mod 64) (n div 64 div 64 mod 64) (n div 64 mod 64) (n mod 64) =
     [of_nat (n div 65536), of_nat (n div 256 mod 256), of_nat (n mod 256)]"
  using four_digits [OF assms refl refl refl refl] by (simp add: octets_def Let_def)

lemma sextets_dec:
  assumes "n < 64 * (64 * (64 * 64))" and "b64_dec cs = Inr bs"
  shows "b64_dec (sextets n @ cs) =
     Inr (of_nat (n div 65536) # of_nat (n div 256 mod 256) # of_nat (n mod 256) # bs)"
  using octets_sextets [OF assms(1)] assms(2) by (simp add: sextets_def)

lemma three_digits:
  assumes "a < 256" "b < 256" "c < (256 :: nat)" "n = (a * 256 + b) * 256 + c"
  shows "n < 64 * (64 * (64 * 64))" "n div 65536 = a" "n div 256 mod 256 = b" "n mod 256 = c"
proof -
  have "n div 256 = a * 256 + b" using assms by simp
  moreover have "n div 65536 = n div 256 div 256" by (simp add: div_mult2_eq [symmetric])
  ultimately show "n div 65536 = a" "n div 256 mod 256 = b" using assms by simp_all
  show "n < 64 * (64 * (64 * 64))" using assms by simp
  show "n mod 256 = c" unfolding assms(4) using assms(3) by (simp only: mod_mult_self3 mod_less)
qed

lemma pad_dec:
  assumes "n < 64 * (64 * (64 * 64))" and "n mod 64 = 0"
  shows "b64_dec (take 3 (sextets n) @ ''='') = Inr [of_nat (n div 65536), of_nat (n div 256 mod 256)]"
    and "n div 64 mod 64 = 0 \<Longrightarrow> b64_dec (take 2 (sextets n) @ ''=='') = Inr [of_nat (n div 65536)]"
  using octets_sextets [OF assms(1)] assms(2) by (simp_all add: sextets_def)

lemma b64_dec_enc: "b64_dec (b64_enc bs) = Inr bs"
proof (induction bs rule: b64_enc.induct)
  case (2 a)
  define n where "n = unat a * 65536"
  have e: "b64_enc [a] = take 2 (sextets n) @ ''==''" by (simp add: n_def)
  have "n = (unat a * 256 + 0) * 256 + 0" "n mod 64 = 0" "n div 64 mod 64 = 0" by (simp_all add: n_def)
  with three_digits(1,2) [OF unat_u8 _ _ this(1)] show ?case unfolding e by (simp add: pad_dec)
next
  case (3 a b)
  define n where "n = (unat a * 256 + unat b) * 256"
  have e: "b64_enc [a, b] = take 3 (sextets n) @ ''=''" by (simp add: n_def)
  have "n = (unat a * 256 + unat b) * 256 + 0" "n mod 64 = 0" by (simp_all add: n_def)
  with three_digits(1-3) [OF unat_u8 unat_u8 _ this(1)] show ?case unfolding e by (simp add: pad_dec)
next
  case (4 a b c bs)
  define n where "n = (unat a * 256 + unat b) * 256 + unat c"
  have e: "b64_enc (a # b # c # bs) = sextets n @ b64_enc bs" by (simp add: n_def)
  from three_digits [OF unat_u8 unat_u8 unat_u8 n_def] show ?case
    unfolding e by (simp add: sextets_dec [OF _ 4])
qed simp

lemma b64_enc_length: "length (b64_enc bs) = 4 * ((length bs + 2) div 3)"
proof (induction bs rule: b64_enc.induct)
  case (4 a b c bs)
  have "(length (a # b # c # bs) + 2) div 3 = Suc ((length bs + 2) div 3)"
    unfolding length_Cons by presburger
  then show ?case using 4 by (simp add: sextets_def del: length_Cons)
qed (simp_all add: sextets_def)

lemma hex_enc_length: "length (hex_enc bs) = 2 * length bs"
  by (induction bs) simp_all

interpretation std_codecs: key_codecs std_codecs
  by unfold_locales
    (simp_all add: std_codecs_def hex_dec_enc hex_enc_length b64_dec_enc b64_enc_length)

section \<open>Properties\<close>

text \<open>
  Both text forms of a public key parse back to the key.
\<close>

theorem key_text_roundtrip:
  assumes "key_codecs K" and "length (key_bytes pk) = KEY_SIZE"
  shows "key_from_str K PublicKey_new (PublicKey_display K pk) = Returns (Inr pk) \<and>
         key_from_str K PublicKey_new (PublicKey_lower_hex K pk) = Returns (Inr pk)"
  using assms(2)
  by (simp add: PublicKey_display_def PublicKey_lower_hex_def PublicKey_new_def KEY_SIZE_def
      key_codecs.from_hex [OF assms(1)] key_codecs.from_base64 [OF assms(1)])

theorem key_text_roundtrip_witness:
  "key_from_str std_codecs PublicKey_new
     (PublicKey_display std_codecs (PublicKey (replicate 32 186))) = Returns (Inr (PublicKey (replicate 32 186)))"
  using key_text_roundtrip [OF std_codecs.key_codecs_axioms, of "PublicKey (replicate 32 186)"]
  by (simp add: KEY_SIZE_def)

text \<open>
  The two ends of a link elect the same key whatever order they compare the keys in, and it
  is the smaller of the two.
\<close>

theorem smaller_key_is_agreed:
  "smaller_key_in_meshnet_canonical_order a b = smaller_key_in_meshnet_canonical_order b a \<and>
   smaller_key_in_meshnet_canonical_order a b = min a b"
  by (auto simp: smaller_key_in_meshnet_canonical_order_def meshnet_canonical_key_order_def min_def)

text \<open>The integer a key stands for, least significant byte first.\<close>

definition le_value :: "bytes \<Rightarrow> nat" where
  "le_value bs = foldr (\<lambda>b acc. unat b + 256 * acc) bs 0"

lemma le_value_simps [simp]:
  "le_value [] = 0" "le_value (b # bs) = unat b + 256 * le_value bs"
  "le_value (bs @ cs) = le_value bs + 256 ^ length bs * le_value cs"
proof -
  show "le_value (bs @ cs) = le_value bs + 256 ^ length bs * le_value cs"
    by (induction bs) (simp_all add: le_value_def algebra_simps)
qed (simp_all add: le_value_def)

lemma le_value_bound: "le_value bs < 256 ^ length bs"
proof (induction bs)
  case (Cons b bs)
  then show ?case using unat_u8 [of b] by simp
qed simp

lemma unat_and_248: "unat (b AND 248 :: u8) = 8 * (unat b div 8)"
proof -
  have m: "(248 :: u8) = NOT (mask 3)" by (simp add: mask_eq_exp_minus_1 not_eq_complement)
  have "b AND 248 = push_bit 3 (drop_bit 3 b)" by (rule bit_word_eqI) (auto simp: m bit_simps)
  then show ?thesis
    using unat_u8 [of b]
    by (simp add: unsigned_push_bit_eq unat_drop_bit_eq drop_bit_eq_div [where ?'a = nat]
        push_bit_eq_mult [where ?'a = nat] take_bit_eq_mod)
qed

lemma unat_last_byte: "unat ((b AND 127) OR 64 :: u8) = 64 + unat b mod 64"
proof -
  have m: "(127 :: u8) = mask 7" by (simp add: mask_eq_exp_minus_1)
  have bit64: "bit (64 :: u8) n \<longleftrightarrow> n = 6" for n
    using bit_exp_iff [of 6 n, where ?'a = "8 word"] by (auto simp: possible_bit_word)
  have "(b AND 127) OR 64 = take_bit 6 b OR 64"
    unfolding m by (rule bit_word_eqI) (auto simp: bit_simps bit64 simp del: bit_numeral_word_iff)
  also have "\<dots> = take_bit 6 b + 64"
    by (rule disjunctive_add [symmetric]) (auto simp: bit_simps bit64 simp del: bit_numeral_word_iff)
  finally have "(b AND 127) OR 64 = take_bit 6 b + 64" .
  moreover have "unat (take_bit 6 b) = unat b mod 64"
    by (simp add: unsigned_take_bit_eq take_bit_eq_mod [where ?'a = nat])
  moreover have "unat b mod 64 < 64" by simp
  ultimately show ?thesis by (simp add: unat_word_ariths del: mod_less_divisor)
qed

lemma clamp_shape:
  assumes "length mid = 30"
  shows "clamp (first # mid @ [lst]) = (first AND 248) # mid @ [(lst AND 127) OR 64]"
  using assms by (simp add: clamp_def list_update_append nth_append)

lemma key_shape:
  assumes "length bs = KEY_SIZE"
  obtains first mid lst where "bs = first # mid @ [lst]" "length mid = 30"
proof -
  have l: "length (tl bs) = 31" and "bs \<noteq> []" using assms by (auto simp: KEY_SIZE_def)
  moreover have "tl bs \<noteq> []" using l by (metis list.size(3) zero_neq_numeral)
  ultimately show ?thesis using that [of "hd bs" "butlast (tl bs)" "last (tl bs)"] by simp
qed

text \<open>
  A secret key made from any 32 bytes stands for an integer of the form 2^254 + 8k below
  2^255, as X25519 requires, and the two places of the code that clamp a key agree.
\<close>

theorem secret_key_scalar:
  assumes "length bs = KEY_SIZE"
  shows "(\<exists>k < 2 ^ 251. le_value (secret_bytes (SecretKey_new bs)) = 2 ^ 254 + 8 * k) \<and>
         gen_with (\<lambda>_. bs) = SecretKey_new bs \<and>
         SecretKey_new (secret_bytes (SecretKey_new bs)) = SecretKey_new bs"
proof -
  obtain first mid lst where bs: "bs = first # mid @ [lst]" "length mid = 30"
    using assms by (rule key_shape)
  define k where "k = unat first div 8 + 32 * (le_value mid + 256 ^ 30 * (unat lst mod 64))"
  have "le_value mid < 256 ^ 30" using le_value_bound [of mid] bs(2) by simp
  moreover have "unat lst mod 64 \<le> 63" by simp
  ultimately have "le_value mid + 256 ^ 30 * (unat lst mod 64) < 256 ^ 30 * 64" by simp
  moreover have "unat first div 8 < 32" using unat_u8 [of first] by simp
  ultimately have "k < 2 ^ 251" by (simp add: k_def)
  moreover have "le_value (secret_bytes (SecretKey_new bs)) = 2 ^ 254 + 8 * k"
    by (simp add: SecretKey_new_def bs clamp_shape unat_and_248 unat_last_byte k_def algebra_simps)
  moreover have "gen_with (\<lambda>_. bs) = SecretKey_new bs"
    by (simp add: gen_with_def SecretKey_new_def bs clamp_shape Let_def butlast_append)
  moreover have "(first AND 248) AND 248 = first AND 248"
    "(((lst AND 127) OR 64) AND 127) OR 64 = (lst AND 127) OR 64"
    by (simp_all add: word_unat_eq_iff unat_and_248 unat_last_byte)
  ultimately show ?thesis by (auto simp: SecretKey_new_def bs clamp_shape)
qed

theorem secret_key_scalar_witness:
  "SecretKey_new (secret_bytes (SecretKey_new (replicate 32 255))) = SecretKey_new (replicate 32 255)"
  using secret_key_scalar [of "replicate 32 255"] by (simp add: KEY_SIZE_def)

text \<open>
  A 44 character string that is valid base64 is taken for a key even when it does not encode
  32 bytes: a shorter one is filled up with zero bytes, and a longer one (no padding characters)
  panics.
\<close>

theorem base64_key_of_other_length:
  assumes "length s = 44" and "base64_decode K s = Inr bs"
  shows "key_from_str K new s =
     (if length bs \<le> KEY_SIZE then Returns (Inr (new (bs @ replicate (KEY_SIZE - length bs) 0)))
      else Panics)"
  using assms by (simp add: key_from_str_def base64_decode_slice_def)

lemma b64_dec_zeros:
  "b64_dec cs = Inr bs \<Longrightarrow>
     b64_dec (concat (replicate n ''AAAA'') @ cs) = Inr (concat (replicate n [0, 0, 0]) @ bs)"
  by (induction n) (simp_all add: b64_val_def octets_def)

theorem base64_key_of_other_length_witness:
  "key_from_str std_codecs PublicKey_new (concat (replicate 11 ''AAAA'')) = Panics \<and>
   key_from_str std_codecs PublicKey_new (concat (replicate 10 ''AAAA'') @ ''AA=='') =
     Returns (Inr (PublicKey (concat (replicate 10 [0, 0, 0]) @ [0, 0])))"
proof -
  have "base64_decode std_codecs (concat (replicate 11 ''AAAA'')) = Inr (concat (replicate 11 [0, 0, 0]))"
    using b64_dec_zeros [of "[]" "[]" 11] by (simp add: std_codecs_def)
  moreover have "b64_dec ''AA=='' = Inr [0]" by (simp add: b64_val_def octets_def)
  then have "base64_decode std_codecs (concat (replicate 10 ''AAAA'') @ ''AA=='') =
      Inr (concat (replicate 10 [0, 0, 0]) @ [0])"
    using b64_dec_zeros [of "''AA==''" "[0]" 10] by (simp add: std_codecs_def)
  ultimately show ?thesis
    using base64_key_of_other_length [of "concat (replicate 11 ''AAAA'')" std_codecs _ PublicKey_new]
      base64_key_of_other_length [of "concat (replicate 10 ''AAAA'') @ ''AA==''" std_codecs _ PublicKey_new]
    by (simp add: KEY_SIZE_def PublicKey_new_def length_concat sum_list_replicate)
qed

end
