(* ===== verification/BTree_Map.thy ===== *)
theory BTree_Map
  imports Telio_Prelude
begin

text \<open>
  \<open>std::collections::BTreeMap\<close> as the list of its entries in the order of the keys, the order
  in which it is iterated: lookup is \<open>map_of\<close>, and insertion and removal keep the list sorted.
\<close>

type_synonym ('k, 'v) btree_map = "('k \<times> 'v) list"

definition btm_ok :: "('k :: linorder, 'v) btree_map \<Rightarrow> bool" where
  "btm_ok m \<longleftrightarrow> sorted_wrt (<) (map fst m)"

definition btm_keys :: "('k, 'v) btree_map \<Rightarrow> 'k set" where
  "btm_keys m = fst ` set m"

fun btm_insert :: "'k :: linorder \<Rightarrow> 'v \<Rightarrow> ('k, 'v) btree_map \<Rightarrow> ('k, 'v) btree_map" where
  "btm_insert k v [] = [(k, v)]"
| "btm_insert k v ((k', v') # m) =
     (if k < k' then (k, v) # (k', v') # m
      else if k = k' then (k, v) # m
      else (k', v') # btm_insert k v m)"

definition btm_remove :: "'k \<Rightarrow> ('k, 'v) btree_map \<Rightarrow> ('k, 'v) btree_map" where
  "btm_remove k m = drop_key k m"

definition btm_map :: "('k \<Rightarrow> 'v \<Rightarrow> 'w) \<Rightarrow> ('k, 'v) btree_map \<Rightarrow> ('k, 'w) btree_map" where
  "btm_map f m = map (\<lambda>(k, v). (k, f k v)) m"

definition btm_collect :: "('k :: linorder \<times> 'v) list \<Rightarrow> ('k, 'v) btree_map" where
  "btm_collect es = fold (\<lambda>(k, v). btm_insert k v) es []"

lemma btm_ok_simps [simp]:
  "btm_ok []" "btm_ok ((k, v) # m) \<longleftrightarrow> (\<forall>k' \<in> btm_keys m. k < k') \<and> btm_ok m"
  by (auto simp: btm_ok_def btm_keys_def)

lemma btm_keys_insert [simp]: "btm_keys (btm_insert k v m) = insert k (btm_keys m)"
proof (induction m)
  case (Cons e m)
  then show ?case by (cases e) (auto simp: btm_keys_def)
qed (simp add: btm_keys_def)

lemma btm_keys_simps [simp]:
  "btm_keys [] = {}" "btm_keys ((k, v) # m) = insert k (btm_keys m)"
  "btm_keys (btm_remove k'' m'') = btm_keys m'' - {k''}"
  "btm_keys (btm_map f m3) = btm_keys m3"
  "finite (btm_keys m)"
  by (force simp: btm_keys_def btm_remove_def btm_map_def image_iff)+

lemma btm_keys_dom: "btm_keys m = dom (map_of m)"
  by (simp add: btm_keys_def dom_map_of_conv_image_fst)

lemma btm_get_None [simp]: "map_of m k = None \<longleftrightarrow> k \<notin> btm_keys m"
  by (simp add: btm_keys_def map_of_eq_None_iff)

lemma btm_ok_distinct: "btm_ok m \<Longrightarrow> distinct (map fst m)"
  by (simp add: btm_ok_def strict_sorted_iff)

lemma btm_ok_entry: "btm_ok m \<Longrightarrow> (k, v) \<in> set m \<longleftrightarrow> map_of m k = Some v"
  by (simp add: btm_ok_distinct)

lemma btm_insert_ok [intro]: "btm_ok m \<Longrightarrow> btm_ok (btm_insert k v m)"
  by (induction m) (auto dest!: bspec intro: order.strict_trans simp: not_less_iff_gr_or_eq)

lemma btm_remove_ok [intro]: "btm_ok m \<Longrightarrow> btm_ok (btm_remove k m)"
  by (induction m) (auto simp: btm_remove_def btm_keys_def)

lemma btm_map_ok [simp]: "btm_ok (btm_map f m) = btm_ok m"
  by (simp add: btm_ok_def btm_map_def case_prod_beta comp_def)

lemma btm_get_insert [lookup_simps]: "map_of (btm_insert k v m) = (map_of m)(k \<mapsto> v)"
  by (induction k v m rule: btm_insert.induct) (auto simp: fun_eq_iff)

lemma btm_get_remove [lookup_simps]: "map_of (btm_remove k m) = (map_of m)(k := None)"
  by (simp add: btm_remove_def)

lemma btm_get_map [lookup_simps]: "map_of (btm_map f m) k = map_option (f k) (map_of m k)"
  by (induction m) (auto simp: btm_map_def)

lemma btm_fold_ok: "btm_ok m \<Longrightarrow> btm_ok (fold (\<lambda>(k, v). btm_insert k v) es m)"
  by (induction es arbitrary: m) auto

lemma btm_collect_ok [simp, intro]: "btm_ok (btm_collect es)"
  by (simp add: btm_collect_def btm_fold_ok)

lemma btm_insert_last:
  "\<forall>k' \<in> btm_keys m. k' < k \<Longrightarrow> btm_insert k v m = m @ [(k, v)]"
  by (induction m) force+

text \<open>Collecting the entries of a map gives the map.\<close>

lemma btm_fold_sorted:
  "btm_ok (m @ es) \<Longrightarrow> fold (\<lambda>(k, v). btm_insert k v) es m = m @ es"
proof (induction es arbitrary: m)
  case (Cons e es)
  obtain k v where e: "e = (k, v)" by (cases e)
  have "\<forall>k' \<in> btm_keys m. k' < k"
    using Cons.prems by (auto simp: btm_ok_def e sorted_wrt_append btm_keys_def)
  then show ?case using Cons.IH [of "m @ [e]"] Cons.prems by (simp add: e btm_insert_last)
qed simp

lemma btm_collect_sorted: "btm_ok m \<Longrightarrow> btm_collect m = m"
  using btm_fold_sorted [of "[]" m] by (simp add: btm_collect_def)

text \<open>Two maps with the same lookups are the same list.\<close>

lemma btm_rebuild: "btm_ok m \<Longrightarrow> m = map (\<lambda>k. (k, the (map_of m k))) (map fst m)"
  using btm_ok_entry [of m] by (fastforce intro!: map_idI [symmetric] simp: comp_def)

lemma btm_eq_iff:
  assumes "btm_ok m" "btm_ok n"
  shows "m = n \<longleftrightarrow> map_of m = map_of n"
proof
  assume e: "map_of m = map_of n"
  then have "set (map fst m) = set (map fst n)"
    using btm_keys_dom [of m] btm_keys_dom [of n] by (simp add: btm_keys_def)
  then have "map fst m = map fst n"
    using assms strict_sorted_equal [of "map fst n" "map fst m"] by (simp add: btm_ok_def)
  then show "m = n" using btm_rebuild [OF assms(1)] btm_rebuild [OF assms(2)] e by simp
qed simp

end
