(* ===== verification/Uapi.thy ===== *)
theory Uapi
  imports Crypto BTree_Map
begin

text \<open>
  WireGuard peers and interfaces (crates/telio-wg/src/uapi.rs): the records, their conversions
  from and to the types of the \<open>wireguard_uapi\<close> crate, the connection state of a peer, and the
  dual-stack view of its addresses (with \<open>DualTarget\<close> of
  crates/telio-utils/src/dual_target.rs). Durations are in nanoseconds. The \<open>ipnet\<close> crate is
  the parameter \<open>ipnet_ops\<close> over the type \<open>'n\<close> of its networks.
\<close>

section \<open>Networks\<close>

datatype 'n ipnet_ops = IpNetOps
  (net_new: "StdIpAddr \<Rightarrow> u8 \<Rightarrow> 'n option") (net_network: "'n \<Rightarrow> StdIpAddr")
  (net_prefix_len: "'n \<Rightarrow> u8")

definition from_secs :: "nat \<Rightarrow> duration" where "from_secs s = s * 1000000000"
definition from_millis :: "nat \<Rightarrow> duration" where "from_millis s = s * 1000000"

section \<open>Dual-stack targets\<close>

type_synonym Target = "u32 option \<times> u128 option"

record DualTarget =
  target :: Target

datatype IpStack = IPv4 | IPv6 | IPv4v6

text \<open>\<open>Err(NoTarget)\<close> is \<open>None\<close>.\<close>

definition DualTarget_new :: "Target \<Rightarrow> DualTarget option" where
  "DualTarget_new t = (if fst t = None \<and> snd t = None then None else Some \<lparr>target = t\<rparr>)"

definition DualTarget_default :: DualTarget where
  "DualTarget_default = \<lparr>target = (None, None)\<rparr>"

definition delete_address :: "DualTarget \<Rightarrow> IpStack \<Rightarrow> DualTarget" where
  "delete_address d stack =
     (case stack of
        IPv4 \<Rightarrow> \<lparr>target = (None, snd (target d))\<rparr>
      | IPv6 \<Rightarrow> \<lparr>target = (fst (target d), None)\<rparr>
      | IPv4v6 \<Rightarrow> \<lparr>target = (None, None)\<rparr>)"

definition get_targets :: "DualTarget \<Rightarrow> (StdIpAddr \<times> StdIpAddr option) option" where
  "get_targets d =
     (case target d of
        (Some ip4, Some ip6) \<Rightarrow> Some (V6 ip6, Some (V4 ip4))
      | (Some ip4, None) \<Rightarrow> Some (V4 ip4, None)
      | (None, Some ip6) \<Rightarrow> Some (V6 ip6, None)
      | (None, None) \<Rightarrow> None)"

definition build_ping_endpoint :: "StdIpAddr list \<Rightarrow> bool \<Rightarrow> Target" where
  "build_ping_endpoint ip_addresses use_ipv6 =
     fold (\<lambda>ip (ipv4, ipv6).
         (case (ip, ipv4, ipv6, use_ipv6) of
            (V4 v4, None, _, _) \<Rightarrow> (Some v4, ipv6)
          | (V6 v6, _, None, True) \<Rightarrow> (ipv4, Some v6)
          | _ \<Rightarrow> (ipv4, ipv6)))
       ip_addresses (None, None)"

section \<open>Peers\<close>

datatype UpdateReason = Push | Pull
datatype NodeState = Disconnected | Connecting | Connected
datatype LinkState = Down | Up

record 'n Peer =
  public_key :: PublicKey
  endpoint :: "SocketAddr option"
  endpoint_changed_at :: "(instant \<times> UpdateReason) option"
  peer_ip_addresses :: "StdIpAddr list"
  persistent_keepalive_interval :: "u32 option"
  allowed_ips :: "'n list"
  rx_bytes :: "u64 option"
  time_since_last_rx :: "duration option"
  tx_bytes :: "u64 option"
  time_since_last_handshake :: "duration option"
  preshared_key :: "PresharedKey option"

definition Peer_default :: "'n Peer" where
  "Peer_default =
     \<lparr>public_key = PublicKey (replicate 32 0), endpoint = None, endpoint_changed_at = None,
      peer_ip_addresses = [], persistent_keepalive_interval = None, allowed_ips = [],
      rx_bytes = None, time_since_last_rx = None, tx_bytes = None,
      time_since_last_handshake = None, preshared_key = None\<rparr>"

text \<open>\<open>REJECT_AFTER_TIME\<close> is 180 s, \<open>REKEY_TIMEOUT_JITTER\<close> 334 ms.\<close>

definition is_connected :: "'n Peer \<Rightarrow> bool" where
  "is_connected p =
     (case time_since_last_rx p of
        None \<Rightarrow> False
      | Some d \<Rightarrow> d < from_secs 180 + from_millis 334)"

definition peer_state :: "'n Peer \<Rightarrow> NodeState" where
  "peer_state p = (if is_connected p then Connected else Connecting)"

definition is_same_event :: "'n Peer \<Rightarrow> 'n Peer \<Rightarrow> bool" where
  "is_same_event p q \<longleftrightarrow>
     (public_key p, endpoint p, allowed_ips p) = (public_key q, endpoint q, allowed_ips q)"

text \<open>\<open>now\<close> is the reading of the system clock, \<open>None\<close> when it is before the epoch.\<close>

definition calculate_time_since_last_handshake ::
  "duration option \<Rightarrow> duration option \<Rightarrow> duration option" where
  "calculate_time_since_last_handshake now lht =
     (case lht of
        None \<Rightarrow> None
      | Some handshake_time \<Rightarrow>
          if handshake_time = 0 then None
          else (case now of
                  None \<Rightarrow> None
                | Some t \<Rightarrow> if handshake_time \<le> t then Some (t - handshake_time) else None))"

definition dual_push :: "Target \<Rightarrow> DualTarget list \<Rightarrow> DualTarget list" where
  "dual_push t acc = acc @ [case DualTarget_new t of Some dt \<Rightarrow> dt | None \<Rightarrow> DualTarget_default]"

fun dual_loop :: "StdIpAddr list \<Rightarrow> Target \<Rightarrow> DualTarget list \<Rightarrow> DualTarget list" where
  "dual_loop [] t acc = (if t \<noteq> (None, None) then dual_push t acc else acc)"
| "dual_loop (V4 ip # ips) t acc =
     (if fst t = None then dual_loop ips (Some ip, snd t) acc
      else dual_loop ips (Some ip, None) (dual_push t acc))"
| "dual_loop (V6 ip # ips) t acc =
     (if snd t = None then dual_loop ips (fst t, Some ip) acc
      else dual_loop ips (None, Some ip) (dual_push t acc))"

definition get_dual_ip_addresses :: "'n Peer \<Rightarrow> DualTarget list" where
  "get_dual_ip_addresses p = dual_loop (peer_ip_addresses p) (None, None) []"

section \<open>Types of the wireguard_uapi crate\<close>

record AllowedIp =
  ipaddr :: StdIpAddr
  cidr_mask :: u8

record get_Peer =
  g_public_key :: bytes
  g_preshared_key :: bytes
  g_endpoint :: "SocketAddr option"
  g_persistent_keepalive_interval :: u16
  g_allowed_ips :: "AllowedIp list"
  g_rx_bytes :: u64
  g_tx_bytes :: u64
  g_last_handshake_time :: duration

record get_Device =
  g_private_key :: "bytes option"
  g_listen_port :: u16
  g_fwmark :: u32
  g_peers :: "get_Peer list"

record set_Peer =
  s_public_key :: bytes
  s_remove :: "bool option"
  s_update_only :: "bool option"
  s_preshared_key :: "bytes option"
  s_endpoint :: "SocketAddr option"
  s_persistent_keepalive_interval :: "u16 option"
  s_replace_allowed_ips :: "bool option"
  s_allowed_ips :: "AllowedIp list"

definition set_Peer_from_public_key :: "bytes \<Rightarrow> set_Peer" where
  "set_Peer_from_public_key pk =
     \<lparr>s_public_key = pk, s_remove = None, s_update_only = None, s_preshared_key = None,
      s_endpoint = None, s_persistent_keepalive_interval = None, s_replace_allowed_ips = None,
      s_allowed_ips = []\<rparr>"

record set_Device =
  s_private_key :: "bytes option"
  s_listen_port :: "u16 option"
  s_fwmark :: "u32 option"
  s_replace_peers :: "bool option"
  s_peers :: "set_Peer list"

section \<open>Conversions\<close>

text \<open>\<open>collect::<Result<Vec<IpNet>, _>>().unwrap_or_default()\<close>: one bad entry drops them all.\<close>

definition nets_of :: "'n ipnet_ops \<Rightarrow> AllowedIp list \<Rightarrow> 'n list" where
  "nets_of N ips =
     (case those (map (\<lambda>ip. net_new N (ipaddr ip) (cidr_mask ip)) ips) of
        None \<Rightarrow> []
      | Some nets \<Rightarrow> nets)"

definition Peer_from_get :: "'n ipnet_ops \<Rightarrow> duration option \<Rightarrow> get_Peer \<Rightarrow> 'n Peer" where
  "Peer_from_get N now item =
     \<lparr>public_key = PublicKey (g_public_key item), endpoint = g_endpoint item,
      endpoint_changed_at = None, peer_ip_addresses = [],
      persistent_keepalive_interval = Some (ucast (g_persistent_keepalive_interval item)),
      allowed_ips = nets_of N (g_allowed_ips item),
      rx_bytes = Some (g_rx_bytes item), time_since_last_rx = None,
      tx_bytes = Some (g_tx_bytes item),
      time_since_last_handshake =
        calculate_time_since_last_handshake now (Some (g_last_handshake_time item)),
      preshared_key =
        (if g_preshared_key item = replicate 32 0 then None
         else Some (PresharedKey (g_preshared_key item)))\<rparr>"

definition Peer_from_set :: "'n ipnet_ops \<Rightarrow> set_Peer \<Rightarrow> 'n Peer" where
  "Peer_from_set N item =
     Peer_default\<lparr>public_key := PublicKey (s_public_key item), endpoint := s_endpoint item,
       persistent_keepalive_interval := map_option ucast (s_persistent_keepalive_interval item),
       allowed_ips := nets_of N (s_allowed_ips item),
       preshared_key := map_option PresharedKey (s_preshared_key item)\<rparr>"

definition set_Peer_from :: "'n ipnet_ops \<Rightarrow> 'n Peer \<Rightarrow> set_Peer" where
  "set_Peer_from N item =
     \<lparr>s_public_key = key_bytes (public_key item), s_remove = None, s_update_only = None,
      s_preshared_key = map_option psk_bytes (preshared_key item),
      s_endpoint = endpoint item,
      s_persistent_keepalive_interval = map_option ucast (persistent_keepalive_interval item),
      s_replace_allowed_ips = None,
      s_allowed_ips = map (\<lambda>ip. \<lparr>ipaddr = net_network N ip, cidr_mask = net_prefix_len N ip\<rparr>)
                        (allowed_ips item)\<rparr>"

record 'n Interface =
  private_key :: "SecretKey option"
  listen_port :: "u16 option"
  proxy_listen_port :: "u16 option"
  fwmark :: u32
  peers :: "(PublicKey, 'n Peer) btree_map"

definition Interface_default :: "'n Interface" where
  "Interface_default =
     \<lparr>private_key = None, listen_port = None, proxy_listen_port = None, fwmark = 0, peers = []\<rparr>"

definition Interface_from_get :: "'n ipnet_ops \<Rightarrow> duration option \<Rightarrow> get_Device \<Rightarrow> 'n Interface" where
  "Interface_from_get N now item =
     \<lparr>private_key = map_option SecretKey_new (g_private_key item),
      listen_port = Some (g_listen_port item), proxy_listen_port = None, fwmark = g_fwmark item,
      peers = btm_collect (map (\<lambda>p. (PublicKey (g_public_key p), Peer_from_get N now p))
                             (g_peers item))\<rparr>"

definition Interface_from_set :: "'n ipnet_ops \<Rightarrow> set_Device \<Rightarrow> 'n Interface" where
  "Interface_from_set N item =
     \<lparr>private_key = map_option SecretKey_new (s_private_key item),
      listen_port = s_listen_port item, proxy_listen_port = None,
      fwmark = (case s_fwmark item of None \<Rightarrow> 0 | Some x \<Rightarrow> x),
      peers = btm_collect (map (\<lambda>p. (PublicKey (s_public_key p), Peer_from_set N p))
                             (s_peers item))\<rparr>"

definition set_Device_from :: "'n ipnet_ops \<Rightarrow> 'n Interface \<Rightarrow> set_Device" where
  "set_Device_from N item =
     \<lparr>s_private_key = map_option secret_bytes (private_key item),
      s_listen_port = listen_port item,
      s_fwmark = (if fwmark item = 0 then None else Some (fwmark item)),
      s_replace_peers = None,
      s_peers = map (\<lambda>(_, p). set_Peer_from N p) (peers item)\<rparr>"

section \<open>Commands, responses and events\<close>

datatype Cmd = Get | Set set_Device

record 'n Response =
  errno :: int
  interface :: "'n Interface option"

record 'n Event =
  ev_state :: NodeState
  ev_link_state :: "LinkState option"
  ev_peer :: "'n Peer"
  ev_old_peer :: "'n Peer option"

record AnalyticsEvent =
  an_public_key :: PublicKey
  dual_ip_addresses :: "DualTarget list"
  an_tx_bytes :: u64
  an_rx_bytes :: u64
  an_peer_state :: NodeState
  an_timestamp :: instant

text \<open>100.64.0.1 to 100.64.0.7 and fd74:656c:696f::1 to fd74:656c:696f::7.\<close>

definition check_virtual_address_range :: "StdIpAddr \<Rightarrow> bool" where
  "check_virtual_address_range addr =
     (case addr of
        V4 a \<Rightarrow> drop_bit 8 a = 0x644000 \<and> 1 \<le> a AND 0xff \<and> a AND 0xff \<le> 7
      | V6 a \<Rightarrow> drop_bit 16 a = 0xfd74656c696f0000000000000000
                \<and> 1 \<le> a AND 0xffff \<and> a AND 0xffff \<le> 7)"

definition is_from_virtual_peer :: "AnalyticsEvent \<Rightarrow> bool" where
  "is_from_virtual_peer ev =
     list_ex (\<lambda>d. case get_targets d of
                 None \<Rightarrow> False
               | Some (first, secondary) \<Rightarrow>
                   check_virtual_address_range first
                   \<or> (case secondary of None \<Rightarrow> False | Some ip \<Rightarrow> check_virtual_address_range ip))
       (dual_ip_addresses ev)"

definition AnalyticsEvent_from_event :: "instant \<Rightarrow> 'n Event \<Rightarrow> AnalyticsEvent" where
  "AnalyticsEvent_from_event now event =
     \<lparr>an_public_key = public_key (ev_peer event),
      dual_ip_addresses = get_dual_ip_addresses (ev_peer event),
      an_tx_bytes = (case tx_bytes (ev_peer event) of None \<Rightarrow> 0 | Some n \<Rightarrow> n),
      an_rx_bytes = (case rx_bytes (ev_peer event) of None \<Rightarrow> 0 | Some n \<Rightarrow> n),
      an_peer_state = ev_state event, an_timestamp = now\<rparr>"

section \<open>Dual-stack view\<close>

definition v4s :: "StdIpAddr list \<Rightarrow> u32 list" where
  "v4s ips = List.map_filter (\<lambda>ip. case ip of V4 a \<Rightarrow> Some a | V6 _ \<Rightarrow> None) ips"

definition v6s :: "StdIpAddr list \<Rightarrow> u128 list" where
  "v6s ips = List.map_filter (\<lambda>ip. case ip of V4 _ \<Rightarrow> None | V6 a \<Rightarrow> Some a) ips"

lemma v4s_simps [simp]: "v4s [] = []" "v4s (V4 a # ips) = a # v4s ips" "v4s (V6 b # ips) = v4s ips"
  by (simp_all add: v4s_def List.map_filter_def)

lemma v6s_simps [simp]: "v6s [] = []" "v6s (V4 a # ips) = v6s ips" "v6s (V6 b # ips) = b # v6s ips"
  by (simp_all add: v6s_def List.map_filter_def)

abbreviation targets4 :: "DualTarget list \<Rightarrow> u32 list" where
  "targets4 ds \<equiv> List.map_filter (\<lambda>d. fst (target d)) ds"

abbreviation targets6 :: "DualTarget list \<Rightarrow> u128 list" where
  "targets6 ds \<equiv> List.map_filter (\<lambda>d. snd (target d)) ds"

lemma get_targets_None [simp]: "get_targets d = None \<longleftrightarrow> target d = (None, None)"
  by (auto simp: get_targets_def split: prod.split option.split)

lemma dual_push_targets:
  "t \<noteq> (None, None) \<Longrightarrow> targets4 (dual_push t acc) = targets4 acc @ (case fst t of None \<Rightarrow> [] | Some a \<Rightarrow> [a])"
  "t \<noteq> (None, None) \<Longrightarrow> targets6 (dual_push t acc) = targets6 acc @ (case snd t of None \<Rightarrow> [] | Some a \<Rightarrow> [a])"
  "t \<noteq> (None, None) \<Longrightarrow> None \<in> get_targets ` set (dual_push t acc) \<longleftrightarrow> None \<in> get_targets ` set acc"
  by (auto simp: dual_push_def DualTarget_new_def image_iff eq_commute [of None] prod_eq_iff
      split: option.split)

lemma dual_loop_targets:
  "targets4 (dual_loop ips t acc) = targets4 acc @ (case fst t of None \<Rightarrow> [] | Some a \<Rightarrow> [a]) @ v4s ips"
  "targets6 (dual_loop ips t acc) = targets6 acc @ (case snd t of None \<Rightarrow> [] | Some a \<Rightarrow> [a]) @ v6s ips"
  "None \<in> get_targets ` set (dual_loop ips t acc) \<longleftrightarrow> None \<in> get_targets ` set acc"
  by (induction ips t acc rule: dual_loop.induct)
    (auto simp: dual_push_targets prod_eq_iff split: option.splits)

text \<open>
  The dual-stack view of a peer's addresses loses, repeats and reorders nothing: the IPv4 and
  the IPv6 addresses of the targets are those of the peer, in their order, and no target is empty.
\<close>

theorem dual_addresses_complete:
  "targets4 (get_dual_ip_addresses p) = v4s (peer_ip_addresses p) \<and>
   targets6 (get_dual_ip_addresses p) = v6s (peer_ip_addresses p) \<and>
   None \<notin> get_targets ` set (get_dual_ip_addresses p)"
  by (simp add: get_dual_ip_addresses_def dual_loop_targets)

section \<open>Conversion round trip\<close>

text \<open>An interface is keyed by the public keys of its peers.\<close>

definition interface_ok :: "'n Interface \<Rightarrow> bool" where
  "interface_ok i \<longleftrightarrow> btm_ok (peers i) \<and> list_all (\<lambda>(k, p). public_key p = k) (peers i)"

definition net_canonical :: "'n ipnet_ops \<Rightarrow> 'n \<Rightarrow> bool" where
  "net_canonical N n \<longleftrightarrow> net_new N (net_network N n) (net_prefix_len N n) = Some n"

definition nets_canonical :: "'n ipnet_ops \<Rightarrow> 'n Interface \<Rightarrow> bool" where
  "nets_canonical N i \<longleftrightarrow> list_all (\<lambda>(k, p). list_all (net_canonical N) (allowed_ips p)) (peers i)"

text \<open>What a set request carries of a peer; the keepalive interval only has 16 bits there.\<close>

definition transferred :: "'n Peer \<Rightarrow> 'n Peer" where
  "transferred p =
     Peer_default\<lparr>public_key := public_key p, endpoint := endpoint p,
       persistent_keepalive_interval := map_option (take_bit 16) (persistent_keepalive_interval p),
       allowed_ips := allowed_ips p, preshared_key := preshared_key p\<rparr>"

lemma interface_ok_peer:
  "interface_ok i \<Longrightarrow> map_of (peers i) k = Some p \<Longrightarrow> public_key p = k"
  by (auto simp: interface_ok_def list_all_iff dest: map_of_SomeD)

lemma nets_of_canonical:
  "list_all (net_canonical N) ns \<Longrightarrow>
     nets_of N (map (\<lambda>ip. \<lparr>ipaddr = net_network N ip, cidr_mask = net_prefix_len N ip\<rparr>) ns) = ns"
proof -
  assume "list_all (net_canonical N) ns"
  then have "those (map (\<lambda>n. net_new N (net_network N n) (net_prefix_len N n)) ns) = Some ns"
    by (induction ns) (simp_all add: net_canonical_def)
  then show ?thesis by (simp add: nets_of_def comp_def)
qed

lemma ucast_via_u16: "(ucast (ucast x :: u16) :: u32) = take_bit 16 x"
  by (rule bit_word_eqI) (auto simp: bit_simps)

lemma peer_set_roundtrip:
  "list_all (net_canonical N) (allowed_ips p) \<Longrightarrow> Peer_from_set N (set_Peer_from N p) = transferred p"
  by (simp add: Peer_from_set_def set_Peer_from_def transferred_def nets_of_canonical
      option.map_comp option.map_ident comp_def ucast_via_u16)

text \<open>
  Converting an interface to a set request and back keeps the private key, the listen port,
  the firewall mark and, for every peer, its key, endpoint, networks and preshared key; the
  keepalive interval is cut to 16 bits, and the other fields do not travel.
\<close>

theorem interface_set_roundtrip:
  assumes "interface_ok i" and "nets_canonical N i"
    and "map_option (\<lambda>k. SecretKey_new (secret_bytes k)) (private_key i) = private_key i"
  shows "Interface_from_set N (set_Device_from N i) =
     i\<lparr>proxy_listen_port := None, peers := btm_map (\<lambda>_. transferred) (peers i)\<rparr>"
proof -
  have "map (\<lambda>p. (PublicKey (s_public_key p), Peer_from_set N p)) (map (\<lambda>(_, p). set_Peer_from N p) (peers i)) =
      btm_map (\<lambda>_. transferred) (peers i)"
    using assms(1,2)
    by (auto simp: btm_map_def interface_ok_def nets_canonical_def list_all_iff peer_set_roundtrip
        set_Peer_from_def [THEN arg_cong, of s_public_key])
  moreover have "btm_ok (btm_map (\<lambda>_. transferred) (peers i))"
    using assms(1) by (simp add: interface_ok_def)
  ultimately show ?thesis
    using assms(3)
    by (simp add: Interface_from_set_def set_Device_from_def btm_collect_sorted option.map_comp comp_def)
qed

text \<open>A networks type for examples: an address and a prefix length.\<close>

datatype ref_net = RefNet StdIpAddr u8

definition ref_ipnet :: "ref_net ipnet_ops" where
  "ref_ipnet = IpNetOps
     (\<lambda>a p. if p \<le> (case a of V4 _ \<Rightarrow> 32 | V6 _ \<Rightarrow> 128) then Some (RefNet a p) else None)
     (\<lambda>n. case n of
            RefNet (V4 a) p \<Rightarrow> V4 (push_bit (32 - unat p) (drop_bit (32 - unat p) a))
          | RefNet (V6 a) p \<Rightarrow> V6 (push_bit (128 - unat p) (drop_bit (128 - unat p) a)))
     (\<lambda>n. case n of RefNet _ p \<Rightarrow> p)"

definition sample_peer_of :: "u8 \<Rightarrow> ref_net Peer" where
  "sample_peer_of b =
     Peer_default\<lparr>public_key := PublicKey (replicate 32 b), endpoint := Some (SockV4 0x0A000001 51820),
       persistent_keepalive_interval := Some 65561, allowed_ips := [RefNet (V4 0x64400000) 10]\<rparr>"

theorem interface_set_roundtrip_witness:
  "Interface_from_set ref_ipnet (set_Device_from ref_ipnet
      (Interface_default\<lparr>fwmark := 7, peers := [(PublicKey (replicate 32 5), sample_peer_of 5)]\<rparr>)) =
   Interface_default\<lparr>fwmark := 7, peers := [(PublicKey (replicate 32 5),
      (sample_peer_of 5)\<lparr>persistent_keepalive_interval := Some 25\<rparr>)]\<rparr>"
  using interface_set_roundtrip [of "Interface_default\<lparr>fwmark := 7,
      peers := [(PublicKey (replicate 32 5), sample_peer_of 5)]\<rparr>" ref_ipnet]
  by (simp add: interface_ok_def nets_canonical_def net_canonical_def ref_ipnet_def sample_peer_of_def
      Interface_default_def btm_map_def transferred_def Peer_default_def)

end
