(* ===== verification/Link_Detection.thy ===== *)
theory Link_Detection
  imports Uapi
begin

text \<open>
  Link detection (crates/telio-wg/src/link_detection.rs) and the traffic counters it reads
  (\<open>BytesAndTimestamps\<close> of crates/telio-wg/src/wg.rs). The counters of a peer are shared
  between the adapter state and the link detection (\<open>Arc<Mutex<..>>\<close>): a \<open>cell\<close> is a
  reference into a store of counters. The pinging task of the enhanced detection is not modelled;
  the requests sent to it are recorded.
\<close>

section \<open>Traffic counters\<close>

definition KEEPALIVE_PACKET_SIZE :: u64 where "KEEPALIVE_PACKET_SIZE = 32"
definition WG_KEEPALIVE :: duration where "WG_KEEPALIVE = from_secs 10"

record BytesAndTimestamps =
  stat_rx_bytes :: u64
  stat_tx_bytes :: u64
  rx_ts :: "instant option"
  tx_ts :: "instant option"

definition BytesAndTimestamps_new :: "u64 option \<Rightarrow> u64 option \<Rightarrow> instant \<Rightarrow> BytesAndTimestamps" where
  "BytesAndTimestamps_new rx tx now =
     (let rx = (case rx of None \<Rightarrow> 0 | Some n \<Rightarrow> n); tx = (case tx of None \<Rightarrow> 0 | Some n \<Rightarrow> n)
      in \<lparr>stat_rx_bytes = rx, stat_tx_bytes = tx,
          rx_ts = (if rx > 0 then Some now else None), tx_ts = (if tx > 0 then Some now else None)\<rparr>)"

definition BytesAndTimestamps_update ::
  "BytesAndTimestamps \<Rightarrow> u64 \<Rightarrow> u64 \<Rightarrow> instant \<Rightarrow> BytesAndTimestamps" where
  "BytesAndTimestamps_update b new_rx new_tx now =
     (let b1 = (if new_rx > stat_rx_bytes b then b\<lparr>stat_rx_bytes := new_rx, rx_ts := Some now\<rparr> else b)
      in if new_tx > stat_tx_bytes b1 then
           (if new_tx - stat_tx_bytes b1 \<noteq> KEEPALIVE_PACKET_SIZE then b1\<lparr>tx_ts := Some now\<rparr> else b1)
             \<lparr>stat_tx_bytes := new_tx\<rparr>
         else b1)"

definition is_link_up :: "BytesAndTimestamps \<Rightarrow> duration \<Rightarrow> instant \<Rightarrow> bool" where
  "is_link_up b rtt now =
     (case (rx_ts b, tx_ts b) of
        (Some rx, Some tx) \<Rightarrow> tx \<le> rx \<or> now - rx < WG_KEEPALIVE + rtt
      | _ \<Rightarrow> False)"

section \<open>The state of a link\<close>

datatype StateVariant = VDown | PossibleDown instant | VUp

datatype StateDecision = NoAction | Notify | Ping

record LinkDetectionUpdateResult =
  should_notify :: bool
  link_state :: "LinkState option"

record StateUpdateResult =
  should_ping :: bool
  link_detection_update_result :: LinkDetectionUpdateResult

definition POSSIBLE_DOWN_DELAY :: duration where "POSSIBLE_DOWN_DELAY = from_secs 3"

definition build_result :: "StateDecision \<Rightarrow> LinkState \<Rightarrow> StateUpdateResult" where
  "build_result decision ls =
     \<lparr>should_ping = (decision = Ping),
      link_detection_update_result = \<lparr>should_notify = (decision = Notify), link_state = Some ls\<rparr>\<rparr>"

definition current_link_state :: "StateVariant \<Rightarrow> LinkState" where
  "current_link_state v = (case v of VUp \<Rightarrow> Up | PossibleDown _ \<Rightarrow> Up | VDown \<Rightarrow> Down)"

definition State_new :: "BytesAndTimestamps \<Rightarrow> duration \<Rightarrow> instant \<Rightarrow> StateVariant" where
  "State_new stats rtt now = (if is_link_up stats rtt now then VUp else VDown)"

definition down_delay :: "duration \<Rightarrow> bool \<Rightarrow> duration" where
  "down_delay rtt ping_enabled = (if ping_enabled then WG_KEEPALIVE + rtt else POSSIBLE_DOWN_DELAY)"

text \<open>\<open>clk 0\<close> is the clock read by \<open>is_link_up\<close>, \<open>clk 1\<close> the one read after it.\<close>

definition State_update ::
  "StateVariant \<Rightarrow> BytesAndTimestamps \<Rightarrow> duration \<Rightarrow> bool \<Rightarrow> (nat \<Rightarrow> instant)
     \<Rightarrow> StateUpdateResult \<times> StateVariant" where
  "State_update v stats rtt ping_enabled clk =
     (let up = is_link_up stats rtt (clk 0) in
      case v of
        VDown \<Rightarrow>
          if up then (build_result Notify Up, VUp) else (build_result NoAction Down, VDown)
      | PossibleDown deadline \<Rightarrow>
          if up then (build_result NoAction Up, VUp)
          else if clk 1 \<ge> deadline then (build_result Notify Down, VDown)
          else (build_result NoAction Up, PossibleDown deadline)
      | VUp \<Rightarrow>
          if \<not> up then (build_result Ping Up, PossibleDown (clk 1 + down_delay rtt ping_enabled))
          else (build_result NoAction Up, VUp))"

section \<open>All links\<close>

type_synonym cell = nat
type_synonym stat_store = "cell \<Rightarrow> BytesAndTimestamps"

record LinkEntry =
  link_stats :: cell
  variant :: StateVariant

record LinkDetection =
  cfg_max_allowed_rtt :: duration
  enhanced_detection :: bool
  pings_sent :: "(StdIpAddr list \<times> IpStack option) list"
  link_peers :: "PublicKey \<rightharpoonup> LinkEntry"
  use_for_downgrade :: bool

record FeatureLinkDetection =
  rtt_seconds :: nat
  no_of_pings :: nat
  cfg_use_for_downgrade :: bool

text \<open>\<open>ed_starts\<close>: whether the socket of the pinging task can be opened.\<close>

definition LinkDetection_new :: "FeatureLinkDetection \<Rightarrow> bool \<Rightarrow> LinkDetection" where
  "LinkDetection_new cfg ed_starts =
     \<lparr>cfg_max_allowed_rtt = from_secs (rtt_seconds cfg),
      enhanced_detection = (no_of_pings cfg \<noteq> 0 \<and> ed_starts),
      pings_sent = [], link_peers = Map.empty, use_for_downgrade = cfg_use_for_downgrade cfg\<rparr>"

definition link_insert ::
  "LinkDetection \<Rightarrow> stat_store \<Rightarrow> PublicKey \<Rightarrow> cell \<Rightarrow> instant \<Rightarrow> LinkDetection" where
  "link_insert ld store pk stats now =
     ld\<lparr>link_peers := (link_peers ld)(pk \<mapsto>
          \<lparr>link_stats = stats, variant = State_new (store stats) (cfg_max_allowed_rtt ld) now\<rparr>)\<rparr>"

definition link_remove :: "LinkDetection \<Rightarrow> PublicKey \<Rightarrow> LinkDetection" where
  "link_remove ld pk = ld\<lparr>link_peers := (link_peers ld)(pk := None)\<rparr>"

definition push_update :: "LinkDetection \<Rightarrow> PublicKey \<Rightarrow> LinkDetectionUpdateResult" where
  "push_update ld pk =
     \<lparr>should_notify = False,
      link_state = Some (case link_peers ld pk of
                           None \<Rightarrow> Down
                         | Some e \<Rightarrow> current_link_state (variant e))\<rparr>"

definition link_update ::
  "LinkDetection \<Rightarrow> stat_store \<Rightarrow> PublicKey \<Rightarrow> StdIpAddr list \<Rightarrow> UpdateReason \<Rightarrow> IpStack option
     \<Rightarrow> (nat \<Rightarrow> instant) \<Rightarrow> LinkDetectionUpdateResult \<times> LinkDetection" where
  "link_update ld store pk addrs reason stack clk =
     (if reason = Push then (push_update ld pk, ld)
      else case link_peers ld pk of
        None \<Rightarrow> (\<lparr>should_notify = False, link_state = Some Down\<rparr>, ld)
      | Some e \<Rightarrow>
          let (result, v) = State_update (variant e) (store (link_stats e))
                              (cfg_max_allowed_rtt ld) (enhanced_detection ld) clk;
              ld1 = ld\<lparr>link_peers := (link_peers ld)(pk \<mapsto> e\<lparr>variant := v\<rparr>)\<rparr>;
              ld2 = (if enhanced_detection ld \<and> should_ping result
                     then ld1\<lparr>pings_sent := pings_sent ld1 @ [(addrs, stack)]\<rparr> else ld1)
          in (link_detection_update_result result, ld2))"

definition get_link_state_for_downgrade :: "LinkDetection \<Rightarrow> PublicKey \<Rightarrow> LinkState option" where
  "get_link_state_for_downgrade ld pk =
     (if use_for_downgrade ld
      then map_option (\<lambda>e. current_link_state (variant e)) (link_peers ld pk) else None)"

section \<open>Properties\<close>

text \<open>
  A state update reports the link state that holds after it, and notifies exactly when the
  reported link state changes.
\<close>

theorem link_notifies_changes:
  "(case State_update v stats rtt ping_enabled clk of (r, v') \<Rightarrow>
      link_state (link_detection_update_result r) = Some (current_link_state v') \<and>
      (should_notify (link_detection_update_result r) \<longleftrightarrow>
         current_link_state v \<noteq> current_link_state v'))"
  by (auto simp: State_update_def build_result_def current_link_state_def Let_def
      split: StateVariant.split)

end
