(* ===== verification/Wg_State.thy ===== *)
theory Wg_State
  imports Link_Detection
begin

text \<open>
  The WireGuard adapter task (\<open>State\<close> and \<open>DynamicWg\<close> of crates/telio-wg/src/wg.rs): the
  known interface, the traffic counters, the diff of two interfaces into events and into a set
  request, and the operations that the device calls. The adapter (a WireGuard implementation) is
  the parameter \<open>send_uapi_cmd\<close> over an adapter state; the iteration order of hash sets is the
  parameter \<open>hash_order\<close>. The channels are the lists of what was sent on them; sending events
  fails when the receiver is gone (\<open>event_open\<close>). A clock reading is \<open>clk site key\<close>: one
  for every place of the code and every peer.
\<close>

section \<open>State\<close>

datatype WgError =
    InternalError string
  | AdapterError string
  | DuplicateAllowedIPsError

record ('n, 'a) WgState =
  adapter :: 'a
  wg_interface :: "'n Interface"
  events :: "'n Event list"
  event_open :: bool
  analytics_tx :: "AnalyticsEvent list option"
  uapi_fail_counter :: "32 word"
  link_detection :: "LinkDetection option"
  libtelio_event :: "string list option"
  stats :: "PublicKey \<rightharpoonup> cell"
  store :: stat_store
  next_cell :: cell
  wg_ip_stack :: "IpStack option"
  polling_period :: duration
  polling_period_after_update :: duration
  last_update :: instant
  interval_start :: instant
  interval_period :: duration

datatype ('n, 'a) wg_env = WgEnv
  (wg_nets: "'n ipnet_ops")
  (send_uapi_cmd: "Cmd \<Rightarrow> 'a \<Rightarrow> (string + 'n Response) \<times> 'a")
  (hash_order: "PublicKey set \<Rightarrow> PublicKey list")

type_synonym wg_clock = "nat \<Rightarrow> PublicKey \<Rightarrow> instant"

abbreviation no_key :: PublicKey where "no_key \<equiv> PublicKey []"

definition MAX_UAPI_FAIL_COUNT :: "32 word" where "MAX_UAPI_FAIL_COUNT = 10"

definition start_with ::
  "'a \<Rightarrow> AnalyticsEvent list option \<Rightarrow> string list option \<Rightarrow> FeatureLinkDetection option \<Rightarrow> bool
     \<Rightarrow> duration \<Rightarrow> duration \<Rightarrow> instant \<Rightarrow> ('n, 'a) WgState" where
  "start_with a an ev ld ed_starts period period_after now =
     \<lparr>adapter = a, wg_interface = Interface_default, events = [], event_open = True,
      analytics_tx = an, uapi_fail_counter = 0,
      link_detection = map_option (\<lambda>cfg. LinkDetection_new cfg ed_starts) ld,
      libtelio_event = ev, stats = Map.empty,
      store = (\<lambda>_. BytesAndTimestamps_new None None 0), next_cell = 0, wg_ip_stack = None,
      polling_period = period, polling_period_after_update = period_after, last_update = now,
      interval_start = now, interval_period = period\<rparr>"

section \<open>Requests to the adapter\<close>

definition uapi_request ::
  "('n, 'a) wg_env \<Rightarrow> ('n, 'a) WgState \<Rightarrow> Cmd \<Rightarrow> (WgError + 'n Response) \<times> ('n, 'a) WgState" where
  "uapi_request E s cmd =
     (case send_uapi_cmd E cmd (adapter s) of
        (Inl e, a) \<Rightarrow> (Inl (AdapterError e), s\<lparr>adapter := a\<rparr>)
      | (Inr ret, a) \<Rightarrow>
          let counter = (if errno ret = 0 then 0 else uapi_fail_counter s + 1);
              s1 = s\<lparr>adapter := a, uapi_fail_counter := counter\<rparr>
          in if MAX_UAPI_FAIL_COUNT <=s counter \<and> interface ret = None
             then (Inl (InternalError ''Interface gone''),
                   s1\<lparr>libtelio_event := map_option (\<lambda>evs. evs @ [''Interface gone'']) (libtelio_event s1)\<rparr>)
             else (Inr ret, s1))"

section \<open>Differences of interfaces\<close>

record DiffKeys =
  delete_keys :: "PublicKey set"
  insert_keys :: "PublicKey set"
  update_keys :: "PublicKey set"

definition update_calculate_changes :: "('n, 'a) WgState \<Rightarrow> 'n Interface \<Rightarrow> DiffKeys" where
  "update_calculate_changes s to =
     (let f_keys = btm_keys (peers (wg_interface s)); t_keys = btm_keys (peers to)
      in \<lparr>delete_keys = f_keys - t_keys, insert_keys = t_keys - f_keys, update_keys = f_keys \<inter> t_keys\<rparr>)"

definition wg_time_since_last_rx :: "('n, 'a) WgState \<Rightarrow> PublicKey \<Rightarrow> instant \<Rightarrow> duration option" where
  "wg_time_since_last_rx s pk now =
     (case stats s pk of
        None \<Rightarrow> None
      | Some c \<Rightarrow>
          if stat_rx_bytes (store s c) > 0 then map_option (\<lambda>ts. now - ts) (rx_ts (store s c)) else None)"

definition is_same_peer :: "'n Peer \<Rightarrow> 'n Peer \<Rightarrow> bool" where
  "is_same_peer lhs rhs \<longleftrightarrow>
     public_key lhs = public_key rhs \<and> endpoint lhs = endpoint rhs
     \<and> peer_ip_addresses lhs = peer_ip_addresses rhs
     \<and> persistent_keepalive_interval lhs = persistent_keepalive_interval rhs
     \<and> allowed_ips lhs = allowed_ips rhs \<and> rx_bytes lhs = rx_bytes rhs \<and> tx_bytes lhs = tx_bytes rhs
     \<and> time_since_last_handshake lhs = time_since_last_handshake rhs
     \<and> preshared_key lhs = preshared_key rhs"

definition is_same_interface :: "'n Interface \<Rightarrow> 'n Interface \<Rightarrow> bool" where
  "is_same_interface lhs rhs =
     (if private_key lhs \<noteq> private_key rhs \<or> listen_port lhs \<noteq> listen_port rhs
         \<or> proxy_listen_port lhs \<noteq> proxy_listen_port rhs \<or> fwmark lhs \<noteq> fwmark rhs
      then False
      else list_all (\<lambda>(pk, peer). case map_of (peers rhs) pk of
                                    Some other \<Rightarrow> is_same_peer peer other
                                  | None \<Rightarrow> False) (peers lhs)
           \<and> length (peers lhs) = length (peers rhs))"

definition update_calculate_set_listen_port :: "u16 option \<Rightarrow> u16 option \<Rightarrow> u16 option" where
  "update_calculate_set_listen_port from_port to_port =
     (case (from_port, to_port) of
        (Some from, Some to) \<Rightarrow> if from \<noteq> to then Some to else None
      | (None, Some to) \<Rightarrow> Some to
      | _ \<Rightarrow> None)"

definition update_construct_set_device ::
  "'n ipnet_ops \<Rightarrow> ('n, 'a) WgState \<Rightarrow> 'n Interface \<Rightarrow> DiffKeys \<Rightarrow> set_Device" where
  "update_construct_set_device N s to diff =
     (let from = wg_interface s;
          removed_peers =
            map (\<lambda>(pk, _). (set_Peer_from_public_key (key_bytes pk))\<lparr>s_remove := Some True\<rparr>)
              (filter (\<lambda>(pk, _). pk \<in> delete_keys diff) (peers from));
          ps = map (\<lambda>(pk, peer).
                 (set_Peer_from N peer)
                   \<lparr>s_update_only := Some (pk \<in> update_keys diff),
                    s_replace_allowed_ips := Some (case map_of (peers from) pk of
                                                     None \<Rightarrow> False
                                                   | Some p \<Rightarrow> allowed_ips p \<noteq> allowed_ips peer)\<rparr>)
               (peers to)
      in \<lparr>s_private_key = map_option secret_bytes (private_key to),
          s_listen_port = update_calculate_set_listen_port (listen_port from) (listen_port to),
          s_fwmark = (if fwmark to = 0 then None else Some (fwmark to)),
          s_replace_peers = None, s_peers = removed_peers @ ps\<rparr>)"

definition update_endpoint_change_timestamps ::
  "('n, 'a) WgState \<Rightarrow> DiffKeys \<Rightarrow> UpdateReason \<Rightarrow> wg_clock \<Rightarrow> 'n Interface \<Rightarrow> 'n Interface" where
  "update_endpoint_change_timestamps s diff reason clk to =
     to\<lparr>peers := btm_map (\<lambda>key p.
          let old_endpoint = (case map_of (peers (wg_interface s)) key of
                                None \<Rightarrow> None | Some q \<Rightarrow> endpoint q)
          in if key \<in> insert_keys diff \<union> update_keys diff \<and> old_endpoint \<noteq> endpoint p
             then p\<lparr>endpoint_changed_at := Some (clk 2 key, reason)\<rparr> else p) (peers to)\<rparr>"

section \<open>Notifications\<close>

type_synonym ('n, 'a) wg_step = "(WgError + unit) \<times> ('n, 'a) WgState"

definition send_event ::
  "('n, 'a) WgState \<Rightarrow> NodeState \<Rightarrow> LinkState option \<Rightarrow> 'n Peer \<Rightarrow> 'n Peer option \<Rightarrow> ('n, 'a) wg_step" where
  "send_event s st ls peer old_peer =
     (let ls' = (if link_detection s = None then None else ls);
          event = \<lparr>ev_state = st, ev_link_state = ls', ev_peer = peer, ev_old_peer = old_peer\<rparr>
      in if event_open s then (Inr (), s\<lparr>events := events s @ [event]\<rparr>)
         else (Inl (InternalError ''Failed to send node event''), s))"

text \<open>A loop whose body may return early with an error.\<close>

fun for_each :: "('k \<Rightarrow> 's \<Rightarrow> ('e + unit) \<times> 's) \<Rightarrow> 'k list \<Rightarrow> 's \<Rightarrow> ('e + unit) \<times> 's" where
  "for_each f [] s = (Inr (), s)"
| "for_each f (k # ks) s =
     (case f k s of
        (Inl e, s') \<Rightarrow> (Inl e, s')
      | (Inr _, s') \<Rightarrow> for_each f ks s')"

definition notify_delete :: "'n Interface \<Rightarrow> PublicKey \<Rightarrow> ('n, 'a) WgState \<Rightarrow> ('n, 'a) wg_step" where
  "notify_delete from key s =
     (case map_of (peers from) key of
        None \<Rightarrow> (Inl (InternalError ''Disconnected peer missing from old list''), s)
      | Some peer \<Rightarrow>
          send_event (s\<lparr>link_detection := map_option (\<lambda>ld. link_remove ld key) (link_detection s)\<rparr>)
            Disconnected (Some Down) peer (map_of (peers from) key))"

definition notify_insert ::
  "'n Interface \<Rightarrow> 'n Interface \<Rightarrow> wg_clock \<Rightarrow> PublicKey \<Rightarrow> ('n, 'a) WgState \<Rightarrow> ('n, 'a) wg_step" where
  "notify_insert from to clk key s =
     (case map_of (peers to) key of
        None \<Rightarrow> (Inl (InternalError ''New peer missing from new list''), s)
      | Some peer \<Rightarrow>
          (case stats s key of
             None \<Rightarrow> (Inl (InternalError ''No stats available for peer''), s)
           | Some c \<Rightarrow>
               let s1 = s\<lparr>link_detection :=
                            map_option (\<lambda>ld. link_insert ld (store s) key c (clk 3 key)) (link_detection s)\<rparr>
               in (case send_event s1 Connecting (Some Down) peer (map_of (peers from) key) of
                     (Inl e, s2) \<Rightarrow> (Inl e, s2)
                   | (Inr _, s2) \<Rightarrow>
                       if is_connected peer
                       then send_event s2 Connected (Some Up) peer (map_of (peers from) key)
                       else (Inr (), s2))))"

definition notify_update ::
  "'n Interface \<Rightarrow> 'n Interface \<Rightarrow> UpdateReason \<Rightarrow> wg_clock \<Rightarrow> PublicKey \<Rightarrow> ('n, 'a) WgState
     \<Rightarrow> ('n, 'a) wg_step" where
  "notify_update from to reason clk key s =
     (case (map_of (peers from) key, map_of (peers to) key) of
        (Some old, Some new) \<Rightarrow>
          let old_state = peer_state old;
              new_state = peer_state new;
              (result, s1) =
                (case link_detection s of
                   Some ld \<Rightarrow>
                     let (r, ld') = link_update ld (store s) key (peer_ip_addresses new) reason
                                      (wg_ip_stack s) (\<lambda>i. clk (4 + i) key)
                     in (r, s\<lparr>link_detection := Some ld'\<rparr>)
                 | None \<Rightarrow> (\<lparr>should_notify = False, link_state = None\<rparr>, s))
          in if \<not> is_same_event old new \<or> old_state \<noteq> new_state \<or> should_notify result
             then send_event s1 new_state (link_state result) new (Some old)
             else (Inr (), s1)
      | _ \<Rightarrow> (Inr (), s))"

definition update_send_notification_events ::
  "('n, 'a) wg_env \<Rightarrow> ('n, 'a) WgState \<Rightarrow> 'n Interface \<Rightarrow> DiffKeys \<Rightarrow> UpdateReason \<Rightarrow> wg_clock
     \<Rightarrow> ('n, 'a) wg_step" where
  "update_send_notification_events E s to diff reason clk =
     (let from = wg_interface s in
      case for_each (notify_delete from) (hash_order E (delete_keys diff)) s of
        (Inl e, s1) \<Rightarrow> (Inl e, s1)
      | (Inr _, s1) \<Rightarrow>
          (case for_each (notify_insert from to clk) (hash_order E (insert_keys diff)) s1 of
             (Inl e, s2) \<Rightarrow> (Inl e, s2)
           | (Inr _, s2) \<Rightarrow>
               for_each (notify_update from to reason clk) (hash_order E (update_keys diff)) s2))"

section \<open>Update\<close>

text \<open>The traffic counters of one peer, made when they are missing, and its silence.\<close>

definition refresh_peer_stats ::
  "wg_clock \<Rightarrow> PublicKey \<Rightarrow> 'n Peer \<Rightarrow> ('n, 'a) WgState \<Rightarrow> 'n Peer \<times> ('n, 'a) WgState" where
  "refresh_peer_stats clk pk peer s =
     (let s1 = (case stats s pk of
                  Some c \<Rightarrow>
                    let new_rx = (case rx_bytes peer of None \<Rightarrow> 0 | Some n \<Rightarrow> n);
                        new_tx = (case tx_bytes peer of None \<Rightarrow> 0 | Some n \<Rightarrow> n)
                    in s\<lparr>store := (store s)(c := BytesAndTimestamps_update (store s c) new_rx new_tx (clk 0 pk))\<rparr>
                | None \<Rightarrow>
                    s\<lparr>stats := (stats s)(pk \<mapsto> next_cell s),
                      store := (store s)(next_cell s := BytesAndTimestamps_new (rx_bytes peer) (tx_bytes peer) (clk 0 pk)),
                      next_cell := Suc (next_cell s)\<rparr>)
      in (peer\<lparr>time_since_last_rx := wg_time_since_last_rx s1 pk (clk 1 pk)\<rparr>, s1))"

fun refresh_stats ::
  "wg_clock \<Rightarrow> (PublicKey \<times> 'n Peer) list \<Rightarrow> ('n, 'a) WgState
     \<Rightarrow> (PublicKey \<times> 'n Peer) list \<times> ('n, 'a) WgState" where
  "refresh_stats clk [] s = ([], s)"
| "refresh_stats clk ((pk, peer) # ps) s =
     (let (peer', s1) = refresh_peer_stats clk pk peer s; (ps', s2) = refresh_stats clk ps s1
      in ((pk, peer') # ps', s2))"

text \<open>What the adapter does not know is carried over from the old interface.\<close>

definition carry_over :: "'n Interface \<Rightarrow> 'n Interface \<Rightarrow> 'n Interface" where
  "carry_over from to =
     to\<lparr>peers := btm_map (\<lambda>pk peer.
          let old = map_of (peers from) pk in
          peer\<lparr>peer_ip_addresses := (if peer_ip_addresses peer = []
                  then (case old of None \<Rightarrow> [] | Some p \<Rightarrow> peer_ip_addresses p)
                  else peer_ip_addresses peer),
               endpoint_changed_at := (case old of None \<Rightarrow> None | Some p \<Rightarrow> endpoint_changed_at p)\<rparr>)
        (peers to)\<rparr>"

definition analytics_of :: "DiffKeys \<Rightarrow> wg_clock \<Rightarrow> PublicKey \<Rightarrow> 'n Peer \<Rightarrow> AnalyticsEvent" where
  "analytics_of diff clk pk peer =
     \<lparr>an_public_key = pk, dual_ip_addresses = get_dual_ip_addresses peer,
      an_tx_bytes = (case tx_bytes peer of None \<Rightarrow> 0 | Some n \<Rightarrow> n),
      an_rx_bytes = (case rx_bytes peer of None \<Rightarrow> 0 | Some n \<Rightarrow> n),
      an_peer_state = (if is_connected peer then Connected
                       else if pk \<in> delete_keys diff then Disconnected else Connecting),
      an_timestamp = clk 6 pk\<rparr>"

definition send_analytics :: "DiffKeys \<Rightarrow> wg_clock \<Rightarrow> 'n Interface \<Rightarrow> ('n, 'a) WgState \<Rightarrow> ('n, 'a) WgState" where
  "send_analytics diff clk to s =
     s\<lparr>analytics_tx := map_option (\<lambda>sent. sent @
          map (\<lambda>(pk, p). analytics_of diff clk pk p) (filter (\<lambda>(_, p). endpoint p \<noteq> None) (peers to)))
        (analytics_tx s)\<rparr>"

definition wg_update ::
  "('n, 'a) wg_env \<Rightarrow> wg_clock \<Rightarrow> ('n, 'a) WgState \<Rightarrow> 'n Interface \<Rightarrow> UpdateReason
     \<Rightarrow> (WgError + bool) \<times> ('n, 'a) WgState" where
  "wg_update E clk s to0 reason =
     (let s1 = (if reason = Push
                then s\<lparr>last_update := clk 7 no_key,
                       interval_start := clk 8 no_key + polling_period_after_update s,
                       interval_period := polling_period_after_update s\<rparr>
                else s);
          (ps, s2) = refresh_stats clk (peers to0) s1;
          s3 = s2\<lparr>stats := stats s2 |` btm_keys ps\<rparr>;
          to1 = carry_over (wg_interface s3) (to0\<lparr>peers := ps\<rparr>)
      in if is_same_interface (wg_interface s3) to1
         then (Inl (InternalError ''Same interface received in update function''), s3)
         else
           let diff = update_calculate_changes s3 to1;
               to2 = update_endpoint_change_timestamps s3 diff reason clk to1
           in (case update_send_notification_events E s3 to2 diff reason clk of
                 (Inl e, s4) \<Rightarrow> (Inl e, s4)
               | (Inr _, s4) \<Rightarrow>
                   let (success, s5) =
                         (if reason = Push then
                            (case uapi_request E s4 (Set (update_construct_set_device (wg_nets E) s4 to2 diff)) of
                               (Inl _, s5) \<Rightarrow> (False, s5)
                             | (Inr r, s5) \<Rightarrow> (errno r = 0, s5))
                          else (True, s4));
                       s6 = send_analytics diff clk to2 s5
                   in (Inr success, s6\<lparr>wg_interface := to2\<rparr>)))"

section \<open>Operations of the adapter\<close>

definition wg_sync :: "('n, 'a) wg_env \<Rightarrow> wg_clock \<Rightarrow> ('n, 'a) WgState \<Rightarrow> ('n, 'a) wg_step" where
  "wg_sync E clk s =
     (case uapi_request E s Get of
        (Inl e, s1) \<Rightarrow> (Inl e, s1)
      | (Inr r, s1) \<Rightarrow>
          (case interface r of
             None \<Rightarrow> (Inr (), s1)
           | Some to \<Rightarrow> (Inr (), snd (wg_update E clk s1 to Pull))))"

text \<open>
  \<open>Runtime::wait\<close>: the interval goes back to the normal polling period (the clock reading is
  taken twice), then the next tick triggers \<open>sync\<close>.
\<close>

definition wg_wait :: "instant \<Rightarrow> instant \<Rightarrow> ('n, 'a) WgState \<Rightarrow> ('n, 'a) WgState" where
  "wg_wait now now' s =
     (if interval_period s = polling_period_after_update s \<and> now - last_update s \<ge> polling_period s
      then s\<lparr>interval_start := now' + polling_period s, interval_period := polling_period s\<rparr>
      else s)"

definition wg_set_secret_key ::
  "('n, 'a) wg_env \<Rightarrow> wg_clock \<Rightarrow> ('n, 'a) WgState \<Rightarrow> SecretKey \<Rightarrow> ('n, 'a) WgState" where
  "wg_set_secret_key E clk s key =
     snd (wg_update E clk s ((wg_interface s)\<lparr>private_key := Some key\<rparr>) Push)"

definition wg_set_fwmark ::
  "('n, 'a) wg_env \<Rightarrow> wg_clock \<Rightarrow> ('n, 'a) WgState \<Rightarrow> u32 \<Rightarrow> ('n, 'a) WgState" where
  "wg_set_fwmark E clk s mark =
     snd (wg_update E clk s ((wg_interface s)\<lparr>fwmark := mark\<rparr>) Push)"

definition overlaps_other_peer :: "'n Interface \<Rightarrow> 'n Peer \<Rightarrow> bool" where
  "overlaps_other_peer to new_peer =
     list_ex (\<lambda>(_, peer). public_key peer \<noteq> public_key new_peer
               \<and> list_ex (\<lambda>ip. ip \<in> set (allowed_ips peer)) (allowed_ips new_peer)) (peers to)"

definition fill_peer :: "'n Interface \<Rightarrow> 'n Peer \<Rightarrow> 'n Peer" where
  "fill_peer to new_peer =
     (let p1 = (case map_of (peers to) (public_key new_peer) of
                  None \<Rightarrow> new_peer
                | Some old \<Rightarrow> new_peer\<lparr>time_since_last_handshake := time_since_last_handshake old,
                                        rx_bytes := rx_bytes old, tx_bytes := tx_bytes old\<rparr>)
      in if persistent_keepalive_interval p1 = None
         then p1\<lparr>persistent_keepalive_interval := Some 0\<rparr> else p1)"

definition wg_add_peer ::
  "('n, 'a) wg_env \<Rightarrow> wg_clock \<Rightarrow> ('n, 'a) WgState \<Rightarrow> 'n Peer \<Rightarrow> ('n, 'a) wg_step" where
  "wg_add_peer E clk s new_peer =
     (let to = wg_interface s in
      if overlaps_other_peer to new_peer then (Inl DuplicateAllowedIPsError, s)
      else let p = fill_peer to new_peer
           in (Inr (), snd (wg_update E clk s
                 (to\<lparr>peers := btm_insert (public_key p) p (peers to)\<rparr>) Push)))"

definition wg_del_peer ::
  "('n, 'a) wg_env \<Rightarrow> wg_clock \<Rightarrow> ('n, 'a) WgState \<Rightarrow> PublicKey \<Rightarrow> ('n, 'a) WgState" where
  "wg_del_peer E clk s key =
     snd (wg_update E clk s
       ((wg_interface s)\<lparr>peers := btm_remove key (peers (wg_interface s))\<rparr>) Push)"

definition wg_set_ip_stack :: "('n, 'a) WgState \<Rightarrow> IpStack option \<Rightarrow> ('n, 'a) WgState" where
  "wg_set_ip_stack s stack = s\<lparr>wg_ip_stack := stack\<rparr>"

definition wg_get_link_state :: "('n, 'a) WgState \<Rightarrow> PublicKey \<Rightarrow> LinkState option" where
  "wg_get_link_state s key =
     (case link_detection s of None \<Rightarrow> None | Some ld \<Rightarrow> get_link_state_for_downgrade ld key)"

text \<open>\<open>wait_for_listen_port\<close>: the interfaces seen and the time elapsed at each turn of the loop.\<close>

datatype PortWait = Port u16 | PortAssignmentTimeout

fun wait_for_listen_port :: "('n Interface \<times> duration) list \<Rightarrow> duration \<Rightarrow> PortWait option" where
  "wait_for_listen_port [] d = None"
| "wait_for_listen_port ((ifc, elapsed) # turns) d =
     (case listen_port ifc of
        Some port \<Rightarrow>
          if 0 < port then Some (Port port)
          else if elapsed > d then Some PortAssignmentTimeout else wait_for_listen_port turns d
      | None \<Rightarrow> if elapsed > d then Some PortAssignmentTimeout else wait_for_listen_port turns d)"

fun wait_for_proxy_listen_port :: "('n Interface \<times> duration) list \<Rightarrow> duration \<Rightarrow> PortWait option" where
  "wait_for_proxy_listen_port [] d = None"
| "wait_for_proxy_listen_port ((ifc, elapsed) # turns) d =
     (case (case proxy_listen_port ifc of None \<Rightarrow> listen_port ifc | Some p \<Rightarrow> Some p) of
        Some port \<Rightarrow>
          if 0 < port then Some (Port port)
          else if elapsed > d then Some PortAssignmentTimeout else wait_for_proxy_listen_port turns d
      | None \<Rightarrow> if elapsed > d then Some PortAssignmentTimeout else wait_for_proxy_listen_port turns d)"

end
