(* ===== verification/Wg_Props.thy ===== *)
theory Wg_Props
  imports Wg_State
begin

text \<open>
  Invariant of the WireGuard adapter task, and the refinement its events implement: a listener
  that replays the events knows the peers of the interface with their state, endpoint and allowed
  networks.
\<close>

section \<open>The listener\<close>

type_synonym 'n listener = "PublicKey \<rightharpoonup> NodeState \<times> SocketAddr option \<times> 'n list"

definition apply_event :: "'n Event \<Rightarrow> 'n listener \<Rightarrow> 'n listener" where
  "apply_event ev m =
     (let p = ev_peer ev in
      if ev_state ev = Disconnected then m(public_key p := None)
      else m(public_key p \<mapsto> (ev_state ev, endpoint p, allowed_ips p)))"

definition replay :: "'n Event list \<Rightarrow> 'n listener" where
  "replay evs = fold apply_event evs Map.empty"

definition peer_view :: "'n Peer \<Rightarrow> NodeState \<times> SocketAddr option \<times> 'n list" where
  "peer_view p = (peer_state p, endpoint p, allowed_ips p)"

definition view :: "'n Interface \<Rightarrow> 'n listener" where
  "view ifc k = map_option peer_view (map_of (peers ifc) k)"

lemma replay_snoc [simp]:
  "replay (evs @ [ev]) = apply_event ev (replay evs)"
  "replay (evs @ [ev, ev']) = apply_event ev' (apply_event ev (replay evs))"
  by (simp_all add: replay_def)

lemma replay_Nil [simp]: "replay [] = Map.empty"
  by (simp add: replay_def)

lemma peer_state_not_disconnected [simp]: "peer_state p \<noteq> Disconnected"
  by (simp add: peer_state_def)

section \<open>Invariant\<close>

text \<open>The counters that the link detection reads, as references.\<close>

definition link_cells :: "('n, 'a) WgState \<Rightarrow> (PublicKey \<rightharpoonup> cell) option" where
  "link_cells s = map_option (\<lambda>ld k. map_option link_stats (link_peers ld k)) (link_detection s)"

text \<open>Different peers have different counters.\<close>

definition stats_ok :: "('n, 'a) WgState \<Rightarrow> bool" where
  "stats_ok s \<longleftrightarrow> inj_on (stats s) (dom (stats s)) \<and> ran (stats s) \<subseteq> {..< next_cell s}"

definition wg_inv :: "('n, 'a) WgState \<Rightarrow> bool" where
  "wg_inv s \<longleftrightarrow>
     interface_ok (wg_interface s) \<and> event_open s
     \<and> dom (stats s) = btm_keys (peers (wg_interface s))
     \<and> stats_ok s
     \<and> pred_option (\<lambda>m. m = stats s) (link_cells s)
     \<and> replay (events s) = view (wg_interface s)"

locale wg_adapter =
  fixes E :: "('n, 'a) wg_env"
  assumes hash_order_set: "finite S \<Longrightarrow> set (hash_order E S) = S"
    and hash_order_distinct: "finite S \<Longrightarrow> distinct (hash_order E S)"
    and adapter_interface:
      "send_uapi_cmd E cmd a = (Inr r, a') \<Longrightarrow> pred_option interface_ok (interface r)"

section \<open>Notifications\<close>

definition same_rest :: "('n, 'a) WgState \<Rightarrow> ('n, 'a) WgState \<Rightarrow> bool" where
  "same_rest s s' \<longleftrightarrow> (\<exists>evs ld. s' = s\<lparr>events := evs, link_detection := ld\<rparr>)"

lemma same_rest_fields:
  assumes "same_rest s s'"
  shows "stats s' = stats s" "event_open s' = event_open s" "wg_interface s' = wg_interface s"
    "next_cell s' = next_cell s" "store s' = store s"
  using assms by (auto simp: same_rest_def)

lemma same_rest_intro [intro, simp]:
  "same_rest s s" "same_rest s (s\<lparr>events := evs\<rparr>)" "same_rest s (s\<lparr>link_detection := ld\<rparr>)"
  "same_rest s (s\<lparr>link_detection := ld, events := evs\<rparr>)"
  unfolding same_rest_def
  by (rule exI [of _ "events s"], rule exI [of _ "link_detection s"], simp,
      rule exI [of _ evs], rule exI [of _ "link_detection s"], simp,
      rule exI [of _ "events s"], rule exI [of _ ld], simp,
      rule exI [of _ evs], rule exI [of _ ld], simp)

lemma same_rest_trans: "same_rest s t \<Longrightarrow> same_rest t u \<Longrightarrow> same_rest s u"
  unfolding same_rest_def by (elim exE, hypsubst, simp, blast)

text \<open>One key has been dealt with: the listener knows its new view, the link its counters.\<close>

definition notified :: "'n Interface \<Rightarrow> PublicKey set \<Rightarrow> ('n, 'a) WgState \<Rightarrow> ('n, 'a) WgState \<Rightarrow> bool" where
  "notified to K s s' \<longleftrightarrow>
     same_rest s s'
     \<and> replay (events s') = (\<lambda>k. if k \<in> K then view to k else replay (events s) k)
     \<and> link_cells s' = map_option (\<lambda>m k. if k \<in> K then stats s k else m k) (link_cells s)"

lemma notified_empty [simp]: "notified to {} s s"
  by (simp add: notified_def option.map_ident)

lemma notified_trans:
  assumes "notified to K s t" "notified to L t u"
  shows "notified to (K \<union> L) s u"
proof -
  have "stats t = stats s" using assms(1) by (auto simp: notified_def dest: same_rest_fields)
  then show ?thesis
    using assms same_rest_trans [of s t u]
    by (cases "link_cells s") (auto simp: notified_def fun_eq_iff)
qed

lemma send_event_ok:
  "event_open s \<Longrightarrow> send_event s st ls p old =
     (Inr (), s\<lparr>events := events s @ [\<lparr>ev_state = st,
        ev_link_state = (if link_detection s = None then None else ls), ev_peer = p, ev_old_peer = old\<rparr>]\<rparr>)"
  by (simp add: send_event_def)

lemma link_cells_simps [simp]:
  "link_cells (s\<lparr>events := evs\<rparr>) = link_cells s"
  "link_cells (s\<lparr>link_detection := map_option (\<lambda>ld. link_remove ld k) (link_detection s)\<rparr>) =
     map_option (\<lambda>m. m(k := None)) (link_cells s)"
  "link_cells (s\<lparr>link_detection := map_option (\<lambda>ld. link_insert ld st k c t) (link_detection s)\<rparr>) =
     map_option (\<lambda>m. m(k \<mapsto> c)) (link_cells s)"
  by (auto simp: link_cells_def link_remove_def link_insert_def option.map_comp fun_eq_iff
      intro!: option.map_cong0)

lemma link_update_cells:
  "snd (link_update ld st k addrs reason stack clk) = ld' \<Longrightarrow>
     map_option link_stats (link_peers ld' j) = map_option link_stats (link_peers ld j)"
  by (auto simp: link_update_def Let_def case_prod_beta split: option.splits if_splits)

lemma view_simps:
  "map_of (peers ifc) k = Some p \<Longrightarrow> view ifc k = Some (peer_state p, endpoint p, allowed_ips p)"
  "k \<notin> btm_keys (peers ifc) \<Longrightarrow> view ifc k = None"
  using btm_get_None [of "peers ifc" k] by (simp_all add: view_def peer_view_def del: btm_get_None)

lemma fun_upd_if: "(\<lambda>j. if j = k then f j else g j) = g(k := f k)"
  by auto

lemma notified_one:
  "notified to {k} s s' \<longleftrightarrow> same_rest s s' \<and> replay (events s') = (replay (events s))(k := view to k)
     \<and> link_cells s' = map_option (\<lambda>m. m(k := stats s k)) (link_cells s)"
  by (simp add: notified_def fun_upd_if)

lemma notify_delete_ok:
  assumes "event_open s" "interface_ok from" "map_of (peers from) k = Some p"
    "k \<notin> btm_keys (peers to)" "stats s k = None"
  shows "\<exists>s'. notify_delete from k s = (Inr (), s') \<and> notified to {k} s s'"
  using assms interface_ok_peer [OF assms(2,3)]
  by (simp add: notify_delete_def send_event_ok notified_one apply_event_def view_simps)

lemma notify_insert_ok:
  assumes "event_open s" "interface_ok to" "map_of (peers to) k = Some p" "stats s k = Some c"
  shows "\<exists>s'. notify_insert from to clk k s = (Inr (), s') \<and> notified to {k} s s'"
  using assms interface_ok_peer [OF assms(2,3)]
  by (simp add: notify_insert_def send_event_ok notified_one apply_event_def view_simps peer_state_def
      Let_def)

lemma notify_update_ok:
  assumes "event_open s" "interface_ok from" "interface_ok to"
    and p: "map_of (peers from) k = Some p" and q: "map_of (peers to) k = Some q"
    and v: "replay (events s) k = view from k"
    and l: "pred_option (\<lambda>m. m k = stats s k) (link_cells s)"
  shows "\<exists>s'. notify_update from to reason clk k s = (Inr (), s') \<and> notified to {k} s s'"
proof -
  obtain r s1 where s1: "(case link_detection s of
        Some ld \<Rightarrow> let (r, ld') = link_update ld (store s) k (peer_ip_addresses q) reason
                      (wg_ip_stack s) (\<lambda>i. clk (4 + i) k) in (r, s\<lparr>link_detection := Some ld'\<rparr>)
      | None \<Rightarrow> (\<lparr>should_notify = False, link_state = None\<rparr>, s)) = (r, s1)"
    by fastforce
  have rest: "same_rest s s1" "events s1 = events s"
    using s1 by (auto simp: case_prod_beta Let_def split: option.splits)
  have "link_cells s1 = link_cells s"
    using s1 link_update_cells
    by (auto simp: link_cells_def case_prod_beta Let_def fun_eq_iff split: option.splits)
  also have "\<dots> = map_option (\<lambda>m. m(k := stats s k)) (link_cells s)"
    using l by (cases "link_cells s") (auto simp: fun_eq_iff)
  finally have cells: "link_cells s1 = \<dots>" .
  have keys: "public_key p = k" "public_key q = k"
    using interface_ok_peer assms by blast+
  show ?thesis
  proof (cases "\<not> is_same_event p q \<or> peer_state p \<noteq> peer_state q \<or> should_notify r")
    case True
    then show ?thesis
      using assms(1) rest cells keys s1 same_rest_fields(2) [OF rest(1)] same_rest_trans [OF rest(1)]
      by (auto simp: notify_update_def p q send_event_ok notified_one apply_event_def view_simps)
  next
    case False
    then have "view to k = view from k" by (simp add: view_simps(1) [OF p] view_simps(1) [OF q] is_same_event_def)
    then show ?thesis
      using False rest cells s1 v
      by (auto simp: notify_update_def p q notified_one fun_eq_iff)
  qed
qed

text \<open>
  A loop over distinct keys whose body notifies the key, under a precondition that notifying other
  keys preserves.
\<close>

lemma for_each_notified:
  assumes "distinct ks" and "\<And>k. k \<in> set ks \<Longrightarrow> P k s"
    and step: "\<And>k t. P k t \<Longrightarrow> \<exists>t'. f k t = (Inr (), t') \<and> notified to {k} t t'"
    and stable: "\<And>j k t t'. P j t \<Longrightarrow> notified to {k} t t' \<Longrightarrow> j \<noteq> k \<Longrightarrow> P j t'"
  shows "\<exists>s'. for_each f ks s = (Inr (), s') \<and> notified to (set ks) s s'"
  using assms(1,2)
proof (induction ks arbitrary: s)
  case (Cons k ks)
  from step [of k s] Cons.prems obtain t where t: "f k s = (Inr (), t)" "notified to {k} s t" by auto
  have "\<And>j. j \<in> set ks \<Longrightarrow> P j t"
    using Cons.prems stable [OF _ t(2)] by auto
  from Cons.IH [OF _ this] Cons.prems obtain u where "for_each f ks t = (Inr (), u)" "notified to (set ks) t u"
    by auto
  then show ?case using t notified_trans [OF t(2)] by auto
qed simp

lemma notified_frame: "notified to K s s' \<Longrightarrow> stats s' = stats s \<and> event_open s' = event_open s"
  by (auto simp: notified_def dest: same_rest_fields)

lemma notified_at:
  assumes "notified to K s s'" "k \<notin> K"
  shows "replay (events s') k = replay (events s) k" "stats s' = stats s" "event_open s' = event_open s"
    "pred_option (\<lambda>m. m k = stats s' k) (link_cells s') \<longleftrightarrow> pred_option (\<lambda>m. m k = stats s k) (link_cells s)"
proof -
  have f: "stats s' = stats s" "event_open s' = event_open s"
    using assms(1) by (auto simp: notified_def dest: same_rest_fields)
  then show "stats s' = stats s" "event_open s' = event_open s" by blast+
  show "replay (events s') k = replay (events s) k"
    "pred_option (\<lambda>m. m k = stats s' k) (link_cells s') \<longleftrightarrow> pred_option (\<lambda>m. m k = stats s k) (link_cells s)"
    using assms f by (cases "link_cells s"; simp add: notified_def)+
qed

section \<open>Refreshing the counters\<close>

definition same_but_stats :: "('n, 'a) WgState \<Rightarrow> ('n, 'a) WgState \<Rightarrow> bool" where
  "same_but_stats s s' \<longleftrightarrow> (\<exists>st sto n. s' = s\<lparr>stats := st, store := sto, next_cell := n\<rparr>)"

lemma stats_ok_new:
  assumes "stats_ok s" "stats s k = None"
  shows "stats_ok (s\<lparr>stats := (stats s)(k \<mapsto> next_cell s), store := sto, next_cell := Suc (next_cell s)\<rparr>)"
  using assms unfolding stats_ok_def
  by (auto simp: inj_on_def ran_def dom_def; fastforce)

lemma refresh_peer_stats_ok:
  assumes "stats_ok s" "refresh_peer_stats clk k p s = (p', s')"
  shows "stats_ok s' \<and> same_but_stats s s' \<and> dom (stats s') = insert k (dom (stats s))
     \<and> stats s \<subseteq>\<^sub>m stats s' \<and> public_key p' = public_key p"
proof (cases "stats s k")
  case None
  with assms show ?thesis
    using stats_ok_new [OF assms(1) None]
    by (auto simp: refresh_peer_stats_def same_but_stats_def map_le_def Let_def)
next
  case (Some c)
  have "same_but_stats s (s\<lparr>store := sto\<rparr>)" for sto
    unfolding same_but_stats_def by (rule exI [of _ "stats s"], rule exI [of _ sto], rule exI [of _ "next_cell s"]) simp
  with assms Some show ?thesis
    by (auto simp: refresh_peer_stats_def stats_ok_def Let_def)
qed

lemma same_but_stats_trans: "same_but_stats s t \<Longrightarrow> same_but_stats t u \<Longrightarrow> same_but_stats s u"
  unfolding same_but_stats_def by (elim exE, hypsubst, simp, blast)

lemma same_but_stats_refl: "same_but_stats s s"
  unfolding same_but_stats_def
  by (rule exI [of _ "stats s"], rule exI [of _ "store s"], rule exI [of _ "next_cell s"]) simp

lemma refresh_stats_ok:
  "stats_ok s \<Longrightarrow> refresh_stats clk ps s = (ps', s') \<Longrightarrow>
     stats_ok s' \<and> same_but_stats s s' \<and> dom (stats s') = btm_keys ps \<union> dom (stats s)
     \<and> stats s \<subseteq>\<^sub>m stats s' \<and> map fst ps' = map fst ps
     \<and> map (\<lambda>e. public_key (snd e)) ps' = map (\<lambda>e. public_key (snd e)) ps"
proof (induction clk ps s arbitrary: ps' s' rule: refresh_stats.induct)
  case (2 clk k p ps s)
  obtain p1 s1 where 1: "refresh_peer_stats clk k p s = (p1, s1)" by fastforce
  obtain ps2 s2 where 2: "refresh_stats clk ps s1 = (ps2, s2)" by fastforce
  note r = refresh_peer_stats_ok [OF "2.prems"(1) 1]
  with "2.IH" [OF 1 [symmetric] refl _ 2] 1 2 "2.prems" show ?case
    by (auto intro: same_but_stats_trans map_le_trans)
qed (auto simp: same_but_stats_refl)

lemma interface_ok_keys: "interface_ok i \<longleftrightarrow> btm_ok (peers i) \<and> map (\<lambda>e. public_key (snd e)) (peers i) = map fst (peers i)"
  by (auto simp: interface_ok_def list_all_iff)

lemma interface_ok_map:
  "(\<And>k p. public_key (f k p) = public_key p) \<Longrightarrow>
     interface_ok (i\<lparr>peers := btm_map f ps\<rparr>) \<longleftrightarrow> interface_ok (i\<lparr>peers := ps\<rparr>)"
  by (auto simp: interface_ok_def btm_map_def list_all_iff btm_map_ok [unfolded btm_map_def])

lemma carry_over_ok [simp]:
  "interface_ok (carry_over i to) \<longleftrightarrow> interface_ok to" "btm_keys (peers (carry_over i to)) = btm_keys (peers to)"
  by (simp_all add: carry_over_def Let_def interface_ok_map)

lemma timestamps_ok [simp]:
  "interface_ok (update_endpoint_change_timestamps s diff reason clk to) \<longleftrightarrow> interface_ok to"
  "btm_keys (peers (update_endpoint_change_timestamps s diff reason clk to)) = btm_keys (peers to)"
  by (simp_all add: update_endpoint_change_timestamps_def Let_def interface_ok_map)

context wg_adapter
begin

lemma for_each_hash:
  assumes "finite K" and "\<And>k. k \<in> K \<Longrightarrow> P k s"
    and "\<And>k t. P k t \<Longrightarrow> \<exists>t'. f k t = (Inr (), t') \<and> notified to {k} t t'"
    and "\<And>j k t t'. P j t \<Longrightarrow> notified to {k} t t' \<Longrightarrow> j \<noteq> k \<Longrightarrow> P j t'"
  shows "\<exists>s'. for_each f (hash_order E K) s = (Inr (), s') \<and> notified to K s s'"
  using for_each_notified [of "hash_order E K" P s f to] assms hash_order_set [OF assms(1)]
    hash_order_distinct [OF assms(1)]
  by auto

lemma delete_loop:
  fixes s :: "('n, 'a) WgState"
  assumes "event_open s" "interface_ok from" "K = btm_keys (peers from) - btm_keys (peers to)"
    "\<And>k. k \<in> K \<Longrightarrow> stats s k = None"
  shows "\<exists>s'. for_each (notify_delete from) (hash_order E K) s = (Inr (), s') \<and> notified to K s s'"
proof (rule for_each_hash [where P = "\<lambda>k t. event_open t \<and> k \<in> K \<and> stats t k = None"])
  fix k and t :: "('n, 'a) WgState" assume "event_open t \<and> k \<in> K \<and> stats t k = None"
  moreover from this obtain p where "map_of (peers from) k = Some p"
    using assms(3) btm_get_None [of "peers from" k] by (auto simp del: btm_get_None)
  ultimately show "\<exists>t'. notify_delete from k t = (Inr (), t') \<and> notified to {k} t t'"
    using assms(2,3) by (intro notify_delete_ok) auto
qed (use assms in \<open>auto dest!: notified_frame\<close>)

lemma insert_loop:
  fixes s :: "('n, 'a) WgState"
  assumes "event_open s" "interface_ok to" "finite K" "K \<subseteq> btm_keys (peers to)"
    "\<And>k. k \<in> K \<Longrightarrow> stats s k \<noteq> None"
  shows "\<exists>s'. for_each (notify_insert from to clk) (hash_order E K) s = (Inr (), s') \<and> notified to K s s'"
proof (rule for_each_hash [where P = "\<lambda>k t. event_open t \<and> k \<in> K \<and> stats t k \<noteq> None"])
  fix k and t :: "('n, 'a) WgState" assume k: "event_open t \<and> k \<in> K \<and> stats t k \<noteq> None"
  moreover from this obtain p c where "map_of (peers to) k = Some p" "stats t k = Some c"
    using assms(4) btm_get_None [of "peers to" k] by (auto simp del: btm_get_None)
  ultimately show "\<exists>t'. notify_insert from to clk k t = (Inr (), t') \<and> notified to {k} t t'"
    using assms(2) by (intro notify_insert_ok) auto
qed (use assms in \<open>auto dest!: notified_frame\<close>)

lemma update_loop:
  fixes s :: "('n, 'a) WgState"
  assumes "event_open s" "interface_ok from" "interface_ok to"
    "K = btm_keys (peers from) \<inter> btm_keys (peers to)"
    "\<And>k. k \<in> K \<Longrightarrow> replay (events s) k = view from k"
    "\<And>k. k \<in> K \<Longrightarrow> pred_option (\<lambda>m. m k = stats s k) (link_cells s)"
  shows "\<exists>s'. for_each (notify_update from to reason clk) (hash_order E K) s = (Inr (), s')
     \<and> notified to K s s'"
proof (rule for_each_hash [where P = "\<lambda>k t. event_open t \<and> k \<in> K \<and> replay (events t) k = view from k
      \<and> pred_option (\<lambda>m. m k = stats t k) (link_cells t)"])
  fix k and t :: "('n, 'a) WgState"
  assume k: "event_open t \<and> k \<in> K \<and> replay (events t) k = view from k
      \<and> pred_option (\<lambda>m. m k = stats t k) (link_cells t)"
  moreover from this obtain p q where "map_of (peers from) k = Some p" "map_of (peers to) k = Some q"
    using assms(4) btm_get_None [of "peers from" k] btm_get_None [of "peers to" k]
    by (auto simp del: btm_get_None)
  ultimately show "\<exists>t'. notify_update from to reason clk k t = (Inr (), t') \<and> notified to {k} t t'"
    using assms(2,3) by (intro notify_update_ok) auto
next
  fix j k and t t' :: "('n, 'a) WgState"
  assume "event_open t \<and> j \<in> K \<and> replay (events t) j = view from j
      \<and> pred_option (\<lambda>m. m j = stats t j) (link_cells t)" "notified to {k} t t'" "j \<noteq> k"
  then show "event_open t' \<and> j \<in> K \<and> replay (events t') j = view from j
      \<and> pred_option (\<lambda>m. m j = stats t' j) (link_cells t')"
    using notified_at [of to "{k}" t t' j] by simp
qed (use assms in auto)

lemma notifications_ok:
  assumes ok: "event_open s" "interface_ok (wg_interface s)" "interface_ok to"
    and st: "dom (stats s) = btm_keys (peers to)"
    and v: "replay (events s) = view (wg_interface s)"
    and l: "pred_option (\<lambda>m. \<forall>k \<in> btm_keys (peers (wg_interface s)) \<inter> btm_keys (peers to). m k = stats s k)
      (link_cells s)"
    and d: "diff = update_calculate_changes s to"
  shows "\<exists>s'. update_send_notification_events E s to diff reason clk = (Inr (), s')
     \<and> notified to (btm_keys (peers (wg_interface s)) \<union> btm_keys (peers to)) s s'"
proof -
  let ?from = "wg_interface s"
  let ?D = "delete_keys diff" and ?I = "insert_keys diff" and ?U = "update_keys diff"
  have keys: "?D = btm_keys (peers ?from) - btm_keys (peers to)"
    "?I = btm_keys (peers to) - btm_keys (peers ?from)"
    "?U = btm_keys (peers ?from) \<inter> btm_keys (peers to)"
    by (simp_all add: d update_calculate_changes_def Let_def)
  have "k \<in> ?D \<Longrightarrow> stats s k = None" for k using st by (auto simp: keys dom_def)
  from delete_loop [OF ok(1,2) keys(1) this] obtain s1 where
    s1: "for_each (notify_delete ?from) (hash_order E ?D) s = (Inr (), s1)" "notified to ?D s s1" by blast
  have f1: "stats s1 = stats s" "event_open s1"
    using s1(2) ok(1) by (auto simp: notified_def dest: same_rest_fields)
  have "k \<in> ?I \<Longrightarrow> stats s1 k \<noteq> None" for k using st f1 by (auto simp: keys dom_def)
  from insert_loop [of s1 to ?I ?from clk, OF f1(2) ok(3) _ _ this] obtain s2 where
    s2: "for_each (notify_insert ?from to clk) (hash_order E ?I) s1 = (Inr (), s2)" "notified to ?I s1 s2"
    by (auto simp: keys)
  have n2: "notified to (?D \<union> ?I) s s2" using notified_trans [OF s1(2) s2(2)] .
  have at: "k \<in> ?U \<Longrightarrow> k \<notin> ?D \<union> ?I" for k by (auto simp: keys)
  have "event_open s2" using n2 ok(1) by (auto simp: notified_def dest: same_rest_fields)
  from update_loop [OF this ok(2,3) keys(3), of reason clk]
  obtain s3 where
    s3: "for_each (notify_update ?from to reason clk) (hash_order E ?U) s2 = (Inr (), s3)" "notified to ?U s2 s3"
    using notified_at [OF n2 at] v l by (auto simp: keys pred_option_def)
  have "?D \<union> ?I \<union> ?U = btm_keys (peers ?from) \<union> btm_keys (peers to)" by (auto simp: keys)
  with notified_trans [OF n2 s3(2)] show ?thesis
    by (simp add: update_send_notification_events_def s1 s2 s3)
qed

lemma same_interface_keys:
  assumes "interface_ok a" "interface_ok b" "is_same_interface a b"
  shows "btm_keys (peers a) = btm_keys (peers b)"
proof (rule card_subset_eq)
  show "btm_keys (peers a) \<subseteq> btm_keys (peers b)"
  proof
    fix k assume "k \<in> btm_keys (peers a)"
    then obtain p where "(k, p) \<in> set (peers a)" by (auto simp: btm_keys_def)
    with assms(3) have "map_of (peers b) k \<noteq> None"
      by (auto simp: is_same_interface_def list_all_iff split: if_splits option.splits)
    then show "k \<in> btm_keys (peers b)" by simp
  qed
  have "card (btm_keys (peers i)) = length (peers i)" if "interface_ok i" for i :: "'b Interface"
    using that distinct_card [of "map fst (peers i)"]
    by (simp add: interface_ok_def btm_keys_def btm_ok_distinct)
  with assms show "card (btm_keys (peers a)) = card (btm_keys (peers b))"
    by (auto simp: is_same_interface_def split: if_splits)
qed simp

lemma wg_inv_frame [simp]:
  "wg_inv (s\<lparr>adapter := a\<rparr>) \<longleftrightarrow> wg_inv s" "wg_inv (s\<lparr>uapi_fail_counter := n\<rparr>) \<longleftrightarrow> wg_inv s"
  "wg_inv (s\<lparr>libtelio_event := ev\<rparr>) \<longleftrightarrow> wg_inv s" "wg_inv (s\<lparr>analytics_tx := an\<rparr>) \<longleftrightarrow> wg_inv s"
  "wg_inv (s\<lparr>last_update := t\<rparr>) \<longleftrightarrow> wg_inv s" "wg_inv (s\<lparr>interval_start := t\<rparr>) \<longleftrightarrow> wg_inv s"
  "wg_inv (s\<lparr>interval_period := d\<rparr>) \<longleftrightarrow> wg_inv s" "wg_inv (s\<lparr>wg_ip_stack := st\<rparr>) \<longleftrightarrow> wg_inv s"
  by (simp_all add: wg_inv_def link_cells_def stats_ok_def)

lemma uapi_request_inv [simp]:
  "wg_inv (snd (uapi_request E s cmd)) \<longleftrightarrow> wg_inv s"
  "wg_inv ((snd (uapi_request E s cmd))\<lparr>wg_interface := to\<rparr>) \<longleftrightarrow> wg_inv (s\<lparr>wg_interface := to\<rparr>)"
proof -
  have swap: "s\<lparr>adapter := a, wg_interface := to\<rparr> = s\<lparr>wg_interface := to, adapter := a\<rparr>"
    "s\<lparr>adapter := a, uapi_fail_counter := n, wg_interface := to\<rparr> = s\<lparr>wg_interface := to, adapter := a, uapi_fail_counter := n\<rparr>"
    "s\<lparr>adapter := a, uapi_fail_counter := n, libtelio_event := ev, wg_interface := to\<rparr> =
       s\<lparr>wg_interface := to, adapter := a, uapi_fail_counter := n, libtelio_event := ev\<rparr>" for a n ev
    by simp_all
  show "wg_inv (snd (uapi_request E s cmd)) \<longleftrightarrow> wg_inv s"
    by (simp add: uapi_request_def Let_def split: prod.split sum.split)
  show "wg_inv ((snd (uapi_request E s cmd))\<lparr>wg_interface := to\<rparr>) \<longleftrightarrow> wg_inv (s\<lparr>wg_interface := to\<rparr>)"
    by (simp add: uapi_request_def Let_def swap split: prod.split sum.split)
qed

lemma stats_ok_restrict: "stats_ok s \<Longrightarrow> stats_ok (s\<lparr>stats := stats s |` A\<rparr>)"
  unfolding stats_ok_def by (auto simp: inj_on_def dom_def ran_def restrict_map_def split: if_splits)

lemma diff_same_keys:
  "btm_keys (peers to') = btm_keys (peers to) \<Longrightarrow> update_calculate_changes s to' = update_calculate_changes s to"
  by (simp add: update_calculate_changes_def)

text \<open>The state after the counters have been refreshed.\<close>

lemma refreshed_ok:
  assumes i: "wg_inv s" and to: "interface_ok to" and r: "refresh_stats clk (peers to) s = (ps, s2)"
    and s3: "s3 = s2\<lparr>stats := stats s2 |` btm_keys ps\<rparr>"
  shows "interface_ok (to\<lparr>peers := ps\<rparr>)" "btm_keys ps = btm_keys (peers to)"
    "dom (stats s3) = btm_keys (peers to)" "stats_ok s3" "event_open s3"
    "wg_interface s3 = wg_interface s" "events s3 = events s" "link_cells s3 = link_cells s"
    "k \<in> btm_keys (peers (wg_interface s)) \<inter> btm_keys (peers to) \<Longrightarrow> stats s3 k = stats s k"
proof -
  have st: "stats_ok s" "dom (stats s) = btm_keys (peers (wg_interface s))" "event_open s"
    using i by (simp_all add: wg_inv_def)
  note r' = refresh_stats_ok [OF st(1) r]
  have c: "stats_ok s2" "same_but_stats s s2" "dom (stats s2) = btm_keys (peers to) \<union> dom (stats s)"
    "stats s \<subseteq>\<^sub>m stats s2" "map fst ps = map fst (peers to)"
    "map (\<lambda>e. public_key (snd e)) ps = map (\<lambda>e. public_key (snd e)) (peers to)"
    using r' by blast+
  have "set (map fst ps) = set (map fst (peers to))" by (simp only: c(5))
  then show k: "btm_keys ps = btm_keys (peers to)" by (simp add: btm_keys_def)
  show "interface_ok (to\<lparr>peers := ps\<rparr>)"
    using to c(5,6) by (simp add: interface_ok_keys btm_ok_def)
  show "dom (stats s3) = btm_keys (peers to)" by (simp add: s3 k c(3) Int_absorb1)
  show "stats_ok s3" by (simp add: s3 stats_ok_restrict c(1))
  from c(2) obtain st' sto n where "s2 = s\<lparr>stats := st', store := sto, next_cell := n\<rparr>"
    by (auto simp only: same_but_stats_def)
  then show "event_open s3" "wg_interface s3 = wg_interface s" "events s3 = events s"
    "link_cells s3 = link_cells s"
    using st(3) by (simp_all add: s3 link_cells_def)
  assume "k \<in> btm_keys (peers (wg_interface s)) \<inter> btm_keys (peers to)"
  with c(4) st(2) show "stats s3 k = stats s k" by (simp add: s3 k map_le_def)
qed

lemma send_analytics_inv [simp]:
  "wg_inv ((send_analytics diff clk to s)\<lparr>wg_interface := to'\<rparr>) \<longleftrightarrow> wg_inv (s\<lparr>wg_interface := to'\<rparr>)"
  by (simp add: send_analytics_def wg_inv_def link_cells_def stats_ok_def)

text \<open>The same interface: only the counters have moved.\<close>

lemma unchanged_inv:
  assumes i: "wg_inv s" and to: "interface_ok to" "refresh_stats clk (peers to) s = (ps, s2)"
    "s3 = s2\<lparr>stats := stats s2 |` btm_keys ps\<rparr>"
    and same: "is_same_interface (wg_interface s) (carry_over (wg_interface s) (to\<lparr>peers := ps\<rparr>))"
  shows "wg_inv s3"
proof -
  note r = refreshed_ok [OF i to]
  have ok: "interface_ok (wg_interface s)" "dom (stats s) = btm_keys (peers (wg_interface s))"
    "pred_option (\<lambda>m. m = stats s) (link_cells s)" "replay (events s) = view (wg_interface s)"
    using i by (simp_all add: wg_inv_def)
  have k: "btm_keys (peers (wg_interface s)) = btm_keys (peers to)"
    using same_interface_keys [OF ok(1) _ same] r(1,2) by simp
  have "stats s3 j = stats s j" for j
  proof (cases "j \<in> btm_keys (peers to)")
    case False
    then have "j \<notin> dom (stats s3)" "j \<notin> dom (stats s)" using r(3) ok(2) k by auto
    then show ?thesis by (simp add: domIff)
  qed (use r(9) [of j] k in simp)
  then have "stats s3 = stats s" by blast
  then show ?thesis using r ok by (simp add: wg_inv_def)
qed

lemma changed_inv:
  assumes s: "stats_ok s" "event_open s" "interface_ok to" "dom (stats s) = btm_keys (peers to)"
    and v: "replay (events s) = view (wg_interface s)"
    and l: "pred_option (\<lambda>m. dom m = btm_keys (peers (wg_interface s))) (link_cells s)"
    and n: "notified to (btm_keys (peers (wg_interface s)) \<union> btm_keys (peers to)) s s'"
  shows "wg_inv (s'\<lparr>wg_interface := to\<rparr>)"
proof -
  note n' = n [unfolded notified_def]
  have f: "stats s' = stats s" "event_open s'" "next_cell s' = next_cell s"
    using same_rest_fields [OF conjunct1 [OF n']] s(2) by simp_all
  have "replay (events s') k = view to k" for k
    using n' v by (cases "k \<in> btm_keys (peers (wg_interface s)) \<union> btm_keys (peers to)")
      (simp_all add: view_simps)
  then have "replay (events s') = view to" by blast
  moreover have "pred_option (\<lambda>m. m = stats s') (link_cells s')"
  proof (cases "link_cells s")
    case (Some m)
    have "(if k \<in> btm_keys (peers (wg_interface s)) \<union> btm_keys (peers to) then stats s k else m k) = stats s k" for k
    proof (cases "k \<in> btm_keys (peers (wg_interface s)) \<union> btm_keys (peers to)")
      case False
      then have "k \<notin> dom m" "k \<notin> dom (stats s)" using l Some s(4) by auto
      with False show ?thesis by (simp add: domIff)
    qed simp
    then show ?thesis using n' Some f(1) by (auto simp: fun_eq_iff)
  qed (use n' in simp)
  moreover have "link_cells (s'\<lparr>wg_interface := to\<rparr>) = link_cells s'" by (simp add: link_cells_def)
  ultimately show ?thesis
    using s f by (simp add: wg_inv_def stats_ok_def)
qed

lemma wg_update_inv:
  assumes "wg_inv s" and to: "interface_ok to"
  shows "wg_inv (snd (wg_update E clk s to reason))"
proof -
  define s1 where "s1 = (if reason = Push then s\<lparr>last_update := clk 7 no_key,
      interval_start := clk 8 no_key + polling_period_after_update s,
      interval_period := polling_period_after_update s\<rparr> else s)"
  have i: "wg_inv s1" using assms(1) by (simp add: s1_def)
  obtain ps s2 where r: "refresh_stats clk (peers to) s1 = (ps, s2)" by fastforce
  define s3 where "s3 = s2\<lparr>stats := stats s2 |` btm_keys ps\<rparr>"
  note f = refreshed_ok [OF i to r s3_def]
  define to1 where "to1 = carry_over (wg_interface s3) (to\<lparr>peers := ps\<rparr>)"
  define diff where "diff = update_calculate_changes s3 to1"
  define to2 where "to2 = update_endpoint_change_timestamps s3 diff reason clk to1"
  have to2: "interface_ok to2" "btm_keys (peers to2) = btm_keys (peers to)" "diff = update_calculate_changes s3 to2"
    using f(1,2) by (simp_all add: to2_def to1_def diff_def update_calculate_changes_def)
  have ok: "interface_ok (wg_interface s3)" "replay (events s3) = view (wg_interface s3)"
    "pred_option (\<lambda>m. m = stats s1) (link_cells s3)" "dom (stats s1) = btm_keys (peers (wg_interface s3))"
    using i f by (simp_all add: wg_inv_def)
  note upd = wg_update_def [of E clk s to reason, unfolded Let_def, folded s1_def,
      unfolded r prod.case, folded s3_def, folded to1_def, folded diff_def, folded to2_def]
  show ?thesis
  proof (cases "is_same_interface (wg_interface s3) to1")
    case True
    then have "wg_inv s3" using unchanged_inv [OF i to r s3_def] f(6) by (simp add: to1_def)
    with True show ?thesis by (simp add: upd)
  next
    case False
    have "pred_option (\<lambda>m. \<forall>k \<in> btm_keys (peers (wg_interface s3)) \<inter> btm_keys (peers to2). m k = stats s3 k) (link_cells s3)"
      using ok(3) f(6,9) to2(2) by (auto simp: pred_option_def)
    from notifications_ok [OF f(5) ok(1) to2(1) _ ok(2) this to2(3), of reason clk] f(3) to2(2)
    obtain s4 where s4: "update_send_notification_events E s3 to2 diff reason clk = (Inr (), s4)"
      "notified to2 (btm_keys (peers (wg_interface s3)) \<union> btm_keys (peers to2)) s3 s4" by auto
    have "pred_option (\<lambda>m. dom m = btm_keys (peers (wg_interface s3))) (link_cells s3)"
      using ok(3,4) by (cases "link_cells s3") simp_all
    then have "wg_inv (s4\<lparr>wg_interface := to2\<rparr>)"
      using changed_inv [OF f(4,5) to2(1) _ ok(2) _ s4(2)] f(3) to2(2) by simp
    with False show ?thesis
      by (simp add: upd s4(1) case_prod_beta split: sum.split)
  qed
qed

end

section \<open>Runs\<close>

text \<open>The operations that the adapter task executes, in any order and with any clock.\<close>

inductive wg_run :: "('n, 'a) wg_env \<Rightarrow> ('n, 'a) WgState \<Rightarrow> bool" for E where
  run_start: "wg_run E (start_with a an ev ld ed_starts period period_after now)"
| run_sync: "wg_run E s \<Longrightarrow> wg_run E (snd (wg_sync E clk (wg_wait now now' s)))"
| run_secret_key: "wg_run E s \<Longrightarrow> wg_run E (wg_set_secret_key E clk s key)"
| run_fwmark: "wg_run E s \<Longrightarrow> wg_run E (wg_set_fwmark E clk s mark)"
| run_add_peer: "wg_run E s \<Longrightarrow> wg_run E (snd (wg_add_peer E clk s peer))"
| run_del_peer: "wg_run E s \<Longrightarrow> wg_run E (wg_del_peer E clk s pk)"
| run_ip_stack: "wg_run E s \<Longrightarrow> wg_run E (wg_set_ip_stack s stack)"

lemma wg_start_inv: "wg_inv (start_with a an ev ld ed_starts period period_after now)"
  by (cases ld) (auto simp: wg_inv_def start_with_def stats_ok_def link_cells_def interface_ok_def
      Interface_default_def LinkDetection_new_def view_def)

lemma fill_peer_key [simp]: "public_key (fill_peer to p) = public_key p"
  by (simp add: fill_peer_def Let_def split: option.split)

lemma interface_ok_insert:
  "interface_ok i \<Longrightarrow> interface_ok (i\<lparr>peers := btm_insert (public_key p) p (peers i)\<rparr>)"
proof -
  assume i: "interface_ok i"
  have "set (btm_insert k p m) \<subseteq> insert (k, p) (set m)" for k :: PublicKey and m :: "(PublicKey, 'a Peer) btree_map"
    by (induction k p m rule: btm_insert.induct) auto
  with i show ?thesis by (fastforce simp: interface_ok_def list_all_iff)
qed

lemma interface_ok_remove: "interface_ok i \<Longrightarrow> interface_ok (i\<lparr>peers := btm_remove k (peers i)\<rparr>)"
  by (auto simp: interface_ok_def list_all_iff btm_remove_def intro: btm_remove_ok [unfolded btm_remove_def])

lemma interface_ok_fields [simp]:
  "interface_ok (i\<lparr>private_key := k\<rparr>) \<longleftrightarrow> interface_ok i" "interface_ok (i\<lparr>fwmark := n\<rparr>) \<longleftrightarrow> interface_ok i"
  by (simp_all add: interface_ok_def)

lemma wg_inv_interface: "wg_inv s \<Longrightarrow> interface_ok (wg_interface s)"
  by (simp add: wg_inv_def)

context wg_adapter
begin

lemma wg_sync_inv:
  assumes "wg_inv s"
  shows "wg_inv (snd (wg_sync E clk s))"
proof (cases "uapi_request E s Get")
  case (Pair r s1)
  have i: "wg_inv s1" using uapi_request_inv(1) [of s Get] assms Pair by simp
  show ?thesis
  proof (cases r)
    case (Inr resp)
    with Pair have "pred_option interface_ok (interface resp)"
      using adapter_interface [of Get "adapter s" resp]
      by (auto simp: uapi_request_def Let_def split: prod.splits sum.splits if_splits)
    then show ?thesis
      using Inr Pair i wg_update_inv [OF i] by (auto simp: wg_sync_def split: option.split)
  qed (use Pair i in \<open>simp add: wg_sync_def\<close>)
qed

lemma wg_wait_inv: "wg_inv s \<Longrightarrow> wg_inv (wg_wait now now' s)"
  by (simp add: wg_wait_def)

lemma wg_run_inv: "wg_run E s \<Longrightarrow> wg_inv s"
proof (induction rule: wg_run.induct)
  case (run_sync s clk now now')
  then show ?case by (intro wg_sync_inv wg_wait_inv)
next
  case (run_add_peer s clk peer)
  then show ?case
    using interface_ok_insert [of "wg_interface s" "fill_peer (wg_interface s) peer"]
    by (auto simp: wg_add_peer_def Let_def wg_inv_interface intro: wg_update_inv)
next
  case (run_del_peer s clk pk)
  then show ?case by (simp add: wg_del_peer_def wg_update_inv wg_inv_interface interface_ok_remove)
qed (simp_all add: wg_start_inv wg_set_secret_key_def wg_set_fwmark_def wg_set_ip_stack_def wg_update_inv
    wg_inv_interface)

end

end
