(* ===== verification/Uapi_Parse.thy ===== *)
theory Uapi_Parse
  imports Uapi
begin

text \<open>
  Parser of WireGuard UAPI responses (\<open>response_from_str\<close> and \<open>parse_peer\<close> of
  crates/telio-wg/src/uapi.rs). The text is a list of ASCII characters. Key decoding and the sums
  of durations may panic, so the parsers return an \<open>outcome\<close>. The text syntax of networks
  (\<open>ipnet\<close>) and of socket addresses is a parameter. The reading of the system clock that is
  made when a peer is complete is an argument, one for each peer.
\<close>

section \<open>Integers\<close>

datatype ParseIntError = Empty | InvalidDigit | PosOverflow | NegOverflow

definition ParseIntError_display :: "ParseIntError \<Rightarrow> string" where
  "ParseIntError_display e =
     (case e of
        Empty \<Rightarrow> ''cannot parse integer from empty string''
      | InvalidDigit \<Rightarrow> ''invalid digit found in string''
      | PosOverflow \<Rightarrow> ''number too large to fit in target type''
      | NegOverflow \<Rightarrow> ''number too small to fit in target type'')"

definition to_digit :: "char \<Rightarrow> nat option" where
  "to_digit c = (let n = of_char c :: nat in if 48 \<le> n \<and> n \<le> 57 then Some (n - 48) else None)"

text \<open>The digits of a number of at most \<open>limit\<close>; \<open>over\<close> is the error beyond it.\<close>

fun parse_digits :: "ParseIntError \<Rightarrow> nat \<Rightarrow> string \<Rightarrow> nat \<Rightarrow> ParseIntError + nat" where
  "parse_digits over limit [] acc = Inr acc"
| "parse_digits over limit (c # cs) acc =
     (case to_digit c of
        None \<Rightarrow> Inl InvalidDigit
      | Some d \<Rightarrow>
          if 10 * acc + d \<le> limit then parse_digits over limit cs (10 * acc + d) else Inl over)"

definition parse_unsigned :: "nat \<Rightarrow> string \<Rightarrow> ParseIntError + nat" where
  "parse_unsigned w s =
     (case s of
        [] \<Rightarrow> Inl Empty
      | c # cs \<Rightarrow>
          if cs = [] \<and> (c = CHR ''+'' \<or> c = CHR ''-'') then Inl InvalidDigit
          else if c = CHR ''+'' then parse_digits PosOverflow (2 ^ w - 1) cs 0
          else parse_digits PosOverflow (2 ^ w - 1) s 0)"

definition parse_i32 :: "string \<Rightarrow> ParseIntError + int" where
  "parse_i32 s =
     (case s of
        [] \<Rightarrow> Inl Empty
      | c # cs \<Rightarrow>
          if cs = [] \<and> (c = CHR ''+'' \<or> c = CHR ''-'') then Inl InvalidDigit
          else if c = CHR ''-'' then map_sum id (\<lambda>n. - int n) (parse_digits NegOverflow (2 ^ 31) cs 0)
          else if c = CHR ''+'' then map_sum id int (parse_digits PosOverflow (2 ^ 31 - 1) cs 0)
          else map_sum id int (parse_digits PosOverflow (2 ^ 31 - 1) s 0))"

fun show_nat :: "nat \<Rightarrow> string" where
  "show_nat n = (if n < 10 then [char_of (48 + n)] else show_nat (n div 10) @ [char_of (48 + n mod 10)])"

declare show_nat.simps [simp del]

section \<open>Results\<close>

datatype UapiError = ParsingError string string

type_synonym 'a parsed = "(UapiError + 'a) outcome"

definition int_field :: "string \<Rightarrow> ParseIntError + 'a \<Rightarrow> 'a parsed" where
  "int_field name r =
     Returns (map_sum (\<lambda>e. ParsingError name (ParseIntError_display e)) id r)"

definition text_field :: "string \<Rightarrow> string + 'a \<Rightarrow> 'a parsed" where
  "text_field name r = Returns (map_sum (ParsingError name) id r)"

definition KeyDecodeError_display :: "KeyDecodeError \<Rightarrow> string" where
  "KeyDecodeError_display e =
     (case e of
        InvalidLength l \<Rightarrow> ''Invalid length for parsing ['' @ show_nat l @ ''], 64-hex, 44-base64''
      | Base64 m \<Rightarrow> m
      | Hex m \<Rightarrow> m)"

definition key_field :: "string \<Rightarrow> (KeyDecodeError + 'a) outcome \<Rightarrow> 'a parsed" where
  "key_field name r =
     (case r of
        Panics \<Rightarrow> Panics
      | Returns x \<Rightarrow> Returns (map_sum (\<lambda>e. ParsingError name (KeyDecodeError_display e)) id x))"

text \<open>The \<open>?\<close> operator.\<close>

definition and_then :: "'a parsed \<Rightarrow> ('a \<Rightarrow> 'b parsed) \<Rightarrow> 'b parsed" where
  "and_then r f =
     (case r of Panics \<Rightarrow> Panics | Returns (Inl e) \<Rightarrow> Returns (Inl e) | Returns (Inr a) \<Rightarrow> f a)"

lemma and_then_simps [simp]:
  "and_then (Returns (Inr a)) f = f a" "and_then (Returns (Inl e)) f = Returns (Inl e)"
  "and_then Panics f = Panics"
  by (simp_all add: and_then_def)

section \<open>Lines\<close>

abbreviation newline :: char where "newline \<equiv> CHR 0x0A"

text \<open>\<open>BufRead::read_line\<close>: up to and with the next newline; the empty line at the end.\<close>

definition read_line :: "string \<Rightarrow> string \<times> string" where
  "read_line s =
     (case dropWhile (\<lambda>c. c \<noteq> newline) s of
        [] \<Rightarrow> (s, [])
      | c # rest \<Rightarrow> (takeWhile (\<lambda>c. c \<noteq> newline) s @ [c], rest))"

text \<open>\<open>splitn(2, '=')\<close>, \<open>None\<close> when there is only one part.\<close>

definition split_eq :: "string \<Rightarrow> (string \<times> string) option" where
  "split_eq s =
     (case dropWhile (\<lambda>c. c \<noteq> CHR ''='') s of
        [] \<Rightarrow> None
      | _ # val \<Rightarrow> Some (takeWhile (\<lambda>c. c \<noteq> CHR ''='') s, val))"

lemma read_line_shorter: "s \<noteq> [] \<Longrightarrow> length (snd (read_line s)) < length s"
proof -
  assume "s \<noteq> []"
  moreover have "length (dropWhile (\<lambda>c. c \<noteq> newline) s) \<le> length s"
    by (rule length_dropWhile_le)
  ultimately show ?thesis by (auto simp: read_line_def split: list.split)
qed

lemma read_line_line: "butlast (fst (read_line s)) \<noteq> [] \<Longrightarrow> s \<noteq> []"
  by (auto simp: read_line_def)

lemma read_line_less: "butlast (fst (read_line s)) \<noteq> [] \<Longrightarrow> length (snd (read_line s)) < length s"
  by (blast dest: read_line_line read_line_shorter)

lemma read_line_length: "length (snd (read_line s)) \<le> length s"
  using read_line_shorter [of s] by (cases "s = []") (auto simp: read_line_def)

section \<open>One peer\<close>

datatype 'n wg_text = WgText
  (wg_codecs: codecs) (net_from_str: "string \<Rightarrow> string + 'n")
  (sock_from_str: "string \<Rightarrow> string + SocketAddr")

definition DURATION_MAX :: duration where
  "DURATION_MAX = (2 ^ 64 - 1) * 1000000000 + 999999999"

text \<open>\<open>*timestamp += d\<close> panics on overflow.\<close>

definition add_handshake :: "duration option \<Rightarrow> duration \<Rightarrow> duration option parsed" where
  "add_handshake lht d =
     (case lht of
        None \<Rightarrow> Returns (Inr (Some d))
      | Some t \<Rightarrow> if t + d \<le> DURATION_MAX then Returns (Inr (Some (t + d))) else Panics)"

datatype 'n peer_step =
    Continue "'n Peer" "duration option"
  | Stop "PublicKey option" "int option"

definition peer_line ::
  "'n wg_text \<Rightarrow> 'n Peer \<Rightarrow> duration option \<Rightarrow> string \<Rightarrow> string \<Rightarrow> 'n peer_step parsed" where
  "peer_line T peer lht key val =
     (if key = ''endpoint'' then
        and_then (text_field ''endpoint'' (sock_from_str T val))
          (\<lambda>a. Returns (Inr (Continue (peer\<lparr>endpoint := Some a\<rparr>) lht)))
      else if key = ''persistent_keepalive_interval'' then
        and_then (int_field ''persistent_keepalive_interval'' (parse_unsigned 32 val))
          (\<lambda>n. Returns (Inr (Continue (peer\<lparr>persistent_keepalive_interval := Some (of_nat n)\<rparr>) lht)))
      else if key = ''allowed_ip'' then
        and_then (text_field ''allowed_ip'' (net_from_str T val))
          (\<lambda>n. Returns (Inr (Continue (peer\<lparr>allowed_ips := allowed_ips peer @ [n]\<rparr>) lht)))
      else if key = ''rx_bytes'' then
        and_then (int_field ''rx_bytes'' (parse_unsigned 64 val))
          (\<lambda>n. Returns (Inr (Continue (peer\<lparr>rx_bytes := Some (of_nat n)\<rparr>) lht)))
      else if key = ''tx_bytes'' then
        and_then (int_field ''tx_bytes'' (parse_unsigned 64 val))
          (\<lambda>n. Returns (Inr (Continue (peer\<lparr>tx_bytes := Some (of_nat n)\<rparr>) lht)))
      else if key = ''last_handshake_time_nsec'' then
        and_then (int_field ''last_handshake_time_nsec'' (parse_unsigned 64 val))
          (\<lambda>n. and_then (add_handshake lht n) (\<lambda>lht'. Returns (Inr (Continue peer lht'))))
      else if key = ''last_handshake_time_sec'' then
        and_then (int_field ''last_handshake_time_sec'' (parse_unsigned 64 val))
          (\<lambda>n. and_then (add_handshake lht (from_secs n)) (\<lambda>lht'. Returns (Inr (Continue peer lht'))))
      else if key = ''preshared_key'' then
        and_then (key_field ''preshared_key'' (key_from_str (wg_codecs T) PresharedKey_new val))
          (\<lambda>k. Returns (Inr (Continue
             (if psk_bytes k \<noteq> replicate 32 0 then peer\<lparr>preshared_key := Some k\<rparr> else peer) lht)))
      else if key = ''public_key'' then
        and_then (key_field ''public_key'' (key_from_str (wg_codecs T) PublicKey_new val))
          (\<lambda>k. Returns (Inr (Stop (Some k) None)))
      else if key = ''errno'' then
        and_then (int_field ''errno'' (parse_i32 val)) (\<lambda>e. Returns (Inr (Stop None (Some e))))
      else Returns (Inr (Continue peer lht)))"

text \<open>
  The loop of \<open>parse_peer\<close>: the peer, the handshake time, the key of the next peer, the error
  number, and the unread text. \<open>cmd.pop()\<close> is \<open>butlast\<close>.
\<close>

function peer_loop ::
  "'n wg_text \<Rightarrow> 'n Peer \<Rightarrow> duration option \<Rightarrow> string
     \<Rightarrow> ('n Peer \<times> duration option \<times> PublicKey option \<times> int option \<times> string) parsed" where
  "peer_loop T peer lht s =
     (let cmd = butlast (fst (read_line s)); rest = snd (read_line s) in
      if cmd = [] then Returns (Inr (peer, lht, None, None, rest))
      else (case split_eq cmd of
              None \<Rightarrow> Returns (Inl (ParsingError ''cmd'' ''not in A=B format''))
            | Some (key, val) \<Rightarrow>
                (case peer_line T peer lht key val of
                   Panics \<Rightarrow> Panics
                 | Returns (Inl e) \<Rightarrow> Returns (Inl e)
                 | Returns (Inr (Continue peer' lht')) \<Rightarrow> peer_loop T peer' lht' rest
                 | Returns (Inr (Stop next err)) \<Rightarrow> Returns (Inr (peer, lht, next, err, rest)))))"
  by pat_completeness auto
termination
  by (relation "measure (\<lambda>(T, peer, lht, s). length s)") (auto dest: read_line_less)

declare peer_loop.simps [simp del]

definition parse_peer ::
  "'n wg_text \<Rightarrow> duration option \<Rightarrow> PublicKey \<Rightarrow> string
     \<Rightarrow> ('n Peer \<times> PublicKey option \<times> int option \<times> string) parsed" where
  "parse_peer T now pk s =
     and_then (peer_loop T (Peer_default\<lparr>public_key := pk\<rparr>) None s)
       (\<lambda>(peer, lht, next, err, rest). Returns (Inr
          (peer\<lparr>time_since_last_handshake := calculate_time_since_last_handshake now lht\<rparr>,
           next, err, rest)))"

lemma peer_loop_rest:
  "peer_loop T peer lht s = Returns (Inr (peer', lht', next, err, rest)) \<Longrightarrow>
     length rest \<le> length s \<and> (next \<noteq> None \<longrightarrow> length rest < length s)"
proof (induction T peer lht s rule: peer_loop.induct)
  case (1 T peer lht s)
  let ?cmd = "butlast (fst (read_line s))"
  show ?case
  proof (cases "?cmd = []")
    case True
    with 1 show ?thesis
      using read_line_length [of s] by (auto simp: peer_loop.simps [of T peer lht s])
  next
    case False
    then have "length (snd (read_line s)) < length s" by (rule read_line_less)
    with False 1 show ?thesis
      by (fastforce simp: peer_loop.simps [of T peer lht s] Let_def
          split: option.splits prod.splits outcome.splits sum.splits peer_step.splits)
  qed
qed

lemma parse_peer_rest:
  "parse_peer T now pk s = Returns (Inr (peer, next, err, rest)) \<Longrightarrow>
     length rest \<le> length s \<and> (next \<noteq> None \<longrightarrow> length rest < length s)"
  by (auto simp: parse_peer_def and_then_def dest: peer_loop_rest
      split: outcome.splits sum.splits prod.splits)

section \<open>The response\<close>

text \<open>The inner loop over the peers; \<open>now\<close> is the clock reading made for each of them.\<close>

function peers_loop ::
  "'n wg_text \<Rightarrow> (PublicKey \<Rightarrow> duration option) \<Rightarrow> 'n Interface \<Rightarrow> PublicKey \<Rightarrow> string
     \<Rightarrow> ('n Interface \<times> int option \<times> string) parsed" where
  "peers_loop T now ifc public s =
     (case parse_peer T (now public) public s of
        Panics \<Rightarrow> Panics
      | Returns (Inl e) \<Rightarrow> Returns (Inl e)
      | Returns (Inr (peer, next, err, rest)) \<Rightarrow>
          let ifc' = ifc\<lparr>peers := btm_insert (public_key peer) peer (peers ifc)\<rparr> in
          (case err of
             Some e \<Rightarrow> Returns (Inr (ifc', Some e, rest))
           | None \<Rightarrow>
               (case next of
                  Some k \<Rightarrow> peers_loop T now ifc' k rest
                | None \<Rightarrow> Returns (Inr (ifc', None, rest)))))"
  by pat_completeness auto
termination
  by (relation "measure (\<lambda>(T, now, ifc, public, s). length s)") (auto dest: parse_peer_rest)

declare peers_loop.simps [simp del]

lemma peers_loop_rest:
  "peers_loop T now ifc public s = Returns (Inr (ifc', err, rest)) \<Longrightarrow> length rest \<le> length s"
proof (induction T now ifc public s rule: peers_loop.induct)
  case (1 T now ifc public s)
  then show ?case
    by (fastforce simp: peers_loop.simps [of T now ifc public s] Let_def dest: parse_peer_rest
        split: option.splits prod.splits outcome.splits sum.splits)
qed

definition finish_response :: "'n Interface \<Rightarrow> bool \<Rightarrow> int \<Rightarrow> 'n Response" where
  "finish_response ifc inited err =
     \<lparr>errno = err, interface = (if inited then Some ifc else None)\<rparr>"

text \<open>
  The fields before the first peer: the new interface, whether one was seen, and the error number.
\<close>

definition device_line ::
  "'n wg_text \<Rightarrow> 'n Interface \<Rightarrow> bool \<Rightarrow> int \<Rightarrow> string \<Rightarrow> string \<Rightarrow> ('n Interface \<times> bool \<times> int) parsed" where
  "device_line T ifc inited err key val =
     (if key = ''private_key'' then
        and_then (key_field ''private_key'' (key_from_str (wg_codecs T) SecretKey_new val))
          (\<lambda>k. Returns (Inr (ifc\<lparr>private_key := Some k\<rparr>, True, err)))
      else if key = ''listen_port'' then
        and_then (int_field ''listen_port'' (parse_unsigned 16 val))
          (\<lambda>port. Returns (Inr (if 0 < port then ifc\<lparr>listen_port := Some (of_nat port)\<rparr> else ifc, True, err)))
      else if key = ''fwmark'' then
        and_then (int_field ''fwmark'' (parse_unsigned 32 val))
          (\<lambda>n. Returns (Inr (ifc\<lparr>fwmark := of_nat n\<rparr>, True, err)))
      else if key = ''errno'' then
        and_then (int_field ''errno'' (parse_i32 val)) (\<lambda>e. Returns (Inr (ifc, inited, e)))
      else Returns (Inr (ifc, inited, err)))"

function response_loop ::
  "'n wg_text \<Rightarrow> (PublicKey \<Rightarrow> duration option) \<Rightarrow> 'n Interface \<Rightarrow> bool \<Rightarrow> int \<Rightarrow> string
     \<Rightarrow> 'n Response parsed" where
  "response_loop T now ifc inited err s =
     (let cmd = butlast (fst (read_line s)); rest = snd (read_line s) in
      if cmd = [] then Returns (Inr (finish_response ifc inited err))
      else (case split_eq cmd of
              None \<Rightarrow> Returns (Inl (ParsingError ''cmd'' ''not in A=B format''))
            | Some (key, val) \<Rightarrow>
                if key = ''public_key'' then
                  (case key_field ''public_key'' (key_from_str (wg_codecs T) PublicKey_new val) of
                     Panics \<Rightarrow> Panics
                   | Returns (Inl e) \<Rightarrow> Returns (Inl e)
                   | Returns (Inr public) \<Rightarrow>
                       (case peers_loop T now ifc public rest of
                          Panics \<Rightarrow> Panics
                        | Returns (Inl e) \<Rightarrow> Returns (Inl e)
                        | Returns (Inr (ifc', err', rest')) \<Rightarrow>
                            response_loop T now ifc' True (case err' of None \<Rightarrow> err | Some e \<Rightarrow> e) rest'))
                else
                  (case device_line T ifc inited err key val of
                     Panics \<Rightarrow> Panics
                   | Returns (Inl e) \<Rightarrow> Returns (Inl e)
                   | Returns (Inr (ifc', inited', err')) \<Rightarrow> response_loop T now ifc' inited' err' rest)))"
  by pat_completeness auto
termination
  by (relation "measure (\<lambda>(T, now, ifc, inited, err, s). length s)")
    (auto dest!: read_line_less peers_loop_rest)

declare response_loop.simps [simp del]

definition response_from_str ::
  "'n wg_text \<Rightarrow> (PublicKey \<Rightarrow> duration option) \<Rightarrow> string \<Rightarrow> 'n Response parsed" where
  "response_from_str T now s = response_loop T now Interface_default False 0 s"

definition Response_display :: "'n Response \<Rightarrow> string" where
  "Response_display r =
     (if errno r \<noteq> 0
      then ''error='' @ (if errno r < 0 then ''-'' else []) @ show_nat (nat \<bar>errno r\<bar>) @ [newline]
      else [])"

end
