(* ===== verification/Uapi_Theorems.thy ===== *)
theory Uapi_Theorems
  imports Uapi_Parse
begin

text \<open>
  Properties of the UAPI response parser: the last character of a text is never read, and the
  text form of a device is parsed into the interface that the conversion from the native device
  description gives.
\<close>

section \<open>The last character\<close>

definition same_but_last :: "char \<Rightarrow> string \<Rightarrow> string \<Rightarrow> bool" where
  "same_but_last c s t \<longleftrightarrow> s = t \<or> (\<exists>u. s = u @ [c] \<and> t = u @ [newline])"

lemma read_line_cases:
  obtains (more) a b where "u = a @ newline # b" "newline \<notin> set a"
  | (last) "newline \<notin> set u"
  by (metis split_list_first)

lemma read_line_more: "newline \<notin> set a \<Longrightarrow> read_line (a @ newline # b) = (a @ [newline], b)"
  by (simp add: read_line_def dropWhile_append takeWhile_tail dropWhile_eq_Nil_conv [THEN iffD2])

lemma read_line_last: "newline \<notin> set a \<Longrightarrow> read_line a = (a, [])"
proof -
  assume "newline \<notin> set a"
  then have "dropWhile (\<lambda>c. c \<noteq> newline) a = []" by (auto simp: dropWhile_eq_Nil_conv)
  then show ?thesis by (simp only: read_line_def list.case)
qed

lemma read_line_same:
  assumes "same_but_last c s t"
  shows "butlast (fst (read_line s)) = butlast (fst (read_line t))"
    and "same_but_last c (snd (read_line s)) (snd (read_line t))"
proof -
  have "butlast (fst (read_line s)) = butlast (fst (read_line t)) \<and>
      same_but_last c (snd (read_line s)) (snd (read_line t))"
  proof (cases "s = t \<or> c = newline")
    case True
    with assms show ?thesis by (auto simp: same_but_last_def)
  next
    case False
    with assms obtain u where u: "s = u @ [c]" "t = u @ [newline]" "c \<noteq> newline"
      by (auto simp: same_but_last_def)
    show ?thesis
    proof (cases u rule: read_line_cases)
      case (more a b)
      with u show ?thesis by (auto simp: read_line_more same_but_last_def)
    next
      case last
      with u have "read_line s = (u @ [c], [])" "read_line t = (u @ [newline], [])"
        using read_line_last [of "u @ [c]"] read_line_more [of u "[]"] by auto
      then show ?thesis by (simp add: same_but_last_def)
    qed
  qed
  then show "butlast (fst (read_line s)) = butlast (fst (read_line t))"
    "same_but_last c (snd (read_line s)) (snd (read_line t))" by blast+
qed

abbreviation peer_rel where
  "peer_rel c \<equiv> rel_outcome (rel_sum (=) (rel_prod (=) (rel_prod (=) (rel_prod (=)
      (rel_prod (=) (same_but_last c))))))"

lemma peer_loop_same:
  "same_but_last c s t \<Longrightarrow> peer_rel c (peer_loop T peer lht s) (peer_loop T peer lht t)"
proof (induction T peer lht s arbitrary: t rule: peer_loop.induct)
  case (1 T peer lht s)
  note r = read_line_same [OF "1.prems"]
  show ?case
    unfolding peer_loop.simps [of T peer lht s] peer_loop.simps [of T peer lht t] Let_def r(1)
    using "1.IH" [OF refl refl] r
    by (auto split: option.split outcome.split sum.split peer_step.split)
qed

lemma parse_peer_same:
  "same_but_last c s t \<Longrightarrow>
     rel_outcome (rel_sum (=) (rel_prod (=) (rel_prod (=) (rel_prod (=) (same_but_last c)))))
       (parse_peer T now pk s) (parse_peer T now pk t)"
  using peer_loop_same [of c s t T "Peer_default\<lparr>public_key := pk\<rparr>" None]
  by (auto simp: parse_peer_def and_then_def elim!: outcome.rel_cases rel_sum.cases)

lemma peers_loop_same:
  "same_but_last c s t \<Longrightarrow>
     rel_outcome (rel_sum (=) (rel_prod (=) (rel_prod (=) (same_but_last c))))
       (peers_loop T now ifc pk s) (peers_loop T now ifc pk t)"
proof (induction T now ifc pk s arbitrary: t rule: peers_loop.induct)
  case (1 T now ifc pk s)
  show ?case
    unfolding peers_loop.simps [of T now ifc pk s] peers_loop.simps [of T now ifc pk t] Let_def
    using parse_peer_same [OF "1.prems", of T "now pk" pk] "1.IH" [OF _ _ _ _ _ refl]
    by (auto elim!: outcome.rel_cases rel_sum.cases split: option.split)
qed

lemma peers_loop_same_cases:
  assumes "same_but_last c s t"
  obtains "peers_loop T now ifc pk s = Panics" "peers_loop T now ifc pk t = Panics"
  | e where "peers_loop T now ifc pk s = Returns (Inl e)" "peers_loop T now ifc pk t = Returns (Inl e)"
  | i e r r' where "peers_loop T now ifc pk s = Returns (Inr (i, e, r))"
      "peers_loop T now ifc pk t = Returns (Inr (i, e, r'))" "same_but_last c r r'"
  using peers_loop_same [OF assms, of T now ifc pk]
  by (auto elim!: outcome.rel_cases rel_sum.cases)

lemma response_loop_same:
  "same_but_last c s t \<Longrightarrow>
     response_loop T now ifc inited err s = response_loop T now ifc inited err t"
proof (induction T now ifc inited err s arbitrary: t rule: response_loop.induct)
  case (1 T now ifc inited err s)
  note r = read_line_same [OF "1.prems"]
  note unf = response_loop.simps [of T now ifc inited err s]
    response_loop.simps [of T now ifc inited err t] Let_def r(1)
  let ?cmd = "butlast (fst (read_line t))"
  consider "?cmd = []" | "?cmd \<noteq> []" "split_eq ?cmd = None"
    | key val where "?cmd \<noteq> []" "split_eq ?cmd = Some (key, val)" "key \<noteq> ''public_key''"
    | val where "?cmd \<noteq> []" "split_eq ?cmd = Some (''public_key'', val)"
    by (cases "split_eq ?cmd") auto
  then show ?case
  proof cases
    case (3 key val)
    then show ?thesis
      unfolding unf using "1.IH"(2) [OF refl refl] r by (auto split: outcome.split sum.split)
  next
    case (4 val)
    show ?thesis
    proof (cases "key_field ''public_key'' (key_from_str (wg_codecs T) PublicKey_new val)")
      case (Returns x)
      show ?thesis
      proof (cases x)
        case (Inr public)
        show ?thesis
          by (rule peers_loop_same_cases [OF r(2), of T now ifc public])
            (use 4 Returns Inr "1.IH"(1) [OF refl refl] r(1) in \<open>simp_all add: unf\<close>)
      qed (use 4 Returns in \<open>simp add: unf\<close>)
    qed (use 4 in \<open>simp add: unf\<close>)
  qed (simp_all add: unf)
qed

text \<open>
  The parser takes the last character of the text for a newline, whatever it is: a response
  whose last line is not terminated loses the last character of its last value.
\<close>

theorem response_last_char_is_dropped:
  "response_from_str T now (s @ [c]) = response_from_str T now (s @ [newline])"
  using response_loop_same [of c "s @ [c]" "s @ [newline]"]
  by (auto simp: response_from_str_def same_but_last_def)

section \<open>Numbers in decimal\<close>

lemma to_digit_char: "d < 10 \<Longrightarrow> to_digit (char_of (48 + d)) = Some d"
  by (simp add: to_digit_def Let_def)

lemma parse_digits_show:
  "n \<le> limit \<Longrightarrow> parse_digits over limit (show_nat n @ cs) 0 = parse_digits over limit cs n"
proof (induction n arbitrary: cs rule: show_nat.induct)
  case (1 n)
  show ?case
  proof (cases "n < 10")
    case False
    then have "n div 10 \<le> limit" using "1.prems" by linarith
    moreover have "10 * (n div 10) + n mod 10 = n" by presburger
    ultimately show ?thesis
      using False 1 by (simp add: show_nat.simps [of n] to_digit_char)
  qed (use "1.prems" in \<open>simp add: show_nat.simps [of n] to_digit_char\<close>)
qed

lemma show_nat_chars: "c \<in> set (show_nat n) \<Longrightarrow> 48 \<le> (of_char c :: nat) \<and> (of_char c :: nat) \<le> 57"
proof (induction n rule: show_nat.induct)
  case (1 n)
  then show ?case by (cases "n < 10") (auto simp: show_nat.simps [of n])
qed

lemma show_nat_fresh:
  "newline \<notin> set (show_nat n)" "CHR ''+'' \<notin> set (show_nat n)" "CHR ''-'' \<notin> set (show_nat n)"
  "CHR '':'' \<notin> set (show_nat n)"
  using show_nat_chars by fastforce+

lemma show_nat_nonempty: "show_nat n \<noteq> []"
  by (simp add: show_nat.simps [of n])

lemma parse_unsigned_show: "n < 2 ^ w \<Longrightarrow> parse_unsigned w (show_nat n) = Inr n"
proof -
  assume n: "n < 2 ^ w"
  obtain c cs where s: "show_nat n = c # cs" "c \<noteq> CHR ''+''" "c \<noteq> CHR ''-''"
    using show_nat_nonempty show_nat_fresh(2,3) by (metis list.exhaust list.set_intros(1))
  have "n \<le> 2 ^ w - 1" using n by simp
  from parse_digits_show [OF this, of PosOverflow "[]"] show ?thesis
    using s by (simp add: parse_unsigned_def)
qed

lemma parse_unsigned_word:
  "parse_unsigned 16 (show_nat (unat (x :: u16))) = Inr (unat x)"
  "parse_unsigned 32 (show_nat (unat (y :: u32))) = Inr (unat y)"
  "parse_unsigned 64 (show_nat (unat (z :: u64))) = Inr (unat z)"
  "parse_unsigned 32 (show_nat (unat x)) = Inr (unat x)"
proof -
  have "unat x < 2 ^ 16" "unat y < 2 ^ 32" "unat z < 2 ^ 64"
    using unsigned_less [of x] unsigned_less [of y] unsigned_less [of z] by simp_all
  then show "parse_unsigned 16 (show_nat (unat x)) = Inr (unat x)"
    "parse_unsigned 32 (show_nat (unat y)) = Inr (unat y)"
    "parse_unsigned 64 (show_nat (unat z)) = Inr (unat z)"
    "parse_unsigned 32 (show_nat (unat x)) = Inr (unat x)"
    by (auto intro!: parse_unsigned_show)
qed

section \<open>The text form of a device\<close>

definition line :: "string \<Rightarrow> string \<Rightarrow> string" where
  "line key val = key @ ''='' @ val @ [newline]"

datatype wg_show = WgShow
  (show_net: "StdIpAddr \<Rightarrow> u8 \<Rightarrow> string") (show_sock: "SocketAddr \<Rightarrow> string")

definition print_peer_body :: "codecs \<Rightarrow> wg_show \<Rightarrow> get_Peer \<Rightarrow> string" where
  "print_peer_body K S p =
     line ''preshared_key'' (hex_encode K (g_preshared_key p))
     @ (case g_endpoint p of None \<Rightarrow> [] | Some a \<Rightarrow> line ''endpoint'' (show_sock S a))
     @ concat (map (\<lambda>ip. line ''allowed_ip'' (show_net S (ipaddr ip) (cidr_mask ip))) (g_allowed_ips p))
     @ line ''last_handshake_time_sec'' (show_nat (g_last_handshake_time p div 1000000000))
     @ line ''last_handshake_time_nsec'' (show_nat (g_last_handshake_time p mod 1000000000))
     @ line ''tx_bytes'' (show_nat (unat (g_tx_bytes p)))
     @ line ''rx_bytes'' (show_nat (unat (g_rx_bytes p)))
     @ line ''persistent_keepalive_interval'' (show_nat (unat (g_persistent_keepalive_interval p)))
     @ line ''protocol_version'' ''1''"

definition print_peer :: "codecs \<Rightarrow> wg_show \<Rightarrow> get_Peer \<Rightarrow> string" where
  "print_peer K S p = line ''public_key'' (hex_encode K (g_public_key p)) @ print_peer_body K S p"

definition print_device :: "codecs \<Rightarrow> wg_show \<Rightarrow> get_Device \<Rightarrow> string" where
  "print_device K S d =
     (case g_private_key d of None \<Rightarrow> [] | Some k \<Rightarrow> line ''private_key'' (hex_encode K k))
     @ line ''listen_port'' (show_nat (unat (g_listen_port d)))
     @ line ''fwmark'' (show_nat (unat (g_fwmark d)))
     @ concat (map (print_peer K S) (g_peers d))
     @ line ''errno'' ''0'' @ [newline]"

text \<open>
  What the parsers of networks and socket addresses promise of their own text forms. The text of an
  IPv6 socket address has no flow information: only addresses without it are read back.
\<close>

fun no_flowinfo :: "SocketAddr \<Rightarrow> bool" where
  "no_flowinfo (SockV4 _ _) = True"
| "no_flowinfo (SockV6 _ _ flow _) = (flow = 0)"

locale wg_text_forms = key_codecs "wg_codecs T" for T :: "'n wg_text" +
  fixes N :: "'n ipnet_ops" and S :: wg_show
  assumes hex_line: "newline \<notin> set (hex_encode (wg_codecs T) bs)"
    and sock_line: "newline \<notin> set (show_sock S a)"
    and sock_round: "no_flowinfo a \<Longrightarrow> sock_from_str T (show_sock S a) = Inr a"
    and net_line: "newline \<notin> set (show_net S ip len)"
    and net_round: "net_new N ip len = Some n \<Longrightarrow> net_from_str T (show_net S ip len) = Inr n"

definition get_Peer_ok :: "'n ipnet_ops \<Rightarrow> get_Peer \<Rightarrow> bool" where
  "get_Peer_ok N p \<longleftrightarrow>
     length (g_public_key p) = 32 \<and> length (g_preshared_key p) = 32
     \<and> g_last_handshake_time p \<le> DURATION_MAX \<and> pred_option no_flowinfo (g_endpoint p)
     \<and> list_all (\<lambda>ip. net_new N (ipaddr ip) (cidr_mask ip) \<noteq> None) (g_allowed_ips p)"

definition get_Device_ok :: "'n ipnet_ops \<Rightarrow> get_Device \<Rightarrow> bool" where
  "get_Device_ok N d \<longleftrightarrow>
     pred_option (\<lambda>k. length k = 32) (g_private_key d) \<and> list_all (get_Peer_ok N) (g_peers d)"

section \<open>Reading the text form\<close>

lemma split_line: "CHR ''='' \<notin> set key \<Longrightarrow> split_eq (key @ CHR ''='' # val) = Some (key, val)"
proof -
  assume "CHR ''='' \<notin> set key"
  then have "dropWhile (\<lambda>c. c \<noteq> CHR ''='') (key @ CHR ''='' # val) = CHR ''='' # val"
    "takeWhile (\<lambda>c. c \<noteq> CHR ''='') (key @ CHR ''='' # val) = key"
    by (induction key) auto
  then show ?thesis by (simp only: split_eq_def list.case)
qed

lemma read_line_print:
  "newline \<notin> set key \<Longrightarrow> newline \<notin> set val \<Longrightarrow>
     read_line (line key val @ rest) = ((key @ CHR ''='' # val) @ [newline], rest)"
  using read_line_more [of "key @ CHR ''='' # val" rest] by (simp add: line_def)

lemma peer_loop_line:
  assumes "newline \<notin> set key" "CHR ''='' \<notin> set key" "newline \<notin> set val"
  shows "peer_loop T p l (line key val @ rest) =
     (case peer_line T p l key val of
        Panics \<Rightarrow> Panics
      | Returns (Inl e) \<Rightarrow> Returns (Inl e)
      | Returns (Inr (Continue p' l')) \<Rightarrow> peer_loop T p' l' rest
      | Returns (Inr (Stop next err)) \<Rightarrow> Returns (Inr (p, l, next, err, rest)))"
  using assms by (subst peer_loop.simps)
    (simp add: read_line_print split_line Let_def butlast_append del: append_assoc)

lemma response_loop_line:
  assumes "newline \<notin> set key" "CHR ''='' \<notin> set key" "newline \<notin> set val" "key \<noteq> ''public_key''"
  shows "response_loop T now ifc inited err (line key val @ rest) =
     (case device_line T ifc inited err key val of
        Panics \<Rightarrow> Panics
      | Returns (Inl e) \<Rightarrow> Returns (Inl e)
      | Returns (Inr (ifc', inited', err')) \<Rightarrow> response_loop T now ifc' inited' err' rest)"
  using assms by (subst response_loop.simps)
    (simp add: read_line_print split_line Let_def butlast_append del: append_assoc)

lemma nets_of_valid:
  "list_all (\<lambda>ip. net_new N (ipaddr ip) (cidr_mask ip) \<noteq> None) ips \<Longrightarrow>
     nets_of N ips = map (\<lambda>ip. the (net_new N (ipaddr ip) (cidr_mask ip))) ips"
proof -
  assume "list_all (\<lambda>ip. net_new N (ipaddr ip) (cidr_mask ip) \<noteq> None) ips"
  then have "those (map (\<lambda>ip. net_new N (ipaddr ip) (cidr_mask ip)) ips) =
      Some (map (\<lambda>ip. the (net_new N (ipaddr ip) (cidr_mask ip))) ips)"
    by (induction ips) auto
  then show ?thesis by (simp add: nets_of_def)
qed

context wg_text_forms
begin

lemma allowed_ip_lines:
  "list_all (\<lambda>ip. net_new N (ipaddr ip) (cidr_mask ip) \<noteq> None) ips \<Longrightarrow>
     peer_loop T p l (concat (map (\<lambda>ip. line ''allowed_ip'' (show_net S (ipaddr ip) (cidr_mask ip))) ips) @ rest) =
     peer_loop T (p\<lparr>allowed_ips := allowed_ips p @ map (\<lambda>ip. the (net_new N (ipaddr ip) (cidr_mask ip))) ips\<rparr>) l rest"
proof (induction ips arbitrary: p)
  case (Cons ip ips)
  then show ?case
    by (auto simp: peer_loop_line net_line peer_line_def text_field_def net_round)
qed simp

lemma handshake_parts:
  assumes "t \<le> DURATION_MAX"
  shows "parse_unsigned 64 (show_nat (t div 1000000000)) = Inr (t div 1000000000)"
    "parse_unsigned 64 (show_nat (t mod 1000000000)) = Inr (t mod 1000000000)"
    "add_handshake (Some (from_secs (t div 1000000000))) (t mod 1000000000) = Returns (Inr (Some t))"
proof -
  have "t div 1000000000 < 2 ^ 64" using assms by (simp add: DURATION_MAX_def)
  moreover have "t mod 1000000000 < 1000000000" by simp
  then have "t mod 1000000000 < 2 ^ 64" by (rule order.strict_trans) simp
  ultimately show "parse_unsigned 64 (show_nat (t div 1000000000)) = Inr (t div 1000000000)"
    "parse_unsigned 64 (show_nat (t mod 1000000000)) = Inr (t mod 1000000000)"
    by (auto intro: parse_unsigned_show)
  show "add_handshake (Some (from_secs (t div 1000000000))) (t mod 1000000000) = Returns (Inr (Some t))"
    using assms by (simp add: add_handshake_def from_secs_def)
qed

lemma peer_body:
  assumes "get_Peer_ok N p"
  shows "peer_loop T (Peer_default\<lparr>public_key := pk\<rparr>) None (print_peer_body (wg_codecs T) S p @ rest) =
     peer_loop T ((Peer_from_get N None p)\<lparr>public_key := pk, time_since_last_handshake := None\<rparr>)
       (Some (g_last_handshake_time p)) rest"
proof -
  have ok: "length (g_preshared_key p) = 32" "g_last_handshake_time p \<le> DURATION_MAX"
    "list_all (\<lambda>ip. net_new N (ipaddr ip) (cidr_mask ip) \<noteq> None) (g_allowed_ips p)"
    "pred_option no_flowinfo (g_endpoint p)"
    using assms by (simp_all add: get_Peer_ok_def)
  note h = handshake_parts [OF ok(2)]
  show ?thesis
    using ok(1,3,4)
    by (cases "g_endpoint p")
      (simp_all add: print_peer_body_def peer_loop_line hex_line sock_line sock_round show_nat_fresh
        allowed_ip_lines peer_line_def text_field_def int_field_def key_field_def from_hex h
        parse_unsigned_word PresharedKey_new_def Peer_from_get_def Peer_default_def
        nets_of_valid add_handshake_def [of None])
qed

lemma peer_from_get_key [simp]: "public_key (Peer_from_get N t p) = PublicKey (g_public_key p)"
  by (simp add: Peer_from_get_def)

lemma peer_loop_stop:
  "length pk = 32 \<Longrightarrow> peer_loop T q l (line ''public_key'' (hex_encode (wg_codecs T) pk) @ rest) =
     Returns (Inr (q, l, Some (PublicKey pk), None, rest))"
  "peer_loop T q l (line ''errno'' ''0'' @ rest) = Returns (Inr (q, l, None, Some 0, rest))"
  by (simp_all add: peer_loop_line hex_line peer_line_def key_field_def int_field_def from_hex
      PublicKey_new_def parse_i32_def to_digit_def)

lemma parse_peer_text:
  assumes "get_Peer_ok N p"
  shows "length pk = 32 \<Longrightarrow>
      parse_peer T t (PublicKey (g_public_key p)) (print_peer_body (wg_codecs T) S p
        @ line ''public_key'' (hex_encode (wg_codecs T) pk) @ rest) =
      Returns (Inr (Peer_from_get N t p, Some (PublicKey pk), None, rest))"
    and "parse_peer T t (PublicKey (g_public_key p)) (print_peer_body (wg_codecs T) S p
        @ line ''errno'' ''0'' @ rest) = Returns (Inr (Peer_from_get N t p, None, Some 0, rest))"
  by (simp_all add: parse_peer_def peer_body [OF assms] peer_loop_stop Peer_from_get_def)

lemma peers_text:
  "list_all (get_Peer_ok N) (p # ps) \<Longrightarrow>
     peers_loop T (\<lambda>_. t) ifc (PublicKey (g_public_key p))
       (print_peer_body (wg_codecs T) S p @ concat (map (print_peer (wg_codecs T) S) ps)
        @ line ''errno'' ''0'' @ [newline]) =
     Returns (Inr (ifc\<lparr>peers := fold (\<lambda>(k, v). btm_insert k v)
         (map (\<lambda>p. (PublicKey (g_public_key p), Peer_from_get N t p)) (p # ps)) (peers ifc)\<rparr>,
       Some 0, [newline]))"
proof (induction ps arbitrary: p ifc)
  case Nil
  then show ?case
    by (subst peers_loop.simps) (simp add: parse_peer_text)
next
  case (Cons q ps)
  then have q: "get_Peer_ok N p" "length (g_public_key q) = 32" by (simp_all add: get_Peer_ok_def)
  show ?case
    using Cons q
    by (subst peers_loop.simps) (simp add: parse_peer_text print_peer_def [of _ _ q])
qed

lemma response_end: "response_loop T now ifc inited err [newline] = Returns (Inr (finish_response ifc inited err))"
  using read_line_more [of "[]" "[]"] by (subst response_loop.simps) simp

lemma response_peers:
  assumes "list_all (get_Peer_ok N) ps"
  shows "response_loop T (\<lambda>_. t) ifc True 0
       (concat (map (print_peer (wg_codecs T) S) ps) @ line ''errno'' ''0'' @ [newline]) =
     Returns (Inr (finish_response (ifc\<lparr>peers := fold (\<lambda>(k, v). btm_insert k v)
         (map (\<lambda>p. (PublicKey (g_public_key p), Peer_from_get N t p)) ps) (peers ifc)\<rparr>) True 0))"
proof (cases ps)
  case Nil
  then show ?thesis
    by (simp add: response_loop_line device_line_def int_field_def parse_i32_def to_digit_def
        response_end)
next
  case (Cons p qs)
  with assms have p: "length (g_public_key p) = 32" by (simp add: get_Peer_ok_def)
  have "response_loop T (\<lambda>_. t) ifc True 0 (line ''public_key'' (hex_encode (wg_codecs T) (g_public_key p)) @ rest) =
      (case peers_loop T (\<lambda>_. t) ifc (PublicKey (g_public_key p)) rest of
         Panics \<Rightarrow> Panics
       | Returns (Inl e) \<Rightarrow> Returns (Inl e)
       | Returns (Inr (ifc', err', rest')) \<Rightarrow>
           response_loop T (\<lambda>_. t) ifc' True (case err' of None \<Rightarrow> 0 | Some e \<Rightarrow> e) rest')" for rest
    by (subst response_loop.simps)
      (simp add: read_line_print split_eq_def Let_def butlast_append hex_line key_field_def from_hex p
        PublicKey_new_def del: append_assoc)
  then show ?thesis
    using peers_text [of p qs t ifc] assms Cons by (simp add: print_peer_def [of _ _ p] response_end)
qed

lemma device_text:
  assumes "get_Device_ok N d"
  shows "response_from_str T (\<lambda>_. t) (print_device (wg_codecs T) S d) =
     Returns (Inr \<lparr>errno = 0, interface = Some ((Interface_from_get N t d)
       \<lparr>listen_port := (if g_listen_port d = 0 then None else Some (g_listen_port d))\<rparr>)\<rparr>)"
  using assms
  by (cases "g_private_key d")
    (simp_all add: get_Device_ok_def response_from_str_def print_device_def response_loop_line
      hex_line show_nat_fresh device_line_def int_field_def key_field_def from_hex parse_unsigned_word
      response_peers finish_response_def Interface_default_def Interface_from_get_def btm_collect_def
      unat_gt_0)

end

section \<open>Reference text forms\<close>

text \<open>Numbers in decimal, each followed by a colon.\<close>

definition show_fields :: "nat list \<Rightarrow> string" where
  "show_fields ns = concat (map (\<lambda>n. show_nat n @ '':'') ns)"

fun fields :: "nat \<Rightarrow> string \<Rightarrow> nat list" where
  "fields acc [] = []"
| "fields acc (c # cs) =
     (if c = CHR '':'' then acc # fields 0 cs else fields (10 * acc + (of_char c - 48)) cs)"

definition ref_show :: wg_show where
  "ref_show = WgShow
     (\<lambda>a len. show_fields (case a of V4 x \<Rightarrow> [unat x, unat len] | V6 x \<Rightarrow> [unat x, unat len, 6]))
     (\<lambda>a. show_fields (case a of
            SockV4 x p \<Rightarrow> [unat x, unat p]
          | SockV6 x p _ c \<Rightarrow> [unat x, unat p, unat c]))"

definition ref_net_parse :: "string \<Rightarrow> string + ref_net" where
  "ref_net_parse s =
     (case (case fields 0 s of
              [x, len] \<Rightarrow> net_new ref_ipnet (V4 (of_nat x)) (of_nat len)
            | [x, len, _] \<Rightarrow> net_new ref_ipnet (V6 (of_nat x)) (of_nat len)
            | _ \<Rightarrow> None) of
        None \<Rightarrow> Inl ''invalid IP address syntax''
      | Some n \<Rightarrow> Inr n)"

definition ref_sock_parse :: "string \<Rightarrow> string + SocketAddr" where
  "ref_sock_parse s =
     (case fields 0 s of
        [x, p] \<Rightarrow> Inr (SockV4 (of_nat x) (of_nat p))
      | [x, p, c] \<Rightarrow> Inr (SockV6 (of_nat x) (of_nat p) 0 (of_nat c))
      | _ \<Rightarrow> Inl ''invalid socket address syntax'')"

definition ref_text :: "ref_net wg_text" where
  "ref_text = WgText std_codecs ref_net_parse ref_sock_parse"

lemma fields_show: "fields 0 (show_nat n @ cs) = fields n cs"
proof (induction n arbitrary: cs rule: show_nat.induct)
  case (1 n)
  have d: "m < 10 \<Longrightarrow> char_of (48 + m) \<noteq> CHR '':''" for m :: nat
    by (auto dest: arg_cong [of _ _ "of_char :: char \<Rightarrow> nat"])
  have "10 * (n div 10) + n mod 10 = n" by presburger
  with 1 d show ?case by (cases "n < 10") (simp_all add: show_nat.simps [of n])
qed

lemma fields_show_fields: "fields 0 (show_fields ns) = ns"
  by (induction ns) (simp_all add: show_fields_def fields_show)

lemma show_fields_line: "newline \<notin> set (show_fields ns)"
  using show_nat_fresh(1) by (auto simp: show_fields_def)

lemma hex_enc_line: "newline \<notin> set (hex_enc bs)"
proof (induction bs)
  case (Cons b bs)
  have "hex_val newline = None" by (simp add: hex_val_def)
  then have "n < 16 \<Longrightarrow> newline \<noteq> hex_char n" for n
    by (metis hex_val_char option.distinct(1))
  from this [of "unat b div 16"] this [of "unat b mod 16"] Cons unat_u8 [of b] show ?case by simp
qed simp

interpretation ref_text: wg_text_forms ref_text ref_ipnet ref_show
proof
  show "net_new ref_ipnet ip len = Some n \<Longrightarrow> net_from_str ref_text (show_net ref_show ip len) = Inr n" for ip len n
    by (cases ip) (auto simp: ref_text_def ref_show_def ref_net_parse_def fields_show_fields)
  show "no_flowinfo a \<Longrightarrow> sock_from_str ref_text (show_sock ref_show a) = Inr a" for a
    by (cases a) (auto simp: ref_text_def ref_show_def ref_sock_parse_def fields_show_fields)
qed (simp_all add: ref_text_def ref_show_def show_fields_line std_codecs.hex_round std_codecs.hex_len
    std_codecs.base64_round std_codecs.base64_len,
    simp add: std_codecs_def hex_enc_line)

text \<open>
  C18. The text of a device, as the UAPI prints it, parses to the interface that the conversion
  from the native device description gives, for any number of peers whose endpoints have no IPv6 flow
  information, except for a listen port of 0: the parser reads it as no port, while the conversion
  keeps it as port 0.
\<close>

theorem response_text_matches_native:
  assumes "wg_text_forms T N S" and "get_Device_ok N d"
  shows "response_from_str T (\<lambda>_. t) (print_device (wg_codecs T) S d) =
     Returns (Inr \<lparr>errno = 0, interface = Some ((Interface_from_get N t d)
       \<lparr>listen_port := (if g_listen_port d = 0 then None else Some (g_listen_port d))\<rparr>)\<rparr>)"
  using assms by (rule wg_text_forms.device_text)

definition sample_device :: get_Device where
  "sample_device =
     \<lparr>g_private_key = Some (replicate 32 7), g_listen_port = 51820, g_fwmark = 0,
      g_peers = [\<lparr>g_public_key = replicate 32 9, g_preshared_key = replicate 32 0,
                  g_endpoint = Some (SockV6 0x0A000001 51820 0 2), g_persistent_keepalive_interval = 25,
                  g_allowed_ips = [\<lparr>ipaddr = V4 0x64400000, cidr_mask = 10\<rparr>],
                  g_rx_bytes = 10, g_tx_bytes = 20, g_last_handshake_time = 1500000000\<rparr>]\<rparr>"

theorem response_text_matches_native_witness:
  "response_from_str ref_text (\<lambda>_. Some 4000000000) (print_device std_codecs ref_show sample_device) =
     Returns (Inr \<lparr>errno = 0, interface = Some (Interface_from_get ref_ipnet (Some 4000000000) sample_device)\<rparr>)"
proof -
  have "get_Device_ok ref_ipnet sample_device"
    by (simp add: get_Device_ok_def get_Peer_ok_def sample_device_def DURATION_MAX_def ref_ipnet_def)
  from response_text_matches_native [OF ref_text.wg_text_forms_axioms this, of "Some 4000000000"]
  show ?thesis
    by (simp add: ref_text_def sample_device_def Interface_from_get_def)
qed

end
