(* ===== verification/Link_Theorems.thy ===== *)
theory Link_Theorems
  imports Link_Detection
begin

text \<open>
  When link detection reports a link as down: the pull updates of one peer as a series of
  observations, each with the counters and the clock that the update reads.
\<close>

section \<open>Observations\<close>

type_synonym observation = "BytesAndTimestamps \<times> (nat \<Rightarrow> instant)"

text \<open>
  A link is silent at an update if nothing was received or nothing sent so far, or else something was
  sent after the last packet of the peer, and that packet is at least the keepalive time plus the allowed
  round trip old.
\<close>

definition silent :: "duration \<Rightarrow> observation \<Rightarrow> bool" where
  "silent rtt ob \<longleftrightarrow> (\<forall>r t. rx_ts (fst ob) = Some r \<longrightarrow> tx_ts (fst ob) = Some t \<longrightarrow>
     r < t \<and> r + from_secs 10 + rtt \<le> snd ob 0)"

lemma silent_link_up: "silent rtt ob \<longleftrightarrow> \<not> is_link_up (fst ob) rtt (snd ob 0)"
proof -
  have "0 < WG_KEEPALIVE" by (simp add: WG_KEEPALIVE_def from_secs_def)
  then show ?thesis
    by (auto simp: silent_def is_link_up_def WG_KEEPALIVE_def not_le not_less split: option.splits)
qed

text \<open>The pull update of one peer, and a series of them.\<close>

definition pull :: "PublicKey \<Rightarrow> StdIpAddr list \<Rightarrow> IpStack option \<Rightarrow> observation \<Rightarrow> LinkDetection
     \<Rightarrow> LinkDetectionUpdateResult \<times> LinkDetection" where
  "pull pk addrs stack ob ld = link_update ld (\<lambda>_. fst ob) pk addrs Pull stack (snd ob)"

fun pulls :: "PublicKey \<Rightarrow> StdIpAddr list \<Rightarrow> IpStack option \<Rightarrow> observation list \<Rightarrow> LinkDetection \<Rightarrow> LinkDetection" where
  "pulls pk addrs stack [] ld = ld"
| "pulls pk addrs stack (ob # obs) ld = pulls pk addrs stack obs (snd (pull pk addrs stack ob ld))"

definition reports_down :: "PublicKey \<Rightarrow> StdIpAddr list \<Rightarrow> IpStack option \<Rightarrow> observation \<Rightarrow> LinkDetection \<Rightarrow> bool" where
  "reports_down pk addrs stack ob ld \<longleftrightarrow>
     fst (pull pk addrs stack ob ld) = \<lparr>should_notify = True, link_state = Some Down\<rparr>"

definition delay_of :: "LinkDetection \<Rightarrow> duration" where
  "delay_of ld = (if enhanced_detection ld then from_secs 10 + cfg_max_allowed_rtt ld else from_secs 3)"

text \<open>The state of the peer's link.\<close>

definition in_state :: "LinkDetection \<Rightarrow> PublicKey \<Rightarrow> StateVariant \<Rightarrow> bool" where
  "in_state ld pk v \<longleftrightarrow> map_option variant (link_peers ld pk) = Some v"

lemma pulls_append: "pulls pk a st (xs @ ys) ld = pulls pk a st ys (pulls pk a st xs ld)"
  by (induction xs arbitrary: ld) simp_all

lemma pull_state:
  assumes "in_state ld pk v"
  shows "in_state (snd (pull pk addrs stack ob ld)) pk
      (snd (State_update v (fst ob) (cfg_max_allowed_rtt ld) (enhanced_detection ld) (snd ob)))"
    and "fst (pull pk addrs stack ob ld) = link_detection_update_result
      (fst (State_update v (fst ob) (cfg_max_allowed_rtt ld) (enhanced_detection ld) (snd ob)))"
  using assms by (auto simp: in_state_def pull_def link_update_def Let_def case_prod_beta)

lemma pull_config [simp]:
  "cfg_max_allowed_rtt (snd (pull pk addrs stack ob ld)) = cfg_max_allowed_rtt ld"
  "enhanced_detection (snd (pull pk addrs stack ob ld)) = enhanced_detection ld"
  "delay_of (snd (pull pk addrs stack ob ld)) = delay_of ld"
  by (auto simp: pull_def link_update_def Let_def case_prod_beta delay_of_def split: option.split)

lemma pulls_config [simp]:
  "cfg_max_allowed_rtt (pulls pk addrs stack obs ld) = cfg_max_allowed_rtt ld"
  "enhanced_detection (pulls pk addrs stack obs ld) = enhanced_detection ld"
  "delay_of (pulls pk addrs stack obs ld) = delay_of ld"
  by (induction obs arbitrary: ld) simp_all

lemma delay_of_eq: "delay_of ld = down_delay (cfg_max_allowed_rtt ld) (enhanced_detection ld)"
  by (simp add: delay_of_def down_delay_def WG_KEEPALIVE_def POSSIBLE_DOWN_DELAY_def)

lemma state_step:
  assumes "in_state ld pk v"
  shows "in_state (snd (pull pk addrs stack ob ld)) pk
     (if \<not> silent (cfg_max_allowed_rtt ld) ob then VUp
      else case v of VUp \<Rightarrow> PossibleDown (snd ob 1 + delay_of ld) | VDown \<Rightarrow> VDown
           | PossibleDown d \<Rightarrow> if d \<le> snd ob 1 then VDown else PossibleDown d)"
    and "reports_down pk addrs stack ob ld \<longleftrightarrow>
      silent (cfg_max_allowed_rtt ld) ob \<and> (\<exists>d. v = PossibleDown d \<and> d \<le> snd ob 1)"
  using pull_state [OF assms, of addrs stack ob]
  by (auto simp: State_update_def build_result_def silent_link_up delay_of_eq reports_down_def Let_def
      split: StateVariant.splits if_splits)

section \<open>Properties\<close>

text \<open>The deadline stems from an observation since which the link has been silent.\<close>

definition silent_since :: "LinkDetection \<Rightarrow> observation list \<Rightarrow> instant \<Rightarrow> bool" where
  "silent_since ld obs deadline \<longleftrightarrow> (\<exists>before ob after. obs = before @ ob # after
     \<and> deadline = snd ob 1 + delay_of ld \<and> list_all (silent (cfg_max_allowed_rtt ld)) (ob # after))"

lemma silent_since_snoc:
  assumes "silent (cfg_max_allowed_rtt ld) ob"
  shows "silent_since ld (obs @ [ob]) (snd ob 1 + delay_of ld)"
    and "silent_since ld obs d \<Longrightarrow> silent_since ld (obs @ [ob]) d"
proof -
  show "silent_since ld (obs @ [ob]) (snd ob 1 + delay_of ld)"
    using assms unfolding silent_since_def by (intro exI [of _ obs] exI [of _ ob] exI [of _ "[]"]) simp
  assume "silent_since ld obs d"
  then obtain before o1 after where "obs = before @ o1 # after" "d = snd o1 1 + delay_of ld"
    "list_all (silent (cfg_max_allowed_rtt ld)) (o1 # after)" unfolding silent_since_def by blast
  with assms show "silent_since ld (obs @ [ob]) d"
    unfolding silent_since_def by (intro exI [of _ before] exI [of _ o1] exI [of _ "after @ [ob]"]) simp
qed

lemma possible_down_origin:
  assumes "in_state ld pk VUp"
  shows "\<exists>v. in_state (pulls pk addrs stack obs ld) pk v
     \<and> (\<forall>deadline. v = PossibleDown deadline \<longrightarrow> silent_since ld obs deadline)"
proof (induction obs rule: rev_induct)
  case (snoc ob obs)
  then obtain v where v: "in_state (pulls pk addrs stack obs ld) pk v"
    and IH: "\<And>deadline. v = PossibleDown deadline \<Longrightarrow> silent_since ld obs deadline" by blast
  note step = state_step(1) [OF v, of addrs stack ob]
  show ?case
  proof (cases "silent (cfg_max_allowed_rtt ld) ob")
    case False
    with step show ?thesis by (auto simp: pulls_append)
  next
    case True
    with step silent_since_snoc [OF True] IH show ?thesis by (cases v) (auto simp: pulls_append split: if_splits)
  qed
qed (use assms in auto)

text \<open>
  C36. The pull updates report a link that was up as down only after it has been silent, at every update,
  for at least the delay: 3 s, or 10 s plus the allowed round trip when the link is pinged.
\<close>

theorem link_down_is_debounced:
  assumes "in_state ld pk VUp" and "reports_down pk addrs stack now (pulls pk addrs stack obs ld)"
  shows "\<exists>before ob after. obs = before @ ob # after
     \<and> list_all (silent (cfg_max_allowed_rtt ld)) (ob # after @ [now]) \<and> snd ob 1 + delay_of ld \<le> snd now 1"
proof -
  obtain v where v: "in_state (pulls pk addrs stack obs ld) pk v"
    and origin: "\<And>deadline. v = PossibleDown deadline \<Longrightarrow> silent_since ld obs deadline"
    using possible_down_origin [OF assms(1)] by blast
  from assms(2) obtain d where "v = PossibleDown d" "d \<le> snd now 1" "silent (cfg_max_allowed_rtt ld) now"
    by (auto simp: state_step(2) [OF v])
  with origin [of d, unfolded silent_since_def] show ?thesis by auto
qed

lemma silent_pulls:
  assumes "in_state ld pk (PossibleDown d)" and "list_all (silent (cfg_max_allowed_rtt ld)) obs"
    and "\<not> (\<exists>xs ob ys. obs = xs @ ob # ys \<and> reports_down pk addrs stack ob (pulls pk addrs stack xs ld))"
  shows "in_state (pulls pk addrs stack obs ld) pk (PossibleDown d)"
  using assms(2,3)
proof (induction obs rule: rev_induct)
  case (snoc ob obs)
  have "\<not> (\<exists>xs ob ys. obs = xs @ ob # ys \<and> reports_down pk addrs stack ob (pulls pk addrs stack xs ld))"
    using snoc.prems(2) by (metis append.assoc append_Cons)
  with snoc have IH: "in_state (pulls pk addrs stack obs ld) pk (PossibleDown d)" by simp
  have "\<not> reports_down pk addrs stack ob (pulls pk addrs stack obs ld)" using snoc.prems(2) by blast
  with IH snoc.prems(1) state_step [OF IH, of addrs stack ob] show ?case by (auto simp: pulls_append split: if_splits)
qed (use assms(1) in simp)

text \<open>
  What the updates read when the counters of WireGuard are polled: each poll takes the received and
  sent bytes into the counters of the peer and then updates the link.
\<close>

fun readings :: "BytesAndTimestamps \<Rightarrow> (u64 \<times> u64 \<times> (nat \<Rightarrow> instant)) list \<Rightarrow> observation list" where
  "readings b [] = []"
| "readings b ((rx, tx, clk) # polls) =
     (let b = BytesAndTimestamps_update b rx tx (clk 0) in (b, \<lambda>i. clk (Suc i)) # readings b polls)"

lemma readings_silent:
  assumes "rx_ts b = Some r" "tx_ts b = Some t" "r < t"
    and "\<And>rx tx clk. (rx, tx, clk) \<in> set polls \<Longrightarrow> rx \<le> stat_rx_bytes b \<and> r + from_secs 10 + rtt \<le> clk 0 \<and> clk 0 \<le> clk 1"
  shows "list_all (silent rtt) (readings b polls)"
  using assms
proof (induction polls arbitrary: b t)
  case (Cons p polls)
  obtain rx tx clk where p: "p = (rx, tx, clk)" by (rule prod_cases3)
  let ?b = "BytesAndTimestamps_update b rx tx (clk 0)"
  have le: "rx \<le> stat_rx_bytes b" "r + from_secs 10 + rtt \<le> clk 0" "clk 0 \<le> clk 1" using Cons.prems(4) [of rx tx clk] p by simp_all
  have "r < clk 0" using le(2) by (simp add: from_secs_def)
  moreover have "rx_ts ?b = rx_ts b" "stat_rx_bytes ?b = stat_rx_bytes b" "tx_ts ?b \<in> {tx_ts b, Some (clk 0)}"
    using le(1) [folded not_less] by (simp_all add: BytesAndTimestamps_update_def Let_def)
  ultimately obtain t' where b: "rx_ts ?b = Some r" "tx_ts ?b = Some t'" "r < t'" "stat_rx_bytes ?b = stat_rx_bytes b"
    using Cons.prems(1-3) by auto
  moreover have "list_all (silent rtt) (readings ?b polls)"
    by (rule Cons.IH [OF b(1-3)]) (use Cons.prems(4) b(4) in auto)
  moreover have "silent rtt (?b, \<lambda>i. clk (Suc i))" using b le by (auto simp: silent_def)
  ultimately show ?case by (simp add: p Let_def)
qed simp

lemma readings_append_last: "\<exists>stats. readings b (polls @ [(rx, tx, clk)]) = readings b polls @ [(stats, \<lambda>i. clk (Suc i))]"
  by (induction polls arbitrary: b) (auto simp: Let_def)

text \<open>
  C37. A peer that falls silent is reported down: if data was sent after the last packet of the peer, and
  the polls find no more received bytes from the keepalive time plus the allowed round trip on after that
  packet, then one of the updates up to the first one that comes the delay or more after the first of these polls
  reports the link, which was up, as down.
\<close>

theorem silent_link_goes_down:
  assumes "in_state ld pk VUp" and "rx_ts b = Some r" and "tx_ts b = Some t" and "r < t"
    and "\<And>rx tx clk. (rx, tx, clk) \<in> set ((rx1, tx1, clk1) # polls @ [(rx2, tx2, clk2)]) \<Longrightarrow>
      rx \<le> stat_rx_bytes b \<and> r + from_secs 10 + cfg_max_allowed_rtt ld \<le> clk 0 \<and> clk 0 \<le> clk 1"
    and "clk1 2 + delay_of ld \<le> clk2 2"
  shows "\<exists>before now after. readings b ((rx1, tx1, clk1) # polls @ [(rx2, tx2, clk2)]) = before @ now # after
    \<and> reports_down pk addrs stack now (pulls pk addrs stack before ld)"
proof (rule ccontr)
  assume none: "\<not> ?thesis"
  let ?polls = "(rx1, tx1, clk1) # polls @ [(rx2, tx2, clk2)]" and ?rtt = "cfg_max_allowed_rtt ld"
  define b1 where "b1 = BytesAndTimestamps_update b rx1 tx1 (clk1 0)"
  let ?ob = "(b1, \<lambda>i. clk1 (Suc i))"
  obtain stats where "readings b1 (polls @ [(rx2, tx2, clk2)]) = readings b1 polls @ [(stats, \<lambda>i. clk2 (Suc i))]"
    using readings_append_last by blast
  then have obs: "readings b ?polls = ?ob # readings b1 polls @ [(stats, \<lambda>i. clk2 (Suc i))]"
    by (simp add: b1_def Let_def)
  have silent: "list_all (silent ?rtt) (readings b ?polls)"
    by (rule readings_silent [OF assms(2-5)])
  let ?ld = "snd (pull pk addrs stack ?ob ld)" and ?d = "clk1 2 + delay_of ld"
  have first: "in_state ?ld pk (PossibleDown ?d)"
    using state_step(1) [OF assms(1), of addrs stack ?ob] silent obs by (simp add: numeral_2_eq_2)
  have quiet: "\<not> (\<exists>xs ob ys. readings b1 polls = xs @ ob # ys \<and> reports_down pk addrs stack ob (pulls pk addrs stack xs ?ld))"
  proof
    assume "\<exists>xs ob ys. readings b1 polls = xs @ ob # ys \<and> reports_down pk addrs stack ob (pulls pk addrs stack xs ?ld)"
    then obtain xs ob ys where "readings b1 polls = xs @ ob # ys" "reports_down pk addrs stack ob (pulls pk addrs stack (?ob # xs) ld)"
      by auto
    with none obs show False by (metis append.assoc append_Cons)
  qed
  have "in_state (pulls pk addrs stack (readings b1 polls) ?ld) pk (PossibleDown ?d)"
    by (rule silent_pulls [OF first _ quiet]) (use silent obs in simp)
  from state_step(2) [OF this, of addrs stack "(stats, \<lambda>i. clk2 (Suc i))"] silent obs assms(6)
  have "reports_down pk addrs stack (stats, \<lambda>i. clk2 (Suc i)) (pulls pk addrs stack (?ob # readings b1 polls) ld)"
    by (simp add: numeral_2_eq_2)
  with none obs show False by (metis append_Cons)
qed

section \<open>Samples\<close>

definition quiet_stats :: BytesAndTimestamps where
  "quiet_stats = \<lparr>stat_rx_bytes = 1, stat_tx_bytes = 500, rx_ts = Some 5, tx_ts = Some 6\<rparr>"

definition sample_links :: LinkDetection where
  "sample_links = \<lparr>cfg_max_allowed_rtt = 0, enhanced_detection = False, pings_sent = [],
     link_peers = [PublicKey [1] \<mapsto> \<lparr>link_stats = 0, variant = VUp\<rparr>], use_for_downgrade = False\<rparr>"

theorem link_down_is_debounced_witness:
  "\<exists>before ob after. [(quiet_stats, \<lambda>_. 20000000000)] = before @ ob # after
     \<and> list_all (silent 0) (ob # after @ [(quiet_stats, \<lambda>_. 23000000000)])
     \<and> snd ob 1 + from_secs 3 \<le> 23000000000"
  using link_down_is_debounced [of sample_links "PublicKey [1]" "[]" None "(quiet_stats, \<lambda>_. 23000000000)"
      "[(quiet_stats, \<lambda>_. 20000000000)]"]
  by (simp add: in_state_def sample_links_def reports_down_def pull_def link_update_def State_update_def build_result_def
      is_link_up_def quiet_stats_def down_delay_def delay_of_def WG_KEEPALIVE_def POSSIBLE_DOWN_DELAY_def from_secs_def)

theorem silent_link_goes_down_witness:
  "\<exists>before now after. readings quiet_stats [(1, 500, \<lambda>_. 20000000000), (1, 600, \<lambda>_. 21000000000), (1, 600, \<lambda>_. 23000000000)] =
       before @ now # after
    \<and> reports_down (PublicKey [1]) [] None now (pulls (PublicKey [1]) [] None before sample_links)"
proof -
  have "\<exists>before now after. readings quiet_stats ((1, 500, \<lambda>_. 20000000000) # [(1, 600, \<lambda>_. 21000000000)] @ [(1, 600, \<lambda>_. 23000000000)]) =
       before @ now # after
    \<and> reports_down (PublicKey [1]) [] None now (pulls (PublicKey [1]) [] None before sample_links)"
    by (rule silent_link_goes_down [of _ _ _ 5 6])
      (auto simp: in_state_def sample_links_def quiet_stats_def delay_of_def from_secs_def)
  then show ?thesis unfolding append.simps .
qed

end
