(* ===== verification/Wg_Theorems.thy ===== *)
theory Wg_Theorems
  imports Wg_Props Uapi_Theorems Link_Theorems
begin

text \<open>
  Properties of the WireGuard adapter task. The adapter of Linux
  (crates/telio-wg/src/adapter/linux_native_wg.rs) is an instance of \<open>wg_adapter\<close>, for any
  behaviour of the netlink socket.
\<close>

section \<open>The adapter of Linux\<close>

text \<open>A request to the netlink socket: the flags of a peer instead of the optional booleans.\<close>

datatype WgPeerF = RemoveMe | UpdateOnly | ReplaceAllowedIps

record nl_Peer =
  nl_public_key :: "u8 list"
  nl_flags :: "WgPeerF list"
  nl_preshared_key :: "u8 list option"
  nl_endpoint :: "SocketAddr option"
  nl_persistent_keepalive_interval :: "u16 option"
  nl_allowed_ips :: "AllowedIp list"

record nl_Device =
  nl_private_key :: "u8 list option"
  nl_listen_port :: "u16 option"
  nl_fwmark :: "u32 option"
  nl_peers :: "nl_Peer list"

definition nl_peer_of :: "set_Peer \<Rightarrow> nl_Peer" where
  "nl_peer_of peer =
     \<lparr>nl_public_key = s_public_key peer,
      nl_flags = (if s_remove peer = Some True then [RemoveMe] else [])
               @ (if s_update_only peer = Some True then [UpdateOnly] else [])
               @ (if s_replace_allowed_ips peer = Some True then [ReplaceAllowedIps] else []),
      nl_preshared_key = s_preshared_key peer, nl_endpoint = s_endpoint peer,
      nl_persistent_keepalive_interval = s_persistent_keepalive_interval peer,
      nl_allowed_ips = s_allowed_ips peer\<rparr>"

definition set_wg_data ::
  "(nl_Device \<Rightarrow> 'a \<Rightarrow> (string + unit) \<times> 'a) \<Rightarrow> set_Device \<Rightarrow> 'a \<Rightarrow> int \<times> 'a" where
  "set_wg_data set_device device a =
     (let dev = \<lparr>nl_private_key = s_private_key device, nl_listen_port = s_listen_port device,
                 nl_fwmark = s_fwmark device, nl_peers = map nl_peer_of (s_peers device)\<rparr>
      in (case set_device dev a of
            (Inr _, a') \<Rightarrow> (0, a')
          | (Inl _, a') \<Rightarrow> (1, a')))"

definition linux_send_uapi_cmd ::
  "'n ipnet_ops \<Rightarrow> duration option \<Rightarrow> ('a \<Rightarrow> string + get_Device) \<Rightarrow> (nl_Device \<Rightarrow> 'a \<Rightarrow> (string + unit) \<times> 'a)
     \<Rightarrow> Cmd \<Rightarrow> 'a \<Rightarrow> (string + 'n Response) \<times> 'a" where
  "linux_send_uapi_cmd N now get_device set_device cmd a =
     (case cmd of
        Get \<Rightarrow>
          (case get_device a of
             Inl _ \<Rightarrow> (Inr \<lparr>errno = 1, interface = None\<rparr>, a)
           | Inr dev \<Rightarrow> (Inr \<lparr>errno = 0, interface = Some (Interface_from_get N now dev)\<rparr>, a))
      | Set device \<Rightarrow>
          (case set_wg_data set_device device a of
             (e, a') \<Rightarrow> (Inr \<lparr>errno = e, interface = None\<rparr>, a')))"

text \<open>Hash sets iterated in the order of the keys.\<close>

definition linux_env ::
  "'n ipnet_ops \<Rightarrow> duration option \<Rightarrow> ('a \<Rightarrow> string + get_Device) \<Rightarrow> (nl_Device \<Rightarrow> 'a \<Rightarrow> (string + unit) \<times> 'a)
     \<Rightarrow> ('n, 'a) wg_env" where
  "linux_env N now get_device set_device =
     WgEnv N (linux_send_uapi_cmd N now get_device set_device) sorted_list_of_set"

lemma btm_insert_peer:
  assumes "btm_ok m" "list_all (\<lambda>(k, p). public_key p = k) m" "public_key p = k"
  shows "list_all (\<lambda>(k, p). public_key p = k) (btm_insert k p m)"
  using assms by (induction k p m rule: btm_insert.induct) auto

lemma collect_peers_ok:
  assumes "list_all (\<lambda>(k, p). public_key p = k) es"
  shows "list_all (\<lambda>(k, p). public_key p = k) (btm_collect es)"
proof -
  have "btm_ok m \<Longrightarrow> list_all (\<lambda>(k, p). public_key p = k) m \<Longrightarrow>
      list_all (\<lambda>(k, p). public_key p = k) (fold (\<lambda>(k, v). btm_insert k v) es m)" for m
    using assms by (induction es arbitrary: m) (auto intro: btm_insert_peer)
  then show ?thesis by (simp add: btm_collect_def)
qed

lemma Interface_from_get_ok: "interface_ok (Interface_from_get N now dev)"
  by (auto simp: interface_ok_def Interface_from_get_def Peer_from_get_def list_all_iff
      intro!: collect_peers_ok [unfolded list_all_iff])

interpretation linux: wg_adapter "linux_env N now get_device set_device" for N now get_device set_device
  by unfold_locales
    (auto simp: linux_env_def linux_send_uapi_cmd_def Interface_from_get_ok
      split: Cmd.splits sum.splits prod.splits)

section \<open>Networks of the peers\<close>

definition networks :: "'n Interface \<Rightarrow> (PublicKey \<times> 'n list) list" where
  "networks i = map (\<lambda>(k, p). (k, allowed_ips p)) (peers i)"

text \<open>No network is routed to two peers.\<close>

definition networks_exclusive :: "'n Interface \<Rightarrow> bool" where
  "networks_exclusive i \<longleftrightarrow>
     (\<forall>(k, ns) \<in> set (networks i). \<forall>(k', ns') \<in> set (networks i). k = k' \<or> set ns \<inter> set ns' = {})"

lemma networks_exclusive_cong: "networks i = networks j \<Longrightarrow> networks_exclusive i = networks_exclusive j"
  by (simp add: networks_exclusive_def)

lemma refresh_stats_networks:
  "map (\<lambda>(k, p). (k, allowed_ips p)) (fst (refresh_stats clk ps s)) = map (\<lambda>(k, p). (k, allowed_ips p)) ps"
proof (induction clk ps s rule: refresh_stats.induct)
  case (2 clk pk peer ps s)
  then show ?case
    by (cases "refresh_peer_stats clk pk peer s") (auto simp: case_prod_beta refresh_peer_stats_def Let_def)
qed simp

lemma networks_map:
  "(\<And>k p. allowed_ips (f k p) = allowed_ips p) \<Longrightarrow>
     networks (i\<lparr>peers := btm_map f ps\<rparr>) = map (\<lambda>(k, p). (k, allowed_ips p)) ps"
  by (simp add: networks_def btm_map_def case_prod_beta comp_def)

lemma carry_over_networks [simp]: "networks (carry_over i to) = networks to"
  by (simp add: carry_over_def networks_map Let_def, simp add: networks_def)

lemma timestamps_networks [simp]:
  "networks (update_endpoint_change_timestamps s diff reason clk to) = networks to"
  by (simp add: update_endpoint_change_timestamps_def networks_map Let_def, simp add: networks_def)

lemma for_each_interface:
  assumes "\<And>k t. wg_interface (snd (f k t)) = wg_interface t"
  shows "wg_interface (snd (for_each f ks s)) = wg_interface s"
proof (induction ks arbitrary: s)
  case (Cons k ks)
  then show ?case using assms [of k s] by (cases "f k s") (auto split: sum.split)
qed simp

lemma notify_interface [simp]:
  "wg_interface (snd (notify_delete from k s)) = wg_interface s"
  "wg_interface (snd (notify_insert from to clk k s)) = wg_interface s"
  "wg_interface (snd (notify_update from to reason clk k s)) = wg_interface s"
  by (auto simp: notify_delete_def notify_insert_def notify_update_def send_event_def Let_def case_prod_beta
      split: option.splits sum.splits)

lemma notifications_interface:
  "wg_interface (snd (update_send_notification_events E s to diff reason clk)) = wg_interface s"
  by (simp add: update_send_notification_events_def Let_def case_prod_beta for_each_interface split: sum.split)

lemma refresh_stats_interface: "wg_interface (snd (refresh_stats clk ps s)) = wg_interface s"
proof (induction clk ps s rule: refresh_stats.induct)
  case (2 clk pk peer ps s)
  then show ?case
    by (cases "refresh_peer_stats clk pk peer s")
      (auto simp: case_prod_beta refresh_peer_stats_def Let_def split: option.splits)
qed simp

text \<open>An update leaves the interface alone or takes over the networks of the new one.\<close>

lemma wg_update_networks:
  "wg_interface (snd (wg_update E clk s to reason)) = wg_interface s
   \<or> networks (wg_interface (snd (wg_update E clk s to reason))) = networks to"
proof -
  define s1 where "s1 = (if reason = Push then s\<lparr>last_update := clk 7 no_key,
      interval_start := clk 8 no_key + polling_period_after_update s,
      interval_period := polling_period_after_update s\<rparr> else s)"
  obtain ps s2 where r: "refresh_stats clk (peers to) s1 = (ps, s2)" by fastforce
  have n: "networks (to\<lparr>peers := ps\<rparr>) = networks to"
    using refresh_stats_networks [of clk "peers to" s1] by (simp add: networks_def r)
  have i: "wg_interface s2 = wg_interface s"
    using refresh_stats_interface [of clk "peers to" s1] by (simp only: r snd_conv) (simp add: s1_def)
  note upd = wg_update_def [of E clk s to reason, unfolded Let_def, folded s1_def, unfolded r prod.case]
  show ?thesis
    by (simp add: upd n i notifications_interface case_prod_beta split: sum.split)
qed

lemma networks_insert:
  "set (networks (i\<lparr>peers := btm_insert k p (peers i)\<rparr>)) \<subseteq> insert (k, allowed_ips p) {(k', ns) \<in> set (networks i). k' \<noteq> k}"
  if "btm_ok (peers i)"
proof -
  have "btm_ok m \<Longrightarrow> set (btm_insert k p m) \<subseteq> insert (k, p) {(k', q) \<in> set m. k' \<noteq> k}" for m :: "(PublicKey \<times> 'a Peer) list"
    by (induction k p m rule: btm_insert.induct) (auto simp: btm_keys_def)
  with that show ?thesis by (fastforce simp: networks_def)
qed

lemma add_peer_exclusive:
  assumes "interface_ok i" "networks_exclusive i" "\<not> overlaps_other_peer i p"
    "public_key q = public_key p" "allowed_ips q = allowed_ips p"
  shows "networks_exclusive (i\<lparr>peers := btm_insert (public_key q) q (peers i)\<rparr>)"
proof -
  have new: "set (allowed_ips p) \<inter> set ns = {}" if "(k, ns) \<in> set (networks i)" "k \<noteq> public_key p" for k ns
  proof -
    from that(1) obtain r where r: "(k, r) \<in> set (peers i)" "ns = allowed_ips r" by (auto simp: networks_def)
    with assms(1) have "public_key r = k" by (auto simp: interface_ok_def list_all_iff)
    with r that(2) assms(3) show ?thesis by (auto simp: overlaps_other_peer_def list_ex_iff)
  qed
  have "btm_ok (peers i)" using assms(1) by (simp add: interface_ok_def)
  note sub = networks_insert [OF this, of "public_key p" q, unfolded assms(5)]
  have old: "k = k' \<or> set ns \<inter> set ns' = {}"
    if "(k, ns) \<in> set (networks i)" "(k', ns') \<in> set (networks i)" for k ns k' ns'
    using assms(2) that by (fastforce simp: networks_exclusive_def)
  have "k = k' \<or> set ns \<inter> set ns' = {}"
    if "(k, ns) \<in> insert (public_key p, allowed_ips p) {(k', ns) \<in> set (networks i). k' \<noteq> public_key p}"
      "(k', ns') \<in> insert (public_key p, allowed_ips p) {(k', ns) \<in> set (networks i). k' \<noteq> public_key p}"
    for k ns k' ns'
    using that new [of k ns] new [of k' ns'] old [of k ns k' ns'] by auto
  with subsetD [OF sub] show ?thesis
    unfolding networks_exclusive_def assms(4) by (intro ballI, clarify) meson
qed

lemma fill_peer_networks [simp]: "allowed_ips (fill_peer to p) = allowed_ips p"
  by (simp add: fill_peer_def Let_def split: option.split)

section \<open>Failures\<close>

fun requests :: "('n, 'a) wg_env \<Rightarrow> Cmd list \<Rightarrow> ('n, 'a) WgState \<Rightarrow> ('n, 'a) WgState" where
  "requests E [] s = s"
| "requests E (cmd # cmds) s = requests E cmds (snd (uapi_request E s cmd))"

text \<open>
  The answers to a series of requests, each an error number or not, and how many answers with an error
  number there are at the end of it. A request that the adapter does not answer leaves no trace.
\<close>

fun answers :: "('n, 'a) wg_env \<Rightarrow> Cmd list \<Rightarrow> ('n, 'a) WgState \<Rightarrow> bool list" where
  "answers E [] s = []"
| "answers E (cmd # cmds) s =
     (case fst (send_uapi_cmd E cmd (adapter s)) of Inl _ \<Rightarrow> [] | Inr ret \<Rightarrow> [errno ret \<noteq> 0])
       @ answers E cmds (snd (uapi_request E s cmd))"

definition failures_in_a_row :: "bool list \<Rightarrow> nat" where
  "failures_in_a_row as = length (takeWhile (\<lambda>failed. failed) (rev as))"

lemma failures_in_a_row_snoc [simp]:
  "failures_in_a_row [] = 0" "failures_in_a_row (as @ [failed]) = (if failed then Suc (failures_in_a_row as) else 0)"
  by (simp_all add: failures_in_a_row_def)

lemma requests_snoc: "requests E (cmds @ [cmd]) s = snd (uapi_request E (requests E cmds s) cmd)"
  by (induction cmds arbitrary: s) simp_all

lemma answers_snoc:
  "answers E (cmds @ [cmd]) s = answers E cmds s
     @ (case fst (send_uapi_cmd E cmd (adapter (requests E cmds s))) of Inl _ \<Rightarrow> [] | Inr ret \<Rightarrow> [errno ret \<noteq> 0])"
  by (induction cmds arbitrary: s) simp_all

lemma counter_counts_failures:
  assumes "uapi_fail_counter s = 0"
  shows "uapi_fail_counter (requests E cmds s) = word_of_nat (failures_in_a_row (answers E cmds s))
    \<and> failures_in_a_row (answers E cmds s) \<le> length cmds"
proof (induction cmds rule: rev_induct)
  case (snoc cmd cmds)
  then show ?case
    by (auto simp: requests_snoc answers_snoc uapi_request_def Let_def add.commute split: sum.splits prod.splits)
qed (simp add: assms)

lemma max_fail_count_le:
  assumes "n < 2 ^ 31"
  shows "MAX_UAPI_FAIL_COUNT <=s (word_of_nat n :: 32 word) \<longleftrightarrow> 10 \<le> n"
proof -
  have "sint (word_of_nat n :: 32 word) = int n"
    using assms by (simp add: signed_of_nat signed_take_bit_int_eq_self)
  then show ?thesis by (simp add: MAX_UAPI_FAIL_COUNT_def word_sle_eq)
qed

text \<open>
  C39. The task gives the interface up at the tenth failure in a row: after any series of requests, an
  answer with an error number and without an interface is turned into the error that the interface is gone,
  and reported to the application, exactly if the last nine answers or more were error numbers too, with no
  success in between; any other answer is passed on and nothing is reported. Requests that the adapter does
  not answer at all are passed on as errors of the adapter and do not count. (Up to the overflow of the
  32-bit counter.)
\<close>

theorem interface_gone_after_ten_failures:
  assumes "uapi_fail_counter s = 0" "length cmds < 2 ^ 31 - 1"
    and "libtelio_event (requests E cmds s) = Some reported"
    and "(r, t) = uapi_request E (requests E cmds s) cmd"
  shows "case send_uapi_cmd E cmd (adapter (requests E cmds s)) of
      (Inl e, _) \<Rightarrow> r = Inl (AdapterError e) \<and> libtelio_event t = Some reported
    | (Inr ret, _) \<Rightarrow>
        if errno ret \<noteq> 0 \<and> interface ret = None \<and> 9 \<le> failures_in_a_row (answers E cmds s)
        then r = Inl (InternalError ''Interface gone'') \<and> libtelio_event t = Some (reported @ [''Interface gone''])
        else r = Inr ret \<and> libtelio_event t = Some reported"
proof -
  let ?s = "requests E cmds s" and ?n = "failures_in_a_row (answers E cmds s)"
  have n: "uapi_fail_counter ?s = word_of_nat ?n" "Suc ?n < 2 ^ 31"
    using counter_counts_failures [OF assms(1), of E cmds] assms(2) by simp_all
  have zero: "\<not> MAX_UAPI_FAIL_COUNT <=s (0 :: 32 word)" using max_fail_count_le [of 0] by simp
  have "word_of_nat ?n + 1 = (word_of_nat (Suc ?n) :: 32 word)" by simp
  with max_fail_count_le [OF n(2)] have "MAX_UAPI_FAIL_COUNT <=s (word_of_nat ?n + 1 :: 32 word) \<longleftrightarrow> 9 \<le> ?n"
    by (simp add: add.commute)
  with zero n(1) assms(3,4) show ?thesis
    by (auto simp: uapi_request_def Let_def split: sum.splits prod.splits if_splits)
qed

text \<open>A device that answers two commands without an error number, and then only with error numbers.\<close>

definition flaky_env :: "(ref_net, nat) wg_env" where
  "flaky_env = WgEnv ref_ipnet
     (\<lambda>_ n. (Inr \<lparr>errno = (if n < 2 then 0 else 5), interface = None\<rparr>, Suc n)) (\<lambda>_. [])"

lemma flaky_answers:
  "answers flaky_env (replicate 11 Get) (start_with 0 None (Some []) None False 1 1 0) = [False, False] @ replicate 9 True
   \<and> adapter (requests flaky_env (replicate 11 Get) (start_with 0 None (Some []) None False 1 1 0)) = 11
   \<and> libtelio_event (requests flaky_env (replicate 11 Get) (start_with 0 None (Some []) None False 1 1 0)) = Some []"
  by (simp add: flaky_env_def uapi_request_def start_with_def MAX_UAPI_FAIL_COUNT_def word_sle_eq numeral_eq_Suc Let_def)

theorem interface_gone_after_ten_failures_witness:
  "let s = requests flaky_env (replicate 11 Get) (start_with 0 None (Some []) None False 1 1 0);
       (r, t) = uapi_request flaky_env s Get
   in r = Inl (InternalError ''Interface gone'') \<and> libtelio_event t = Some [''Interface gone'']"
proof -
  let ?s = "start_with 0 None (Some []) None False 1 1 0 :: (ref_net, nat) WgState"
  obtain r t where rt: "(r, t) = uapi_request flaky_env (requests flaky_env (replicate 11 Get) ?s) Get"
    by (metis surj_pair)
  have "uapi_fail_counter ?s = 0" "length (replicate 11 Get) < 2 ^ 31 - 1" by (simp_all add: start_with_def)
  note G = interface_gone_after_ten_failures [OF this conjunct2 [OF conjunct2 [OF flaky_answers]] rt]
  have "send_uapi_cmd flaky_env Get 11 = (Inr \<lparr>errno = 5, interface = None\<rparr>, 12)" by (simp add: flaky_env_def)
  moreover have "failures_in_a_row ([False, False] @ replicate 9 True) = 9"
    by (simp add: failures_in_a_row_def rev_append numeral_eq_Suc)
  ultimately have "r = Inl (InternalError ''Interface gone'') \<and> libtelio_event t = Some [''Interface gone'']"
    using G flaky_answers by simp
  then show ?thesis unfolding Let_def rt [symmetric] by simp
qed

section \<open>Events, counters and networks\<close>

text \<open>
  A device with one peer, behind a netlink socket that accepts everything, and the task after the
  peer has been added and a first poll has been made.
\<close>

definition sample_env :: "(ref_net, unit) wg_env" where
  "sample_env = linux_env ref_ipnet None (\<lambda>_. Inl ''no such device'') (\<lambda>_ a. (Inr (), a))"

definition sample_wg_peer :: "u8 \<Rightarrow> ref_net Peer" where
  "sample_wg_peer b = Peer_default\<lparr>public_key := PublicKey (replicate 32 b), allowed_ips := [RefNet (V4 7) 32]\<rparr>"

definition sample_start :: "(ref_net, unit) WgState" where
  "sample_start = start_with () (Some []) None None False 1 1 0"

definition sample_wg :: "(ref_net, unit) WgState" where
  "sample_wg = snd (wg_add_peer sample_env (\<lambda>_ _. 5) sample_start (sample_wg_peer 1))"

lemma sample_run: "wg_run sample_env sample_wg"
  unfolding sample_wg_def sample_start_def by (intro run_add_peer run_start)

lemma sample_adapter: "wg_adapter sample_env"
  unfolding sample_env_def by (rule linux.wg_adapter_axioms)

lemma sample_wg_interface:
  "peers (wg_interface sample_wg) = [(PublicKey (replicate 32 1),
     (sample_wg_peer 1)\<lparr>persistent_keepalive_interval := Some 0\<rparr>)]"
  by (simp add: sample_wg_def sample_start_def sample_wg_peer_def wg_add_peer_def start_with_def Interface_default_def
      overlaps_other_peer_def fill_peer_def Peer_default_def wg_update_def Let_def refresh_peer_stats_def
      wg_time_since_last_rx_def BytesAndTimestamps_new_def carry_over_def is_same_interface_def btm_map_def
      update_calculate_changes_def update_endpoint_change_timestamps_def update_send_notification_events_def
      sample_env_def linux_env_def notify_insert_def send_event_def is_connected_def uapi_request_def
      linux_send_uapi_cmd_def set_wg_data_def send_analytics_def MAX_UAPI_FAIL_COUNT_def)

text \<open>
  C8. A listener that replays the events the task has sent knows the interface: exactly its
  peers, each with its current state, endpoint and networks. This holds after any sequence of
  polls, additions, removals and configuration changes, whatever the adapter answers, whatever the
  order in which hash sets are iterated and whatever the clock reads.
\<close>

theorem events_track_interface:
  assumes "wg_adapter E" "wg_run E s"
  shows "replay (events s) = view (wg_interface s)"
  using wg_adapter.wg_run_inv [OF assms] by (simp add: wg_inv_def)

theorem events_track_interface_witness:
  "replay (events sample_wg) (PublicKey (replicate 32 1)) = Some (Connecting, None, [RefNet (V4 7) 32])"
  using events_track_interface [OF sample_adapter sample_run]
  by (simp add: view_def sample_wg_interface peer_view_def sample_wg_peer_def Peer_default_def peer_state_def
      is_connected_def)

text \<open>
  C27. The traffic counters are those of the peers of the interface, no two peers share a counter,
  and the link detection reads the same counters for the same peers.
\<close>

theorem counters_of_peers:
  assumes "wg_adapter E" "wg_run E s"
  shows "dom (stats s) = btm_keys (peers (wg_interface s)) \<and> inj_on (stats s) (dom (stats s))
     \<and> (link_detection s = None
         \<or> (\<forall>k. map_option link_stats (link_peers (the (link_detection s)) k) = stats s k))"
  using wg_adapter.wg_run_inv [OF assms]
  by (cases "link_detection s") (auto simp: wg_inv_def stats_ok_def link_cells_def fun_eq_iff)

theorem counters_of_peers_witness:
  "dom (stats sample_wg) = {PublicKey (replicate 32 1)}"
  using counters_of_peers [OF sample_adapter sample_run] by (simp add: sample_wg_interface)

text \<open>
  C38. No network value goes to two peers by adding a peer: in every run, a peer is refused, without any change,
  exactly if one of its networks is, as a value, a network of a peer with another key; otherwise it is
  accepted, and if the peers had no network in common before, they have none afterwards. (Networks that
  overlap without being equal are not refused.)
\<close>

theorem add_peer_keeps_networks_exclusive:
  assumes "wg_adapter E" "wg_run E s"
  shows "(if \<exists>(k, ns) \<in> set (networks (wg_interface s)). k \<noteq> public_key peer \<and> set ns \<inter> set (allowed_ips peer) \<noteq> {}
      then wg_add_peer E clk s peer = (Inl DuplicateAllowedIPsError, s)
      else fst (wg_add_peer E clk s peer) = Inr ())
    \<and> (networks_exclusive (wg_interface s) \<longrightarrow> networks_exclusive (wg_interface (snd (wg_add_peer E clk s peer))))"
proof -
  let ?p = "fill_peer (wg_interface s) peer"
  let ?to = "(wg_interface s)\<lparr>peers := btm_insert (public_key ?p) ?p (peers (wg_interface s))\<rparr>"
  have ok: "interface_ok (wg_interface s)" using wg_adapter.wg_run_inv [OF assms] by (simp add: wg_inv_def)
  then have keys: "public_key q = k" if "(k, q) \<in> set (peers (wg_interface s))" for k q
    using that by (auto simp: interface_ok_def list_all_iff)
  have overlap: "overlaps_other_peer (wg_interface s) peer \<longleftrightarrow>
      (\<exists>(k, ns) \<in> set (networks (wg_interface s)). k \<noteq> public_key peer \<and> set ns \<inter> set (allowed_ips peer) \<noteq> {})"
  proof -
    have "overlaps_other_peer (wg_interface s) peer \<longleftrightarrow> (\<exists>x \<in> set (peers (wg_interface s)).
        public_key (snd x) \<noteq> public_key peer \<and> set (allowed_ips (snd x)) \<inter> set (allowed_ips peer) \<noteq> {})"
      unfolding overlaps_other_peer_def list_ex_iff case_prod_beta by (intro bex_cong) auto
    also have "\<dots> \<longleftrightarrow> (\<exists>x \<in> set (peers (wg_interface s)).
        fst x \<noteq> public_key peer \<and> set (allowed_ips (snd x)) \<inter> set (allowed_ips peer) \<noteq> {})"
      using keys by (intro bex_cong) auto
    finally show ?thesis by (simp add: networks_def case_prod_beta)
  qed
  have excl: "networks_exclusive (wg_interface (snd (wg_update E clk s ?to Push)))"
    if "networks_exclusive (wg_interface s)" "\<not> overlaps_other_peer (wg_interface s) peer"
    using add_peer_exclusive [OF ok that, of ?p] wg_update_networks [of E clk s ?to Push] that(1)
      networks_exclusive_cong by (metis fill_peer_networks fill_peer_key)
  show ?thesis unfolding overlap [symmetric] using excl by (simp add: wg_add_peer_def Let_def)
qed

theorem add_peer_keeps_networks_exclusive_witness:
  "wg_add_peer sample_env (\<lambda>_ _. 6) sample_wg (sample_wg_peer 2) = (Inl DuplicateAllowedIPsError, sample_wg)
   \<and> fst (wg_add_peer sample_env (\<lambda>_ _. 6) sample_wg ((sample_wg_peer 2)\<lparr>allowed_ips := [RefNet (V4 0) 8]\<rparr>)) = Inr ()"
  using add_peer_keeps_networks_exclusive [OF sample_adapter sample_run, where clk = "\<lambda>_ _. 6" and peer = "sample_wg_peer 2"]
    add_peer_keeps_networks_exclusive [OF sample_adapter sample_run, where clk = "\<lambda>_ _. 6"
      and peer = "(sample_wg_peer 2)\<lparr>allowed_ips := [RefNet (V4 0) 8]\<rparr>"]
  by (simp add: networks_def sample_wg_interface sample_wg_peer_def)

section \<open>Analytics\<close>

lemma refresh_stats_analytics: "analytics_tx (snd (refresh_stats clk ps s)) = analytics_tx s"
proof (induction clk ps s rule: refresh_stats.induct)
  case (2 clk pk peer ps s)
  then show ?case
    by (cases "refresh_peer_stats clk pk peer s")
      (auto simp: case_prod_beta refresh_peer_stats_def Let_def split: option.splits)
qed simp

lemma for_each_analytics:
  assumes "\<And>k t. analytics_tx (snd (f k t)) = analytics_tx t"
  shows "analytics_tx (snd (for_each f ks s)) = analytics_tx s"
proof (induction ks arbitrary: s)
  case (Cons k ks)
  then show ?case using assms [of k s] by (cases "f k s") (auto split: sum.split)
qed simp

lemma notify_analytics [simp]:
  "analytics_tx (snd (notify_delete from k s)) = analytics_tx s"
  "analytics_tx (snd (notify_insert from to clk k s)) = analytics_tx s"
  "analytics_tx (snd (notify_update from to reason clk k s)) = analytics_tx s"
  by (auto simp: notify_delete_def notify_insert_def notify_update_def send_event_def Let_def case_prod_beta
      split: option.splits sum.splits)

lemma notifications_analytics:
  "analytics_tx (snd (update_send_notification_events E s to diff reason clk)) = analytics_tx s"
  by (simp add: update_send_notification_events_def Let_def case_prod_beta for_each_analytics split: sum.split)

lemma uapi_request_analytics: "analytics_tx (snd (uapi_request E s cmd)) = analytics_tx s"
  by (simp add: uapi_request_def Let_def split: prod.split sum.split)

lemma analytics_of_kept:
  "pk \<in> btm_keys (peers to) \<Longrightarrow>
     an_peer_state (analytics_of (update_calculate_changes s to) clk pk p) = peer_state p"
  by (simp add: analytics_of_def update_calculate_changes_def Let_def peer_state_def)

text \<open>
  The analytics of an update report for every peer that has an endpoint, and only for those,
  the state of that peer: connected or connecting. No analytics event is ever marked disconnected.
\<close>

theorem analytics_never_disconnected:
  assumes "analytics_tx s = Some sent"
  shows "\<exists>new. analytics_tx (snd (wg_update E clk s to reason)) = Some (sent @ new)
     \<and> (\<forall>ev \<in> set new. an_peer_state ev \<noteq> Disconnected
          \<and> (\<exists>p. (an_public_key ev, p) \<in> set (peers (wg_interface (snd (wg_update E clk s to reason))))
               \<and> endpoint p \<noteq> None \<and> an_peer_state ev = peer_state p))"
proof -
  define s1 where "s1 = (if reason = Push then s\<lparr>last_update := clk 7 no_key,
      interval_start := clk 8 no_key + polling_period_after_update s,
      interval_period := polling_period_after_update s\<rparr> else s)"
  obtain ps s2 where r: "refresh_stats clk (peers to) s1 = (ps, s2)" by fastforce
  define s3 where "s3 = s2\<lparr>stats := stats s2 |` btm_keys ps\<rparr>"
  define to1 where "to1 = carry_over (wg_interface s3) (to\<lparr>peers := ps\<rparr>)"
  define diff where "diff = update_calculate_changes s3 to1"
  define to2 where "to2 = update_endpoint_change_timestamps s3 diff reason clk to1"
  have a: "analytics_tx s3 = Some sent"
    using refresh_stats_analytics [of clk "peers to" s1] assms by (simp only: s3_def r snd_conv) (simp add: s1_def)
  have d: "diff = update_calculate_changes s3 to2"
    by (simp add: diff_def to2_def update_calculate_changes_def)
  note upd = wg_update_def [of E clk s to reason, unfolded Let_def, folded s1_def,
      unfolded r prod.case, folded s3_def, folded to1_def, folded diff_def, folded to2_def]
  define new where "new = map (\<lambda>(pk, p). analytics_of diff clk pk p) (filter (\<lambda>(_, p). endpoint p \<noteq> None) (peers to2))"
  have new: "an_peer_state ev \<noteq> Disconnected
      \<and> (\<exists>p. (an_public_key ev, p) \<in> set (peers to2) \<and> endpoint p \<noteq> None \<and> an_peer_state ev = peer_state p)"
    if ev: "ev \<in> set new" for ev
  proof -
    from ev obtain pk p where p: "(pk, p) \<in> set (peers to2)" "endpoint p \<noteq> None" "ev = analytics_of diff clk pk p"
      by (auto simp: new_def)
    then have "pk \<in> btm_keys (peers to2)" by (force simp: btm_keys_def)
    from analytics_of_kept [OF this, of s3 clk p] p show ?thesis
      by (auto simp: d) (auto simp: analytics_of_def)
  qed
  have "analytics_tx (send_analytics diff clk to2 t) = Some (sent @ new)" if "analytics_tx t = Some sent" for t :: "('a, 'b) WgState"
    using that by (simp add: send_analytics_def new_def)
  then show ?thesis
    using a new notifications_analytics [of E s3 to2 diff reason clk] uapi_request_analytics [of E]
    by (auto simp: upd case_prod_beta split: sum.split)
qed

theorem analytics_never_disconnected_witness:
  "\<exists>new. analytics_tx (snd (wg_update sample_env (\<lambda>_ _. 5) sample_start
       (Interface_default\<lparr>peers := [(PublicKey [], Peer_default\<lparr>public_key := PublicKey [], endpoint := Some (SockV4 1 2)\<rparr>)]\<rparr>) Push)) =
       Some ([] @ new)
     \<and> (\<forall>ev \<in> set new. an_peer_state ev \<noteq> Disconnected)"
  using analytics_never_disconnected [of sample_start "[]" sample_env "\<lambda>_ _. 5" "Interface_default\<lparr>peers :=
      [(PublicKey [], Peer_default\<lparr>public_key := PublicKey [], endpoint := Some (SockV4 1 2)\<rparr>)]\<rparr>" Push]
  by (simp add: sample_start_def start_with_def) blast

section \<open>Configuring the kernel\<close>

text \<open>
  What the netlink interface documents of a set request, for the networks of the peers: the peers
  of a request are handled in order; a removed peer is gone; an update of a peer that does not exist
  is skipped; the networks are added to those of the peer, or replace them, and are taken from
  every other peer.
\<close>

type_synonym kernel_routes = "PublicKey \<rightharpoonup> AllowedIp set"

definition apply_nl_peer :: "nl_Peer \<Rightarrow> kernel_routes \<Rightarrow> kernel_routes" where
  "apply_nl_peer p R =
     (let k = PublicKey (nl_public_key p); ips = set (nl_allowed_ips p) in
      if RemoveMe \<in> set (nl_flags p) then R(k := None)
      else if UpdateOnly \<in> set (nl_flags p) \<and> R k = None then R
      else (\<lambda>j. map_option (\<lambda>ns. ns - ips) (R j))
             (k \<mapsto> (if ReplaceAllowedIps \<in> set (nl_flags p) then {} else case R k of None \<Rightarrow> {} | Some ns \<Rightarrow> ns) \<union> ips))"

locale netlink =
  fixes routes :: "'a \<Rightarrow> kernel_routes"
    and set_device :: "nl_Device \<Rightarrow> 'a \<Rightarrow> (string + unit) \<times> 'a"
  assumes set_device_routes:
    "set_device dev a = (Inr u, a') \<Longrightarrow> routes a' = fold apply_nl_peer (nl_peers dev) (routes a)"

interpretation routes_only: netlink "\<lambda>R. R" "\<lambda>dev R. (Inr (), fold apply_nl_peer (nl_peers dev) R)"
  by unfold_locales simp

definition routes_of :: "'n ipnet_ops \<Rightarrow> 'n Interface \<Rightarrow> kernel_routes" where
  "routes_of N i k =
     map_option (\<lambda>p. (\<lambda>ip. \<lparr>ipaddr = net_network N ip, cidr_mask = net_prefix_len N ip\<rparr>) ` set (allowed_ips p))
       (map_of (peers i) k)"

definition routes_disjoint :: "kernel_routes \<Rightarrow> bool" where
  "routes_disjoint R \<longleftrightarrow> (\<forall>j k a b. R j = Some a \<longrightarrow> R k = Some b \<longrightarrow> j \<noteq> k \<longrightarrow> a \<inter> b = {})"

lemma removed_routes:
  "fold apply_nl_peer (map (\<lambda>(pk, _). nl_peer_of ((set_Peer_from_public_key (key_bytes pk))\<lparr>s_remove := Some True\<rparr>)) ps) R
   = R |` (- fst ` set ps)"
proof (induction ps arbitrary: R)
  case (Cons e ps)
  have "apply_nl_peer (nl_peer_of ((set_Peer_from_public_key (key_bytes pk))\<lparr>s_remove := Some True\<rparr>)) R = R(pk := None)" for pk
    by (simp add: apply_nl_peer_def nl_peer_of_def set_Peer_from_public_key_def)
  with Cons show ?case by (auto simp: case_prod_beta restrict_map_def fun_eq_iff)
qed (simp add: restrict_map_def)

text \<open>Requests that bring every peer of a list to its target.\<close>

definition reaches :: "kernel_routes \<Rightarrow> kernel_routes \<Rightarrow> nl_Peer \<Rightarrow> bool" where
  "reaches tgt R p \<longleftrightarrow>
     (let k = PublicKey (nl_public_key p) in
      tgt k = Some (set (nl_allowed_ips p)) \<and> RemoveMe \<notin> set (nl_flags p)
      \<and> (UpdateOnly \<in> set (nl_flags p) \<longrightarrow> R k \<noteq> None)
      \<and> (ReplaceAllowedIps \<in> set (nl_flags p) \<or> (\<forall>ns. R k = Some ns \<longrightarrow> ns \<subseteq> set (nl_allowed_ips p))))"

lemma reaches_step:
  assumes "reaches tgt R p"
  shows "apply_nl_peer p R = (\<lambda>j. map_option (\<lambda>ns. ns - set (nl_allowed_ips p)) (R j))
       (PublicKey (nl_public_key p) := tgt (PublicKey (nl_public_key p)))"
  using assms by (auto simp: reaches_def apply_nl_peer_def Let_def fun_eq_iff split: option.splits)

lemma targets_reached:
  assumes "routes_disjoint tgt" "distinct (map nl_public_key ps)" "\<forall>p \<in> set ps. reaches tgt R p"
    "PublicKey j \<in> PublicKey ` nl_public_key ` set ps \<or> R (PublicKey j) = tgt (PublicKey j)"
  shows "fold apply_nl_peer ps R (PublicKey j) = tgt (PublicKey j)"
  using assms(2-)
proof (induction ps arbitrary: R)
  case (Cons p ps)
  let ?k = "nl_public_key p"
  let ?R = "apply_nl_peer p R"
  have R': "?R = (\<lambda>j. map_option (\<lambda>ns. ns - set (nl_allowed_ips p)) (R j)) (PublicKey ?k := tgt (PublicKey ?k))"
    using reaches_step Cons.prems(2) by simp
  have "reaches tgt ?R q" if "q \<in> set ps" for q
  proof -
    have "nl_public_key q \<noteq> ?k" using Cons.prems(1) that by (simp, metis image_eqI)
    moreover have "reaches tgt R q" using Cons.prems(2) that by simp
    ultimately show ?thesis by (auto simp: reaches_def R' Let_def)
  qed
  moreover have "PublicKey j \<in> PublicKey ` nl_public_key ` set ps \<or> ?R (PublicKey j) = tgt (PublicKey j)"
  proof (cases "j = ?k \<or> j \<in> nl_public_key ` set ps")
    case False
    then have t: "R (PublicKey j) = tgt (PublicKey j)" using Cons.prems(3) by auto
    have "tgt (PublicKey ?k) = Some (set (nl_allowed_ips p))" using Cons.prems(2) by (simp add: reaches_def Let_def)
    with assms(1) False have "ns \<inter> set (nl_allowed_ips p) = {}" if "tgt (PublicKey j) = Some ns" for ns
      using that unfolding routes_disjoint_def by blast
    with False t show ?thesis by (cases "tgt (PublicKey j)") (auto simp: R')
  qed (auto simp: R')
  ultimately show ?case using Cons.IH [of ?R] Cons.prems(1) by simp
qed auto

text \<open>The requests for the peers that stay or come.\<close>

definition update_requests :: "'n ipnet_ops \<Rightarrow> 'n Interface \<Rightarrow> 'n Interface \<Rightarrow> nl_Peer list" where
  "update_requests N from to =
     map (\<lambda>(pk, peer). nl_peer_of ((set_Peer_from N peer)
          \<lparr>s_update_only := Some (pk \<in> btm_keys (peers from) \<inter> btm_keys (peers to)),
           s_replace_allowed_ips := Some (case map_of (peers from) pk of
              None \<Rightarrow> False | Some p \<Rightarrow> allowed_ips p \<noteq> allowed_ips peer)\<rparr>)) (peers to)"

lemma set_peers_of_update:
  "map nl_peer_of (s_peers (update_construct_set_device N s to (update_calculate_changes s to))) =
     map (\<lambda>(pk, _). nl_peer_of ((set_Peer_from_public_key (key_bytes pk))\<lparr>s_remove := Some True\<rparr>))
       (filter (\<lambda>(pk, _). pk \<in> btm_keys (peers (wg_interface s)) - btm_keys (peers to)) (peers (wg_interface s)))
     @ update_requests N (wg_interface s) to"
  by (simp add: update_construct_set_device_def update_requests_def update_calculate_changes_def
      Let_def case_prod_beta comp_def)

lemma kept_routes:
  "routes_of N i |` (- fst ` set (filter (\<lambda>(pk, _). pk \<in> btm_keys (peers i) - K) (peers i))) = routes_of N i |` K"
proof
  fix k
  have "k \<notin> btm_keys (peers i) \<Longrightarrow> routes_of N i k = None"
    by (simp add: routes_of_def)
  then show "(routes_of N i |` (- fst ` set (filter (\<lambda>(pk, _). pk \<in> btm_keys (peers i) - K) (peers i)))) k =
      (routes_of N i |` K) k"
    by (force simp: restrict_map_def btm_keys_def)
qed

lemma update_request_keys:
  assumes "interface_ok to"
  shows "map nl_public_key (update_requests N from to) = map (key_bytes \<circ> fst) (peers to)"
  using assms by (auto simp: update_requests_def nl_peer_of_def set_Peer_from_def interface_ok_def list_all_iff)

lemma update_request_distinct:
  assumes "interface_ok to"
  shows "distinct (map nl_public_key (update_requests N from to))"
proof -
  have "distinct (map fst (peers to))" using assms by (simp add: interface_ok_def btm_ok_distinct)
  then have "distinct (map key_bytes (map fst (peers to)))"
    by (simp add: distinct_map inj_on_def PublicKey.expand)
  then show ?thesis by (simp add: update_request_keys [OF assms])
qed

lemma update_request_reaches:
  assumes "interface_ok to" "q \<in> set (update_requests N from to)"
  shows "reaches (routes_of N to) (routes_of N from |` btm_keys (peers to)) q"
proof -
  from assms(2) obtain k p where e: "(k, p) \<in> set (peers to)"
    and q: "q = nl_peer_of ((set_Peer_from N p)
          \<lparr>s_update_only := Some (k \<in> btm_keys (peers from) \<inter> btm_keys (peers to)),
           s_replace_allowed_ips := Some (case map_of (peers from) k of
              None \<Rightarrow> False | Some p' \<Rightarrow> allowed_ips p' \<noteq> allowed_ips p)\<rparr>)"
    by (auto simp: update_requests_def)
  have k: "public_key p = k" "map_of (peers to) k = Some p" "k \<in> btm_keys (peers to)"
    using interface_ok_peer [OF assms(1), of k p] assms(1) e
    by (auto simp: interface_ok_def btm_ok_entry btm_keys_def image_iff intro: bexI [of _ "(k, p)"])
  then show ?thesis
    by (cases "map_of (peers from) k")
      (auto simp: q reaches_def routes_of_def nl_peer_of_def set_Peer_from_def Let_def)
qed

lemma routes_none: "k \<notin> btm_keys (peers i) \<Longrightarrow> routes_of N i k = None"
  by (simp add: routes_of_def)

text \<open>
  C13. A pushed update configures the kernel: when the networks the kernel routes are those of
  the known interface, and a request built from the difference to a new interface with disjoint
  networks is accepted, then the networks the kernel routes are those of the new interface. Peers
  and networks move between the peers as needed, and nothing stale is left.
\<close>

theorem push_configures_kernel:
  assumes "netlink routes set_device" "interface_ok (wg_interface s)" "interface_ok to"
    and sync: "routes a = routes_of N (wg_interface s)" and disj: "routes_disjoint (routes_of N to)"
    and "set_wg_data set_device (update_construct_set_device N s to (update_calculate_changes s to)) a = (0, a')"
  shows "routes a' = routes_of N to"
proof -
  let ?from = "wg_interface s" and ?diff = "update_calculate_changes s to"
  let ?R = "routes_of N ?from |` btm_keys (peers to)"
  let ?ps = "update_requests N ?from to"
  obtain u where "set_device \<lparr>nl_private_key = s_private_key (update_construct_set_device N s to ?diff),
      nl_listen_port = s_listen_port (update_construct_set_device N s to ?diff),
      nl_fwmark = s_fwmark (update_construct_set_device N s to ?diff),
      nl_peers = map nl_peer_of (s_peers (update_construct_set_device N s to ?diff))\<rparr> a = (Inr u, a')"
    using assms(6) by (auto simp: set_wg_data_def Let_def split: prod.splits sum.splits)
  from netlink.set_device_routes [OF assms(1) this] have "routes a' = fold apply_nl_peer ?ps ?R"
    by (simp only: nl_Device.simps set_peers_of_update fold_append comp_def removed_routes kept_routes sync)
  moreover have "fold apply_nl_peer ?ps ?R (PublicKey j) = routes_of N to (PublicKey j)" for j
  proof (rule targets_reached [OF disj update_request_distinct [OF assms(3)]])
    show "\<forall>p \<in> set ?ps. reaches (routes_of N to) ?R p"
      using update_request_reaches [OF assms(3)] by blast
    have "nl_public_key ` set ?ps = key_bytes ` btm_keys (peers to)"
      using arg_cong [OF update_request_keys [OF assms(3)], of set] by (simp add: btm_keys_def image_image)
    moreover have "PublicKey j \<in> PublicKey ` key_bytes ` btm_keys (peers to) \<or> PublicKey j \<notin> btm_keys (peers to)"
      by force
    ultimately show "PublicKey j \<in> PublicKey ` nl_public_key ` set ?ps \<or> ?R (PublicKey j) = routes_of N to (PublicKey j)"
      using routes_none [of "PublicKey j" to N] by (auto simp: restrict_map_def)
  qed
  ultimately show ?thesis by (metis PublicKey.collapse ext)
qed

definition sample_kernel :: "nl_Device \<Rightarrow> kernel_routes \<Rightarrow> (string + unit) \<times> kernel_routes" where
  "sample_kernel dev R = (Inr (), fold apply_nl_peer (nl_peers dev) R)"

definition one_peer :: "u8 \<Rightarrow> ref_net Interface" where
  "one_peer b = Interface_default\<lparr>peers := [(PublicKey (replicate 32 b), sample_wg_peer b)]\<rparr>"

theorem push_configures_kernel_witness:
  "snd (set_wg_data sample_kernel (update_construct_set_device ref_ipnet (sample_start\<lparr>wg_interface := one_peer 1\<rparr>)
      (one_peer 2) (update_calculate_changes (sample_start\<lparr>wg_interface := one_peer 1\<rparr>) (one_peer 2)))
      (routes_of ref_ipnet (one_peer 1))) (PublicKey (replicate 32 2)) = Some {\<lparr>ipaddr = V4 7, cidr_mask = 32\<rparr>}"
proof -
  have n: "netlink (\<lambda>R. R) sample_kernel" by unfold_locales (auto simp: sample_kernel_def)
  have i: "interface_ok (one_peer b)" for b
    by (simp add: one_peer_def interface_ok_def sample_wg_peer_def)
  have d: "routes_disjoint (routes_of ref_ipnet (one_peer 2))"
    by (simp add: routes_disjoint_def routes_of_def one_peer_def)
  have e: "set_wg_data sample_kernel dev R = (0, snd (set_wg_data sample_kernel dev R))" for dev R
    by (simp add: set_wg_data_def sample_kernel_def Let_def)
  from push_configures_kernel [OF n _ i _ d e, of "sample_start\<lparr>wg_interface := one_peer 1\<rparr>"] i
  show ?thesis by (simp add: routes_of_def one_peer_def sample_wg_peer_def ref_ipnet_def)
qed

section \<open>Answers\<close>

lemma peers_loop_ok:
  "interface_ok i \<Longrightarrow> peers_loop T now i pk s = Returns (Inr (i', err, rest)) \<Longrightarrow> interface_ok i'"
proof (induction T now i pk s rule: peers_loop.induct)
  case (1 T now i pk s)
  from 1(3) show ?case
    using 1(1) interface_ok_insert [OF 1(2)]
    by (auto simp: peers_loop.simps [of T now i pk s] Let_def
        split: outcome.splits sum.splits prod.splits option.splits)
qed

lemma device_line_ok:
  "interface_ok i \<Longrightarrow> device_line T i inited err key val = Returns (Inr (i', inited', err')) \<Longrightarrow> interface_ok i'"
  by (auto simp: device_line_def and_then_def interface_ok_def split: if_splits outcome.splits sum.splits)

lemma response_loop_ok:
  "interface_ok i \<Longrightarrow> response_loop T now i inited err s = Returns (Inr r) \<Longrightarrow> pred_option interface_ok (interface r)"
proof (induction T now i inited err s rule: response_loop.induct)
  case (1 T now i inited err s)
  from 1(4) show ?case
    using 1(1,2,3) peers_loop_ok [OF 1(3)] device_line_ok [OF 1(3)]
    by (auto simp: response_loop.simps [of T now i inited err s] Let_def finish_response_def
        split: if_splits outcome.splits sum.splits prod.splits option.splits)
qed

text \<open>
  What the task relies on of the adapters that speak text: the peers of an answer are in the order of
  their keys, without repetition, and each is stored under its own key.
\<close>

lemma parsed_interface_ok:
  assumes "response_from_str T now s = Returns (Inr r)"
  shows "pred_option interface_ok (interface r)"
  using response_loop_ok [of Interface_default] assms
  by (auto simp: response_from_str_def Interface_default_def interface_ok_def)

end
