(* ===== verification/Controller.thy ===== *)
theory Controller
  imports Wg_Props Uapi_Parse
begin

text \<open>
  The WireGuard controller (src/src/device/wg_controller.rs): the list of peers that the requested
  state asks for, the choice of the endpoint of every peer, and the difference to the actual peers,
  which is applied to the WireGuard task of \<open>Wg_State\<close>.

  What the controller asks of the other tasks (relay proxy, cross-ping check, upgrade
  synchronisation, session keeper, DNS resolver, post-quantum task, starcast) is the record
  \<open>Entities\<close>; what it tells them is the list \<open>ctl_calls\<close>. A call to another task can fail,
  which ends the consolidation: \<open>call_fails\<close> decides, from the calls made before.
\<close>

section \<open>Configuration\<close>

record PeerBase =
  base_identifier :: string
  base_public_key :: PublicKey
  base_hostname :: string
  base_ip_addresses :: "StdIpAddr list option"
  base_nickname :: "string option"

record MeshPeer =
  mp_base :: PeerBase
  is_local :: bool
  allow_incoming_connections :: bool
  allow_peer_traffic_routing :: bool
  allow_peer_local_network_access :: bool
  allow_peer_send_files :: bool
  allow_multicast :: bool
  peer_allows_multicast :: bool

record Server =
  srv_ipv4 :: u32
  stun_port :: u16
  srv_public_key :: PublicKey

record Config =
  this :: PeerBase
  cfg_peers :: "MeshPeer list option"

record 'n ExitNode =
  exit_identifier :: string
  exit_public_key :: PublicKey
  exit_allowed_ips :: "'n list option"
  exit_endpoint :: "SocketAddr option"

record FeaturePersistentKeepalive =
  ka_vpn :: "u32 option"
  ka_direct :: u32
  ka_proxying :: "u32 option"
  ka_stun :: "u32 option"

record 'n RequestedState =
  rs_private_key :: SecretKey
  rs_fwmark :: "u32 option"
  meshnet_config :: "Config option"
  old_meshnet_config :: "Config option"
  exit_node :: "'n ExitNode option"
  last_exit_node :: "'n ExitNode option"
  upstream_servers :: "StdIpAddr list option"
  wg_stun_server :: "Server option"
  keepalive_periods :: FeaturePersistentKeepalive

text \<open>The features the controller reads; of \<open>batching\<close> it only asks whether it is set.\<close>

record Features =
  ft_ipv6 :: bool
  ft_batching :: bool

abbreviation mp_public_key :: "MeshPeer \<Rightarrow> PublicKey" where
  "mp_public_key p \<equiv> base_public_key (mp_base p)"

section \<open>Other tasks\<close>

datatype EndpointProvider = Local | Stun | Upnp

type_synonym EndpointMap = "PublicKey \<rightharpoonup> SocketAddr list"

record Candidate =
  remote_endpoint :: "SocketAddr \<times> EndpointProvider"
  local_endpoint :: "SocketAddr \<times> EndpointProvider"
  session :: u64
  changed_at :: instant

record 'n Resolver =
  res_public_key :: PublicKey
  res_get_peer :: "'n list \<Rightarrow> 'n Peer"
  default_dns_allowed_ips :: "'n list"
  exit_connected_dns_allowed_ips :: "'n list"

datatype ctl_call =
    WgCall
  | GetEndpointMap
  | GetValidatedEndpoints
  | GetUpgradeRequests
  | GetStarcastPeer
  | NotifyFailedWgConnection PublicKey
  | NotifySuccessfullUpgrade PublicKey
  | RequestUpgrade PublicKey "SocketAddr \<times> EndpointProvider" "SocketAddr \<times> EndpointProvider" u64
  | MutePeer PublicKey duration
  | AddNode PublicKey Target duration
  | RemoveNode PublicKey
  | TriggerDiscovery
  | ReportRelayed AnalyticsEvent
  | ReportDirect AnalyticsEvent EndpointProvider EndpointProvider
  | SetDnsPeerKey PublicKey
  | RestartPq

text \<open>
  The other tasks run on their own, and what they are told changes their state: what they answer
  depends on the calls made before.
\<close>

type_synonym 'r answer = "ctl_call list \<Rightarrow> 'r"

record 'n Entities =
  proxy :: "EndpointMap answer option"
  cross_ping_check :: "(PublicKey \<rightharpoonup> Candidate) answer option"
  upgrade_sync :: "(PublicKey \<rightharpoonup> SocketAddr) answer option"
  accepted_session :: "(PublicKey \<rightharpoonup> EndpointProvider \<times> EndpointProvider) answer"
  session_keeper :: "(PublicKey \<rightharpoonup> u32) answer option"
  resolver :: "'n Resolver option"
  starcast_vpeer :: "'n Peer option"
  remote_peer_states :: "PublicKey \<rightharpoonup> bool"
  is_rotating_keys :: "bool answer"
  pq_keys :: "(SecretKey \<times> PresharedKey) option answer"
  pq_peer_pubkey :: "PublicKey option"

datatype CtlError =
    BadAllowedIps
  | PeerNotFound
  | IpNotSet
  | NetParseError
  | WireGuardError WgError
  | CallFailed ctl_call

record ('n, 'a) ctl_state =
  wireguard :: "('n, 'a) WgState"
  stun_paused :: "bool option"
  upnp_paused :: "bool option"
  ctl_calls :: "ctl_call list"

text \<open>
  The environment: the WireGuard adapter, the text form of networks and their address, the public
  key of a secret key, which calls fail, and the clock readings made while a peer is handled.
\<close>

record ('n, 'a) ctl_env =
  wg_environment :: "('n, 'a) wg_env"
  ctl_text :: "'n wg_text"
  ctl_net_addr :: "'n \<Rightarrow> StdIpAddr"
  secret_public :: "SecretKey \<Rightarrow> PublicKey"
  call_fails :: "ctl_call list \<Rightarrow> ctl_call \<Rightarrow> bool"
  ctl_clk :: "PublicKey \<Rightarrow> wg_clock"
  ctl_now :: "PublicKey \<Rightarrow> instant"

section \<open>Steps that may fail\<close>

type_synonym ('s, 'r) ctl = "'s \<Rightarrow> (CtlError + 'r) \<times> 's"

definition ctl_return :: "'r \<Rightarrow> ('s, 'r) ctl" where
  "ctl_return x s = (Inr x, s)"

definition ctl_fail :: "CtlError \<Rightarrow> ('s, 'r) ctl" where
  "ctl_fail e s = (Inl e, s)"

text \<open>The \<open>?\<close> operator.\<close>

definition ctl_bind :: "('s, 'r) ctl \<Rightarrow> ('r \<Rightarrow> ('s, 't) ctl) \<Rightarrow> ('s, 't) ctl" where
  "ctl_bind m f s = (case m s of (Inl e, s') \<Rightarrow> (Inl e, s') | (Inr x, s') \<Rightarrow> f x s')"

fun ctl_map :: "('x \<Rightarrow> ('s, 'y) ctl) \<Rightarrow> 'x list \<Rightarrow> ('s, 'y list) ctl" where
  "ctl_map f [] = ctl_return []"
| "ctl_map f (x # xs) = ctl_bind (f x) (\<lambda>y. ctl_bind (ctl_map f xs) (\<lambda>ys. ctl_return (y # ys)))"

definition ctl_when :: "bool \<Rightarrow> ('s, unit) ctl \<Rightarrow> ('s, unit) ctl" where
  "ctl_when b m = (if b then m else ctl_return ())"

type_synonym ('n, 'a, 'r) ctl_step = "(('n, 'a) ctl_state, 'r) ctl"

definition ctl_tell :: "ctl_call \<Rightarrow> ('n, 'a, unit) ctl_step" where
  "ctl_tell c s = (Inr (), s\<lparr>ctl_calls := ctl_calls s @ [c]\<rparr>)"

definition ctl_try :: "('n, 'a) ctl_env \<Rightarrow> ctl_call \<Rightarrow> ('n, 'a, unit) ctl_step" where
  "ctl_try E c s =
     (if call_fails E (ctl_calls s) c then (Inl (CallFailed c), s)
      else (Inr (), s\<lparr>ctl_calls := ctl_calls s @ [c]\<rparr>))"

text \<open>A call that returns an answer, and one that cannot fail and changes nothing.\<close>

definition ctl_ask :: "('n, 'a) ctl_env \<Rightarrow> ctl_call \<Rightarrow> 'r answer \<Rightarrow> ('n, 'a, 'r) ctl_step" where
  "ctl_ask E c f s = ctl_bind (ctl_try E c) (\<lambda>_. ctl_return (f (ctl_calls s))) s"

definition ctl_read :: "'r answer \<Rightarrow> ('n, 'a, 'r) ctl_step" where
  "ctl_read f s = (Inr (f (ctl_calls s)), s)"

text \<open>What a task that may be missing answers, by default nothing.\<close>

definition ask_map ::
  "('n, 'a) ctl_env \<Rightarrow> ctl_call \<Rightarrow> ('k \<rightharpoonup> 'v) answer option \<Rightarrow> ('n, 'a, 'k \<rightharpoonup> 'v) ctl_step" where
  "ask_map E c task = (case task of None \<Rightarrow> ctl_return Map.empty | Some f \<Rightarrow> ctl_ask E c f)"

definition ctl_wg ::
  "('n, 'a) ctl_env \<Rightarrow> (('n, 'a) WgState \<Rightarrow> (WgError + 'r) \<times> ('n, 'a) WgState) \<Rightarrow> ('n, 'a, 'r) ctl_step" where
  "ctl_wg E f =
     ctl_bind (ctl_try E WgCall) (\<lambda>_ s.
       case f (wireguard s) of
         (Inl e, w) \<Rightarrow> (Inl (WireGuardError e), s\<lparr>wireguard := w\<rparr>)
       | (Inr x, w) \<Rightarrow> (Inr x, s\<lparr>wireguard := w\<rparr>))"

definition get_interface :: "('n, 'a) ctl_env \<Rightarrow> ('n, 'a, 'n Interface) ctl_step" where
  "get_interface E = ctl_wg E (\<lambda>w. (Inr (wg_interface w), w))"

section \<open>State of a peer and choice of its endpoint\<close>

definition DEFAULT_PEER_UPGRADE_WINDOW :: nat where "DEFAULT_PEER_UPGRADE_WINDOW = 15"

datatype PeerState = PeerDisconnected | Proxying | Upgrading | Direct

record EndpointState =
  local_address :: SocketAddr
  es_session :: u64
  local_type :: EndpointProvider
  remote_type :: EndpointProvider

record 'n RequestedPeer =
  rp_peer :: "'n Peer"
  batching_keepalive_interval :: "u32 option"
  rp_endpoint :: "EndpointState option"

definition is_peer_proxying :: "'n Peer \<Rightarrow> EndpointMap \<Rightarrow> bool" where
  "is_peer_proxying peer proxy_endpoints =
     (case proxy_endpoints (public_key peer) of
        None \<Rightarrow> False
      | Some eps \<Rightarrow> (case endpoint peer of None \<Rightarrow> False | Some ep \<Rightarrow> ep \<in> set eps))"

definition compare_peers :: "'n Peer \<Rightarrow> 'n Peer \<Rightarrow> bool" where
  "compare_peers a b \<longleftrightarrow>
     public_key a = public_key b \<and> endpoint a = endpoint b
     \<and> persistent_keepalive_interval a = persistent_keepalive_interval b
     \<and> allowed_ips a = allowed_ips b \<and> preshared_key a = preshared_key b"

text \<open>The product of the keepalive period with 3 wraps at 32 bits.\<close>

definition ctl_peer_state ::
  "'n Peer option \<Rightarrow> duration option \<Rightarrow> duration option \<Rightarrow> LinkState option \<Rightarrow> SocketAddr list
     \<Rightarrow> 'n RequestedState \<Rightarrow> PeerState" where
  "ctl_peer_state peer last_rx last_endpoint_change link proxy_endpoints rs =
     (let keepalive_period =
            (case peer of
               None \<Rightarrow> ka_direct (keepalive_periods rs)
             | Some p \<Rightarrow> (case persistent_keepalive_interval p of
                             None \<Rightarrow> ka_direct (keepalive_periods rs)
                           | Some n \<Rightarrow> n));
          peer_connectivity_timeout = from_secs (unat (keepalive_period * 3));
          peer_upgrade_window = from_secs DEFAULT_PEER_UPGRADE_WINDOW
      in case (peer, last_endpoint_change, last_rx) of
           (Some p, Some change, Some rx) \<Rightarrow>
             let is_proxying = (case endpoint p of None \<Rightarrow> False | Some ep \<Rightarrow> ep \<in> set proxy_endpoints);
                 is_in_upgrade_window = change < peer_upgrade_window;
                 has_contact =
                   (case link of
                      Some l \<Rightarrow> if rx > from_secs 180 then False else l \<noteq> Down
                    | None \<Rightarrow> rx < peer_connectivity_timeout)
             in if \<not> has_contact then PeerDisconnected
                else if is_proxying then Proxying
                else if is_in_upgrade_window then Upgrading
                else Direct
         | _ \<Rightarrow> PeerDisconnected)"

definition first_of :: "'x list \<Rightarrow> 'x option" where
  "first_of xs = (case xs of [] \<Rightarrow> None | x # _ \<Rightarrow> Some x)"

definition select_endpoint_for_peer ::
  "'n Peer option \<Rightarrow> PeerState \<Rightarrow> Candidate option \<Rightarrow> SocketAddr list \<Rightarrow> SocketAddr option
     \<Rightarrow> SocketAddr option \<times> EndpointState option" where
  "select_endpoint_for_peer actual_peer st checked_endpoint proxy_endpoint upgrade_request_endpoint =
     (let actual_endpoint = (case actual_peer of None \<Rightarrow> None | Some p \<Rightarrow> endpoint p) in
      case upgrade_request_endpoint of
        Some upgrade \<Rightarrow>
          (case actual_endpoint of
             Some ep \<Rightarrow>
               if (st = Upgrading \<or> st = Direct) \<and> ep \<notin> set proxy_endpoint
               then (actual_endpoint, None) else (Some upgrade, None)
           | None \<Rightarrow> (Some upgrade, None))
      | None \<Rightarrow>
          (case st of
             PeerDisconnected \<Rightarrow> (first_of proxy_endpoint, None)
           | Proxying \<Rightarrow>
               (case checked_endpoint of
                  None \<Rightarrow> (first_of proxy_endpoint, None)
                | Some c \<Rightarrow>
                    (Some (fst (remote_endpoint c)),
                     Some \<lparr>local_address = fst (local_endpoint c), es_session = session c,
                           local_type = snd (local_endpoint c), remote_type = snd (remote_endpoint c)\<rparr>))
           | Upgrading \<Rightarrow> (actual_endpoint, None)
           | Direct \<Rightarrow> (actual_endpoint, None)))"

section \<open>Addresses of the peers\<close>

text \<open>The addresses of a peer that are not taken yet, and the addresses taken afterwards.\<close>

fun free_ips :: "StdIpAddr list \<Rightarrow> StdIpAddr list \<Rightarrow> StdIpAddr list \<times> StdIpAddr list" where
  "free_ips [] occupied = ([], occupied)"
| "free_ips (ip # ips) occupied =
     (if ip \<in> set occupied then free_ips ips occupied
      else let (free, occupied') = free_ips ips (occupied @ [ip]) in (ip # free, occupied'))"

definition process_ips_for_peer ::
  "MeshPeer \<Rightarrow> (PublicKey \<rightharpoonup> StdIpAddr list) \<times> StdIpAddr list \<Rightarrow> (PublicKey \<rightharpoonup> StdIpAddr list) \<times> StdIpAddr list" where
  "process_ips_for_peer peer st =
     (case base_ip_addresses (mp_base peer) of
        None \<Rightarrow> st
      | Some ips \<Rightarrow>
          let (free, occupied) = free_ips ips (snd st) in ((fst st)(mp_public_key peer \<mapsto> free), occupied))"

definition deduplicate_peer_ips :: "MeshPeer list \<Rightarrow> (PublicKey \<rightharpoonup> StdIpAddr list)" where
  "deduplicate_peer_ips ps =
     (let external_peers = filter (\<lambda>p. \<not> is_local p) ps in
      fst (fold process_ips_for_peer external_peers
        (fold process_ips_for_peer (filter is_local ps) (Map.empty, []))))"

section \<open>Peers of the meshnet\<close>

definition keepalives :: "Features \<Rightarrow> u32 option \<Rightarrow> u32 option \<times> u32 option" where
  "keepalives ft period = (if ft_batching ft then (None, period) else (period, None))"

definition mesh_allowed_ips :: "'n ipnet_ops \<Rightarrow> Features \<Rightarrow> StdIpAddr list \<Rightarrow> 'n list" where
  "mesh_allowed_ips N ft ips =
     List.map_filter (\<lambda>ip. case ip of
         V4 _ \<Rightarrow> net_new N ip 32
       | V6 _ \<Rightarrow> if ft_ipv6 ft then net_new N ip 128 else None) ips"

definition mesh_peer ::
  "'n ipnet_ops \<Rightarrow> 'n RequestedState \<Rightarrow> Features \<Rightarrow> EndpointMap \<Rightarrow> (PublicKey \<rightharpoonup> StdIpAddr list)
     \<Rightarrow> PublicKey \<Rightarrow> 'n RequestedPeer" where
  "mesh_peer N rs ft proxy_endpoints ips pk =
     (let (persistent, batching) = keepalives ft (ka_proxying (keepalive_periods rs));
          own = (case ips pk of None \<Rightarrow> [] | Some xs \<Rightarrow> xs)
      in \<lparr>rp_peer = Peer_default\<lparr>public_key := pk,
             endpoint := (case proxy_endpoints pk of None \<Rightarrow> None | Some eps \<Rightarrow> first_of eps),
             peer_ip_addresses := own, persistent_keepalive_interval := persistent,
             allowed_ips := mesh_allowed_ips N ft own\<rparr>,
          batching_keepalive_interval = batching, rp_endpoint = None\<rparr>)"

text \<open>The addresses of a key are taken out of the map by the first peer that has it.\<close>

fun mesh_peers ::
  "'n ipnet_ops \<Rightarrow> 'n RequestedState \<Rightarrow> Features \<Rightarrow> EndpointMap \<Rightarrow> (PublicKey \<rightharpoonup> StdIpAddr list)
     \<Rightarrow> MeshPeer list \<Rightarrow> (PublicKey \<times> 'n RequestedPeer) list" where
  "mesh_peers N rs ft eps ips [] = []"
| "mesh_peers N rs ft eps ips (p # ps) =
     (mp_public_key p, mesh_peer N rs ft eps ips (mp_public_key p))
     # mesh_peers N rs ft eps (ips(mp_public_key p := None)) ps"

definition min_time :: "duration option \<Rightarrow> duration option \<Rightarrow> duration option" where
  "min_time a b =
     (case (a, b) of
        (Some rx, Some hs) \<Rightarrow> Some (min rx hs)
      | (Some rx, None) \<Rightarrow> Some rx
      | (None, Some hs) \<Rightarrow> Some hs
      | (None, None) \<Rightarrow> None)"

definition list_of :: "'x list option \<Rightarrow> 'x list" where
  "list_of xo = (case xo of None \<Rightarrow> [] | Some xs \<Rightarrow> xs)"

definition refine_mesh_peer ::
  "('n, 'a) ctl_env \<Rightarrow> 'n Entities \<Rightarrow> 'n RequestedState \<Rightarrow> Features \<Rightarrow> EndpointMap
     \<Rightarrow> (PublicKey, 'n Peer) btree_map \<Rightarrow> (PublicKey \<rightharpoonup> Candidate) \<Rightarrow> (PublicKey \<rightharpoonup> SocketAddr)
     \<Rightarrow> PublicKey \<times> 'n RequestedPeer \<Rightarrow> ('n, 'a, PublicKey \<times> 'n RequestedPeer) ctl_step" where
  "refine_mesh_peer E ent rs ft proxy_endpoints actual_peers checked upgrades = (\<lambda>(pk, rp).
     let actual_peer = map_of actual_peers pk;
         since_change = (case actual_peer of
                           None \<Rightarrow> None
                         | Some p \<Rightarrow> map_option (\<lambda>(t, _). ctl_now E pk - t) (endpoint_changed_at p));
         eps = list_of (proxy_endpoints pk)
     in ctl_bind (ctl_wg E (\<lambda>w. (Inr (wg_time_since_last_rx w pk (ctl_now E pk)), w))) (\<lambda>rx.
        let last_rx = min_time rx (case actual_peer of None \<Rightarrow> None | Some p \<Rightarrow> time_since_last_handshake p) in
        ctl_bind (ctl_wg E (\<lambda>w. (Inr (wg_get_link_state w pk), w))) (\<lambda>link.
        let st = ctl_peer_state actual_peer last_rx since_change link eps rs in
        ctl_bind (ctl_when (st = Direct \<and> cross_ping_check ent \<noteq> None)
                    (ctl_try E (NotifySuccessfullUpgrade pk))) (\<lambda>_.
        let (remote, own) = select_endpoint_for_peer actual_peer st (checked pk) eps (upgrades pk);
            peer = (rp_peer rp)\<lparr>endpoint := remote\<rparr>;
            interval =
              (if is_peer_proxying peer proxy_endpoints
               then (if remote_peer_states ent (public_key peer) = Some False then None
                     else ka_proxying (keepalive_periods rs))
               else Some (ka_direct (keepalive_periods rs)));
            (persistent, batching) = keepalives ft interval
        in ctl_return (pk, \<lparr>rp_peer = peer\<lparr>persistent_keepalive_interval := persistent\<rparr>,
                            batching_keepalive_interval = batching, rp_endpoint = own\<rparr>)))))"

definition build_requested_meshnet_peers_list ::
  "('n, 'a) ctl_env \<Rightarrow> 'n Entities \<Rightarrow> 'n RequestedState \<Rightarrow> Features \<Rightarrow> EndpointMap
     \<Rightarrow> ('n, 'a, (PublicKey, 'n RequestedPeer) btree_map) ctl_step" where
  "build_requested_meshnet_peers_list E ent rs ft proxy_endpoints =
     (case meshnet_config rs of
        None \<Rightarrow> ctl_return []
      | Some cfg \<Rightarrow>
          (case cfg_peers cfg of
             None \<Rightarrow> ctl_return []
           | Some ps \<Rightarrow>
               let requested = btm_collect (mesh_peers (wg_nets (wg_environment E)) rs ft proxy_endpoints
                                              (deduplicate_peer_ips ps) ps)
               in ctl_bind (get_interface E) (\<lambda>ifc.
                  ctl_bind (ask_map E GetValidatedEndpoints (cross_ping_check ent)) (\<lambda>checked.
                  ctl_bind (ask_map E GetUpgradeRequests (upgrade_sync ent)) (\<lambda>upgrades.
                  ctl_map (refine_mesh_peer E ent rs ft proxy_endpoints (peers ifc) checked upgrades) requested)))))"

section \<open>All requested peers\<close>

definition VPN_INTERNAL_IPV4 :: u32 where "VPN_INTERNAL_IPV4 = 0x64400001"
definition VPN_INTERNAL_IPV6 :: u128 where "VPN_INTERNAL_IPV6 = 0xfd74656c696f00000000000000000001"
definition VPN_EXTERNAL_IPV4 :: u32 where "VPN_EXTERNAL_IPV4 = 0x0a050001"

definition parse_net :: "('n, 'a) ctl_env \<Rightarrow> string \<Rightarrow> ('n, 'a, 'n) ctl_step" where
  "parse_net E text =
     (case net_from_str (ctl_text E) text of Inl _ \<Rightarrow> ctl_fail NetParseError | Inr n \<Rightarrow> ctl_return n)"

definition is_ipv4 :: "StdIpAddr \<Rightarrow> bool" where
  "is_ipv4 a = (case a of V4 _ \<Rightarrow> True | V6 _ \<Rightarrow> False)"

type_synonym 'n requested_peers = "(PublicKey, 'n RequestedPeer) btree_map"

text \<open>
  The exit node: a peer of the meshnet gets its networks, any other node becomes a peer unless the
  post-quantum keys are not ready.
\<close>

definition add_exit_node ::
  "Features \<Rightarrow> bool \<Rightarrow> (SecretKey \<times> PresharedKey) option \<Rightarrow> 'n RequestedState \<Rightarrow> 'n ExitNode \<Rightarrow> 'n list
     \<Rightarrow> 'n requested_peers \<Rightarrow> 'n requested_peers \<times> bool" where
  "add_exit_node ft rotating keys rs exit networks requested =
     (case map_of requested (exit_public_key exit) of
        Some rp \<Rightarrow>
          (btm_insert (exit_public_key exit) (rp\<lparr>rp_peer := (rp_peer rp)\<lparr>allowed_ips := networks\<rparr>\<rparr>) requested, True)
      | None \<Rightarrow>
          let (persistent, batching) = keepalives ft (ka_vpn (keepalive_periods rs));
              addresses = [V4 VPN_INTERNAL_IPV4] @ (if ft_ipv6 ft then [V6 VPN_INTERNAL_IPV6] else [])
                @ [V4 VPN_EXTERNAL_IPV4]
          in if rotating \<and> keys = None then (requested, False)
             else (btm_insert (exit_public_key exit)
                     \<lparr>rp_peer = Peer_default\<lparr>public_key := exit_public_key exit, endpoint := exit_endpoint exit,
                        peer_ip_addresses := addresses, persistent_keepalive_interval := persistent,
                        allowed_ips := networks, preshared_key := map_option snd keys\<rparr>,
                      batching_keepalive_interval = batching, rp_endpoint = None\<rparr> requested, False))"

definition add_internal_peer :: "'n Peer \<Rightarrow> 'n requested_peers \<Rightarrow> 'n requested_peers" where
  "add_internal_peer peer requested =
     btm_insert (public_key peer)
       \<lparr>rp_peer = peer, batching_keepalive_interval = None, rp_endpoint = None\<rparr> requested"

definition add_dns_peer ::
  "('n, 'a) ctl_env \<Rightarrow> 'n Entities \<Rightarrow> 'n RequestedState \<Rightarrow> bool \<Rightarrow> 'n requested_peers \<Rightarrow> 'n requested_peers" where
  "add_dns_peer E ent rs exit_node_exists requested =
     (case (upstream_servers rs, resolver ent) of
        (Some _, Some res) \<Rightarrow>
          let dns_peer = res_get_peer res (if exit_node_exists then exit_connected_dns_allowed_ips res
                                           else default_dns_allowed_ips res)
          in add_internal_peer (dns_peer\<lparr>peer_ip_addresses := map (ctl_net_addr E) (allowed_ips dns_peer)\<rparr>) requested
      | _ \<Rightarrow> requested)"

definition add_stun_peer ::
  "('n, 'a) ctl_env \<Rightarrow> 'n RequestedState \<Rightarrow> Features \<Rightarrow> Server \<Rightarrow> 'n requested_peers
     \<Rightarrow> ('n, 'a, 'n requested_peers) ctl_step" where
  "add_stun_peer E rs ft srv requested =
     (let (persistent, batching) = keepalives ft (ka_stun (keepalive_periods rs)) in
      ctl_bind (parse_net E ''100.64.0.4/32'') (\<lambda>net4.
      ctl_bind (if ft_ipv6 ft
                then ctl_bind (parse_net E ''fd74:656c:696f::4/128'') (\<lambda>net6. ctl_return [net4, net6])
                else ctl_return [net4]) (\<lambda>networks.
      ctl_return (btm_insert (srv_public_key srv)
        \<lparr>rp_peer = Peer_default\<lparr>public_key := srv_public_key srv,
             endpoint := Some (SockV4 (srv_ipv4 srv) (stun_port srv)),
             peer_ip_addresses := map (ctl_net_addr E) networks,
             persistent_keepalive_interval := persistent, allowed_ips := networks\<rparr>,
         batching_keepalive_interval = batching, rp_endpoint = None\<rparr> requested))))"

definition maybe_add_stun_peer ::
  "('n, 'a) ctl_env \<Rightarrow> 'n RequestedState \<Rightarrow> Features \<Rightarrow> 'n requested_peers \<Rightarrow> ('n, 'a, 'n requested_peers) ctl_step" where
  "maybe_add_stun_peer E rs ft requested s =
     (case (wg_stun_server rs, stun_paused s) of
        (Some srv, Some False) \<Rightarrow> add_stun_peer E rs ft srv requested s
      | _ \<Rightarrow> (Inr requested, s))"

definition request_exit_node ::
  "('n, 'a) ctl_env \<Rightarrow> 'n Entities \<Rightarrow> 'n RequestedState \<Rightarrow> Features \<Rightarrow> 'n requested_peers
     \<Rightarrow> ('n, 'a, 'n requested_peers \<times> bool) ctl_step" where
  "request_exit_node E ent rs ft requested =
     (case exit_node rs of
        None \<Rightarrow> ctl_return (requested, False)
      | Some exit \<Rightarrow>
          ctl_bind (parse_net E ''0.0.0.0/0'') (\<lambda>all4.
          ctl_bind (parse_net E ''::/0'') (\<lambda>all6.
          let networks = filter (\<lambda>n. ft_ipv6 ft \<or> is_ipv4 (ctl_net_addr E n))
                (case exit_allowed_ips exit of None \<Rightarrow> [all4, all6] | Some ns \<Rightarrow> ns)
          in ctl_bind (ctl_read (is_rotating_keys ent)) (\<lambda>rotating.
             ctl_bind (ctl_read (pq_keys ent)) (\<lambda>keys.
             ctl_return (add_exit_node ft rotating keys rs exit networks requested))))))"

definition request_starcast_peer ::
  "('n, 'a) ctl_env \<Rightarrow> 'n Entities \<Rightarrow> 'n requested_peers \<Rightarrow> ('n, 'a, 'n requested_peers) ctl_step" where
  "request_starcast_peer E ent requested =
     (case starcast_vpeer ent of
        None \<Rightarrow> ctl_return requested
      | Some peer \<Rightarrow>
          ctl_bind (ctl_try E GetStarcastPeer) (\<lambda>_. ctl_return (add_internal_peer peer requested)))"

definition build_requested_peers_list ::
  "('n, 'a) ctl_env \<Rightarrow> 'n Entities \<Rightarrow> 'n RequestedState \<Rightarrow> Features \<Rightarrow> EndpointMap
     \<Rightarrow> ('n, 'a, 'n requested_peers) ctl_step" where
  "build_requested_peers_list E ent rs ft proxy_endpoints =
     ctl_bind (build_requested_meshnet_peers_list E ent rs ft proxy_endpoints) (\<lambda>mesh.
     ctl_bind (request_exit_node E ent rs ft mesh) (\<lambda>(with_exit, exit_node_exists).
     ctl_bind (request_starcast_peer E ent (add_dns_peer E ent rs exit_node_exists with_exit)) (\<lambda>with_starcast.
     maybe_add_stun_peer E rs ft with_starcast)))"

fun ips_disjoint :: "'n set \<Rightarrow> 'n list list \<Rightarrow> bool" where
  "ips_disjoint all_allowed_ips [] = True"
| "ips_disjoint all_allowed_ips (ips # rest) =
     (all_allowed_ips \<inter> set ips = {} \<and> ips_disjoint (all_allowed_ips \<union> set ips) rest)"

definition check_allowed_ips_correctness :: "'n requested_peers \<Rightarrow> ('s, unit) ctl" where
  "check_allowed_ips_correctness requested =
     (if ips_disjoint {} (map (\<lambda>(_, rp). allowed_ips (rp_peer rp)) requested)
      then ctl_return () else ctl_fail BadAllowedIps)"

section \<open>Applying the requested peers\<close>

definition peer_event :: "PublicKey \<Rightarrow> 'n Peer \<Rightarrow> NodeState \<Rightarrow> instant \<Rightarrow> AnalyticsEvent" where
  "peer_event key peer st now =
     \<lparr>an_public_key = key, dual_ip_addresses = get_dual_ip_addresses peer,
      an_tx_bytes = (case tx_bytes peer of None \<Rightarrow> 0 | Some n \<Rightarrow> n),
      an_rx_bytes = (case rx_bytes peer of None \<Rightarrow> 0 | Some n \<Rightarrow> n),
      an_peer_state = st, an_timestamp = now\<rparr>"

definition ctl_add_peer :: "('n, 'a) ctl_env \<Rightarrow> PublicKey \<Rightarrow> 'n Peer \<Rightarrow> ('n, 'a, unit) ctl_step" where
  "ctl_add_peer E key peer = ctl_wg E (\<lambda>w. wg_add_peer (wg_environment E) (ctl_clk E key) w peer)"

definition ctl_del_peer :: "('n, 'a) ctl_env \<Rightarrow> PublicKey \<Rightarrow> ('n, 'a, unit) ctl_step" where
  "ctl_del_peer E key = ctl_wg E (\<lambda>w. (Inr (), wg_del_peer (wg_environment E) (ctl_clk E key) w key))"

text \<open>A node without address is not kept alive.\<close>

definition keep_alive ::
  "('n, 'a) ctl_env \<Rightarrow> Features \<Rightarrow> PublicKey \<Rightarrow> StdIpAddr list \<Rightarrow> u32 \<Rightarrow> ('n, 'a, unit) ctl_step" where
  "keep_alive E ft key addresses interval =
     (let target = build_ping_endpoint addresses (ft_ipv6 ft) in
      ctl_when (fst target \<noteq> None \<or> snd target \<noteq> None)
        (ctl_try E (AddNode key target (from_secs (unat interval)))))"

definition delete_peer ::
  "('n, 'a) ctl_env \<Rightarrow> 'n Entities \<Rightarrow> (PublicKey, 'n Peer) btree_map \<Rightarrow> PublicKey \<Rightarrow> ('n, 'a, unit) ctl_step" where
  "delete_peer E ent actual_peers key =
     (case map_of actual_peers key of
        None \<Rightarrow> ctl_fail PeerNotFound
      | Some actual_peer \<Rightarrow>
          ctl_bind (ctl_tell (ReportRelayed (peer_event key actual_peer Disconnected (ctl_now E key)))) (\<lambda>_.
          ctl_bind (ctl_del_peer E key) (\<lambda>_.
          ctl_when (session_keeper ent \<noteq> None) (ctl_try E (RemoveNode key)))))"

definition insert_peer ::
  "('n, 'a) ctl_env \<Rightarrow> 'n Entities \<Rightarrow> 'n RequestedState \<Rightarrow> Features \<Rightarrow> 'n requested_peers \<Rightarrow> PublicKey
     \<Rightarrow> ('n, 'a, unit) ctl_step" where
  "insert_peer E ent rs ft requested key =
     (case map_of requested key of
        None \<Rightarrow> ctl_fail PeerNotFound
      | Some rp \<Rightarrow>
          ctl_bind (ctl_add_peer E key (rp_peer rp)) (\<lambda>_.
          ctl_bind (case (session_keeper ent, batching_keepalive_interval rp) of
                      (Some _, Some interval) \<Rightarrow> keep_alive E ft key (peer_ip_addresses (rp_peer rp)) interval
                    | _ \<Rightarrow> ctl_return ()) (\<lambda>_.
          (\<lambda>s. ctl_when (stun_paused s \<noteq> None \<and> map_option srv_public_key (wg_stun_server rs) = Some key)
                 (ctl_try E TriggerDiscovery) s))))"

text \<open>What follows an upgrade to a direct connection.\<close>

definition announce_upgrade ::
  "('n, 'a) ctl_env \<Rightarrow> 'n Entities \<Rightarrow> 'n RequestedState \<Rightarrow> Features \<Rightarrow> 'n RequestedPeer \<Rightarrow> ('n, 'a, unit) ctl_step" where
  "announce_upgrade E ent rs ft rp =
     (let peer = rp_peer rp; pk = public_key peer in
      ctl_bind (case (endpoint peer, rp_endpoint rp, upgrade_sync ent) of
                  (Some remote, Some ep, Some _) \<Rightarrow>
                    ctl_try E (RequestUpgrade pk (remote, remote_type ep) (local_address ep, local_type ep) (es_session ep))
                | _ \<Rightarrow> ctl_return ()) (\<lambda>_.
      ctl_bind (ctl_when (proxy ent \<noteq> None)
                  (ctl_try E (MutePeer pk (from_secs DEFAULT_PEER_UPGRADE_WINDOW)))) (\<lambda>_.
      ctl_when (\<not> ft_batching ft \<and> session_keeper ent \<noteq> None)
        (keep_alive E ft pk (peer_ip_addresses peer)
           (case persistent_keepalive_interval peer of
              None \<Rightarrow> ka_direct (keepalive_periods rs) | Some n \<Rightarrow> n)))))"

text \<open>The session keeper of a peer that stays.\<close>

definition update_keepalive ::
  "('n, 'a) ctl_env \<Rightarrow> 'n Entities \<Rightarrow> Features \<Rightarrow> EndpointMap \<Rightarrow> PublicKey \<Rightarrow> 'n RequestedPeer \<Rightarrow> 'n Peer
     \<Rightarrow> ('n, 'a, unit) ctl_step" where
  "update_keepalive E ent ft proxy_endpoints key rp actual_peer =
     (let actual_proxying = is_peer_proxying actual_peer proxy_endpoints;
          requested_proxying = is_peer_proxying (rp_peer rp) proxy_endpoints;
          addresses = peer_ip_addresses (rp_peer rp)
      in case session_keeper ent of
           None \<Rightarrow> ctl_return ()
         | Some intervals \<Rightarrow>
             if \<not> actual_proxying \<and> requested_proxying \<and> \<not> ft_batching ft
             then ctl_try E (RemoveNode key)
             else (case batching_keepalive_interval rp of
                     None \<Rightarrow> ctl_return ()
                   | Some interval \<Rightarrow>
                       ctl_bind (ctl_read intervals) (\<lambda>kept.
                       ctl_when (kept key \<noteq> Some interval \<or> addresses \<noteq> peer_ip_addresses actual_peer
                                 \<or> actual_proxying \<noteq> requested_proxying)
                         (keep_alive E ft key addresses interval))))"

text \<open>What is reported of a peer that stays.\<close>

definition report_peer ::
  "('n, 'a) ctl_env \<Rightarrow> 'n Entities \<Rightarrow> EndpointMap \<Rightarrow> PublicKey \<Rightarrow> 'n Peer \<Rightarrow> ('n, 'a, unit) ctl_step" where
  "report_peer E ent proxy_endpoints key actual_peer =
     (let event = peer_event key actual_peer (peer_state actual_peer) (ctl_now E key) in
      if is_peer_proxying actual_peer proxy_endpoints then ctl_tell (ReportRelayed event)
      else if upgrade_sync ent = None then ctl_return ()
      else ctl_bind (ctl_read (accepted_session ent)) (\<lambda>accepted.
           case accepted key of
             None \<Rightarrow> ctl_return ()
           | Some (local_ep, remote_ep) \<Rightarrow> ctl_tell (ReportDirect event local_ep remote_ep)))"

definition update_peer ::
  "('n, 'a) ctl_env \<Rightarrow> 'n Entities \<Rightarrow> 'n RequestedState \<Rightarrow> Features \<Rightarrow> EndpointMap
     \<Rightarrow> (PublicKey, 'n Peer) btree_map \<Rightarrow> 'n requested_peers \<Rightarrow> PublicKey \<Rightarrow> ('n, 'a, unit) ctl_step" where
  "update_peer E ent rs ft proxy_endpoints actual_peers requested key =
     (case (map_of requested key, map_of actual_peers key) of
        (Some rp, Some actual_peer) \<Rightarrow>
          ctl_bind (ctl_when (\<not> compare_peers (rp_peer rp) actual_peer) (ctl_add_peer E key (rp_peer rp))) (\<lambda>_.
          ctl_bind (update_keepalive E ent ft proxy_endpoints key rp actual_peer) (\<lambda>_.
          ctl_bind (report_peer E ent proxy_endpoints key actual_peer) (\<lambda>_.
          ctl_when (is_peer_proxying actual_peer proxy_endpoints \<and> \<not> is_peer_proxying (rp_peer rp) proxy_endpoints)
            (announce_upgrade E ent rs ft rp))))
      | _ \<Rightarrow> ctl_fail PeerNotFound)"

text \<open>The providers of direct endpoints are paused unless a connected peer is relayed.\<close>

definition control_providers :: "bool \<Rightarrow> ('n, 'a, unit) ctl_step" where
  "control_providers eligible s =
     (Inr (), s\<lparr>stun_paused := map_option (\<lambda>_. \<not> eligible) (stun_paused s),
                upnp_paused := map_option (\<lambda>_. \<not> eligible) (upnp_paused s)\<rparr>)"

definition apply_requested_peers ::
  "('n, 'a) ctl_env \<Rightarrow> 'n Entities \<Rightarrow> 'n RequestedState \<Rightarrow> Features \<Rightarrow> EndpointMap
     \<Rightarrow> (PublicKey, 'n Peer) btree_map \<Rightarrow> 'n requested_peers \<Rightarrow> ('n, 'a, unit) ctl_step" where
  "apply_requested_peers E ent rs ft proxy_endpoints actual_peers requested =
     (let order = hash_order (wg_environment E);
          requested_keys = btm_keys requested; actual_keys = btm_keys actual_peers
      in ctl_bind (for_each (delete_peer E ent actual_peers) (order (actual_keys - requested_keys))) (\<lambda>_.
         ctl_bind (for_each (insert_peer E ent rs ft requested) (order (requested_keys - actual_keys))) (\<lambda>_.
         for_each (update_peer E ent rs ft proxy_endpoints actual_peers requested)
           (order (requested_keys \<inter> actual_keys)))))"

definition consolidate_wg_peers ::
  "('n, 'a) ctl_env \<Rightarrow> 'n Entities \<Rightarrow> 'n RequestedState \<Rightarrow> Features \<Rightarrow> ('n, 'a, unit) ctl_step" where
  "consolidate_wg_peers E ent rs ft =
     ctl_bind (ask_map E GetEndpointMap (proxy ent)) (\<lambda>proxy_endpoints.
     ctl_bind (get_interface E) (\<lambda>ifc.
     ctl_bind (control_providers (list_ex (\<lambda>(_, p). is_peer_proxying p proxy_endpoints \<and> peer_state p = Connected)
                 (peers ifc))) (\<lambda>_.
     ctl_bind (build_requested_peers_list E ent rs ft proxy_endpoints) (\<lambda>requested.
     ctl_bind (check_allowed_ips_correctness requested) (\<lambda>_.
     apply_requested_peers E ent rs ft proxy_endpoints (peers ifc) requested)))))"

section \<open>Keys, marks and endpoints\<close>

definition consolidate_wg_private_key ::
  "('n, 'a) ctl_env \<Rightarrow> 'n Entities \<Rightarrow> 'n RequestedState \<Rightarrow> ('n, 'a, unit) ctl_step" where
  "consolidate_wg_private_key E ent rs =
     ctl_bind (ctl_read (pq_keys ent)) (\<lambda>keys.
     let key = (case keys of Some (wg_secret, _) \<Rightarrow> wg_secret | None \<Rightarrow> rs_private_key rs) in
     ctl_bind (get_interface E) (\<lambda>ifc.
     ctl_when (private_key ifc \<noteq> Some key)
       (ctl_bind (ctl_wg E (\<lambda>w. (Inr (), wg_set_secret_key (wg_environment E) (ctl_clk E no_key) w key))) (\<lambda>_.
        ctl_when (resolver ent \<noteq> None) (ctl_tell (SetDnsPeerKey (secret_public E key)))))))"

definition consolidate_wg_fwmark :: "('n, 'a) ctl_env \<Rightarrow> 'n RequestedState \<Rightarrow> ('n, 'a, unit) ctl_step" where
  "consolidate_wg_fwmark E rs =
     (let requested_fwmark = (case rs_fwmark rs of None \<Rightarrow> 0 | Some n \<Rightarrow> n) in
      ctl_bind (get_interface E) (\<lambda>ifc.
      ctl_when (fwmark ifc \<noteq> requested_fwmark)
        (ctl_wg E (\<lambda>w. (Inr (), wg_set_fwmark (wg_environment E) (ctl_clk E no_key) w requested_fwmark)))))"

definition should_invalidate :: "'n Peer \<Rightarrow> EndpointMap \<Rightarrow> Candidate option \<Rightarrow> bool" where
  "should_invalidate peer proxy_endpoints published =
     (case (endpoint_changed_at peer, published) of
        (Some (changed, reason), Some c) \<Rightarrow>
          changed_at c < changed \<and> (is_peer_proxying peer proxy_endpoints \<or> reason = Pull)
      | _ \<Rightarrow> False)"

text \<open>A failure to report is only logged.\<close>

definition consolidate_endpoint_invalidation ::
  "('n, 'a) ctl_env \<Rightarrow> 'n Entities \<Rightarrow> ('n, 'a, unit) ctl_step" where
  "consolidate_endpoint_invalidation E ent =
     (case (proxy ent, cross_ping_check ent) of
        (Some endpoint_map, Some validated) \<Rightarrow>
          ctl_bind (ctl_ask E GetEndpointMap endpoint_map) (\<lambda>proxy_endpoints.
          ctl_bind (ctl_ask E GetValidatedEndpoints validated) (\<lambda>checked.
          ctl_bind (get_interface E) (\<lambda>ifc.
          for_each (\<lambda>(pk, peer).
            ctl_when (should_invalidate peer proxy_endpoints (checked pk))
              (\<lambda>s. (Inr (), snd (ctl_try E (NotifyFailedWgConnection pk) s)))) (peers ifc))))
      | _ \<Rightarrow> ctl_return ())"

definition maybe_restart_pq :: "('n, 'a) ctl_env \<Rightarrow> 'n Entities \<Rightarrow> ('n, 'a, unit) ctl_step" where
  "maybe_restart_pq E ent s =
     (case pq_peer_pubkey ent of
        None \<Rightarrow> (Inr (), s)
      | Some pubkey \<Rightarrow>
          (case get_interface E s of
             (Inl _, s') \<Rightarrow> (Inr (), s')
           | (Inr ifc, s') \<Rightarrow>
               (case find (\<lambda>(_, p). public_key p = pubkey) (peers ifc) of
                  Some (_, p) \<Rightarrow>
                    ctl_when (time_since_last_handshake p = None) (ctl_tell RestartPq) s'
                | None \<Rightarrow> (Inr (), s'))))"

end
