(* ===== verification/Controller_Props.thy ===== *)
theory Controller_Props
  imports Controller Wg_Theorems
begin

text \<open>
  What a consolidation of the peers does to the WireGuard interface: the configuration of the peers
  (endpoint, networks, preshared key, keepalive) as a map, the effect of the operations of the
  WireGuard task on it, and the loops of the controller.
\<close>

section \<open>Configuration of the interface\<close>

type_synonym 'n wg_conf = "SocketAddr option \<times> 'n list \<times> PresharedKey option \<times> u32 option"

definition peer_conf :: "'n Peer \<Rightarrow> 'n wg_conf" where
  "peer_conf p = (endpoint p, allowed_ips p, preshared_key p, persistent_keepalive_interval p)"

definition wg_config :: "'n Interface \<Rightarrow> PublicKey \<rightharpoonup> 'n wg_conf" where
  "wg_config i k = map_option peer_conf (map_of (peers i) k)"

lemma wg_config_map:
  "(\<And>k p. peer_conf (f k p) = peer_conf p) \<Longrightarrow> wg_config (i\<lparr>peers := btm_map f ps\<rparr>) = wg_config (i\<lparr>peers := ps\<rparr>)"
  by (auto simp: wg_config_def lookup_simps option.map_comp comp_def)

lemma carry_over_config [simp]: "wg_config (carry_over i to) = wg_config to"
  by (simp add: carry_over_def wg_config_map peer_conf_def Let_def)

lemma timestamps_config [simp]:
  "wg_config (update_endpoint_change_timestamps s diff reason clk to) = wg_config to"
  by (simp add: update_endpoint_change_timestamps_def wg_config_map peer_conf_def Let_def)

lemma refresh_stats_config:
  "map_option peer_conf (map_of (fst (refresh_stats clk ps s)) k) = map_option peer_conf (map_of ps k)"
proof (induction clk ps s rule: refresh_stats.induct)
  case (2 clk pk peer ps s)
  then show ?case
    by (cases "refresh_peer_stats clk pk peer s")
      (auto simp: case_prod_beta refresh_peer_stats_def Let_def peer_conf_def)
qed simp

lemma same_interface_config:
  assumes "interface_ok a" "interface_ok b" "is_same_interface a b"
  shows "wg_config a = wg_config b"
proof
  fix k
  have keys: "btm_keys (peers a) = btm_keys (peers b)"
    using wg_adapter.same_interface_keys [OF linux.wg_adapter_axioms assms] .
  show "wg_config a k = wg_config b k"
  proof (cases "map_of (peers a) k")
    case None
    with keys show ?thesis using btm_get_None [of "peers b" k] by (simp add: wg_config_def del: btm_get_None) (simp add: keys)
  next
    case (Some p)
    then have "(k, p) \<in> set (peers a)" by (rule map_of_SomeD)
    with assms(3) have "case map_of (peers b) k of Some other \<Rightarrow> is_same_peer p other | None \<Rightarrow> False"
      by (fastforce simp: is_same_interface_def list_all_iff split: if_splits)
    then obtain q where "map_of (peers b) k = Some q" "is_same_peer p q"
      by (cases "map_of (peers b) k") (simp_all del: btm_get_None)
    with Some show ?thesis by (simp add: wg_config_def peer_conf_def is_same_peer_def)
  qed
qed

context wg_adapter
begin

text \<open>An update configures what it was asked to.\<close>

lemma wg_update_config:
  assumes "wg_inv s" and to: "interface_ok to"
  shows "wg_config (wg_interface (snd (wg_update E clk s to reason))) = wg_config to"
proof -
  define s1 where "s1 = (if reason = Push then s\<lparr>last_update := clk 7 no_key,
      interval_start := clk 8 no_key + polling_period_after_update s,
      interval_period := polling_period_after_update s\<rparr> else s)"
  have i: "wg_inv s1" using assms(1) by (simp add: s1_def)
  obtain ps s2 where r: "refresh_stats clk (peers to) s1 = (ps, s2)" by fastforce
  define s3 where "s3 = s2\<lparr>stats := stats s2 |` btm_keys ps\<rparr>"
  note f = refreshed_ok [OF i to r s3_def]
  define to1 where "to1 = carry_over (wg_interface s3) (to\<lparr>peers := ps\<rparr>)"
  define diff where "diff = update_calculate_changes s3 to1"
  define to2 where "to2 = update_endpoint_change_timestamps s3 diff reason clk to1"
  have c: "wg_config to1 = wg_config to"
    using refresh_stats_config [of clk "peers to" s1] by (simp add: to1_def r wg_config_def fun_eq_iff)
  have to2: "interface_ok to2" "btm_keys (peers to2) = btm_keys (peers to)" "diff = update_calculate_changes s3 to2"
    using f(1,2) by (simp_all add: to2_def to1_def diff_def update_calculate_changes_def)
  have ok: "interface_ok (wg_interface s3)" "replay (events s3) = view (wg_interface s3)"
    "pred_option (\<lambda>m. m = stats s1) (link_cells s3)"
    using i f by (simp_all add: wg_inv_def)
  note upd = wg_update_def [of E clk s to reason, unfolded Let_def, folded s1_def,
      unfolded r prod.case, folded s3_def, folded to1_def, folded diff_def, folded to2_def]
  show ?thesis
  proof (cases "is_same_interface (wg_interface s3) to1")
    case True
    then show ?thesis using same_interface_config [OF ok(1) _ True] f(1) c by (simp add: upd to1_def)
  next
    case False
    have "pred_option (\<lambda>m. \<forall>k \<in> btm_keys (peers (wg_interface s3)) \<inter> btm_keys (peers to2). m k = stats s3 k) (link_cells s3)"
      using ok(3) f(6,9) to2(2) by (auto simp: pred_option_def)
    from notifications_ok [OF f(5) ok(1) to2(1) _ ok(2) this to2(3), of reason clk] f(3) to2(2)
    obtain s4 where s4: "update_send_notification_events E s3 to2 diff reason clk = (Inr (), s4)" by auto
    with False c show ?thesis by (simp add: upd case_prod_beta to2_def split: sum.split)
  qed
qed

lemma wg_del_peer_config:
  assumes "wg_inv s"
  shows "wg_inv (wg_del_peer E clk s k)"
    "wg_config (wg_interface (wg_del_peer E clk s k)) = (wg_config (wg_interface s))(k := None)"
proof -
  have ok: "interface_ok (wg_interface s)" using assms by (rule wg_inv_interface)
  then show "wg_inv (wg_del_peer E clk s k)"
    by (simp add: wg_del_peer_def wg_update_inv assms interface_ok_remove)
  show "wg_config (wg_interface (wg_del_peer E clk s k)) = (wg_config (wg_interface s))(k := None)"
    using wg_update_config [OF assms interface_ok_remove [OF ok]]
    by (auto simp: wg_del_peer_def wg_config_def lookup_simps fun_eq_iff)
qed

lemma wg_add_peer_config:
  assumes "wg_inv s" "wg_add_peer E clk s p = (Inr (), s')"
  shows "wg_inv s'"
    "wg_config (wg_interface s') = (wg_config (wg_interface s))(public_key p \<mapsto> peer_conf (fill_peer (wg_interface s) p))"
proof -
  let ?p = "fill_peer (wg_interface s) p"
  let ?to = "(wg_interface s)\<lparr>peers := btm_insert (public_key ?p) ?p (peers (wg_interface s))\<rparr>"
  have ok: "interface_ok ?to"
    using interface_ok_insert [OF wg_inv_interface [OF assms(1)], of ?p] by simp
  have s': "s' = snd (wg_update E clk s ?to Push)"
    using assms(2) by (auto simp: wg_add_peer_def Let_def split: if_splits)
  show "wg_inv s'" unfolding s' by (rule wg_update_inv [OF assms(1) ok])
  show "wg_config (wg_interface s') = (wg_config (wg_interface s))(public_key p \<mapsto> peer_conf ?p)"
    unfolding s' wg_update_config [OF assms(1) ok] by (auto simp: wg_config_def lookup_simps fun_eq_iff)
qed

end

section \<open>Steps of the controller\<close>

lemma ctl_bind_Inr:
  "ctl_bind m f s = (Inr y, s'') \<longleftrightarrow> (\<exists>x s'. m s = (Inr x, s') \<and> f x s' = (Inr y, s''))"
  by (auto simp: ctl_bind_def split: prod.splits sum.splits)

lemma ctl_when_Inr:
  "ctl_when b m s = (Inr (), s') \<longleftrightarrow> (if b then m s = (Inr (), s') else s' = s)"
  by (auto simp: ctl_when_def ctl_return_def)

text \<open>Steps that do not touch the WireGuard task.\<close>

definition keeps_wg :: "('n, 'a, 'r) ctl_step \<Rightarrow> bool" where
  "keeps_wg m \<longleftrightarrow> (\<forall>s. wireguard (snd (m s)) = wireguard s)"

lemma keeps_wg_apply: "keeps_wg m \<Longrightarrow> m s = (r, s') \<Longrightarrow> wireguard s' = wireguard s"
  by (metis keeps_wg_def snd_conv)

lemma keeps_wg_basic [simp]:
  "keeps_wg (ctl_return x)" "keeps_wg (ctl_fail e)" "keeps_wg (ctl_tell c)" "keeps_wg (ctl_try E c)"
  "keeps_wg (control_providers b)" "keeps_wg (check_allowed_ips_correctness requested)"
  by (simp_all add: keeps_wg_def ctl_return_def ctl_fail_def ctl_tell_def ctl_try_def control_providers_def
      check_allowed_ips_correctness_def)

lemma keeps_wg_bind [intro]:
  assumes "keeps_wg m" "\<And>x. keeps_wg (f x)"
  shows "keeps_wg (ctl_bind m f)"
  unfolding keeps_wg_def
proof
  fix s
  obtain r t where m: "m s = (r, t)" by fastforce
  have "wireguard t = wireguard s" by (rule keeps_wg_apply [OF assms(1) m])
  with assms(2) m show "wireguard (snd (ctl_bind m f s)) = wireguard s"
    by (cases r) (simp_all add: ctl_bind_def keeps_wg_def)
qed

lemma keeps_wg_when [intro]: "keeps_wg m \<Longrightarrow> keeps_wg (ctl_when b m)"
  by (simp add: ctl_when_def)

lemma keeps_wg_ask [simp]: "keeps_wg (ctl_ask E c f)" "keeps_wg (ctl_read g)" "keeps_wg (ask_map E c task)"
  by (auto simp: keeps_wg_def ctl_ask_def ctl_read_def ask_map_def ctl_bind_def ctl_try_def ctl_return_def
      split: option.split)

lemma keeps_wg_map [intro]: "(\<And>x. keeps_wg (f x)) \<Longrightarrow> keeps_wg (ctl_map f xs)"
  by (induction xs) (auto intro!: keeps_wg_bind)

lemma keeps_wg_query [intro]: "(\<And>w. snd (f w) = w) \<Longrightarrow> keeps_wg (ctl_wg E f)"
  by (simp add: ctl_wg_def keeps_wg_def ctl_bind_def ctl_try_def case_prod_beta split: sum.split)

lemma keeps_wg_interface [simp]: "keeps_wg (get_interface E)"
  by (auto simp: get_interface_def)

lemma keeps_wg_keep_alive [simp]: "keeps_wg (keep_alive E ft key ips n)"
  by (auto simp: keep_alive_def Let_def)

lemma keeps_wg_refine [simp]: "keeps_wg (refine_mesh_peer E ent rs ft eps actual checked upgrades e)"
  unfolding refine_mesh_peer_def Let_def case_prod_beta
  by (intro keeps_wg_bind keeps_wg_when keeps_wg_query) simp_all

lemma keeps_wg_mesh [simp]: "keeps_wg (build_requested_meshnet_peers_list E ent rs ft eps)"
  unfolding build_requested_meshnet_peers_list_def Let_def
  by (auto intro!: keeps_wg_bind keeps_wg_map split: option.split)

lemma keeps_wg_stun [simp]: "keeps_wg (add_stun_peer E rs ft srv requested)"
  by (auto simp: add_stun_peer_def parse_net_def Let_def case_prod_beta intro!: keeps_wg_bind split: sum.split)

lemma keeps_wg_with_stun [simp]: "keeps_wg (maybe_add_stun_peer E rs ft requested)"
  using keeps_wg_stun [of E rs ft _ requested, unfolded keeps_wg_def]
  by (auto simp: keeps_wg_def maybe_add_stun_peer_def split: option.split bool.split)

lemma keeps_wg_parse [simp]: "keeps_wg (parse_net E t)"
  by (simp add: parse_net_def split: sum.split)

lemma keeps_wg_exit [simp]: "keeps_wg (request_exit_node E ent rs ft requested)"
  by (auto simp: request_exit_node_def Let_def intro!: keeps_wg_bind split: option.split)

lemma keeps_wg_starcast [simp]: "keeps_wg (request_starcast_peer E ent requested)"
  by (auto simp: request_starcast_peer_def split: option.split)

lemma keeps_wg_build: "keeps_wg (build_requested_peers_list E ent rs ft eps)"
  unfolding build_requested_peers_list_def case_prod_beta by (intro keeps_wg_bind) simp_all

section \<open>Loops\<close>

lemma for_each_append:
  "for_each f (xs @ ys) s =
     (case for_each f xs s of (Inl e, s') \<Rightarrow> (Inl e, s') | (Inr _, s') \<Rightarrow> for_each f ys s')"
  by (induction f xs s rule: for_each.induct) (auto split: prod.split sum.split)

lemma for_each_step:
  assumes "for_each f ks s = (Inr (), s')" "k \<in> set ks" "distinct ks"
  obtains ks1 t t' where "for_each f ks1 s = (Inr (), t)" "f k t = (Inr (), t')" "set ks1 \<subseteq> set ks - {k}" "distinct ks1"
proof -
  obtain ks1 ks2 where ks: "ks = ks1 @ k # ks2" using assms(2) by (meson split_list)
  from assms(1) obtain t t' where "for_each f ks1 s = (Inr (), t)" "f k t = (Inr (), t')"
    by (auto simp: ks for_each_append split: prod.splits sum.splits)
  moreover have "set ks1 \<subseteq> set ks - {k}" "distinct ks1" using assms(3) by (auto simp: ks)
  ultimately show ?thesis by (rule that)
qed

abbreviation config_of :: "('n, 'a) ctl_state \<Rightarrow> PublicKey \<rightharpoonup> 'n wg_conf" where
  "config_of s \<equiv> wg_config (wg_interface (wireguard s))"

text \<open>
  A loop that brings the configuration of each of its keys to what \<open>R\<close> asks for, and leaves the
  other keys alone.
\<close>

definition configures ::
  "(PublicKey \<Rightarrow> ('n, 'a, unit) ctl_step) \<Rightarrow> PublicKey set \<Rightarrow> (PublicKey \<Rightarrow> 'n wg_conf option \<Rightarrow> bool)
     \<Rightarrow> (PublicKey \<Rightarrow> 'n wg_conf option \<Rightarrow> bool) \<Rightarrow> bool" where
  "configures f K Pre R \<longleftrightarrow>
     (\<forall>k s s'. k \<in> K \<longrightarrow> wg_inv (wireguard s) \<longrightarrow> Pre k (config_of s k) \<longrightarrow> f k s = (Inr (), s') \<longrightarrow>
        wg_inv (wireguard s') \<and> R k (config_of s' k) \<and> (\<forall>j. j \<noteq> k \<longrightarrow> config_of s' j = config_of s j))"

lemma for_each_configures:
  assumes "configures f K Pre R" "distinct ks" "set ks \<subseteq> K" "wg_inv (wireguard s)"
    "\<And>k. k \<in> set ks \<Longrightarrow> Pre k (config_of s k)" "for_each f ks s = (Inr (), s')"
  shows "wg_inv (wireguard s') \<and> (\<forall>k \<in> set ks. R k (config_of s' k))
     \<and> (\<forall>j. j \<notin> set ks \<longrightarrow> config_of s' j = config_of s j)"
  using assms(2-)
proof (induction ks arbitrary: s)
  case (Cons k ks)
  obtain t where t: "f k s = (Inr (), t)" "for_each f ks t = (Inr (), s')"
    using Cons.prems(5) by (auto split: prod.splits sum.splits)
  have *: "wg_inv (wireguard t)" "R k (config_of t k)" "\<And>j. j \<noteq> k \<Longrightarrow> config_of t j = config_of s j"
    using assms(1) Cons.prems(2,3,4) t(1) unfolding configures_def by (metis list.set_intros(1) subsetD)+
  have "Pre j (config_of t j)" if "j \<in> set ks" for j
    using that *(3) Cons.prems(1,4) by (metis distinct.simps(2) list.set_intros(2))
  with Cons.IH [of t] Cons.prems *(1) t(2)
  have IH: "wg_inv (wireguard s')" "\<forall>k \<in> set ks. R k (config_of s' k)" "\<forall>j. j \<notin> set ks \<longrightarrow> config_of s' j = config_of t j"
    by auto
  then show ?case using * Cons.prems(1) by auto
qed simp

lemma configures_then:
  assumes "configures f K Pre R" "\<And>k. keeps_wg (g k)"
  shows "configures (\<lambda>k. ctl_bind (f k) (\<lambda>_. g k)) K Pre R"
  unfolding configures_def
proof (intro allI impI)
  fix k s s'
  assume k: "k \<in> K" "wg_inv (wireguard s)" "Pre k (config_of s k)" "ctl_bind (f k) (\<lambda>_. g k) s = (Inr (), s')"
  then obtain t where t: "f k s = (Inr (), t)" "g k t = (Inr (), s')" by (auto simp: ctl_bind_Inr)
  with assms(1) k have "wg_inv (wireguard t) \<and> R k (config_of t k) \<and> (\<forall>j. j \<noteq> k \<longrightarrow> config_of t j = config_of s j)"
    unfolding configures_def by blast
  with keeps_wg_apply [OF assms(2) t(2)]
  show "wg_inv (wireguard s') \<and> R k (config_of s' k) \<and> (\<forall>j. j \<noteq> k \<longrightarrow> config_of s' j = config_of s j)"
    by simp
qed

section \<open>The three loops\<close>

text \<open>
  What the configuration of a peer must be for a requested peer. A keepalive interval that is not
  set is configured as 0.
\<close>

definition conf_matches :: "'n Peer \<Rightarrow> 'n wg_conf \<Rightarrow> bool" where
  "conf_matches p c =
     (case c of (ep, ns, psk, ka) \<Rightarrow>
        ep = endpoint p \<and> ns = allowed_ips p \<and> psk = preshared_key p
        \<and> (ka = persistent_keepalive_interval p \<or> persistent_keepalive_interval p = None \<and> ka = Some 0))"

definition requested_conf :: "'n requested_peers \<Rightarrow> PublicKey \<Rightarrow> 'n wg_conf option \<Rightarrow> bool" where
  "requested_conf requested k c =
     (case (map_of requested k, c) of
        (None, None) \<Rightarrow> True
      | (Some rp, Some conf) \<Rightarrow> conf_matches (rp_peer rp) conf
      | _ \<Rightarrow> False)"

definition requested_ok :: "'n requested_peers \<Rightarrow> bool" where
  "requested_ok requested \<longleftrightarrow> list_all (\<lambda>(k, rp). public_key (rp_peer rp) = k) requested"

lemma requested_ok_key: "requested_ok requested \<Longrightarrow> map_of requested k = Some rp \<Longrightarrow> public_key (rp_peer rp) = k"
  by (auto simp: requested_ok_def list_all_iff dest: map_of_SomeD)

lemma fill_peer_conf: "conf_matches p (peer_conf (fill_peer to p))"
  by (auto simp: conf_matches_def peer_conf_def fill_peer_def Let_def split: option.split)

lemma ctl_wg_Inr:
  "ctl_wg E f s = (Inr x, s') \<Longrightarrow> f (wireguard s) = (Inr x, wireguard s')"
  by (auto simp: ctl_wg_def ctl_bind_def ctl_try_def split: prod.splits sum.splits if_splits)

lemma ctl_wg_Inl: "f (wireguard s) = (Inl e, w) \<Longrightarrow> fst (ctl_wg E f s) \<noteq> Inr x"
  by (auto simp: ctl_wg_def ctl_bind_def ctl_try_def)

lemma add_configures:
  assumes "wg_adapter (wg_environment E)" "wg_inv (wireguard s)" "ctl_add_peer E k p s = (Inr (), s')"
  shows "wg_inv (wireguard s')" "\<exists>c. config_of s' = (config_of s)(public_key p \<mapsto> c) \<and> conf_matches p c"
  using wg_adapter.wg_add_peer_config [OF assms(1,2) ctl_wg_Inr [OF assms(3) [unfolded ctl_add_peer_def]]]
    fill_peer_conf [of p "wg_interface (wireguard s)"]
  by blast+

lemma delete_configures:
  assumes "wg_adapter (wg_environment E)"
  shows "configures (delete_peer E ent actual) (btm_keys actual) (\<lambda>_ _. True) (\<lambda>_ c. c = None)"
  unfolding configures_def
proof (intro allI impI)
  fix k s s'
  assume k: "k \<in> btm_keys actual" "wg_inv (wireguard s)" "delete_peer E ent actual k s = (Inr (), s')"
  then obtain p where "map_of actual k = Some p" using btm_get_None [of actual k] by (auto simp del: btm_get_None)
  with k(3) obtain t u where t: "ctl_tell (ReportRelayed (peer_event k p Disconnected (ctl_now E k))) s = (Inr (), t)"
    "ctl_del_peer E k t = (Inr (), u)" "ctl_when (session_keeper ent \<noteq> None) (ctl_try E (RemoveNode k)) u = (Inr (), s')"
    by (auto simp: delete_peer_def ctl_bind_Inr)
  have "wireguard t = wireguard s" by (rule keeps_wg_apply [OF keeps_wg_basic(3) t(1)])
  moreover have "wireguard u = wg_del_peer (wg_environment E) (ctl_clk E k) (wireguard t) k"
    using ctl_wg_Inr [OF t(2) [unfolded ctl_del_peer_def]] by simp
  moreover have "wireguard s' = wireguard u" by (rule keeps_wg_apply [OF keeps_wg_when [OF keeps_wg_basic(4)] t(3)])
  ultimately show "wg_inv (wireguard s') \<and> config_of s' k = None \<and> (\<forall>j. j \<noteq> k \<longrightarrow> config_of s' j = config_of s j)"
    using wg_adapter.wg_del_peer_config [OF assms k(2), of "ctl_clk E k" k] by simp
qed

lemma keeps_wg_trigger [simp]:
  "keeps_wg (\<lambda>s. ctl_when (stun_paused s \<noteq> None \<and> b) (ctl_try E c) s)"
  by (simp add: keeps_wg_def ctl_when_def ctl_return_def ctl_try_def)

lemma insert_configures:
  assumes "wg_adapter (wg_environment E)" "requested_ok requested"
  shows "configures (insert_peer E ent rs ft requested) (btm_keys requested) (\<lambda>_ _. True) (requested_conf requested)"
  unfolding configures_def
proof (intro allI impI)
  fix k s s'
  assume k: "k \<in> btm_keys requested" "wg_inv (wireguard s)" "insert_peer E ent rs ft requested k s = (Inr (), s')"
  then obtain rp where rp: "map_of requested k = Some rp" using btm_get_None [of requested k] by (auto simp del: btm_get_None)
  define rest where "rest = ctl_bind (case (session_keeper ent, batching_keepalive_interval rp) of
                      (Some _, Some interval) \<Rightarrow> keep_alive E ft k (peer_ip_addresses (rp_peer rp)) interval
                    | _ \<Rightarrow> ctl_return ()) (\<lambda>_.
          (\<lambda>s. ctl_when (stun_paused s \<noteq> None \<and> map_option srv_public_key (wg_stun_server rs) = Some k)
                 (ctl_try E TriggerDiscovery) s))"
  have "keeps_wg rest" unfolding rest_def
    by (intro keeps_wg_bind keeps_wg_trigger) (simp split: option.split)
  moreover obtain t where t: "ctl_add_peer E k (rp_peer rp) s = (Inr (), t)" "rest t = (Inr (), s')"
    using k(3) rp by (auto simp: insert_peer_def ctl_bind_Inr [of "ctl_add_peer E k (rp_peer rp)"] rest_def)
  ultimately have "wireguard s' = wireguard t" by (metis keeps_wg_apply)
  with add_configures [OF assms(1) k(2) t(1)] requested_ok_key [OF assms(2) rp] rp
  show "wg_inv (wireguard s') \<and> requested_conf requested k (config_of s' k)
      \<and> (\<forall>j. j \<noteq> k \<longrightarrow> config_of s' j = config_of s j)"
    by (auto simp: requested_conf_def)
qed

lemma keeps_wg_announce [simp]: "keeps_wg (announce_upgrade E ent rs ft rp)"
  unfolding announce_upgrade_def Let_def
  by (intro keeps_wg_bind keeps_wg_when) (simp_all split: option.split)

lemma keeps_wg_update [simp]: "keeps_wg (update_keepalive E ent ft eps k rp p)" "keeps_wg (report_peer E ent eps k p)"
  unfolding update_keepalive_def report_peer_def Let_def
  by (auto intro!: keeps_wg_bind keeps_wg_when split: option.split)

lemma update_configures:
  assumes "wg_adapter (wg_environment E)" "requested_ok requested"
  shows "configures (update_peer E ent rs ft eps actual requested) (btm_keys requested \<inter> btm_keys actual)
     (\<lambda>k c. c = map_option peer_conf (map_of actual k)) (requested_conf requested)"
  unfolding configures_def
proof (intro allI impI)
  fix k s s'
  assume k: "k \<in> btm_keys requested \<inter> btm_keys actual" "wg_inv (wireguard s)"
    "config_of s k = map_option peer_conf (map_of actual k)" "update_peer E ent rs ft eps actual requested k s = (Inr (), s')"
  obtain rp p where rp: "map_of requested k = Some rp" "map_of actual k = Some p"
    using k(1) btm_get_None [of requested k] btm_get_None [of actual k] by (auto simp del: btm_get_None)
  let ?step = "ctl_when (\<not> compare_peers (rp_peer rp) p) (ctl_add_peer E k (rp_peer rp))"
  define rest where "rest = ctl_bind (update_keepalive E ent ft eps k rp p) (\<lambda>_. ctl_bind (report_peer E ent eps k p) (\<lambda>_.
    ctl_when (is_peer_proxying p eps \<and> \<not> is_peer_proxying (rp_peer rp) eps) (announce_upgrade E ent rs ft rp)))"
  have "keeps_wg rest" unfolding rest_def by (intro keeps_wg_bind keeps_wg_when) simp_all
  moreover have "update_peer E ent rs ft eps actual requested k = ctl_bind ?step (\<lambda>_. rest)"
    by (simp add: update_peer_def rp rest_def)
  ultimately obtain t where t: "?step s = (Inr (), t)" "wireguard s' = wireguard t"
    using k(4) by (auto simp: ctl_bind_Inr dest: keeps_wg_apply)
  show "wg_inv (wireguard s') \<and> requested_conf requested k (config_of s' k)
      \<and> (\<forall>j. j \<noteq> k \<longrightarrow> config_of s' j = config_of s j)"
  proof (cases "compare_peers (rp_peer rp) p")
    case True
    then have "t = s" using t(1) by (simp add: ctl_when_Inr)
    with True k rp t(2) show ?thesis
      by (simp add: requested_conf_def compare_peers_def conf_matches_def peer_conf_def)
  next
    case False
    then have "ctl_add_peer E k (rp_peer rp) s = (Inr (), t)" using t(1) by (simp add: ctl_when_Inr)
    from add_configures [OF assms(1) k(2) this] requested_ok_key [OF assms(2) rp(1)] rp t(2) show ?thesis
      by (auto simp: requested_conf_def)
  qed
qed

section \<open>The difference applied\<close>

lemma apply_configures:
  assumes ad: "wg_adapter (wg_environment E)" and req: "requested_ok requested"
    and inv: "wg_inv (wireguard s)" and act: "actual = peers (wg_interface (wireguard s))"
    and run: "apply_requested_peers E ent rs ft eps actual requested s = (Inr (), s')"
  shows "wg_inv (wireguard s')" "requested_conf requested k (config_of s' k)"
proof -
  let ?order = "hash_order (wg_environment E)"
  let ?D = "btm_keys actual - btm_keys requested" and ?I = "btm_keys requested - btm_keys actual"
    and ?U = "btm_keys requested \<inter> btm_keys actual"
  have o: "set (?order K) = K" "distinct (?order K)" if "finite K" for K
    using that wg_adapter.hash_order_set [OF ad] wg_adapter.hash_order_distinct [OF ad] by blast+
  have fin: "finite ?D" "finite ?I" "finite ?U" by simp_all
  obtain s1 s2 where
    1: "for_each (delete_peer E ent actual) (?order ?D) s = (Inr (), s1)" and
    2: "for_each (insert_peer E ent rs ft requested) (?order ?I) s1 = (Inr (), s2)" and
    3: "for_each (update_peer E ent rs ft eps actual requested) (?order ?U) s2 = (Inr (), s')"
    using run by (auto simp: apply_requested_peers_def Let_def ctl_bind_Inr)
  note d = for_each_configures [OF delete_configures [OF ad, of ent actual] o(2) [OF fin(1)] _ inv _ 1]
  have d1: "wg_inv (wireguard s1)" "\<And>k. k \<in> ?D \<Longrightarrow> config_of s1 k = None"
    "\<And>k. k \<notin> ?D \<Longrightarrow> config_of s1 k = config_of s k"
    using d by (simp_all add: o(1) [OF fin(1)])
  note i = for_each_configures [OF insert_configures [OF ad req] o(2) [OF fin(2)] _ d1(1) _ 2]
  have i1: "wg_inv (wireguard s2)" "\<And>k. k \<in> ?I \<Longrightarrow> requested_conf requested k (config_of s2 k)"
    "\<And>k. k \<notin> ?I \<Longrightarrow> config_of s2 k = config_of s1 k"
    using i by (simp_all add: o(1) [OF fin(2)])
  have pre: "k \<in> set (?order ?U) \<Longrightarrow> config_of s2 k = map_option peer_conf (map_of actual k)" for k
    using d1(3) i1(3) by (simp add: o(1) [OF fin(3)]) (simp add: act wg_config_def)
  note u = for_each_configures [OF update_configures [OF ad req] o(2) [OF fin(3)] _ i1(1) pre 3]
  have u1: "wg_inv (wireguard s')" "\<And>k. k \<in> ?U \<Longrightarrow> requested_conf requested k (config_of s' k)"
    "\<And>k. k \<notin> ?U \<Longrightarrow> config_of s' k = config_of s2 k"
    using u by (simp_all add: o(1) [OF fin(3)])
  show "wg_inv (wireguard s')" by (rule u1(1))
  have none: "config_of s k = None" if "k \<notin> btm_keys actual"
    using that by (simp add: wg_config_def act)
  have gone: "map_of requested k = None" if "k \<notin> btm_keys requested" using that by simp
  show "requested_conf requested k (config_of s' k)"
  proof (cases "k \<in> btm_keys requested")
    case True
    then show ?thesis using u1(2,3) [of k] i1(2) [of k] by (cases "k \<in> btm_keys actual") auto
  next
    case False
    then have "config_of s' k = None"
      using u1(3) [of k] i1(3) [of k] d1(2,3) [of k] none by (cases "k \<in> btm_keys actual") auto
    with gone [OF False] show ?thesis by (simp add: requested_conf_def del: btm_get_None)
  qed
qed

section \<open>The requested peers have their own keys\<close>

lemma requested_ok_insert:
  "requested_ok m \<Longrightarrow> public_key (rp_peer rp) = k \<Longrightarrow> requested_ok (btm_insert k rp m)"
  by (induction k rp m rule: btm_insert.induct) (auto simp: requested_ok_def)

lemma requested_ok_collect:
  assumes "list_all (\<lambda>(k, rp). public_key (rp_peer rp) = k) es"
  shows "requested_ok (btm_collect es)"
proof -
  have "requested_ok m \<Longrightarrow> requested_ok (fold (\<lambda>(k, v). btm_insert k v) es m)" for m
    using assms by (induction es arbitrary: m) (auto intro: requested_ok_insert)
  then show ?thesis by (simp add: btm_collect_def requested_ok_def)
qed

lemma mesh_peers_ok: "list_all (\<lambda>(k, rp). public_key (rp_peer rp) = k) (mesh_peers N rs ft eps ips ps)"
  by (induction ps arbitrary: ips) (simp_all add: mesh_peer_def Let_def case_prod_beta)

lemma ctl_map_ok:
  assumes "ctl_map f xs s = (Inr ys, s')" "\<And>x t y t'. f x t = (Inr y, t') \<Longrightarrow> P x \<Longrightarrow> Q y" "list_all P xs"
  shows "list_all Q ys"
  using assms(1,3)
proof (induction xs arbitrary: s ys)
  case (Cons x xs)
  from Cons.prems(1) obtain y t zs where 1: "f x s = (Inr y, t)" "ctl_map f xs t = (Inr zs, s')" "ys = y # zs"
    by (auto simp: ctl_bind_Inr ctl_return_def)
  with Cons.IH [OF 1(2)] assms(2) [OF 1(1)] Cons.prems(2) show ?case by simp
qed (simp add: ctl_return_def)

lemma refine_ok:
  assumes "refine_mesh_peer E ent rs ft eps actual checked upgrades e s = (Inr e', s')"
  shows "fst e' = fst e \<and> public_key (rp_peer (snd e')) = public_key (rp_peer (snd e))
     \<and> allowed_ips (rp_peer (snd e')) = allowed_ips (rp_peer (snd e))
     \<and> peer_ip_addresses (rp_peer (snd e')) = peer_ip_addresses (rp_peer (snd e))"
  using assms by (cases e) (auto simp: refine_mesh_peer_def Let_def ctl_bind_Inr ctl_return_def case_prod_beta)

lemma mesh_list_ok:
  assumes "build_requested_meshnet_peers_list E ent rs ft eps s = (Inr requested, s')"
  shows "requested_ok requested"
proof (cases "map_option cfg_peers (meshnet_config rs)")
  case None
  with assms show ?thesis
    by (simp add: build_requested_meshnet_peers_list_def ctl_return_def requested_ok_def split: option.splits)
next
  case (Some pso)
  show ?thesis
  proof (cases pso)
    case None
    with Some assms show ?thesis
      by (auto simp: build_requested_meshnet_peers_list_def ctl_return_def requested_ok_def)
  next
    case (Some ps)
    with \<open>map_option cfg_peers (meshnet_config rs) = Some pso\<close> assms obtain actual checked upgrades t where
      "ctl_map (refine_mesh_peer E ent rs ft eps actual checked upgrades)
         (btm_collect (mesh_peers (wg_nets (wg_environment E)) rs ft eps (deduplicate_peer_ips ps) ps)) t = (Inr requested, s')"
      by (auto simp: build_requested_meshnet_peers_list_def Let_def ctl_bind_Inr)
    from ctl_map_ok [OF this, of "\<lambda>(k, rp). public_key (rp_peer rp) = k" "\<lambda>(k, rp). public_key (rp_peer rp) = k"]
    show ?thesis
      using requested_ok_collect [OF mesh_peers_ok] refine_ok
      by (fastforce simp: requested_ok_def case_prod_beta)
  qed
qed

end
