(* ===== verification/Controller_State.thy ===== *)
theory Controller_State
  imports Controller Firewall
begin

text \<open>
  The firewall part of the controller and the whole consolidation
  (\<open>upsert_peer_whitelist\<close>, \<open>consolidate_firewall\<close> and \<open>consolidate_wg_state\<close> of
  src/src/device/wg_controller.rs), on the state of the WireGuard task and of the firewall.
\<close>

definition FILE_SEND_PORT :: u16 where "FILE_SEND_PORT = 49111"

definition iter_peers :: "'n RequestedState \<Rightarrow> MeshPeer list" where
  "iter_peers rs = (case meshnet_config rs of None \<Rightarrow> [] | Some cfg \<Rightarrow> list_of (cfg_peers cfg))"

definition has_permission :: "Permissions \<Rightarrow> MeshPeer \<Rightarrow> bool" where
  "has_permission perm p =
     (case perm of
        IncomingConnections \<Rightarrow> allow_incoming_connections p
      | LocalAreaConnections \<Rightarrow> allow_peer_local_network_access p
      | RoutingConnections \<Rightarrow> allow_peer_traffic_routing p)"

definition permitted_keys :: "'n RequestedState \<Rightarrow> (MeshPeer \<Rightarrow> bool) \<Rightarrow> PublicKey set" where
  "permitted_keys rs P = set (map mp_public_key (filter P (iter_peers rs)))"

definition upsert_peer_whitelist ::
  "(PublicKey set \<Rightarrow> PublicKey list) \<Rightarrow> 'n RequestedState \<Rightarrow> Permissions
     \<Rightarrow> ('mu, 'mt, 'mi) StatefullFirewall \<Rightarrow> ('mu, 'mt, 'mi) StatefullFirewall" where
  "upsert_peer_whitelist order rs perm fw =
     (let from_keys = get_peer_whitelist fw perm; to_keys = permitted_keys rs (has_permission perm);
          fw1 = fold (\<lambda>key f. remove_from_peer_whitelist f key perm) (order (from_keys - to_keys)) fw
      in fold (\<lambda>key f. add_to_peer_whitelist f key perm) (order (to_keys - from_keys)) fw1)"

definition fw_address :: "StdIpAddr \<Rightarrow> IpAddr" where
  "fw_address a = (case a of V4 x \<Rightarrow> Ipv4 x | V6 x \<Rightarrow> Ipv6 x)"

definition consolidate_vpn_peer ::
  "'n RequestedState \<Rightarrow> ('mu, 'mt, 'mi) StatefullFirewall \<Rightarrow> ('mu, 'mt, 'mi) StatefullFirewall" where
  "consolidate_vpn_peer rs fw =
     (case exit_node rs of
        None \<Rightarrow> fw
      | Some exit \<Rightarrow>
          if list_ex (\<lambda>p. mp_public_key p = exit_public_key exit) (iter_peers rs) then fw
          else add_vpn_peer fw (exit_public_key exit))"

definition allow_internal_peers ::
  "PublicKey option \<Rightarrow> PublicKey option \<Rightarrow> ('mu, 'mt, 'mi) StatefullFirewall \<Rightarrow> ('mu, 'mt, 'mi) StatefullFirewall" where
  "allow_internal_peers starcast_vpeer_pubkey dns_pubkey fw =
     (let fw1 = (case starcast_vpeer_pubkey of
                   None \<Rightarrow> fw
                 | Some key \<Rightarrow> add_to_peer_whitelist (add_to_peer_whitelist fw key RoutingConnections) key IncomingConnections)
      in (case dns_pubkey of None \<Rightarrow> fw1 | Some key \<Rightarrow> add_to_peer_whitelist fw1 key RoutingConnections))"

definition consolidate_firewall ::
  "(PublicKey set \<Rightarrow> PublicKey list) \<Rightarrow> 'n RequestedState \<Rightarrow> PublicKey option \<Rightarrow> PublicKey option
     \<Rightarrow> (('mu, 'mt, 'mi) StatefullFirewall, unit) ctl" where
  "consolidate_firewall order rs starcast_vpeer_pubkey dns_pubkey fw =
     (let from_ports = dom (get_port_whitelist fw);
          fw1 = consolidate_vpn_peer rs fw;
          to_ports = permitted_keys rs allow_peer_send_files;
          fw2 = fold (upsert_peer_whitelist order rs) [IncomingConnections, LocalAreaConnections, RoutingConnections] fw1;
          fw3 = allow_internal_peers starcast_vpeer_pubkey dns_pubkey fw2;
          fw4 = fold (\<lambda>key f. remove_from_port_whitelist f key) (order (from_ports - to_ports)) fw3;
          fw5 = fold (\<lambda>key f. add_to_port_whitelist f key FILE_SEND_PORT) (order (to_ports - from_ports)) fw4
      in case meshnet_config rs of
           None \<Rightarrow> (Inr (), fw5)
         | Some cfg \<Rightarrow>
             (case base_ip_addresses (this cfg) of
                None \<Rightarrow> (Inl IpNotSet, fw5)
              | Some ips \<Rightarrow> (Inr (), set_ip_addresses fw5 (map fw_address ips))))"

text \<open>The steps of the controller on the pair of both states.\<close>

definition on_wg :: "('s, 'r) ctl \<Rightarrow> ('s \<times> 'f, 'r) ctl" where
  "on_wg m sf = (case m (fst sf) of (r, s) \<Rightarrow> (r, s, snd sf))"

definition on_fw :: "('f, 'r) ctl \<Rightarrow> ('s \<times> 'f, 'r) ctl" where
  "on_fw m sf = (case m (snd sf) of (r, f) \<Rightarrow> (r, fst sf, f))"

definition consolidate_wg_state ::
  "('n, 'a) ctl_env \<Rightarrow> 'n Entities \<Rightarrow> 'n RequestedState \<Rightarrow> Features
     \<Rightarrow> (('n, 'a) ctl_state \<times> ('mu, 'mt, 'mi) StatefullFirewall, unit) ctl" where
  "consolidate_wg_state E ent rs ft =
     ctl_bind (on_wg (maybe_restart_pq E ent)) (\<lambda>_.
     ctl_bind (on_wg (consolidate_wg_private_key E ent rs)) (\<lambda>_.
     ctl_bind (on_wg (consolidate_wg_fwmark E rs)) (\<lambda>_.
     ctl_bind (on_wg (consolidate_endpoint_invalidation E ent)) (\<lambda>_.
     ctl_bind (on_wg (consolidate_wg_peers E ent rs ft)) (\<lambda>_.
     ctl_bind (on_wg (consolidate_endpoint_invalidation E ent)) (\<lambda>_.
     ctl_bind (on_wg (case starcast_vpeer ent of
                        None \<Rightarrow> ctl_return None
                      | Some peer \<Rightarrow> ctl_bind (ctl_try E GetStarcastPeer) (\<lambda>_. ctl_return (Some (public_key peer))))) (\<lambda>starcast_pub_key.
     on_fw (consolidate_firewall (hash_order (wg_environment E)) rs starcast_pub_key
       (map_option res_public_key (resolver ent))))))))))"

section \<open>The firewall after a consolidation\<close>

lemma fold_remove_whitelist:
  "whitelist (fold (\<lambda>key f. remove_from_peer_whitelist f key perm) ks fw) =
     (whitelist fw)\<lparr>peer_whitelists := (peer_whitelists (whitelist fw))
        (perm := peer_whitelists (whitelist fw) perm - set ks)\<rparr>"
proof (induction ks arbitrary: fw)
  case (Cons k ks)
  have "A - {k} - set ks = A - set (k # ks)" for A :: "PublicKey set" by auto
  moreover have "whitelist (remove_from_peer_whitelist fw k perm) = (whitelist fw)\<lparr>peer_whitelists :=
      (peer_whitelists (whitelist fw))(perm := peer_whitelists (whitelist fw) perm - {k})\<rparr>"
    by (simp add: remove_from_peer_whitelist_def)
  ultimately show ?case using Cons [of "remove_from_peer_whitelist fw k perm"] by (simp add: fun_upd_same del: fun_upd_apply)
qed simp

lemma fold_add_whitelist:
  "whitelist (fold (\<lambda>key f. add_to_peer_whitelist f key perm) ks fw) =
     (whitelist fw)\<lparr>peer_whitelists := (peer_whitelists (whitelist fw))
        (perm := set ks \<union> peer_whitelists (whitelist fw) perm)\<rparr>"
  by (induction ks arbitrary: fw) (auto simp: add_to_peer_whitelist_def)

lemma fold_remove_ports:
  "whitelist (fold (\<lambda>key f. remove_from_port_whitelist f key) ks fw) =
     (whitelist fw)\<lparr>port_whitelist := port_whitelist (whitelist fw) |` (- set ks)\<rparr>"
  by (induction ks arbitrary: fw) (auto simp: remove_from_port_whitelist_def restrict_map_def fun_eq_iff)

lemma fold_add_ports:
  "whitelist (fold (\<lambda>key f. add_to_port_whitelist f key port) ks fw) =
     (whitelist fw)\<lparr>port_whitelist := (\<lambda>k. if k \<in> set ks then Some port else port_whitelist (whitelist fw) k)\<rparr>"
  by (induction ks arbitrary: fw) (auto simp: add_to_port_whitelist_def fun_eq_iff)

lemma fold_frame:
  "(\<And>k f. ip_addresses (g k f) = ip_addresses f) \<Longrightarrow> ip_addresses (fold g ks fw) = ip_addresses fw"
  by (induction ks arbitrary: fw) auto

text \<open>The iteration order of a hash set lists the set.\<close>

definition lists_sets :: "(PublicKey set \<Rightarrow> PublicKey list) \<Rightarrow> bool" where
  "lists_sets order \<longleftrightarrow> (\<forall>S. finite S \<longrightarrow> set (order S) = S)"

lemma adapter_lists_sets: "wg_adapter E \<Longrightarrow> lists_sets (hash_order E)"
  by (simp add: lists_sets_def wg_adapter.hash_order_set)

lemma permitted_keys_finite [simp]: "finite (permitted_keys rs P)"
  by (simp add: permitted_keys_def)

lemma upsert_whitelist:
  assumes "lists_sets order" "finite (peer_whitelists (whitelist fw) perm)"
  shows "whitelist (upsert_peer_whitelist order rs perm fw) =
     (whitelist fw)\<lparr>peer_whitelists := (peer_whitelists (whitelist fw))(perm := permitted_keys rs (has_permission perm))\<rparr>"
proof -
  let ?from = "peer_whitelists (whitelist fw) perm" and ?to = "permitted_keys rs (has_permission perm)"
  have "set (order (?from - ?to)) = ?from - ?to" "set (order (?to - ?from)) = ?to - ?from"
    using assms by (simp_all add: lists_sets_def)
  moreover have "(?to - ?from) \<union> (?from - (?from - ?to)) = ?to" by blast
  ultimately show ?thesis
    by (simp add: upsert_peer_whitelist_def Let_def fold_add_whitelist fold_remove_whitelist get_peer_whitelist_def)
qed

lemma upsert_all_whitelists:
  assumes "lists_sets order" "\<And>perm. finite (peer_whitelists (whitelist fw) perm)"
  shows "whitelist (fold (upsert_peer_whitelist order rs) [IncomingConnections, LocalAreaConnections, RoutingConnections] fw) =
     (whitelist fw)\<lparr>peer_whitelists := (\<lambda>perm. permitted_keys rs (has_permission perm))\<rparr>"
proof -
  have "f(IncomingConnections := a, LocalAreaConnections := b, RoutingConnections := c) =
      (\<lambda>perm. case perm of IncomingConnections \<Rightarrow> a | LocalAreaConnections \<Rightarrow> b | RoutingConnections \<Rightarrow> c)"
    for f :: "Permissions \<Rightarrow> PublicKey set" and a b c
    by (auto simp: fun_eq_iff split: Permissions.split)
  moreover have "(\<lambda>perm. permitted_keys rs (has_permission perm)) =
      (\<lambda>perm. case perm of IncomingConnections \<Rightarrow> permitted_keys rs (has_permission IncomingConnections)
        | LocalAreaConnections \<Rightarrow> permitted_keys rs (has_permission LocalAreaConnections)
        | RoutingConnections \<Rightarrow> permitted_keys rs (has_permission RoutingConnections))"
    by (auto simp: fun_eq_iff split: Permissions.split)
  ultimately show ?thesis
    using assms by (simp add: upsert_whitelist)
qed

lemma internal_whitelist:
  "peer_whitelists (whitelist (allow_internal_peers star dns fw)) perm =
     peer_whitelists (whitelist fw) perm
     \<union> (if perm \<noteq> LocalAreaConnections then set_option star else {})
     \<union> (if perm = RoutingConnections then set_option dns else {})"
  "port_whitelist (whitelist (allow_internal_peers star dns fw)) = port_whitelist (whitelist fw)"
  "vpn_peer (whitelist (allow_internal_peers star dns fw)) = vpn_peer (whitelist fw)"
  by (cases perm; auto simp: allow_internal_peers_def add_to_peer_whitelist_def Let_def split: option.split)+

lemma vpn_peer_frame [simp]:
  "port_whitelist (whitelist (consolidate_vpn_peer rs fw)) = port_whitelist (whitelist fw)"
  "peer_whitelists (whitelist (consolidate_vpn_peer rs fw)) = peer_whitelists (whitelist fw)"
  by (simp_all add: consolidate_vpn_peer_def add_vpn_peer_def split: option.split)

lemma consolidate_firewall_whitelist:
  assumes order: "lists_sets order" and fin: "\<And>perm. finite (peer_whitelists (whitelist fw) perm)"
    "finite (dom (port_whitelist (whitelist fw)))"
    and fw': "fw' = snd (consolidate_firewall order rs star dns fw)"
  shows "port_whitelist (whitelist fw') k =
      (if k \<in> permitted_keys rs allow_peer_send_files
       then (case port_whitelist (whitelist fw) k of None \<Rightarrow> Some FILE_SEND_PORT | Some p \<Rightarrow> Some p) else None)"
    "peer_whitelists (whitelist fw') perm = permitted_keys rs (has_permission perm)
         \<union> (if perm \<noteq> LocalAreaConnections then set_option star else {})
         \<union> (if perm = RoutingConnections then set_option dns else {})"
    "vpn_peer (whitelist fw') = vpn_peer (whitelist (consolidate_vpn_peer rs fw))"
proof -
  let ?from = "dom (port_whitelist (whitelist fw))" and ?to = "permitted_keys rs allow_peer_send_files"
  define fw2 where "fw2 = fold (upsert_peer_whitelist order rs)
    [IncomingConnections, LocalAreaConnections, RoutingConnections] (consolidate_vpn_peer rs fw)"
  have o: "set (order (?from - ?to)) = ?from - ?to" "set (order (?to - ?from)) = ?to - ?from"
    using order fin(2) by (simp_all add: lists_sets_def)
  have w: "whitelist fw' =
      whitelist (fold (\<lambda>key f. add_to_port_whitelist f key FILE_SEND_PORT) (order (?to - ?from))
        (fold (\<lambda>key f. remove_from_port_whitelist f key) (order (?from - ?to)) (allow_internal_peers star dns fw2)))"
    by (simp add: fw' fw2_def consolidate_firewall_def Let_def get_port_whitelist_def set_ip_addresses_def split: option.split)
  have u: "whitelist fw2 = (whitelist (consolidate_vpn_peer rs fw))
      \<lparr>peer_whitelists := (\<lambda>perm. permitted_keys rs (has_permission perm))\<rparr>"
    using upsert_all_whitelists [OF order, of "consolidate_vpn_peer rs fw" rs] fin(1) by (simp only: fw2_def vpn_peer_frame)
  show "port_whitelist (whitelist fw') k =
      (if k \<in> ?to then (case port_whitelist (whitelist fw) k of None \<Rightarrow> Some FILE_SEND_PORT | Some p \<Rightarrow> Some p) else None)"
    by (cases "port_whitelist (whitelist fw) k"; cases "k \<in> ?to")
      (simp_all add: w fold_add_ports fold_remove_ports o internal_whitelist u restrict_map_def domIff)
  show "peer_whitelists (whitelist fw') perm = permitted_keys rs (has_permission perm)
         \<union> (if perm \<noteq> LocalAreaConnections then set_option star else {})
         \<union> (if perm = RoutingConnections then set_option dns else {})"
    "vpn_peer (whitelist fw') = vpn_peer (whitelist (consolidate_vpn_peer rs fw))"
    by (simp_all add: w fold_add_ports fold_remove_ports internal_whitelist u)
qed

end
