(* ===== verification/Controller_Theorems.thy ===== *)
theory Controller_Theorems
  imports Controller_Props Controller_State
begin

text \<open>Properties of the controller.\<close>

section \<open>Consolidation of the peers\<close>

lemma build_list_ok:
  assumes "build_requested_peers_list E ent rs ft eps s = (Inr requested, s')"
  shows "requested_ok requested"
proof -
  have exit1: "requested_ok m \<Longrightarrow> requested_ok (fst (add_exit_node ft rot keys rs exit ns m))" for rot keys exit ns m
    using requested_ok_key [of m "exit_public_key exit"]
    by (auto simp: add_exit_node_def Let_def case_prod_beta intro!: requested_ok_insert split: option.split)
  have exit: "add_exit_node ft rot keys rs exit ns m = (m', b) \<Longrightarrow> requested_ok m \<Longrightarrow> requested_ok m'" for rot keys exit ns m m' b
    using exit1 [of m rot keys exit ns] by simp
  have exits: "requested_ok m \<Longrightarrow> request_exit_node E ent rs ft m t = (Inr (m', b), t') \<Longrightarrow> requested_ok m'" for m t m' b t'
  proof (cases "exit_node rs")
    case (Some e)
    assume m: "requested_ok m" and "request_exit_node E ent rs ft m t = (Inr (m', b), t')"
    then obtain rot keys ns where "add_exit_node ft rot keys rs e ns m = (m', b)"
      unfolding request_exit_node_def Some option.case Let_def ctl_bind_Inr ctl_return_def by blast
    with m show ?thesis by (metis exit)
  qed (simp add: request_exit_node_def ctl_return_def)
  have dns: "requested_ok m \<Longrightarrow> requested_ok (add_dns_peer E ent rs b m)" for b m
    by (auto simp: add_dns_peer_def add_internal_peer_def Let_def intro!: requested_ok_insert split: option.split)
  have star: "requested_ok m \<Longrightarrow> request_starcast_peer E ent m t = (Inr m', t') \<Longrightarrow> requested_ok m'" for m t m' t'
    by (auto simp: request_starcast_peer_def add_internal_peer_def ctl_bind_Inr ctl_return_def
        intro: requested_ok_insert split: option.splits)
  have stun: "requested_ok m \<Longrightarrow> maybe_add_stun_peer E rs ft m t = (Inr m', t') \<Longrightarrow> requested_ok m'" for m t m' t'
    by (auto simp: maybe_add_stun_peer_def add_stun_peer_def Let_def case_prod_beta ctl_bind_Inr ctl_return_def
        intro!: requested_ok_insert split: option.splits bool.splits if_splits)
  from assms obtain mesh t m1 b u m2 v where
    "build_requested_meshnet_peers_list E ent rs ft eps s = (Inr mesh, t)"
    "request_exit_node E ent rs ft mesh t = (Inr (m1, b), u)"
    "request_starcast_peer E ent (add_dns_peer E ent rs b m1) u = (Inr m2, v)"
    "maybe_add_stun_peer E rs ft m2 v = (Inr requested, s')"
    by (auto simp: build_requested_peers_list_def ctl_bind_Inr)
  then show ?thesis using stun [OF star [OF dns [OF exits [OF mesh_list_ok]]]] by blast
qed

text \<open>
  C11. A consolidation of the peers that succeeds leaves the WireGuard interface configured as
  requested: exactly the requested peers, each with the requested endpoint, networks and preshared
  key, and the requested keepalive interval or 0 when none is requested. Peers that are not
  requested are gone. This holds for any adapter and any answers of the other tasks.
\<close>

theorem consolidation_configures_interface:
  assumes "wg_adapter (wg_environment E)" "wg_run (wg_environment E) (wireguard s)"
    "consolidate_wg_peers E ent rs ft s = (Inr (), s')"
  shows "\<exists>eps t t' requested. build_requested_peers_list E ent rs ft eps t = (Inr requested, t')
     \<and> wireguard t = wireguard s
     \<and> (\<forall>k. requested_conf requested k (wg_config (wg_interface (wireguard s')) k))"
proof -
  from assms(3) obtain eps s1 ifc s2 s3 requested s4 s5 where
    1: "ask_map E GetEndpointMap (proxy ent) s = (Inr eps, s1)" and
    2: "get_interface E s1 = (Inr ifc, s2)" and
    3: "control_providers (list_ex (\<lambda>(_, p). is_peer_proxying p eps \<and> peer_state p = Connected) (peers ifc)) s2 = (Inr (), s3)" and
    4: "build_requested_peers_list E ent rs ft eps s3 = (Inr requested, s4)" and
    5: "check_allowed_ips_correctness requested s4 = (Inr (), s5)" and
    6: "apply_requested_peers E ent rs ft eps (peers ifc) requested s5 = (Inr (), s')"
    by (auto simp: consolidate_wg_peers_def ctl_bind_Inr)
  have w: "wireguard s1 = wireguard s" by (rule keeps_wg_apply [OF keeps_wg_ask(3) 1])
  have w2: "wireguard s2 = wireguard s" "ifc = wg_interface (wireguard s)"
    using keeps_wg_apply [OF keeps_wg_interface 2] ctl_wg_Inr [OF 2 [unfolded get_interface_def]] w by auto
  have w3: "wireguard s3 = wireguard s" using keeps_wg_apply [OF keeps_wg_basic(5) 3] w2 by simp
  have w5: "wireguard s5 = wireguard s"
    using keeps_wg_apply [OF keeps_wg_build 4] keeps_wg_apply [OF keeps_wg_basic(6) 5] w3 by simp
  have "requested_conf requested k (wg_config (wg_interface (wireguard s')) k)" for k
    by (rule apply_configures(2) [OF assms(1) build_list_ok [OF 4] _ _ 6])
      (simp_all add: w5 w2 wg_adapter.wg_run_inv [OF assms(1,2)])
  with 4 w3 show ?thesis by blast
qed

text \<open>A device without meshnet that connects to an exit node.\<close>

definition sample_ctl_env :: "(ref_net, unit) ctl_env" where
  "sample_ctl_env =
     \<lparr>wg_environment = sample_env, ctl_text = WgText std_codecs (\<lambda>_. Inr (RefNet (V4 0) 0)) (\<lambda>_. Inl ''no address''),
      ctl_net_addr = (\<lambda>n. case n of RefNet a _ \<Rightarrow> a), secret_public = (\<lambda>_. PublicKey []),
      call_fails = (\<lambda>_ _. False), ctl_clk = (\<lambda>_ _ _. 5), ctl_now = (\<lambda>_. 5)\<rparr>"

definition sample_entities :: "ref_net Entities" where
  "sample_entities =
     \<lparr>proxy = None, cross_ping_check = None, upgrade_sync = None, accepted_session = (\<lambda>_. Map.empty),
      session_keeper = None, resolver = None, starcast_vpeer = None, remote_peer_states = Map.empty,
      is_rotating_keys = (\<lambda>_. False), pq_keys = (\<lambda>_. None), pq_peer_pubkey = None\<rparr>"

definition sample_rs :: "ref_net RequestedState" where
  "sample_rs =
     \<lparr>rs_private_key = SecretKey [], rs_fwmark = None, meshnet_config = None, old_meshnet_config = None,
      exit_node = Some \<lparr>exit_identifier = ''exit'', exit_public_key = PublicKey (replicate 32 1),
        exit_allowed_ips = Some [RefNet (V4 7) 32], exit_endpoint = Some (SockV4 9 9)\<rparr>,
      last_exit_node = None, upstream_servers = None, wg_stun_server = None,
      keepalive_periods = \<lparr>ka_vpn = Some 25, ka_direct = 5, ka_proxying = Some 25, ka_stun = Some 25\<rparr>\<rparr>"

definition sample_ctl :: "(ref_net, unit) ctl_state" where
  "sample_ctl = \<lparr>wireguard = sample_start, stun_paused = None, upnp_paused = None, ctl_calls = []\<rparr>"

lemma sample_ctl_calls [simp]: "call_fails sample_ctl_env cs c = False" "wg_environment sample_ctl_env = sample_env"
  by (simp_all add: sample_ctl_env_def)

lemma sample_try [simp]: "ctl_try sample_ctl_env c s = (Inr (), s\<lparr>ctl_calls := ctl_calls s @ [c]\<rparr>)"
  by (simp add: ctl_try_def)

lemma sample_ask [simp]: "ask_map E c None s = (Inr Map.empty, s)"
  by (simp add: ask_map_def ctl_return_def)

lemma sample_views [simp]:
  "proxy sample_entities = None" "session_keeper sample_entities = None" "wg_stun_server sample_rs = None"
  by (simp_all add: sample_entities_def sample_rs_def)

lemma sample_build:
  "build_requested_peers_list sample_ctl_env sample_entities sample_rs \<lparr>ft_ipv6 = False, ft_batching = False\<rparr> eps s =
     (Inr [(PublicKey (replicate 32 1), \<lparr>rp_peer = Peer_default\<lparr>public_key := PublicKey (replicate 32 1),
        endpoint := Some (SockV4 9 9), peer_ip_addresses := [V4 VPN_INTERNAL_IPV4, V4 VPN_EXTERNAL_IPV4],
        persistent_keepalive_interval := Some 25, allowed_ips := [RefNet (V4 7) 32]\<rparr>,
        batching_keepalive_interval = None, rp_endpoint = None\<rparr>)], s)"
  by (simp add: build_requested_peers_list_def build_requested_meshnet_peers_list_def sample_rs_def ctl_bind_def
      ctl_return_def request_exit_node_def ctl_read_def Let_def parse_net_def sample_ctl_env_def add_exit_node_def keepalives_def
      sample_entities_def add_dns_peer_def request_starcast_peer_def maybe_add_stun_peer_def is_ipv4_def
      Peer_default_def)

theorem consolidation_configures_interface_witness:
  "wg_config (wg_interface (wireguard (snd (consolidate_wg_peers sample_ctl_env sample_entities sample_rs
     \<lparr>ft_ipv6 = False, ft_batching = False\<rparr> sample_ctl)))) (PublicKey (replicate 32 1)) =
   Some (Some (SockV4 9 9), [RefNet (V4 7) 32], None, Some 25)"
proof -
  let ?run = "consolidate_wg_peers sample_ctl_env sample_entities sample_rs \<lparr>ft_ipv6 = False, ft_batching = False\<rparr> sample_ctl"
  have "fst ?run = Inr ()"
    by (simp add: consolidate_wg_peers_def ctl_bind_def sample_build control_providers_def ctl_return_def
        check_allowed_ips_correctness_def apply_requested_peers_def get_interface_def ctl_wg_def sample_ctl_def
        sample_start_def start_with_def Interface_default_def insert_peer_def ctl_add_peer_def wg_add_peer_def
        overlaps_other_peer_def ctl_when_def Let_def sample_env_def linux_env_def)
  then have "?run = (Inr (), snd ?run)" by (metis prod.collapse)
  from consolidation_configures_interface [OF _ _ this] sample_adapter
  show ?thesis
    by (auto simp: sample_ctl_def sample_start_def run_start sample_build requested_conf_def conf_matches_def
        Peer_default_def split: option.splits dest!: spec [of _ "PublicKey (replicate 32 1)"])
qed

section \<open>A network that another peer still has\<close>

lemma config_overlaps:
  assumes "wg_inv w" "wg_config (wg_interface w) a = Some c" "n \<in> set (fst (snd c))"
    "a \<noteq> public_key q" "n \<in> set (allowed_ips q)"
  shows "overlaps_other_peer (wg_interface w) q"
proof -
  from assms(2) obtain p where p: "map_of (peers (wg_interface w)) a = Some p" "c = peer_conf p"
    by (auto simp: wg_config_def)
  then have "(a, p) \<in> set (peers (wg_interface w))" "public_key p = a"
    using interface_ok_peer [OF wg_inv_interface [OF assms(1)]] by (auto dest: map_of_SomeD)
  with p assms(3-5) show ?thesis
    by (fastforce simp: overlaps_other_peer_def list_ex_iff peer_conf_def)
qed

text \<open>
  C35. Peers are removed first, then added, then updated. So when a requested new peer has a
  network that is routed to a peer which stays, the consolidation fails, also when that peer is
  about to give the network up, and it fails the same way each time: the exit node cannot be
  switched from a peer of the meshnet to a new peer.
\<close>

theorem taken_network_blocks_new_peer:
  assumes ad: "wg_adapter (wg_environment E)" and run: "wg_run (wg_environment E) (wireguard s)"
    and req: "requested_ok requested" and act: "actual = peers (wg_interface (wireguard s))"
    and a: "map_of actual a = Some p" "a \<in> btm_keys requested" "n \<in> set (allowed_ips p)"
    and b: "map_of requested b = Some rp" "b \<notin> btm_keys actual" "n \<in> set (allowed_ips (rp_peer rp))"
  shows "fst (apply_requested_peers E ent rs ft eps actual requested s) \<noteq> Inr ()"
proof
  let ?order = "hash_order (wg_environment E)"
  let ?D = "btm_keys actual - btm_keys requested" and ?I = "btm_keys requested - btm_keys actual"
  have inv: "wg_inv (wireguard s)" by (rule wg_adapter.wg_run_inv [OF ad run])
  have o: "set (?order K) = K" "distinct (?order K)" if "finite K" for K
    using that wg_adapter.hash_order_set [OF ad] wg_adapter.hash_order_distinct [OF ad] by blast+
  have fin: "finite ?D" "finite ?I" by simp_all
  assume "fst (apply_requested_peers E ent rs ft eps actual requested s) = Inr ()"
  then obtain s' where "apply_requested_peers E ent rs ft eps actual requested s = (Inr (), s')" by (metis prod.collapse)
  then obtain s1 s2 where
    1: "for_each (delete_peer E ent actual) (?order ?D) s = (Inr (), s1)" and
    2: "for_each (insert_peer E ent rs ft requested) (?order ?I) s1 = (Inr (), s2)"
    by (auto simp: apply_requested_peers_def Let_def ctl_bind_Inr)
  note d = for_each_configures [OF delete_configures [OF ad, of ent actual] o(2) [OF fin(1)] _ inv _ 1]
  have ka: "a \<in> btm_keys actual" using a(1) by (force simp: btm_keys_def dest: map_of_SomeD)
  have "config_of s a = Some (peer_conf p)" using a(1) by (simp add: wg_config_def act)
  then have d1: "wg_inv (wireguard s1)" "config_of s1 a = Some (peer_conf p)"
    using d a(2) by (simp_all add: o(1) [OF fin(1)])
  have "b \<in> btm_keys requested" using b(1) by (force simp: btm_keys_def dest: map_of_SomeD)
  then have "b \<in> set (?order ?I)" using b(2) by (simp add: o(1) [OF fin(2)])
  from for_each_step [OF 2 this o(2) [OF fin(2)]] obtain ks t t' where
    t: "for_each (insert_peer E ent rs ft requested) ks s1 = (Inr (), t)" "insert_peer E ent rs ft requested b t = (Inr (), t')"
    "set ks \<subseteq> ?I - {b}" "distinct ks"
    using o(1) [OF fin(2)] by metis
  have "set ks \<subseteq> btm_keys requested" "a \<notin> set ks" using t(3) ka by auto
  with for_each_configures [OF insert_configures [OF ad req] t(4) _ d1(1) _ t(1)] d1(2)
  have i: "wg_inv (wireguard t)" "config_of t a = Some (peer_conf p)" by auto
  have ab: "a \<noteq> public_key (rp_peer rp)" using requested_ok_key [OF req b(1)] b(2) ka by auto
  from config_overlaps [OF i _ ab b(3)] a(3) have "overlaps_other_peer (wg_interface (wireguard t)) (rp_peer rp)"
    by (simp add: peer_conf_def)
  then have "wg_add_peer (wg_environment E) (ctl_clk E b) (wireguard t) (rp_peer rp) = (Inl DuplicateAllowedIPsError, wireguard t)"
    by (simp add: wg_add_peer_def Let_def)
  moreover obtain t1 where "ctl_add_peer E b (rp_peer rp) t = (Inr (), t1)"
    using t(2) b(1) by (auto simp: insert_peer_def ctl_bind_Inr)
  ultimately show False
    using ctl_wg_Inr [of E "\<lambda>w. wg_add_peer (wg_environment E) (ctl_clk E b) w (rp_peer rp)" t "()" t1]
    by (simp add: ctl_add_peer_def)
qed

theorem taken_network_blocks_new_peer_witness:
  "fst (apply_requested_peers sample_ctl_env sample_entities sample_rs \<lparr>ft_ipv6 = False, ft_batching = False\<rparr> Map.empty
     (peers (wg_interface sample_wg))
     [(PublicKey (replicate 32 1), \<lparr>rp_peer = (sample_wg_peer 1)\<lparr>allowed_ips := [RefNet (V4 1) 32]\<rparr>,
         batching_keepalive_interval = None, rp_endpoint = None\<rparr>),
      (PublicKey (replicate 32 2), \<lparr>rp_peer = sample_wg_peer 2, batching_keepalive_interval = None, rp_endpoint = None\<rparr>)]
     (sample_ctl\<lparr>wireguard := sample_wg\<rparr>)) \<noteq> Inr ()"
  by (rule taken_network_blocks_new_peer [where a = "PublicKey (replicate 32 1)" and b = "PublicKey (replicate 32 2)"
        and n = "RefNet (V4 7) 32"])
    (simp_all add: sample_adapter sample_run sample_wg_interface requested_ok_def, simp_all add: sample_wg_peer_def Peer_default_def)

section \<open>Choice of the endpoint\<close>

text \<open>
  A peer counts as heard while a packet from it is recent. With link detection this is three minutes,
  provided that the link is not reported down; without it, three keepalive periods of the peer.
\<close>

definition keepalive_period :: "'n RequestedState \<Rightarrow> 'n Peer \<Rightarrow> u32" where
  "keepalive_period rs p = (case persistent_keepalive_interval p of None \<Rightarrow> ka_direct (keepalive_periods rs) | Some n \<Rightarrow> n)"

definition heard :: "'n RequestedState \<Rightarrow> 'n Peer \<Rightarrow> duration option \<Rightarrow> LinkState option \<Rightarrow> bool" where
  "heard rs p rx lnk \<longleftrightarrow> (\<exists>r. rx = Some r
     \<and> (lnk = None \<longrightarrow> r < 3 * (unat (keepalive_period rs p) * 1000000000))
     \<and> (lnk \<noteq> None \<longrightarrow> r \<le> 180 * 1000000000 \<and> lnk \<noteq> Some Down))"

lemma ctl_peer_state_cases:
  assumes "3 * unat (keepalive_period rs p) < 2 ^ 32"
  shows "ctl_peer_state (Some p) rx change lnk eps rs =
     (if change = None \<or> \<not> heard rs p rx lnk then PeerDisconnected
      else if \<exists>ep. endpoint p = Some ep \<and> ep \<in> set eps then Proxying
      else if the change < from_secs DEFAULT_PEER_UPGRADE_WINDOW then Upgrading else Direct)"
proof -
  have "unat (3 * keepalive_period rs p) = 3 * unat (keepalive_period rs p)"
    using assms by (simp add: unat_word_ariths)
  then have k: "from_secs (unat (3 * keepalive_period rs p)) = 3 * (unat (keepalive_period rs p) * 1000000000)"
    by (simp add: from_secs_def)
  show ?thesis
    using k [unfolded keepalive_period_def]
    by (cases rx; cases change; cases lnk; cases "endpoint p"; cases "the lnk")
      (simp_all add: ctl_peer_state_def heard_def keepalive_period_def Let_def not_less mult.commute from_secs_def)
qed

text \<open>
  C25. The endpoint of a peer, for every reading of the clocks and of the link. A direct endpoint over
  which the peer is heard is kept, also when the other side asks for another one. A relayed peer that is
  heard moves to the endpoint that the other side asked for, else to the one that the cross-ping check has
  validated, and else stays on the relay. A peer that is not known yet, has no recorded change of endpoint
  or is not heard gets the endpoint that the other side asked for, and otherwise its relay. (The keepalive
  period times three fits into 32 bits.)
\<close>

theorem endpoint_choice:
  assumes "st = ctl_peer_state peer rx change lnk eps rs"
    and "new = fst (select_endpoint_for_peer peer st checked eps upgrade)"
    and "\<And>p. peer = Some p \<Longrightarrow> 3 * unat (keepalive_period rs p) < 2 ^ 32"
  shows "(\<forall>p. peer = Some p \<and> change \<noteq> None \<and> heard rs p rx lnk \<longrightarrow>
       new = (case endpoint p of
                None \<Rightarrow> upgrade
              | Some ep \<Rightarrow>
                  if ep \<notin> set eps then Some ep
                  else (case upgrade of Some u \<Rightarrow> Some u
                        | None \<Rightarrow> (case checked of Some c \<Rightarrow> Some (fst (remote_endpoint c)) | None \<Rightarrow> first_of eps))))
     \<and> (peer = None \<or> change = None \<or> (\<exists>p. peer = Some p \<and> \<not> heard rs p rx lnk) \<longrightarrow>
       new = (if upgrade = None then first_of eps else upgrade))"
proof (cases peer)
  case None
  with assms(1,2) show ?thesis
    by (auto simp: ctl_peer_state_def select_endpoint_for_peer_def Let_def split: option.splits)
next
  case (Some p)
  from assms(1,2) show ?thesis
    unfolding Some ctl_peer_state_cases [OF assms(3) [OF Some]]
    by (auto simp: select_endpoint_for_peer_def Let_def split: option.splits)
qed

theorem endpoint_choice_witness:
  "let p = (sample_wg_peer 1)\<lparr>endpoint := Some (SockV4 3 4)\<rparr>; eps = [SockV4 1 1] in
     fst (select_endpoint_for_peer (Some p) (ctl_peer_state (Some p) (Some 7) (Some 8) None eps sample_rs)
       None eps (Some (SockV4 5 6))) = Some (SockV4 3 4)
   \<and> fst (select_endpoint_for_peer (Some p) (ctl_peer_state (Some p) (Some (from_secs 200)) (Some 8) (Some Up) eps sample_rs)
       None eps None) = Some (SockV4 1 1)"
proof -
  let ?p = "(sample_wg_peer 1)\<lparr>endpoint := Some (SockV4 3 4)\<rparr>"
  have k: "3 * unat (keepalive_period sample_rs p) < 2 ^ 32" if "Some ?p = Some p" for p
    using that by (auto simp: keepalive_period_def sample_rs_def sample_wg_peer_def Peer_default_def)
  have "heard sample_rs ?p (Some 7) None" "\<not> heard sample_rs ?p (Some (from_secs 200)) (Some Up)"
    by (simp_all add: heard_def keepalive_period_def sample_rs_def sample_wg_peer_def Peer_default_def from_secs_def)
  with endpoint_choice [OF refl refl k, where peer = "Some ?p" and rx = "Some 7" and change = "Some 8" and lnk = None
      and eps = "[SockV4 1 1]" and checked = None and upgrade = "Some (SockV4 5 6)"]
    endpoint_choice [OF refl refl k, where peer = "Some ?p" and rx = "Some (from_secs 200)" and change = "Some 8"
      and lnk = "Some Up" and eps = "[SockV4 1 1]" and checked = None and upgrade = None]
  show ?thesis by (simp add: Let_def first_of_def)
qed

section \<open>Addresses\<close>

lemma free_ips_taken: "ip \<in> set occ \<Longrightarrow> free_ips (ip # ips) occ = free_ips ips occ"
  by simp

lemma free_ips_new:
  "ip \<notin> set occ \<Longrightarrow> free_ips ips (occ @ [ip]) = (fr, oc) \<Longrightarrow> free_ips (ip # ips) occ = (ip # fr, oc)"
  by simp

lemma free_ips_props:
  "free_ips ips occ = (free, occ') \<Longrightarrow>
     set occ' = set occ \<union> set free \<and> set free = set ips - set occ \<and> distinct free
     \<and> (distinct ips \<and> set ips \<inter> set occ = {} \<longrightarrow> free = ips)"
proof (induction ips arbitrary: occ free occ')
  case (Cons ip ips)
  show ?case
  proof (cases "ip \<in> set occ")
    case True
    with Cons.prems have "free_ips ips occ = (free, occ')" by (simp only: free_ips_taken)
    from Cons.IH [OF this] True show ?thesis by auto
  next
    case False
    obtain fr oc where f: "free_ips ips (occ @ [ip]) = (fr, oc)" by (rule prod.exhaust)
    have "free = ip # fr" "occ' = oc" using Cons.prems unfolding free_ips_new [OF False f] by simp_all
    with Cons.IH [OF f] False show ?thesis by auto
  qed
qed simp

definition dedup_ok :: "(PublicKey \<rightharpoonup> StdIpAddr list) \<times> StdIpAddr list \<Rightarrow> bool" where
  "dedup_ok st \<longleftrightarrow>
     (\<forall>k a. fst st k = Some a \<longrightarrow> set a \<subseteq> set (snd st))
     \<and> (\<forall>j k a b. fst st j = Some a \<longrightarrow> fst st k = Some b \<longrightarrow> j \<noteq> k \<longrightarrow> set a \<inter> set b = {})"

lemma dedup_okD:
  "dedup_ok st \<Longrightarrow> fst st j = Some a \<Longrightarrow> fst st k = Some b \<Longrightarrow> j \<noteq> k \<Longrightarrow> set a \<inter> set b = {}"
  unfolding dedup_ok_def by blast

lemma dedup_ok_sub: "dedup_ok st \<Longrightarrow> fst st k = Some a \<Longrightarrow> set a \<subseteq> set (snd st)"
  unfolding dedup_ok_def by blast

lemma process_ips_ok:
  assumes "dedup_ok st"
  shows "dedup_ok (process_ips_for_peer p st)"
proof (cases "base_ip_addresses (mp_base p)")
  case (Some ips)
  obtain free occ where f: "free_ips ips (snd st) = (free, occ)" by fastforce
  note * = free_ips_props [OF f, THEN conjunct1] free_ips_props [OF f, THEN conjunct2, THEN conjunct1]
  have new: "process_ips_for_peer p st = ((fst st)(mp_public_key p \<mapsto> free), occ)"
    by (simp add: process_ips_for_peer_def Some f)
  have old: "set a \<subseteq> set (snd st)" if "fst st k = Some a" for k a
    using dedup_ok_sub [OF assms that] .
  have fresh: "set a \<inter> set free = {}" if "fst st k = Some a" for k a
    using old [OF that] *(2) by blast
  have sub: "set a \<subseteq> set occ" if "((fst st)(mp_public_key p \<mapsto> free)) k = Some a" for k a
    using that old [of k a] *(1) by (cases "k = mp_public_key p") auto
  have dis: "set a \<inter> set b = {}"
    if "((fst st)(mp_public_key p \<mapsto> free)) j = Some a" "((fst st)(mp_public_key p \<mapsto> free)) k = Some b" "j \<noteq> k" for j k a b
  proof (cases "j = mp_public_key p \<or> k = mp_public_key p")
    case True
    then show ?thesis
    proof
      assume "j = mp_public_key p"
      with that have "a = free" "fst st k = Some b" by auto
      with fresh [of k b] show ?thesis by blast
    next
      assume "k = mp_public_key p"
      with that have "b = free" "fst st j = Some a" by auto
      with fresh [of j a] show ?thesis by blast
    qed
  next
    case False
    with that have "fst st j = Some a" "fst st k = Some b" by simp_all
    then show ?thesis using that(3) by (rule dedup_okD [OF assms])
  qed
  show ?thesis unfolding new dedup_ok_def fst_conv snd_conv
    by (intro conjI allI impI) (erule sub, erule (2) dis)
qed (use assms in \<open>simp add: process_ips_for_peer_def\<close>)

lemma fold_process_ok: "dedup_ok st \<Longrightarrow> dedup_ok (fold process_ips_for_peer ps st)"
  by (induction ps arbitrary: st) (simp_all add: process_ips_ok)

lemma fold_process_other:
  "\<forall>q \<in> set ps. mp_public_key q \<noteq> k \<Longrightarrow> fst (fold process_ips_for_peer ps st) k = fst st k"
proof (induction ps arbitrary: st)
  case (Cons q ps)
  have "mp_public_key q \<noteq> k \<Longrightarrow> fst (process_ips_for_peer q st) k = fst st k"
    by (auto simp: process_ips_for_peer_def case_prod_beta Let_def split: option.split)
  with Cons show ?case by simp
qed simp

lemma fold_process_occupied:
  "set (snd (fold process_ips_for_peer ps st))
     \<subseteq> set (snd st) \<union> (\<Union>q \<in> set ps. set (list_of (base_ip_addresses (mp_base q))))"
proof (induction ps arbitrary: st)
  case (Cons q ps)
  have "set (snd (process_ips_for_peer q st)) \<subseteq> set (snd st) \<union> set (list_of (base_ip_addresses (mp_base q)))"
  proof (cases "base_ip_addresses (mp_base q)")
    case (Some ips)
    obtain free occ where f: "free_ips ips (snd st) = (free, occ)" by fastforce
    from free_ips_props [OF f] show ?thesis by (auto simp: process_ips_for_peer_def Some f list_of_def)
  qed (simp add: process_ips_for_peer_def)
  with Cons [of "process_ips_for_peer q st"] show ?case by auto
qed simp

lemma local_addresses_kept:
  assumes "distinct (map mp_public_key ps)" "p \<in> set ps" "is_local p"
    and own: "base_ip_addresses (mp_base p) = Some ips" "distinct ips"
    and others: "\<And>q. q \<in> set ps \<Longrightarrow> is_local q \<Longrightarrow> q \<noteq> p \<Longrightarrow>
      set (list_of (base_ip_addresses (mp_base q))) \<inter> set ips = {}"
  shows "deduplicate_peer_ips ps (mp_public_key p) = Some ips"
proof -
  from assms(2,3) have "p \<in> set (filter is_local ps)" by simp
  from split_list [OF this] obtain pre post where parts: "filter is_local ps = pre @ p # post" by blast
  have inj: "inj_on mp_public_key (set ps)" "distinct (filter is_local ps)"
    using assms(1) by (simp_all add: distinct_map)
  have keys: "mp_public_key q \<noteq> mp_public_key p" if "q \<in> set ps" "q \<noteq> p" for q
    using inj_onD [OF inj(1) _ that(1) assms(2)] that(2) by blast
  have np: "p \<notin> set pre" "p \<notin> set post" using inj(2) by (simp_all add: parts)
  have mem: "q \<in> set ps \<and> is_local q \<and> q \<noteq> p" if "q \<in> set pre \<union> set post" for q
  proof -
    have "q \<in> set (filter is_local ps)" using that by (auto simp only: parts set_append list.set)
    then show ?thesis using that np by auto
  qed
  let ?st = "fold process_ips_for_peer pre (Map.empty, [])"
  have free: "set (list_of (base_ip_addresses (mp_base q))) \<inter> set ips = {}" if "q \<in> set pre" for q
    using others [of q] mem [of q] that by simp
  have "set (snd ?st) \<subseteq> (\<Union>q \<in> set pre. set (list_of (base_ip_addresses (mp_base q))))"
    using fold_process_occupied [of pre "(Map.empty, [])"] by simp
  with free have "set ips \<inter> set (snd ?st) = {}" by fast
  moreover obtain fr occ where f: "free_ips ips (snd ?st) = (fr, occ)" by fastforce
  ultimately have "fr = ips" using free_ips_props [OF f] own(2) by simp
  then have mine: "fst (process_ips_for_peer p ?st) (mp_public_key p) = Some ips"
    by (simp add: process_ips_for_peer_def own f)
  have later: "\<forall>q \<in> set post. mp_public_key q \<noteq> mp_public_key p" using mem keys by simp
  have local: "fst (fold process_ips_for_peer (filter is_local ps) (Map.empty, [])) (mp_public_key p) = Some ips"
    unfolding parts by (simp add: fold_process_other [OF later] mine)
  have external: "\<forall>q \<in> set (filter (\<lambda>p. \<not> is_local p) ps). mp_public_key q \<noteq> mp_public_key p"
    using keys assms(3) by auto
  show ?thesis
    unfolding deduplicate_peer_ips_def Let_def fold_process_other [OF external] by (rule local)
qed

text \<open>
  C31. No address is given to two peers. And the addresses of a local peer are never lost to an
  external one: a local peer keeps all its addresses unless another local peer has them too.
\<close>

theorem deduplicated_addresses:
  shows "(deduplicate_peer_ips ps j = Some a \<and> deduplicate_peer_ips ps k = Some b \<and> j \<noteq> k \<longrightarrow> set a \<inter> set b = {})
    \<and> (distinct (map mp_public_key ps) \<and> p \<in> set ps \<and> is_local p
         \<and> base_ip_addresses (mp_base p) = Some ips \<and> distinct ips
         \<and> (\<forall>q \<in> set ps. is_local q \<and> q \<noteq> p \<longrightarrow> set (list_of (base_ip_addresses (mp_base q))) \<inter> set ips = {})
       \<longrightarrow> deduplicate_peer_ips ps (mp_public_key p) = Some ips)"
proof (intro conjI impI)
  have "dedup_ok (fold process_ips_for_peer (filter (\<lambda>p. \<not> is_local p) ps)
      (fold process_ips_for_peer (filter is_local ps) (Map.empty, [])))"
    by (intro fold_process_ok) (simp add: dedup_ok_def)
  then show "set a \<inter> set b = {}" if "deduplicate_peer_ips ps j = Some a \<and> deduplicate_peer_ips ps k = Some b \<and> j \<noteq> k"
    using that unfolding deduplicate_peer_ips_def Let_def by (elim conjE) (rule dedup_okD)
qed (elim conjE, rule local_addresses_kept, simp_all)

text \<open>A peer of the meshnet.\<close>

definition sample_mesh_peer :: "nat \<Rightarrow> bool \<Rightarrow> StdIpAddr list \<Rightarrow> MeshPeer" where
  "sample_mesh_peer n loc ips =
     \<lparr>mp_base = \<lparr>base_identifier = ''peer'', base_public_key = PublicKey (replicate 32 (of_nat n)), base_hostname = ''peer.nord'',
                base_ip_addresses = Some ips, base_nickname = None\<rparr>,
      is_local = loc, allow_incoming_connections = loc, allow_peer_traffic_routing = False,
      allow_peer_local_network_access = False, allow_peer_send_files = True, allow_multicast = False,
      peer_allows_multicast = False\<rparr>"

theorem deduplicated_addresses_witness:
  "let ps = [sample_mesh_peer 1 False [V4 1, V4 2], sample_mesh_peer 2 True [V4 1]]
   in deduplicate_peer_ips ps (PublicKey (replicate 32 2)) = Some [V4 1]
     \<and> deduplicate_peer_ips ps (PublicKey (replicate 32 1)) = Some [V4 2] \<and> set [V4 1] \<inter> set [V4 2] = {}"
proof -
  let ?ps = "[sample_mesh_peer 1 False [V4 1, V4 2], sample_mesh_peer 2 True [V4 1]]"
  have "deduplicate_peer_ips ?ps (PublicKey (replicate 32 1)) = Some [V4 2]"
    by (simp add: deduplicate_peer_ips_def process_ips_for_peer_def sample_mesh_peer_def)
  moreover from this show ?thesis
    using deduplicated_addresses [of ?ps "PublicKey (replicate 32 2)" "[V4 1]" "PublicKey (replicate 32 1)" "[V4 2]"
        "sample_mesh_peer 2 True [V4 1]" "[V4 1]"]
    by (simp add: sample_mesh_peer_def)
qed

end
