(* ===== verification/Controller_Permissions.thy ===== *)
theory Controller_Permissions
  imports Controller_Theorems Firewall_Theorems
begin

text \<open>Properties of the firewall after the controller consolidated the requested state.\<close>

lemma on_wg_Inr: "on_wg m sf = (Inr r, sf') \<Longrightarrow> snd sf' = snd sf"
  by (auto simp: on_wg_def split: prod.splits)

lemma on_wg_keeps_fw: "snd (snd (on_wg m sf)) = snd sf"
  by (simp add: on_wg_def split: prod.split)

lemma on_wg_result: "on_wg m sf = (Inr r, sf') \<Longrightarrow> m (fst sf) = (Inr r, fst sf')"
  by (auto simp: on_wg_def split: prod.splits)

lemma on_fw_result: "fst (on_fw m sf) = fst (m (snd sf))"
  by (simp add: on_fw_def split: prod.split)

lemma starcast_key:
  "(case starcast_vpeer ent of
      None \<Rightarrow> ctl_return None
    | Some peer \<Rightarrow> ctl_bind (ctl_try E GetStarcastPeer) (\<lambda>_. ctl_return (Some (public_key peer)))) s = (Inr key, s')
   \<Longrightarrow> key = map_option public_key (starcast_vpeer ent)"
  by (auto simp: ctl_return_def ctl_bind_Inr split: option.splits)

text \<open>The firewall is consolidated last, on the firewall the consolidation started with.\<close>

lemma consolidation_firewall:
  assumes "consolidate_wg_state E ent rs ft (s, fw) = (Inr (), s', fw')"
  shows "consolidate_firewall (hash_order (wg_environment E)) rs (map_option public_key (starcast_vpeer ent))
      (map_option res_public_key (resolver ent)) fw = (Inr (), fw')"
proof -
  from assms obtain a b c d e f g key u0 u1 u2 u3 u4 u5 where
    steps: "on_wg (maybe_restart_pq E ent) (s, fw) = (Inr u0, a)"
    "on_wg (consolidate_wg_private_key E ent rs) a = (Inr u1, b)"
    "on_wg (consolidate_wg_fwmark E rs) b = (Inr u2, c)"
    "on_wg (consolidate_endpoint_invalidation E ent) c = (Inr u3, d)"
    "on_wg (consolidate_wg_peers E ent rs ft) d = (Inr u4, e)"
    "on_wg (consolidate_endpoint_invalidation E ent) e = (Inr u5, f)" and
    star: "on_wg (case starcast_vpeer ent of
                    None \<Rightarrow> ctl_return None
                  | Some peer \<Rightarrow> ctl_bind (ctl_try E GetStarcastPeer) (\<lambda>_. ctl_return (Some (public_key peer)))) f = (Inr key, g)" and
    fw: "on_fw (consolidate_firewall (hash_order (wg_environment E)) rs key (map_option res_public_key (resolver ent))) g
      = (Inr (), s', fw')"
    unfolding consolidate_wg_state_def ctl_bind_Inr by blast
  from steps [THEN on_wg_Inr] star [THEN on_wg_Inr] have "snd g = fw" by simp
  with fw starcast_key [OF on_wg_result [OF star]] show ?thesis
    by (auto simp: on_fw_def split: prod.splits)
qed

text \<open>
  C17. After a consolidation that succeeds the firewall's permissions are those of the requested
  configuration, whatever they were before. A permission is held exactly by the peers the
  configuration gives it to, by the multicast peer (not for the local network) and by the DNS peer
  (routing only). The file port is open exactly for the peers that may send files. A peer that left the
  configuration holds nothing.
\<close>

theorem permissions_follow_config:
  assumes "wg_adapter (wg_environment E)"
    and "\<And>perm. finite (get_peer_whitelist fw perm)" "finite (dom (get_port_whitelist fw))"
    and "consolidate_wg_state E ent rs ft (s, fw) = (Inr (), s', fw')"
  shows "get_peer_whitelist fw' perm = permitted_keys rs (has_permission perm)
         \<union> (if perm \<noteq> LocalAreaConnections then set_option (map_option public_key (starcast_vpeer ent)) else {})
         \<union> (if perm = RoutingConnections then set_option (map_option res_public_key (resolver ent)) else {})
     \<and> dom (get_port_whitelist fw') = permitted_keys rs allow_peer_send_files"
proof -
  have "fw' = snd (consolidate_firewall (hash_order (wg_environment E)) rs (map_option public_key (starcast_vpeer ent))
      (map_option res_public_key (resolver ent)) fw)"
    using consolidation_firewall [OF assms(4)] by simp
  note * = consolidate_firewall_whitelist [OF adapter_lists_sets [OF assms(1)]
      assms(2) [unfolded get_peer_whitelist_def] assms(3) [unfolded get_port_whitelist_def] this]
  have "dom (port_whitelist (whitelist fw')) = permitted_keys rs allow_peer_send_files"
    by (auto simp: dom_def *(1) split: option.split)
  then show ?thesis by (simp only: get_peer_whitelist_def get_port_whitelist_def *(2) simp_thms)
qed

definition sample_mesh_rs :: "ref_net RequestedState" where
  "sample_mesh_rs = sample_rs\<lparr>exit_node := None, meshnet_config := Some
     \<lparr>this = mp_base (sample_mesh_peer 9 True [V4 9]), cfg_peers = Some [sample_mesh_peer 2 True [V4 1]]\<rparr>\<rparr>"

definition sample_mesh_ctl :: "(ref_net, unit) ctl_state" where
  "sample_mesh_ctl = sample_ctl\<lparr>wireguard := sample_start\<lparr>wg_interface := Interface_default\<lparr>private_key := Some (SecretKey [])\<rparr>\<rparr>\<rparr>"

definition sample_old_fw :: ref_firewall where
  "sample_old_fw = add_to_port_whitelist (add_to_peer_whitelist sample_fw (PublicKey [3]) RoutingConnections) (PublicKey [3]) FILE_SEND_PORT"

lemma sample_old_whitelists:
  "finite (get_peer_whitelist sample_old_fw perm)" "finite (dom (get_port_whitelist sample_old_fw))"
  by (simp_all add: sample_old_fw_def get_peer_whitelist_def get_port_whitelist_def add_to_peer_whitelist_def
      add_to_port_whitelist_def sample_fw_def set_ip_addresses_def fw_new_def new_custom_def Whitelist_default_def)

abbreviation "no_features \<equiv> \<lparr>ft_ipv6 = False, ft_batching = False\<rparr>"

lemma sample_mesh_build:
  assumes "wireguard s = wireguard sample_mesh_ctl"
  shows "build_requested_peers_list sample_ctl_env sample_entities sample_mesh_rs no_features Map.empty s =
    (Inr [(PublicKey (replicate 32 2), \<lparr>rp_peer = Peer_default\<lparr>public_key := PublicKey (replicate 32 2),
        peer_ip_addresses := [V4 1], persistent_keepalive_interval := Some 5, allowed_ips := [RefNet (V4 1) 32]\<rparr>,
        batching_keepalive_interval = None, rp_endpoint = None\<rparr>)], s\<lparr>ctl_calls := ctl_calls s @ [WgCall, WgCall, WgCall]\<rparr>)"
proof -
  have "net_new (wg_nets sample_env) (V4 1) 32 = Some (RefNet (V4 1) 32)"
    by (simp add: sample_env_def linux_env_def ref_ipnet_def)
  then show ?thesis
    by (simp add: build_requested_peers_list_def build_requested_meshnet_peers_list_def sample_mesh_rs_def ctl_bind_def
        deduplicate_peer_ips_def process_ips_for_peer_def ctl_return_def request_exit_node_def keepalives_def sample_rs_def
        sample_entities_def add_dns_peer_def request_starcast_peer_def maybe_add_stun_peer_def get_interface_def ctl_wg_def
        sample_mesh_ctl_def refine_mesh_peer_def Let_def assms sample_mesh_peer_def mesh_peer_def Interface_default_def
        ctl_peer_state_def select_endpoint_for_peer_def Peer_default_def is_peer_proxying_def btm_collect_def
        mesh_allowed_ips_def ctl_when_def min_time_def list_of_def first_of_def map_filter_simps)
qed

lemma sample_mesh_peers:
  assumes "wireguard s = wireguard sample_mesh_ctl"
  shows "fst (consolidate_wg_peers sample_ctl_env sample_entities sample_mesh_rs no_features s) = Inr ()"
  by (simp add: consolidate_wg_peers_def ctl_bind_def sample_mesh_build assms control_providers_def ctl_return_def
      check_allowed_ips_correctness_def apply_requested_peers_def get_interface_def ctl_wg_def sample_mesh_ctl_def
      sample_start_def start_with_def Interface_default_def insert_peer_def ctl_add_peer_def wg_add_peer_def
      overlaps_other_peer_def ctl_when_def Let_def sample_env_def linux_env_def)

lemma sample_mesh_run:
  "fst (consolidate_wg_state sample_ctl_env sample_entities sample_mesh_rs no_features (sample_mesh_ctl, fw)) = Inr ()"
proof -
  let ?s = "\<lambda>calls. sample_mesh_ctl\<lparr>ctl_calls := calls\<rparr>"
  let ?peers = "consolidate_wg_peers sample_ctl_env sample_entities sample_mesh_rs no_features (?s [WgCall, WgCall])"
  have "fst ?peers = Inr ()" by (rule sample_mesh_peers) simp
  then obtain t where peers: "?peers = (Inr (), t)" by (cases ?peers) simp
  have views: "private_key (wg_interface (wireguard sample_mesh_ctl)) = Some (rs_private_key sample_mesh_rs)"
    "fwmark (wg_interface (wireguard sample_mesh_ctl)) = 0" "rs_fwmark sample_mesh_rs = None" "ctl_calls sample_mesh_ctl = []"
    by (simp_all add: sample_mesh_ctl_def sample_mesh_rs_def sample_rs_def Interface_default_def sample_ctl_def)
  have "maybe_restart_pq sample_ctl_env sample_entities sample_mesh_ctl = (Inr (), sample_mesh_ctl)"
    by (simp add: maybe_restart_pq_def sample_entities_def)
  moreover have "consolidate_wg_private_key sample_ctl_env sample_entities sample_mesh_rs sample_mesh_ctl = (Inr (), ?s [WgCall])"
    by (simp add: consolidate_wg_private_key_def ctl_read_def get_interface_def ctl_wg_def ctl_bind_def ctl_when_def ctl_return_def
        views sample_entities_def Let_def)
  moreover have "consolidate_wg_fwmark sample_ctl_env sample_mesh_rs (?s [WgCall]) = (Inr (), ?s [WgCall, WgCall])"
    by (simp add: consolidate_wg_fwmark_def get_interface_def ctl_wg_def ctl_bind_def ctl_when_def ctl_return_def views Let_def)
  moreover have "consolidate_endpoint_invalidation sample_ctl_env sample_entities s = (Inr (), s)" for s
    by (simp add: consolidate_endpoint_invalidation_def ctl_return_def)
  moreover have "starcast_vpeer sample_entities = None" by (simp add: sample_entities_def)
  moreover have "fst (consolidate_firewall order sample_mesh_rs star dns fw) = Inr ()" for order star dns
    by (simp add: consolidate_firewall_def Let_def sample_mesh_rs_def sample_mesh_peer_def)
  ultimately show ?thesis
    by (simp add: consolidate_wg_state_def ctl_bind_def on_wg_def on_fw_result peers ctl_return_def)
qed

theorem permissions_follow_config_witness:
  "let fw' = snd (snd (consolidate_wg_state sample_ctl_env sample_entities sample_mesh_rs no_features
       (sample_mesh_ctl, sample_old_fw)))
   in get_peer_whitelist fw' IncomingConnections = {PublicKey (replicate 32 2)}
     \<and> dom (get_port_whitelist fw') = {PublicKey (replicate 32 2)}"
proof -
  let ?run = "consolidate_wg_state sample_ctl_env sample_entities sample_mesh_rs no_features (sample_mesh_ctl, sample_old_fw)"
  have "?run = (Inr (), fst (snd ?run), snd (snd ?run))" using sample_mesh_run [of sample_old_fw] by (simp add: prod_eq_iff)
  from permissions_follow_config [OF _ _ _ this, of IncomingConnections]
  have "get_peer_whitelist (snd (snd ?run)) IncomingConnections
        = permitted_keys sample_mesh_rs (has_permission IncomingConnections)
     \<and> dom (get_port_whitelist (snd (snd ?run))) = permitted_keys sample_mesh_rs allow_peer_send_files"
    by (simp add: sample_adapter sample_old_whitelists) (simp add: sample_entities_def)
  moreover have "permitted_keys sample_mesh_rs (has_permission IncomingConnections) = {PublicKey (replicate 32 2)}"
    "permitted_keys sample_mesh_rs allow_peer_send_files = {PublicKey (replicate 32 2)}"
    by (simp_all add: permitted_keys_def iter_peers_def sample_mesh_rs_def list_of_def has_permission_def sample_mesh_peer_def)
  ultimately show ?thesis by (simp only: Let_def simp_thms)
qed

section \<open>Failures\<close>

lemma ctl_bind_Inl:
  "ctl_bind m f s = (Inl e, s'') \<longleftrightarrow> m s = (Inl e, s'') \<or> (\<exists>x s'. m s = (Inr x, s') \<and> f x s' = (Inl e, s''))"
  by (auto simp: ctl_bind_def split: prod.splits sum.splits)

text \<open>A step on the WireGuard state keeps the firewall, on every path.\<close>

lemma failing_step:
  assumes "ctl_bind (on_wg m) f (s, fw) = (Inl e, s', fw')" "fw' \<noteq> fw"
  obtains x t where "f x (t, fw) = (Inl e, s', fw')"
  using assms by (auto simp: ctl_bind_def on_wg_def split: prod.splits sum.splits)

text \<open>
  The permissions are consolidated last. So when a consolidation fails with anything but a missing
  local address, for example because the peers could not be configured, the firewall is left as it was:
  permissions that the new configuration takes away stay in force.
\<close>

theorem failed_consolidation_keeps_permissions:
  assumes "consolidate_wg_state E ent rs ft (s, fw) = (Inl e, s', fw')" "e \<noteq> IpNotSet"
  shows "fw' = fw"
proof (rule ccontr)
  assume "fw' \<noteq> fw"
  let ?fw = "\<lambda>key. on_fw (consolidate_firewall (hash_order (wg_environment E)) rs key (map_option res_public_key (resolver ent)))"
  from assms(1) \<open>fw' \<noteq> fw\<close> have "\<exists>key t. ?fw key (t, fw) = (Inl e, s', fw')"
    unfolding consolidate_wg_state_def by (elim failing_step) blast+
  then show False using assms(2)
    by (auto simp: on_fw_def consolidate_firewall_def Let_def split: prod.splits option.splits)
qed

theorem failed_consolidation_keeps_permissions_witness:
  "consolidate_wg_state (sample_ctl_env\<lparr>call_fails := \<lambda>_ _. True\<rparr>) sample_entities sample_mesh_rs no_features
     (sample_mesh_ctl, sample_old_fw) = (Inl (CallFailed WgCall), sample_mesh_ctl, sample_old_fw)"
proof -
  let ?run = "consolidate_wg_state (sample_ctl_env\<lparr>call_fails := \<lambda>_ _. True\<rparr>) sample_entities sample_mesh_rs no_features
     (sample_mesh_ctl, sample_old_fw)"
  have "fst ?run = Inl (CallFailed WgCall)" "fst (snd ?run) = sample_mesh_ctl"
    by (simp_all add: consolidate_wg_state_def ctl_bind_def on_wg_def maybe_restart_pq_def sample_entities_def
        consolidate_wg_private_key_def ctl_read_def get_interface_def ctl_wg_def ctl_try_def Let_def)
  then have *: "?run = (Inl (CallFailed WgCall), sample_mesh_ctl, snd (snd ?run))" by (simp add: prod_eq_iff)
  from failed_consolidation_keeps_permissions [OF this] have "snd (snd ?run) = sample_old_fw" by simp
  with * show ?thesis by simp
qed

section \<open>Local addresses\<close>

lemma addresses_frame:
  "ip_addresses (consolidate_vpn_peer rs fw) = ip_addresses fw"
  "ip_addresses (upsert_peer_whitelist order rs perm fw) = ip_addresses fw"
  "ip_addresses (allow_internal_peers star dns fw) = ip_addresses fw"
  by (simp_all add: consolidate_vpn_peer_def add_vpn_peer_def upsert_peer_whitelist_def Let_def fold_frame
      add_to_peer_whitelist_def remove_from_peer_whitelist_def allow_internal_peers_def split: option.split)

lemma consolidated_addresses:
  assumes "meshnet_config rs = Some cfg" "base_ip_addresses (this cfg) = Some ips"
  shows "ip_addresses (snd (consolidate_firewall order rs star dns fw)) = ip_addresses fw @ map fw_address ips"
  using assms by (simp add: consolidate_firewall_def Let_def set_ip_addresses_def fold_frame addresses_frame
      add_to_port_whitelist_def remove_from_port_whitelist_def)

text \<open>
  A consolidation appends the addresses of the local node to the firewall's list instead of setting
  the list. Consolidations run periodically, so the list grows without bound, and an address the node no
  longer has stays in it.
\<close>

theorem local_addresses_accumulate:
  assumes "meshnet_config rs = Some cfg" "base_ip_addresses (this cfg) = Some ips"
  shows "ip_addresses (((\<lambda>f. snd (consolidate_firewall order rs star dns f)) ^^ n) fw)
    = ip_addresses fw @ concat (replicate n (map fw_address ips))"
proof (induction n)
  case (Suc n)
  have "concat (replicate n xs) @ xs = xs @ concat (replicate n xs)" for xs :: "IpAddr list"
    by (induction n) simp_all
  with Suc show ?case by (simp add: consolidated_addresses [OF assms])
qed simp

theorem local_addresses_accumulate_witness:
  "ip_addresses (((\<lambda>f. snd (consolidate_firewall (\<lambda>_. []) sample_mesh_rs None None f)) ^^ 3) sample_fw)
    = [Ipv4 local_ip, Ipv4 9, Ipv4 9, Ipv4 9]"
proof -
  have "meshnet_config sample_mesh_rs = Some
      \<lparr>this = mp_base (sample_mesh_peer 9 True [V4 9]), cfg_peers = Some [sample_mesh_peer 2 True [V4 1]]\<rparr>"
    "base_ip_addresses (this \<lparr>this = mp_base (sample_mesh_peer 9 True [V4 9]),
      cfg_peers = Some [sample_mesh_peer 2 True [V4 1]]\<rparr>) = Some [V4 9]"
    by (simp_all add: sample_mesh_rs_def sample_mesh_peer_def)
  from local_addresses_accumulate [OF this, where order = "\<lambda>_. []" and star = None and dns = None and n = 3 and fw = sample_fw] show ?thesis
    by (simp add: numeral_3_eq_3 fw_address_def) (simp add: sample_fw_def set_ip_addresses_def fw_new_def new_custom_def)
qed

end
