(* ===== verification/Encryption.thy ===== *)
theory Encryption
  imports Crypto
begin

text \<open>
  Encryption of the messages that nodes exchange (crates/telio-crypto/src/encryption.rs and
  chachabox.rs). X25519, HChaCha20 and XChaCha20-Poly1305 are parameters, the record \<open>box_env\<close>; what
  the code relies on is the locale \<open>boxes\<close>: both ends derive the same shared secret, and the cipher
  decrypts exactly what it encrypted. Random bytes are arguments.
\<close>

section \<open>The box\<close>

record box_env =
  x25519 :: "bytes \<Rightarrow> bytes \<Rightarrow> bytes"
  x25519_public :: "bytes \<Rightarrow> bytes"
  hchacha :: "bytes \<Rightarrow> bytes"
  aead_encrypt :: "bytes \<Rightarrow> bytes \<Rightarrow> bytes \<Rightarrow> string + bytes"
  aead_decrypt :: "bytes \<Rightarrow> bytes \<Rightarrow> bytes \<Rightarrow> string + bytes"

definition public :: "box_env \<Rightarrow> SecretKey \<Rightarrow> PublicKey" where
  "public B sk = PublicKey (x25519_public B (secret_bytes sk))"

text \<open>The key of the cipher.\<close>

definition ChaChaBox_new :: "box_env \<Rightarrow> PublicKey \<Rightarrow> SecretKey \<Rightarrow> bytes" where
  "ChaChaBox_new B pk sk = hchacha B (x25519 B (secret_bytes sk) (key_bytes pk))"

definition box_encrypt :: "box_env \<Rightarrow> bytes \<Rightarrow> bytes \<Rightarrow> bytes \<Rightarrow> string + bytes" where
  "box_encrypt B key nonce plaintext = aead_encrypt B key nonce plaintext"

definition box_decrypt :: "box_env \<Rightarrow> bytes \<Rightarrow> bytes \<Rightarrow> bytes \<Rightarrow> string + bytes" where
  "box_decrypt B key nonce ciphertext = aead_decrypt B key nonce ciphertext"

section \<open>Requests and responses\<close>

definition NONCE_SIZE :: nat where "NONCE_SIZE = 24"

datatype CryptError = CryptFailed string | ForbiddenKey PublicKey | CryptInvalidLength

text \<open>\<open>slice.get(a..b)\<close> and \<open>slice.get(a..)\<close>.\<close>

definition get_range :: "nat \<Rightarrow> nat \<Rightarrow> 'a list \<Rightarrow> 'a list option" where
  "get_range a b xs = (if a \<le> b \<and> b \<le> length xs then Some (take (b - a) (drop a xs)) else None)"

definition get_from :: "nat \<Rightarrow> 'a list \<Rightarrow> 'a list option" where
  "get_from a xs = (if a \<le> length xs then Some (drop a xs) else None)"

definition encrypt_request ::
  "box_env \<Rightarrow> bytes \<Rightarrow> (nat \<Rightarrow> bytes) \<Rightarrow> bytes \<Rightarrow> bytes \<Rightarrow> SecretKey \<Rightarrow> PublicKey \<Rightarrow> CryptError + bytes" where
  "encrypt_request B inner_nonce fill_bytes outer_nonce msg local_sk remote_pk =
     (case box_encrypt B (ChaChaBox_new B remote_pk local_sk) inner_nonce msg of
        Inl e \<Rightarrow> Inl (CryptFailed e)
      | Inr inner_encrypted_payload \<Rightarrow>
          let outer_msg = key_bytes (public B local_sk) @ inner_nonce @ inner_encrypted_payload;
              ephemeral_sk = gen_with fill_bytes;
              ephemeral_pk = public B ephemeral_sk
          in case box_encrypt B (ChaChaBox_new B remote_pk ephemeral_sk) outer_nonce outer_msg of
               Inl e \<Rightarrow> Inl (CryptFailed e)
             | Inr outer_encrypted_payload \<Rightarrow>
                 Inr (key_bytes ephemeral_pk @ outer_nonce @ outer_encrypted_payload))"

definition split_keyed :: "bytes \<Rightarrow> (bytes \<times> bytes \<times> bytes) option" where
  "split_keyed msg =
     (case get_range 0 KEY_SIZE msg of None \<Rightarrow> None | Some key \<Rightarrow>
      case get_range KEY_SIZE (KEY_SIZE + NONCE_SIZE) msg of None \<Rightarrow> None | Some nonce \<Rightarrow>
      case get_from (KEY_SIZE + NONCE_SIZE) msg of None \<Rightarrow> None | Some rest \<Rightarrow> Some (key, nonce, rest))"

definition decrypt_request ::
  "box_env \<Rightarrow> bytes \<Rightarrow> SecretKey \<Rightarrow> (PublicKey \<Rightarrow> bool) \<Rightarrow> CryptError + bytes \<times> PublicKey" where
  "decrypt_request B msg local_sk is_allowed =
     (case split_keyed msg of
        None \<Rightarrow> Inl CryptInvalidLength
      | Some (ephemeral_pk, outer_nonce, outer_encrypted_payload) \<Rightarrow>
          (case box_decrypt B (ChaChaBox_new B (PublicKey ephemeral_pk) local_sk) outer_nonce outer_encrypted_payload of
             Inl e \<Rightarrow> Inl (CryptFailed e)
           | Inr outer_msg \<Rightarrow>
               (case get_range 0 KEY_SIZE outer_msg of
                  None \<Rightarrow> Inl CryptInvalidLength
                | Some key \<Rightarrow>
                    let remote_pk = PublicKey key in
                    if \<not> is_allowed remote_pk then Inl (ForbiddenKey remote_pk)
                    else (case split_keyed outer_msg of
                            None \<Rightarrow> Inl CryptInvalidLength
                          | Some (_, inner_nonce, inner_encrypted_payload) \<Rightarrow>
                              (case box_decrypt B (ChaChaBox_new B remote_pk local_sk) inner_nonce
                                      inner_encrypted_payload of
                                 Inl e \<Rightarrow> Inl (CryptFailed e)
                               | Inr inner_msg \<Rightarrow> Inr (inner_msg, remote_pk))))))"

definition encrypt_response ::
  "box_env \<Rightarrow> bytes \<Rightarrow> bytes \<Rightarrow> SecretKey \<Rightarrow> PublicKey \<Rightarrow> CryptError + bytes" where
  "encrypt_response B nonce msg local_sk remote_pk =
     (case box_encrypt B (ChaChaBox_new B remote_pk local_sk) nonce msg of
        Inl e \<Rightarrow> Inl (CryptFailed e)
      | Inr encrypted_msg \<Rightarrow> Inr (nonce @ encrypted_msg))"

definition decrypt_response ::
  "box_env \<Rightarrow> bytes \<Rightarrow> SecretKey \<Rightarrow> PublicKey \<Rightarrow> CryptError + bytes" where
  "decrypt_response B msg local_sk remote_pk =
     (case get_range 0 NONCE_SIZE msg of
        None \<Rightarrow> Inl CryptInvalidLength
      | Some nonce \<Rightarrow>
          (case get_from NONCE_SIZE msg of
             None \<Rightarrow> Inl CryptInvalidLength
           | Some message \<Rightarrow>
               (case box_decrypt B (ChaChaBox_new B remote_pk local_sk) nonce message of
                  Inl e \<Rightarrow> Inl (CryptFailed e)
                | Inr m \<Rightarrow> Inr m)))"

section \<open>Contract of the primitives\<close>

locale boxes =
  fixes B :: box_env
  assumes agree: "length a = KEY_SIZE \<Longrightarrow> length b = KEY_SIZE \<Longrightarrow>
      x25519 B a (x25519_public B b) = x25519 B b (x25519_public B a)"
    and public_length: "length a = KEY_SIZE \<Longrightarrow> length (x25519_public B a) = KEY_SIZE"
    and decrypts: "aead_encrypt B k n m = Inr c \<Longrightarrow> aead_decrypt B k n c = Inr m"
    and authentic: "aead_decrypt B k n c = Inr m \<Longrightarrow> aead_encrypt B k n m = Inr c"
begin

lemma same_box:
  "length (secret_bytes a) = KEY_SIZE \<Longrightarrow> length (secret_bytes b) = KEY_SIZE \<Longrightarrow>
     ChaChaBox_new B (public B a) b = ChaChaBox_new B (public B b) a"
  by (simp add: ChaChaBox_new_def public_def agree)

lemma split_keyed_append:
  "length key = KEY_SIZE \<Longrightarrow> length nonce = NONCE_SIZE \<Longrightarrow> split_keyed (key @ nonce @ rest) = Some (key, nonce, rest)"
  by (simp add: split_keyed_def get_range_def get_from_def KEY_SIZE_def NONCE_SIZE_def)

lemma response_roundtrip:
  assumes "length (secret_bytes a) = KEY_SIZE" "length (secret_bytes b) = KEY_SIZE" "length nonce = NONCE_SIZE"
    and "encrypt_response B nonce msg a (public B b) = Inr c"
  shows "decrypt_response B c b (public B a) = Inr msg"
proof -
  from assms(4) obtain e where e: "aead_encrypt B (ChaChaBox_new B (public B b) a) nonce msg = Inr e" "c = nonce @ e"
    by (auto simp: encrypt_response_def box_encrypt_def split: sum.splits)
  then have "aead_decrypt B (ChaChaBox_new B (public B a) b) nonce e = Inr msg"
    using same_box [OF assms(1,2)] by (simp add: decrypts)
  with assms(3) e(2) show ?thesis
    by (simp add: decrypt_response_def box_decrypt_def get_range_def get_from_def)
qed

lemma gen_with_length: "length (fill KEY_SIZE) = KEY_SIZE \<Longrightarrow> length (secret_bytes (gen_with fill)) = KEY_SIZE"
  by (auto simp: gen_with_def Let_def KEY_SIZE_def split: list.split)

lemma request_roundtrip:
  assumes a: "length (secret_bytes a) = KEY_SIZE" and b: "length (secret_bytes b) = KEY_SIZE"
    and n: "length n1 = NONCE_SIZE" "length n2 = NONCE_SIZE" and fill: "length (fill KEY_SIZE) = KEY_SIZE"
    and enc: "encrypt_request B n1 fill n2 msg a (public B b) = Inr c"
  shows "decrypt_request B c b ok = (if ok (public B a) then Inr (msg, public B a) else Inl (ForbiddenKey (public B a)))"
proof -
  let ?e = "gen_with fill"
  note e = gen_with_length [where fill = fill, OF fill]
  obtain inner outer where
    inner: "aead_encrypt B (ChaChaBox_new B (public B b) a) n1 msg = Inr inner" and
    outer: "aead_encrypt B (ChaChaBox_new B (public B b) ?e) n2 (key_bytes (public B a) @ n1 @ inner) = Inr outer" and
    c: "c = key_bytes (public B ?e) @ n2 @ outer"
    using enc by (auto simp: encrypt_request_def box_encrypt_def Let_def split: sum.splits)
  have len: "length (key_bytes (public B a)) = KEY_SIZE" "length (key_bytes (public B ?e)) = KEY_SIZE"
    using a e by (simp_all add: public_def public_length)
  have "aead_decrypt B (ChaChaBox_new B (public B ?e) b) n2 outer = Inr (key_bytes (public B a) @ n1 @ inner)"
    using outer same_box [OF e b] by (simp add: decrypts)
  moreover have "aead_decrypt B (ChaChaBox_new B (public B a) b) n1 inner = Inr msg"
    using inner same_box [OF a b] by (simp add: decrypts)
  moreover have "get_range 0 KEY_SIZE (key_bytes (public B a) @ n1 @ inner) = Some (key_bytes (public B a))"
    using len(1) by (simp add: get_range_def)
  ultimately show ?thesis
    by (simp add: c decrypt_request_def split_keyed_append len n box_decrypt_def Let_def)
qed

text \<open>What is taken as a response of a peer was made with the key shared with that peer.\<close>

lemma response_authentic:
  assumes "length (secret_bytes b) = KEY_SIZE" "length (secret_bytes a) = KEY_SIZE"
    and "decrypt_response B c b (public B a) = Inr msg"
  shows "\<exists>nonce. length nonce = NONCE_SIZE \<and> encrypt_response B nonce msg a (public B b) = Inr c"
proof -
  from assms(3) obtain nonce e where ne: "get_range 0 NONCE_SIZE c = Some nonce" "get_from NONCE_SIZE c = Some e"
    "aead_decrypt B (ChaChaBox_new B (public B a) b) nonce e = Inr msg"
    by (auto simp: decrypt_response_def box_decrypt_def split: option.splits sum.splits)
  then have "c = nonce @ e" "length nonce = NONCE_SIZE"
    by (auto simp: get_range_def get_from_def split: if_splits)
  with authentic [OF ne(3)] same_box [OF assms(1,2)] show ?thesis
    by (auto simp: encrypt_response_def box_encrypt_def intro!: exI [of _ nonce])
qed

end

text \<open>An instance to compute with: a commutative key exchange and a cipher that appends key and nonce.\<close>

definition plain_boxes :: box_env where
  "plain_boxes = \<lparr>x25519 = map2 (XOR), x25519_public = (\<lambda>b. b), hchacha = (\<lambda>k. k),
     aead_encrypt = (\<lambda>k n m. Inr (m @ k @ n)),
     aead_decrypt = (\<lambda>k n c. let m = take (length c - length (k @ n)) c in
        if c = m @ k @ n then Inr m else Inl ''aead'')\<rparr>"

interpretation plain: boxes plain_boxes
proof
  fix a b :: bytes
  show "x25519 plain_boxes a (x25519_public plain_boxes b) = x25519 plain_boxes b (x25519_public plain_boxes a)"
    by (auto simp: plain_boxes_def zip_commute [of a b] xor.commute)
qed (auto simp: plain_boxes_def Let_def split: if_splits)

end
