(* ===== verification/Byte_Order.thy ===== *)
theory Byte_Order
  imports Telio_Prelude
begin

text \<open>
  Integers on the wire: \<open>to_be_bytes\<close> and \<open>from_be_bytes\<close> of the Rust integer types, which the
  messages, the frames of the relay protocol and the octets of addresses use.
\<close>

section \<open>Big-endian integers\<close>

text \<open>Big-endian: \<open>to_be_bytes\<close> of an integer of n bytes and its inverse.\<close>

definition be_bytes :: "nat \<Rightarrow> nat \<Rightarrow> bytes" where
  "be_bytes n x = map (\<lambda>i. word_of_nat (x div 256 ^ i)) (rev [0..<n])"

definition from_be_bytes :: "bytes \<Rightarrow> nat" where
  "from_be_bytes bs = foldl (\<lambda>acc b. 256 * acc + unat b) 0 bs"

definition put_u16 :: "u16 \<Rightarrow> bytes" where "put_u16 w = be_bytes 2 (unat w)"
definition put_u32 :: "u32 \<Rightarrow> bytes" where "put_u32 w = be_bytes 4 (unat w)"
definition put_u64 :: "u64 \<Rightarrow> bytes" where "put_u64 w = be_bytes 8 (unat w)"
definition put_u128 :: "u128 \<Rightarrow> bytes" where "put_u128 w = be_bytes 16 (unat w)"

definition u16_from_be_bytes :: "bytes \<Rightarrow> u16" where "u16_from_be_bytes bs = word_of_nat (from_be_bytes bs)"
definition u32_from_be_bytes :: "bytes \<Rightarrow> u32" where "u32_from_be_bytes bs = word_of_nat (from_be_bytes bs)"
definition u128_from_be_bytes :: "bytes \<Rightarrow> u128" where "u128_from_be_bytes bs = word_of_nat (from_be_bytes bs)"
definition u64_from_be_bytes :: "bytes \<Rightarrow> u64" where "u64_from_be_bytes bs = word_of_nat (from_be_bytes bs)"

lemma length_put [simp]:
  "length (put_u16 w) = 2" "length (put_u32 x) = 4" "length (put_u64 v) = 8" "length (put_u128 y) = 16"
  by (simp_all add: put_u16_def put_u32_def put_u64_def put_u128_def be_bytes_def)

lemma unat_byte: "unat (word_of_nat n :: u8) = n mod 256"
  by (simp add: unat_of_nat)

lemma foldl_be_bytes: "foldl (\<lambda>acc b. 256 * acc + unat b) a (be_bytes n x) = a * 256 ^ n + x mod 256 ^ n"
proof (induction n arbitrary: a)
  case 0
  then show ?case by (simp add: be_bytes_def)
next
  case (Suc n)
  have "be_bytes (Suc n) x = word_of_nat (x div 256 ^ n) # be_bytes n x" by (simp add: be_bytes_def)
  moreover have "x mod 256 ^ Suc n = 256 ^ n * (x div 256 ^ n mod 256) + x mod 256 ^ n"
    using mod_mult2_eq [of x "256 ^ n" 256] by (simp add: mult.commute)
  moreover have "(256 * a + x div 256 ^ n mod 256) * 256 ^ n = a * 256 ^ Suc n + 256 ^ n * (x div 256 ^ n mod 256)"
    by (simp add: algebra_simps)
  ultimately show ?case by (simp only: foldl.simps unat_byte Suc add.assoc)
qed

lemma from_be_put [simp]:
  "u16_from_be_bytes (put_u16 w) = w" "u32_from_be_bytes (put_u32 x) = x" "u64_from_be_bytes (put_u64 v) = v"
  "u128_from_be_bytes (put_u128 y) = y"
proof -
  have "unat w < 256 ^ 2" "unat x < 256 ^ 4" "unat v < 256 ^ 8" "unat y < 256 ^ 16"
    using unsigned_less [of w] unsigned_less [of x] unsigned_less [of v] unsigned_less [of y] by simp_all
  then show "u16_from_be_bytes (put_u16 w) = w" "u32_from_be_bytes (put_u32 x) = x" "u64_from_be_bytes (put_u64 v) = v"
    "u128_from_be_bytes (put_u128 y) = y"
    by (simp_all only: u16_from_be_bytes_def u32_from_be_bytes_def u64_from_be_bytes_def u128_from_be_bytes_def
        from_be_bytes_def put_u16_def put_u32_def put_u64_def put_u128_def foldl_be_bytes) simp_all
qed

end
