(* ===== verification/Proto.thy ===== *)
theory Proto
  imports Controller Encryption Byte_Order
begin

text \<open>
  The messages between nodes (crates/telio-proto/src/packet.rs and packet/relayed/): one byte for the
  type, then a body. The bodies of most messages are written and parsed by code that is generated from
  the files in crates/telio-proto/protos; this code and the text form of socket addresses are the
  record \<open>proto_env\<close>, and what the codecs rely on is the locale \<open>protobuf\<close>: a body that was written
  parses to the message. The trait \<open>Codec\<close> is the locale \<open>codec\<close>, which every message implements.
\<close>

section \<open>Types of packets\<close>

datatype CodecError =
    CodecInvalidLength
  | CodecInvalidType
  | DecodeFailed
  | EncodeFailed
  | EncryptionFailed CryptError
  | DecryptionFailed CryptError

datatype PacketTypeRelayed =
    TData | TGenData | THeartbeat | TCallMeMaybeDeprecated | TEncrypted | TCallMeMaybe | TPinger | TUpgrade
  | TPonger | TUpgradeDecision | TReserved | TInvalid

fun type_byte :: "PacketTypeRelayed \<Rightarrow> u8" where
  "type_byte TData = 0"
| "type_byte TGenData = 1"
| "type_byte THeartbeat = 2"
| "type_byte TCallMeMaybeDeprecated = 3"
| "type_byte TEncrypted = 5"
| "type_byte TCallMeMaybe = 6"
| "type_byte TPinger = 7"
| "type_byte TUpgrade = 8"
| "type_byte TPonger = 9"
| "type_byte TUpgradeDecision = 10"
| "type_byte TReserved = 254"
| "type_byte TInvalid = 255"

definition all_types :: "PacketTypeRelayed list" where
  "all_types = [TData, TGenData, THeartbeat, TCallMeMaybeDeprecated, TEncrypted, TCallMeMaybe, TPinger, TUpgrade,
     TPonger, TUpgradeDecision, TReserved, TInvalid]"

definition packet_type_from :: "u8 \<Rightarrow> PacketTypeRelayed" where
  "packet_type_from val = (case find (\<lambda>t. type_byte t = val) all_types of Some t \<Rightarrow> t | None \<Rightarrow> TInvalid)"

lemma packet_type_byte [simp]: "packet_type_from (type_byte t) = t"
  by (cases t) (simp_all add: packet_type_from_def all_types_def)

declare type_byte.simps [simp del]

text \<open>\<open>*bytes.first().unwrap_or(&(Invalid as u8))\<close>.\<close>

definition first_type :: "bytes \<Rightarrow> PacketTypeRelayed" where
  "first_type bytes = packet_type_from (case bytes of [] \<Rightarrow> type_byte TInvalid | b # _ \<Rightarrow> b)"

lemma first_type_simps [simp]: "first_type (b # bs) = packet_type_from b" "first_type [] = TInvalid"
  by (simp_all add: first_type_def)

section \<open>Small fields\<close>

definition PeerId_try_from :: "bytes \<Rightarrow> CodecError + u16" where
  "PeerId_try_from other = (if length other \<noteq> 2 then Inl DecodeFailed else Inr (u16_from_be_bytes other))"

fun ep_code :: "EndpointProvider \<Rightarrow> u32" where
  "ep_code Local = 1"
| "ep_code Stun = 2"
| "ep_code Upnp = 3"

definition ep_try_from :: "u32 \<Rightarrow> EndpointProvider option" where
  "ep_try_from c = (if c = 1 then Some Local else if c = 2 then Some Stun else if c = 3 then Some Upnp else None)"

lemma ep_try_from_code [simp]: "ep_try_from (ep_code p) = Some p"
  by (cases p) (simp_all add: ep_try_from_def)

section \<open>Messages\<close>

text \<open>The messages of the files in protos.\<close>

datatype PingSource = SrcV4 u32 | SrcV6 bytes

record Pinger =
  pi_start_timestamp :: u64
  pi_wg_port :: u32
  pi_source :: "PingSource option"

record Ponger =
  po_start_timestamp :: u64
  po_wg_port :: u32
  po_source :: "PingSource option"
  po_ep_provider :: u32

record UpgradeProto =
  up_endpoint :: string
  up_session :: u64
  up_endpoint_type :: u32
  up_receiver_endpoint_type :: u32

datatype Decision = Accepted | RejectedDueToUnknownSession | RejectedDueToConcurrentUpgrade

datatype NatType =
    NtUdpBlocked | NtOpenInternet | NtSymmetricUdpFirewall | NtFullCone | NtRestrictedCone
  | NtPortRestrictedCone | NtSymmetric | NtUnknown

record HeartbeatStatus =
  hb_node :: bytes
  connection_state :: u32

text \<open>The messages of the Rust code.\<close>

record HeartbeatMessage =
  hb_is_response :: bool
  hb_meshnet_id :: bytes
  hb_node_fingerprint :: string
  hb_statuses :: "HeartbeatStatus list"
  hb_nat_type :: NatType

record CallMeMaybeMsg =
  i_am_initiator :: bool
  my_addresses :: "string list"
  cmm_session :: u64

record CallMeMaybeMsgDeprecated =
  dep_initiator :: bool
  dep_addresses :: "string list"
  dep_peer_id :: u32
  dep_session :: u64

datatype DataMsg = DataMsg (data_bytes: bytes)

record PingerMsg =
  ping_session :: u64
  ping_body :: Pinger

record PartialPongerMsg =
  part_session :: u64
  part_msg :: bytes

record PongerMsg =
  pong_session :: u64
  pong_body :: Ponger

record UpgradeMsg =
  um_endpoint :: SocketAddr
  um_session :: u64
  endpoint_type :: EndpointProvider
  receiver_endpoint_type :: EndpointProvider

record UpgradeDecisionMsg =
  ud_decision :: Decision
  ud_session :: u64

datatype PacketRelayed =
    PData DataMsg
  | PHeartbeat HeartbeatMessage
  | PCallMeMaybeDeprecated CallMeMaybeMsgDeprecated
  | PCallMeMaybe CallMeMaybeMsg
  | PPinger PingerMsg
  | PPonger PartialPongerMsg
  | PUpgrade UpgradeMsg
  | PUpgradeDecision UpgradeDecisionMsg

text \<open>\<open>write_to_vec\<close> and \<open>parse_from_bytes\<close> of the generated types.\<close>

datatype 'm pb = Pb (pb_write: "'m \<Rightarrow> string + bytes") (pb_parse: "bytes \<Rightarrow> string + 'm")

record proto_env =
  pb_pinger :: "Pinger pb"
  pb_ponger :: "Ponger pb"
  pb_cmm :: "CallMeMaybeMsg pb"
  pb_cmm_deprecated :: "CallMeMaybeMsgDeprecated pb"
  pb_heartbeat :: "HeartbeatMessage pb"
  pb_upgrade :: "UpgradeProto pb"
  pb_decision :: "UpgradeDecisionMsg pb"
  sock_to_string :: "SocketAddr \<Rightarrow> string"
  sock_parse :: "string \<Rightarrow> SocketAddr option"

definition written :: "'m pb \<Rightarrow> 'm \<Rightarrow> CodecError + bytes" where
  "written P m = (case pb_write P m of Inl _ \<Rightarrow> Inl EncodeFailed | Inr bs \<Rightarrow> Inr bs)"

definition parsed :: "'m pb \<Rightarrow> bytes \<Rightarrow> CodecError + 'm" where
  "parsed P bs = (case pb_parse P bs of Inl _ \<Rightarrow> Inl DecodeFailed | Inr m \<Rightarrow> Inr m)"

text \<open>The operator \<open>?\<close> on results, and \<open>ok_or\<close>.\<close>

definition andThen :: "'e + 'a \<Rightarrow> ('a \<Rightarrow> 'e + 'b) \<Rightarrow> 'e + 'b" where
  "andThen r f = (case r of Inl e \<Rightarrow> Inl e | Inr a \<Rightarrow> f a)"

definition ok_or :: "'e \<Rightarrow> 'a option \<Rightarrow> 'e + 'a" where
  "ok_or e x = (case x of None \<Rightarrow> Inl e | Some a \<Rightarrow> Inr a)"

lemma andThen_simps [simp]: "andThen (Inl e) f = Inl e" "andThen (Inr a) f = f a"
  "ok_or e None = Inl e" "ok_or e (Some a) = Inr a"
  by (simp_all add: andThen_def ok_or_def)

lemma andThen_Inr [simp]: "andThen r f = Inr b \<longleftrightarrow> (\<exists>a. r = Inr a \<and> f a = Inr b)"
  by (simp add: andThen_def split: sum.split)

section \<open>Data\<close>

definition DataMsg_packet_type :: "DataMsg \<Rightarrow> PacketTypeRelayed" where
  "DataMsg_packet_type m = first_type (data_bytes m)"

definition DataMsg_new :: "bytes \<Rightarrow> DataMsg" where
  "DataMsg_new wg_data = DataMsg (type_byte TData # wg_data)"

definition with_generation :: "bytes \<Rightarrow> u8 \<Rightarrow> u16 \<Rightarrow> DataMsg" where
  "with_generation wg_data gen peer_id = DataMsg (type_byte TGenData # gen # put_u16 peer_id @ wg_data)"

definition get_generation :: "DataMsg \<Rightarrow> u8 option" where
  "get_generation m =
     (if DataMsg_packet_type m = TGenData
      then Some (if 1 < length (data_bytes m) then data_bytes m ! 1 else type_byte TInvalid) else None)"

definition get_peer_id :: "DataMsg \<Rightarrow> u16 option" where
  "get_peer_id m =
     (if DataMsg_packet_type m = TGenData
      then (case PeerId_try_from (case get_range 2 4 (data_bytes m) of None \<Rightarrow> [] | Some bs \<Rightarrow> bs) of
              Inl _ \<Rightarrow> None | Inr p \<Rightarrow> Some p)
      else None)"

definition get_payload :: "DataMsg \<Rightarrow> bytes" where
  "get_payload m =
     (let offset = (if DataMsg_packet_type m = TGenData then 4 else 1)
      in case get_from offset (data_bytes m) of Some buf \<Rightarrow> buf | None \<Rightarrow> [])"

text \<open>Three bytes are appended, everything is rotated to the right by three, and the header is written.\<close>

definition convert_to_gen_data :: "DataMsg \<Rightarrow> DataMsg" where
  "convert_to_gen_data m =
     (if DataMsg_packet_type m = TData
      then let bs = data_bytes m @ [0, 0, 0]; rotated = drop (length bs - 3) bs @ take (length bs - 3) bs
           in DataMsg ([type_byte TGenData, 0, 0, 0] @ drop 4 rotated)
      else m)"

definition set_generation :: "u8 \<Rightarrow> DataMsg \<Rightarrow> DataMsg" where
  "set_generation gen m =
     (let bs = data_bytes (convert_to_gen_data m) in DataMsg (if 1 < length bs then bs[1 := gen] else bs))"

text \<open>\<open>splice\<close> panics when the range is out of bounds.\<close>

definition set_peer_id :: "u16 \<Rightarrow> DataMsg \<Rightarrow> (CodecError + DataMsg) outcome" where
  "set_peer_id peer_id m =
     (if DataMsg_packet_type m = TGenData
      then if length (data_bytes m) < 4 then Panics
           else Returns (Inr (DataMsg (take 2 (data_bytes m) @ put_u16 peer_id @ drop 4 (data_bytes m))))
      else Returns (Inl CodecInvalidType))"

definition DataMsg_decode :: "bytes \<Rightarrow> CodecError + DataMsg" where
  "DataMsg_decode bytes =
     (if bytes = [] then Inl CodecInvalidLength
      else case first_type bytes of
             TData \<Rightarrow> andThen (ok_or DecodeFailed (get_from 1 bytes)) (\<lambda>rest. Inr (DataMsg_new rest))
           | TGenData \<Rightarrow>
               if length bytes < 4 then Inl CodecInvalidLength
               else andThen (ok_or DecodeFailed (get_from 4 bytes)) (\<lambda>rest.
                    andThen (ok_or DecodeFailed (get_range 2 4 bytes)) (\<lambda>id.
                    andThen (PeerId_try_from id) (\<lambda>peer_id.
                    Inr (with_generation rest (if 1 < length bytes then bytes ! 1 else 0) peer_id))))
           | _ \<Rightarrow> Inl DecodeFailed)"

definition DataMsg_encode :: "DataMsg \<Rightarrow> CodecError + bytes" where
  "DataMsg_encode m = Inr (data_bytes m)"

section \<open>Generations\<close>

definition next_generation :: "u8 \<Rightarrow> u8" where
  "next_generation g = g + 1"

definition generation_cmp :: "u8 \<Rightarrow> u8 \<Rightarrow> Ordering option" where
  "generation_cmp a b =
     (if a = b then Some Equal else if 127 < b - a then Some Greater else Some Less)"

end
