(* ===== verification/Proto_Codecs.thy ===== *)
theory Proto_Codecs
  imports Proto
begin

text \<open>
  The codecs of the other messages and of the whole packet (crates/telio-proto/src/packet/relayed/ and
  packet.rs), and that each of them is a codec: what was encoded decodes to the message.
\<close>

section \<open>Messages with a generated body\<close>

definition body_decode :: "PacketTypeRelayed \<Rightarrow> 'm pb \<Rightarrow> bytes \<Rightarrow> CodecError + 'm" where
  "body_decode t P bytes =
     (if bytes = [] then Inl CodecInvalidLength
      else if first_type bytes = t then andThen (ok_or DecodeFailed (get_from 1 bytes)) (parsed P)
      else Inl DecodeFailed)"

definition body_encode :: "PacketTypeRelayed \<Rightarrow> 'm pb \<Rightarrow> 'm \<Rightarrow> CodecError + bytes" where
  "body_encode t P m = andThen (written P m) (\<lambda>bs. Inr (type_byte t # bs))"

definition HeartbeatMessage_decode :: "proto_env \<Rightarrow> bytes \<Rightarrow> CodecError + HeartbeatMessage" where
  "HeartbeatMessage_decode E = body_decode THeartbeat (pb_heartbeat E)"

definition HeartbeatMessage_encode :: "proto_env \<Rightarrow> HeartbeatMessage \<Rightarrow> CodecError + bytes" where
  "HeartbeatMessage_encode E = body_encode THeartbeat (pb_heartbeat E)"

definition HeartbeatMessage_request :: "NatType \<Rightarrow> HeartbeatMessage" where
  "HeartbeatMessage_request default_nat_type =
     \<lparr>hb_is_response = False, hb_meshnet_id = [], hb_node_fingerprint = [], hb_statuses = [],
      hb_nat_type = default_nat_type\<rparr>"

definition HeartbeatMessage_response ::
  "bytes \<Rightarrow> string \<Rightarrow> HeartbeatStatus list \<Rightarrow> NatType \<Rightarrow> HeartbeatMessage" where
  "HeartbeatMessage_response meshnet_id node_fingerprint statuses nat_type =
     \<lparr>hb_is_response = True, hb_meshnet_id = meshnet_id, hb_node_fingerprint = node_fingerprint,
      hb_statuses = statuses, hb_nat_type = nat_type\<rparr>"

definition CallMeMaybeMsg_decode :: "proto_env \<Rightarrow> bytes \<Rightarrow> CodecError + CallMeMaybeMsg" where
  "CallMeMaybeMsg_decode E = body_decode TCallMeMaybe (pb_cmm E)"

definition CallMeMaybeMsg_encode :: "proto_env \<Rightarrow> CallMeMaybeMsg \<Rightarrow> CodecError + bytes" where
  "CallMeMaybeMsg_encode E = body_encode TCallMeMaybe (pb_cmm E)"

definition CallMeMaybeMsgDeprecated_new ::
  "proto_env \<Rightarrow> bool \<Rightarrow> SocketAddr list \<Rightarrow> u64 \<Rightarrow> u16 \<Rightarrow> CallMeMaybeMsgDeprecated" where
  "CallMeMaybeMsgDeprecated_new E initiator addrs ses peer_id =
     \<lparr>dep_initiator = initiator, dep_addresses = map (sock_to_string E) addrs, dep_peer_id = ucast peer_id, dep_session = ses\<rparr>"

definition dep_get_addrs :: "proto_env \<Rightarrow> CallMeMaybeMsgDeprecated \<Rightarrow> SocketAddr list" where
  "dep_get_addrs E m = List.map_filter (sock_parse E) (dep_addresses m)"

definition dep_get_peer_id :: "CallMeMaybeMsgDeprecated \<Rightarrow> u16" where
  "dep_get_peer_id m = ucast (dep_peer_id m)"

definition CallMeMaybeMsgDeprecated_decode :: "proto_env \<Rightarrow> bytes \<Rightarrow> CodecError + CallMeMaybeMsgDeprecated" where
  "CallMeMaybeMsgDeprecated_decode E = body_decode TCallMeMaybeDeprecated (pb_cmm_deprecated E)"

definition CallMeMaybeMsgDeprecated_encode :: "proto_env \<Rightarrow> CallMeMaybeMsgDeprecated \<Rightarrow> CodecError + bytes" where
  "CallMeMaybeMsgDeprecated_encode E = body_encode TCallMeMaybeDeprecated (pb_cmm_deprecated E)"

definition UpgradeMsg_decode :: "proto_env \<Rightarrow> bytes \<Rightarrow> CodecError + UpgradeMsg" where
  "UpgradeMsg_decode E bytes =
     andThen (body_decode TUpgrade (pb_upgrade E) bytes) (\<lambda>proto_upgrade.
     andThen (ok_or DecodeFailed (sock_parse E (up_endpoint proto_upgrade))) (\<lambda>endpoint.
     andThen (ok_or DecodeFailed (ep_try_from (up_endpoint_type proto_upgrade))) (\<lambda>et.
     andThen (ok_or DecodeFailed (ep_try_from (up_receiver_endpoint_type proto_upgrade))) (\<lambda>ret.
     Inr \<lparr>um_endpoint = endpoint, um_session = up_session proto_upgrade, endpoint_type = et,
          receiver_endpoint_type = ret\<rparr>))))"

definition UpgradeMsg_encode :: "proto_env \<Rightarrow> UpgradeMsg \<Rightarrow> CodecError + bytes" where
  "UpgradeMsg_encode E m =
     body_encode TUpgrade (pb_upgrade E)
       \<lparr>up_endpoint = sock_to_string E (um_endpoint m), up_session = um_session m,
        up_endpoint_type = ep_code (endpoint_type m), up_receiver_endpoint_type = ep_code (receiver_endpoint_type m)\<rparr>"

definition UpgradeDecisionMsg_decode :: "proto_env \<Rightarrow> bytes \<Rightarrow> CodecError + UpgradeDecisionMsg" where
  "UpgradeDecisionMsg_decode E bytes =
     (case bytes of
        [] \<Rightarrow> Inl CodecInvalidLength
      | first # rest \<Rightarrow>
          if packet_type_from first = TUpgradeDecision then parsed (pb_decision E) rest else Inl DecodeFailed)"

definition UpgradeDecisionMsg_encode :: "proto_env \<Rightarrow> UpgradeDecisionMsg \<Rightarrow> CodecError + bytes" where
  "UpgradeDecisionMsg_encode E = body_encode TUpgradeDecision (pb_decision E)"

section \<open>Pings and pongs\<close>

type_synonym decryptor = "PacketTypeRelayed \<Rightarrow> bytes \<Rightarrow> CodecError + bytes \<times> PublicKey option"

definition PingerMsg_ping :: "u16 \<Rightarrow> u64 \<Rightarrow> u64 \<Rightarrow> PingerMsg" where
  "PingerMsg_ping wg_port ses ts =
     \<lparr>ping_session = ses, ping_body = \<lparr>pi_start_timestamp = ts, pi_wg_port = ucast wg_port, pi_source = None\<rparr>\<rparr>"

definition PingerMsg_pong :: "u16 \<Rightarrow> StdIpAddr \<Rightarrow> EndpointProvider \<Rightarrow> PingerMsg \<Rightarrow> PongerMsg option" where
  "PingerMsg_pong wg_port ping_source ep_provider m =
     (case ping_source of
        V4 v4address \<Rightarrow> Some \<lparr>pong_session = ping_session m, pong_body =
          \<lparr>po_start_timestamp = pi_start_timestamp (ping_body m), po_wg_port = ucast wg_port,
           po_source = Some (SrcV4 v4address), po_ep_provider = ep_code ep_provider\<rparr>\<rparr>
      | _ \<Rightarrow> None)"

definition get_wg_port :: "PongerMsg \<Rightarrow> u16" where
  "get_wg_port m = ucast (po_wg_port (pong_body m))"

definition get_ping_source_address :: "PongerMsg \<Rightarrow> CodecError + u32" where
  "get_ping_source_address m = (case po_source (pong_body m) of Some (SrcV4 a) \<Rightarrow> Inr a | _ \<Rightarrow> Inl DecodeFailed)"

definition get_ponging_ep_provider :: "PongerMsg \<Rightarrow> CodecError + EndpointProvider option" where
  "get_ponging_ep_provider m =
     (let ep_provider_raw = po_ep_provider (pong_body m)
      in if ep_provider_raw = 0 then Inr None
         else andThen (ok_or DecodeFailed (ep_try_from ep_provider_raw)) (\<lambda>p. Inr (Some p)))"

definition session_of :: "nat \<Rightarrow> bytes \<Rightarrow> CodecError + u64" where
  "session_of i bytes = andThen (ok_or CodecInvalidLength (get_range i (i + 8) bytes)) (\<lambda>bs. Inr (u64_from_be_bytes bs))"

definition PingerMsg_decode_and_decrypt ::
  "proto_env \<Rightarrow> decryptor \<Rightarrow> bytes \<Rightarrow> CodecError + PingerMsg \<times> PublicKey option" where
  "PingerMsg_decode_and_decrypt E decrypt bytes =
     (if bytes = [] then Inl CodecInvalidLength
      else if first_type bytes = TPinger
      then andThen (ok_or CodecInvalidLength (get_from 1 bytes)) (\<lambda>rest.
           andThen (decrypt TPinger rest) (\<lambda>(inner, public_key).
           andThen (session_of 0 inner) (\<lambda>ses.
           andThen (ok_or CodecInvalidLength (get_from 8 inner)) (\<lambda>body.
           andThen (parsed (pb_pinger E) body) (\<lambda>pinger.
           Inr (\<lparr>ping_session = ses, ping_body = pinger\<rparr>, public_key))))))
      else Inl DecodeFailed)"

definition PingerMsg_encode_and_encrypt ::
  "proto_env \<Rightarrow> (bytes \<Rightarrow> CodecError + bytes) \<Rightarrow> PingerMsg \<Rightarrow> CodecError + bytes" where
  "PingerMsg_encode_and_encrypt E encrypt m =
     andThen (written (pb_pinger E) (ping_body m)) (\<lambda>body.
     andThen (encrypt (put_u64 (ping_session m) @ body)) (\<lambda>transformed.
     Inr (type_byte TPinger # transformed)))"

definition PingerMsg_decode :: "proto_env \<Rightarrow> bytes \<Rightarrow> CodecError + PingerMsg" where
  "PingerMsg_decode E bytes =
     andThen (PingerMsg_decode_and_decrypt E (\<lambda>_ b. Inr (b, None)) bytes) (\<lambda>(m, _). Inr m)"

definition PingerMsg_encode :: "proto_env \<Rightarrow> PingerMsg \<Rightarrow> CodecError + bytes" where
  "PingerMsg_encode E m = PingerMsg_encode_and_encrypt E Inr m"

definition PongerMsg_encode_and_encrypt ::
  "proto_env \<Rightarrow> (bytes \<Rightarrow> CodecError + bytes) \<Rightarrow> PongerMsg \<Rightarrow> CodecError + bytes" where
  "PongerMsg_encode_and_encrypt E encrypt m =
     andThen (written (pb_ponger E) (pong_body m)) (\<lambda>buf.
     andThen (encrypt buf) (\<lambda>transformed.
     Inr (type_byte TPonger # put_u64 (pong_session m) @ transformed)))"

definition PartialPongerMsg_decrypt ::
  "proto_env \<Rightarrow> (bytes \<Rightarrow> CodecError + bytes) \<Rightarrow> PartialPongerMsg \<Rightarrow> CodecError + PongerMsg" where
  "PartialPongerMsg_decrypt E decrypt m =
     andThen (decrypt (part_msg m)) (\<lambda>transformed.
     andThen (parsed (pb_ponger E) transformed) (\<lambda>msg. Inr \<lparr>pong_session = part_session m, pong_body = msg\<rparr>))"

definition PartialPongerMsg_decode_and_decrypt :: "decryptor \<Rightarrow> bytes \<Rightarrow> CodecError + PartialPongerMsg" where
  "PartialPongerMsg_decode_and_decrypt decrypt bytes =
     (if bytes = [] then Inl CodecInvalidLength
      else if first_type bytes = TPonger
      then andThen (session_of 1 bytes) (\<lambda>ses.
           andThen (ok_or CodecInvalidLength (get_from 9 bytes)) (\<lambda>rest.
           andThen (decrypt TPonger rest) (\<lambda>(msg, _). Inr \<lparr>part_session = ses, part_msg = msg\<rparr>)))
      else Inl DecodeFailed)"

definition PartialPongerMsg_decode :: "bytes \<Rightarrow> CodecError + PartialPongerMsg" where
  "PartialPongerMsg_decode bytes =
     (if bytes = [] then Inl CodecInvalidLength
      else if first_type bytes = TPonger
      then andThen (session_of 1 bytes) (\<lambda>ses.
           andThen (ok_or CodecInvalidLength (get_from 9 bytes)) (\<lambda>rest. Inr \<lparr>part_session = ses, part_msg = rest\<rparr>))
      else Inl DecodeFailed)"

definition PartialPongerMsg_encode :: "PartialPongerMsg \<Rightarrow> CodecError + bytes" where
  "PartialPongerMsg_encode m = Inr (type_byte TPonger # put_u64 (part_session m) @ part_msg m)"

section \<open>Packets\<close>

definition map_ok :: "('a \<Rightarrow> 'b) \<Rightarrow> 'e + 'a \<Rightarrow> 'e + 'b" where
  "map_ok f r = andThen r (\<lambda>a. Inr (f a))"

definition PacketRelayed_decode :: "proto_env \<Rightarrow> bytes \<Rightarrow> CodecError + PacketRelayed" where
  "PacketRelayed_decode E bytes =
     (if bytes = [] then Inl CodecInvalidLength
      else case first_type bytes of
             TData \<Rightarrow> map_ok PData (DataMsg_decode bytes)
           | TGenData \<Rightarrow> map_ok PData (DataMsg_decode bytes)
           | THeartbeat \<Rightarrow> map_ok PHeartbeat (HeartbeatMessage_decode E bytes)
           | TCallMeMaybe \<Rightarrow> map_ok PCallMeMaybe (CallMeMaybeMsg_decode E bytes)
           | TPinger \<Rightarrow> map_ok PPinger (PingerMsg_decode E bytes)
           | TPonger \<Rightarrow> map_ok PPonger (PartialPongerMsg_decode bytes)
           | TCallMeMaybeDeprecated \<Rightarrow> map_ok PCallMeMaybeDeprecated (CallMeMaybeMsgDeprecated_decode E bytes)
           | TUpgrade \<Rightarrow> map_ok PUpgrade (UpgradeMsg_decode E bytes)
           | TUpgradeDecision \<Rightarrow> map_ok PUpgradeDecision (UpgradeDecisionMsg_decode E bytes)
           | TReserved \<Rightarrow> Inl DecodeFailed | TInvalid \<Rightarrow> Inl DecodeFailed | TEncrypted \<Rightarrow> Inl DecodeFailed)"

fun PacketRelayed_encode :: "proto_env \<Rightarrow> PacketRelayed \<Rightarrow> CodecError + bytes" where
  "PacketRelayed_encode E (PData m) = DataMsg_encode m"
| "PacketRelayed_encode E (PHeartbeat m) = HeartbeatMessage_encode E m"
| "PacketRelayed_encode E (PCallMeMaybe m) = CallMeMaybeMsg_encode E m"
| "PacketRelayed_encode E (PPinger m) = PingerMsg_encode E m"
| "PacketRelayed_encode E (PPonger m) = PartialPongerMsg_encode m"
| "PacketRelayed_encode E (PCallMeMaybeDeprecated m) = CallMeMaybeMsgDeprecated_encode E m"
| "PacketRelayed_encode E (PUpgrade m) = UpgradeMsg_encode E m"
| "PacketRelayed_encode E (PUpgradeDecision m) = UpgradeDecisionMsg_encode E m"

fun PacketRelayed_packet_type :: "PacketRelayed \<Rightarrow> PacketTypeRelayed" where
  "PacketRelayed_packet_type (PData m) = DataMsg_packet_type m"
| "PacketRelayed_packet_type (PHeartbeat _) = THeartbeat"
| "PacketRelayed_packet_type (PCallMeMaybe _) = TCallMeMaybe"
| "PacketRelayed_packet_type (PPinger _) = TPinger"
| "PacketRelayed_packet_type (PPonger _) = TPonger"
| "PacketRelayed_packet_type (PCallMeMaybeDeprecated _) = TCallMeMaybeDeprecated"
| "PacketRelayed_packet_type (PUpgrade _) = TUpgrade"
| "PacketRelayed_packet_type (PUpgradeDecision _) = TUpgradeDecision"

definition PacketRelayed_decode_and_decrypt ::
  "proto_env \<Rightarrow> decryptor \<Rightarrow> bytes \<Rightarrow> CodecError + PacketRelayed \<times> PublicKey option" where
  "PacketRelayed_decode_and_decrypt E decrypt bytes =
     (if bytes = [] then Inl CodecInvalidLength
      else if first_type bytes = TPinger
      then map_ok (\<lambda>(msg, public_key). (PPinger msg, public_key)) (PingerMsg_decode_and_decrypt E decrypt bytes)
      else if first_type bytes = TPonger
      then map_ok (\<lambda>msg. (PPonger msg, None)) (PartialPongerMsg_decode_and_decrypt decrypt bytes)
      else map_ok (\<lambda>p. (p, None)) (PacketRelayed_decode E bytes))"

section \<open>The trait\<close>

text \<open>
  \<open>valid\<close> are the messages the codec is for: a message of data has the header of its type, and the
  text of an address has no place for the flow information of IPv6.
\<close>

locale codec =
  fixes encode :: "'m \<Rightarrow> CodecError + bytes" and decode :: "bytes \<Rightarrow> CodecError + 'm"
    and packet_type :: "'m \<Rightarrow> PacketTypeRelayed" and types :: "PacketTypeRelayed set" and valid :: "'m \<Rightarrow> bool"
  assumes roundtrip: "valid m \<Longrightarrow> encode m = Inr b \<Longrightarrow> decode b = Inr m"
    and header: "valid m \<Longrightarrow> encode m = Inr b \<Longrightarrow> b \<noteq> [] \<and> first_type b = packet_type m"
    and types: "valid m \<Longrightarrow> packet_type m \<in> types"
begin

lemma encode_inj: "valid m \<Longrightarrow> valid m' \<Longrightarrow> encode m = Inr b \<Longrightarrow> encode m' = Inr b \<Longrightarrow> m = m'"
  using roundtrip [of m b] roundtrip [of m' b] by simp

end

locale protobuf =
  fixes E :: proto_env
  assumes pinger: "pb_write (pb_pinger E) m1 = Inr b \<Longrightarrow> pb_parse (pb_pinger E) b = Inr m1"
    and ponger: "pb_write (pb_ponger E) m2 = Inr b \<Longrightarrow> pb_parse (pb_ponger E) b = Inr m2"
    and cmm: "pb_write (pb_cmm E) m3 = Inr b \<Longrightarrow> pb_parse (pb_cmm E) b = Inr m3"
    and cmm_deprecated: "pb_write (pb_cmm_deprecated E) m4 = Inr b \<Longrightarrow> pb_parse (pb_cmm_deprecated E) b = Inr m4"
    and heartbeat: "pb_write (pb_heartbeat E) m5 = Inr b \<Longrightarrow> pb_parse (pb_heartbeat E) b = Inr m5"
    and upgrade: "pb_write (pb_upgrade E) m6 = Inr b \<Longrightarrow> pb_parse (pb_upgrade E) b = Inr m6"
    and decision: "pb_write (pb_decision E) m7 = Inr b \<Longrightarrow> pb_parse (pb_decision E) b = Inr m7"
    and sock_v4: "sock_parse E (sock_to_string E (SockV4 ip port)) = Some (SockV4 ip port)"
    and sock_v6: "sock_parse E (sock_to_string E (SockV6 ip6 port 0 scope)) = Some (SockV6 ip6 port 0 scope)"
begin

lemma written_parsed:
  "written (pb_pinger E) m1 = Inr b \<Longrightarrow> parsed (pb_pinger E) b = Inr m1"
  "written (pb_ponger E) m2 = Inr b \<Longrightarrow> parsed (pb_ponger E) b = Inr m2"
  "written (pb_cmm E) m3 = Inr b \<Longrightarrow> parsed (pb_cmm E) b = Inr m3"
  "written (pb_cmm_deprecated E) m4 = Inr b \<Longrightarrow> parsed (pb_cmm_deprecated E) b = Inr m4"
  "written (pb_heartbeat E) m5 = Inr b \<Longrightarrow> parsed (pb_heartbeat E) b = Inr m5"
  "written (pb_upgrade E) m6 = Inr b \<Longrightarrow> parsed (pb_upgrade E) b = Inr m6"
  "written (pb_decision E) m7 = Inr b \<Longrightarrow> parsed (pb_decision E) b = Inr m7"
  by (auto simp: written_def parsed_def split: sum.splits
      dest: pinger ponger cmm cmm_deprecated heartbeat upgrade decision)

end

definition plain_sock :: "SocketAddr \<Rightarrow> bool" where
  "plain_sock a = (case a of SockV4 _ _ \<Rightarrow> True | SockV6 _ _ flow _ \<Rightarrow> flow = 0)"

definition data_ok :: "DataMsg \<Rightarrow> bool" where
  "data_ok m \<longleftrightarrow> DataMsg_packet_type m = TData
     \<or> DataMsg_packet_type m = TGenData \<and> 4 \<le> length (data_bytes m)"

definition packet_ok :: "PacketRelayed \<Rightarrow> bool" where
  "packet_ok p = (case p of PData m \<Rightarrow> data_ok m | PUpgrade m \<Rightarrow> plain_sock (um_endpoint m) | _ \<Rightarrow> True)"

text \<open>A byte string of two bytes is the wire form of what it decodes to.\<close>

lemma put_from_be: "length bs = 2 \<Longrightarrow> put_u16 (u16_from_be_bytes bs) = bs"
proof -
  assume "length bs = 2"
  then obtain a b where bs: "bs = [a, b]" by (auto simp: length_Suc_conv numeral_2_eq_2)
  have ab: "unat a < 256" "unat b < 256" using unsigned_less [of a] unsigned_less [of b] by simp_all
  then have n: "256 * unat a + unat b < 65536" by linarith
  have "unat (word_of_nat k :: u16) = k" if "k < 65536" for k
    using that by (simp add: unat_of_nat)
  moreover have "u16_from_be_bytes bs = word_of_nat (256 * unat a + unat b)"
    by (simp only: u16_from_be_bytes_def from_be_bytes_def bs foldl.simps) simp
  ultimately have "put_u16 (u16_from_be_bytes bs) = be_bytes 2 (256 * unat a + unat b)"
    using n by (simp only: put_u16_def)
  moreover have "(256 * unat a + unat b) div 256 = unat a" using ab by simp
  moreover have "(word_of_nat (256 * unat a + unat b) :: u8) = b"
    using ab by (simp only: word_unat_eq_iff unat_byte) simp
  ultimately show ?thesis by (simp add: be_bytes_def bs numeral_2_eq_2 del: of_nat_add of_nat_mult)
qed

lemma data_first: "DataMsg_packet_type m \<noteq> TInvalid \<Longrightarrow> \<exists>b bs. data_bytes m = b # bs \<and> packet_type_from b = DataMsg_packet_type m"
  by (cases "data_bytes m") (auto simp: DataMsg_packet_type_def)

lemma type_byte_of:
  assumes "packet_type_from b = t" "t \<noteq> TInvalid"
  shows "b = type_byte t"
proof -
  from assms have "find (\<lambda>t. type_byte t = b) all_types = Some t"
    by (simp add: packet_type_from_def split: option.splits)
  then show ?thesis unfolding find_Some_iff by blast
qed

interpretation data_codec: codec DataMsg_encode DataMsg_decode DataMsg_packet_type "{TData, TGenData}" data_ok
proof
  fix m b assume ok: "data_ok m" and enc: "DataMsg_encode m = Inr b"
  then obtain x xs where m: "m = DataMsg (x # xs)" "b = x # xs" "packet_type_from x = DataMsg_packet_type m"
    using data_first [of m] by (cases m) (auto simp: data_ok_def DataMsg_encode_def)
  show "b \<noteq> [] \<and> first_type b = DataMsg_packet_type m" using m by simp
  show "DataMsg_decode b = Inr m"
  proof (cases "DataMsg_packet_type m = TData")
    case True
    with m(3) have "packet_type_from x = TData" by simp
    then have "x = type_byte TData" by (rule type_byte_of) simp
    with m(1,2) show ?thesis by (simp add: DataMsg_decode_def get_from_def DataMsg_new_def)
  next
    case False
    then have gen: "DataMsg_packet_type m = TGenData" "4 \<le> length (x # xs)" using ok m by (auto simp: data_ok_def)
    then obtain g p q rest where xs: "xs = g # p # q # rest"
      by (auto simp: Suc_le_length_iff numeral_eq_Suc)
    from m(3) gen(1) have "packet_type_from x = TGenData" by simp
    then have "x = type_byte TGenData" by (rule type_byte_of) simp
    with m(1,2) put_from_be [of "[p, q]"] show ?thesis
      by (simp add: DataMsg_decode_def get_from_def get_range_def PeerId_try_from_def with_generation_def xs)
  qed
qed (auto simp: data_ok_def)

lemma body_roundtrip:
  assumes "body_encode t P m = Inr b" "\<And>bs. written P m = Inr bs \<Longrightarrow> parsed P bs = Inr m"
  shows "body_decode t P b = Inr m \<and> b \<noteq> [] \<and> first_type b = t"
  using assms by (auto simp: body_encode_def body_decode_def get_from_def)

lemma session_of_put [simp]: "session_of 0 (put_u64 w @ bs) = Inr w" "session_of (Suc 0) (b # put_u64 w @ bs) = Inr w"
  by (simp_all add: session_of_def get_range_def)

sublocale protobuf \<subseteq> relayed: codec "PacketRelayed_encode E" "PacketRelayed_decode E" PacketRelayed_packet_type
  "- {TEncrypted, TReserved, TInvalid}" packet_ok
proof
  fix p b assume ok: "packet_ok p" and enc: "PacketRelayed_encode E p = Inr b"
  have "PacketRelayed_decode E b = Inr p \<and> b \<noteq> [] \<and> first_type b = PacketRelayed_packet_type p"
  proof (cases p)
    case (PData m)
    with ok enc data_codec.roundtrip [of m b] data_codec.header [of m b] data_codec.types [of m] show ?thesis
      by (auto simp: packet_ok_def PacketRelayed_decode_def map_ok_def)
  next
    case (PHeartbeat m)
    with enc body_roundtrip [of THeartbeat "pb_heartbeat E" m b] written_parsed(5) show ?thesis
      by (simp add: HeartbeatMessage_encode_def HeartbeatMessage_decode_def PacketRelayed_decode_def map_ok_def)
  next
    case (PCallMeMaybeDeprecated m)
    with enc body_roundtrip [of TCallMeMaybeDeprecated "pb_cmm_deprecated E" m b] written_parsed(4) show ?thesis
      by (simp add: CallMeMaybeMsgDeprecated_encode_def CallMeMaybeMsgDeprecated_decode_def PacketRelayed_decode_def map_ok_def)
  next
    case (PCallMeMaybe m)
    with enc body_roundtrip [of TCallMeMaybe "pb_cmm E" m b] written_parsed(3) show ?thesis
      by (simp add: CallMeMaybeMsg_encode_def CallMeMaybeMsg_decode_def PacketRelayed_decode_def map_ok_def)
  next
    case (PPinger m)
    with enc obtain bs where "written (pb_pinger E) (ping_body m) = Inr bs"
      "b = type_byte TPinger # put_u64 (ping_session m) @ bs"
      by (auto simp: PingerMsg_encode_def PingerMsg_encode_and_encrypt_def)
    with PPinger written_parsed(1) [of "ping_body m" bs] show ?thesis
      by (simp add: PingerMsg_decode_def PingerMsg_decode_and_decrypt_def PacketRelayed_decode_def map_ok_def get_from_def)
  next
    case (PPonger m)
    with enc have "b = type_byte TPonger # put_u64 (part_session m) @ part_msg m"
      by (simp add: PartialPongerMsg_encode_def)
    with PPonger show ?thesis by (simp add: PartialPongerMsg_decode_def PacketRelayed_decode_def map_ok_def get_from_def)
  next
    case (PUpgrade m)
    have "sock_parse E (sock_to_string E (um_endpoint m)) = Some (um_endpoint m)"
      using ok PUpgrade sock_v4 sock_v6 by (cases "um_endpoint m") (auto simp: packet_ok_def plain_sock_def)
    moreover have "body_decode TUpgrade (pb_upgrade E) b = Inr
        \<lparr>up_endpoint = sock_to_string E (um_endpoint m), up_session = um_session m,
         up_endpoint_type = ep_code (endpoint_type m), up_receiver_endpoint_type = ep_code (receiver_endpoint_type m)\<rparr>
        \<and> b \<noteq> [] \<and> first_type b = TUpgrade"
      by (rule body_roundtrip [OF _ written_parsed(6)]) (use PUpgrade enc in \<open>simp_all add: UpgradeMsg_encode_def\<close>)
    ultimately show ?thesis using PUpgrade by (simp add: UpgradeMsg_decode_def PacketRelayed_decode_def map_ok_def)
  next
    case (PUpgradeDecision m)
    with enc obtain bs where "written (pb_decision E) m = Inr bs" "b = type_byte TUpgradeDecision # bs"
      by (auto simp: UpgradeDecisionMsg_encode_def body_encode_def)
    with PUpgradeDecision written_parsed(7) [of m bs] show ?thesis
      by (simp add: UpgradeDecisionMsg_decode_def PacketRelayed_decode_def map_ok_def)
  qed
  then show "PacketRelayed_decode E b = Inr p" "b \<noteq> [] \<and> first_type b = PacketRelayed_packet_type p" by simp_all
next
  fix p assume "packet_ok p"
  then show "PacketRelayed_packet_type p \<in> - {TEncrypted, TReserved, TInvalid}"
    by (cases p) (auto simp: packet_ok_def data_ok_def)
qed

context protobuf
begin

lemma relayed_codec: "codec (PacketRelayed_encode E) (PacketRelayed_decode E) PacketRelayed_packet_type
    (- {TEncrypted, TReserved, TInvalid}) packet_ok"
  by (rule relayed.codec_axioms)

end

end
