(* ===== verification/Backoff.thy ===== *)
theory Backoff
  imports Telio_Prelude
begin

text \<open>
  Exponential backoff (crates/telio-utils/src/exponential_backoff.rs). The trait \<open>Backoff\<close> is the
  record \<open>backoff_ops\<close> and the locale \<open>backoff\<close>; \<open>ExponentialBackoff\<close> implements it. The product
  of a duration with the multiplier panics beyond the range of \<open>Duration\<close> (centuries), which is
  not modelled.
\<close>

section \<open>The helper\<close>

definition EXPONENTIAL_BACKOFF_MULTIPLIER :: nat where "EXPONENTIAL_BACKOFF_MULTIPLIER = 2"

datatype BackoffError = InvalidExponentialBackoffBounds

record ExponentialBackoffBounds =
  bo_initial :: duration
  bo_maximal :: "duration option"

record ExponentialBackoff =
  bo_bounds :: ExponentialBackoffBounds
  current_backoff :: duration

definition ExponentialBackoff_new :: "ExponentialBackoffBounds \<Rightarrow> BackoffError + ExponentialBackoff" where
  "ExponentialBackoff_new bounds =
     (if bo_initial bounds = 0 \<or> (case bo_maximal bounds of None \<Rightarrow> False | Some t \<Rightarrow> t < bo_initial bounds)
      then Inl InvalidExponentialBackoffBounds
      else Inr \<lparr>bo_bounds = bounds, current_backoff = bo_initial bounds\<rparr>)"

definition get_backoff :: "ExponentialBackoff \<Rightarrow> duration" where
  "get_backoff b = current_backoff b"

definition next_backoff :: "ExponentialBackoff \<Rightarrow> ExponentialBackoff" where
  "next_backoff b =
     (let current = current_backoff b * EXPONENTIAL_BACKOFF_MULTIPLIER
      in b\<lparr>current_backoff := (case bo_maximal (bo_bounds b) of
                                 None \<Rightarrow> current
                               | Some maximal \<Rightarrow> if current > maximal then maximal else current)\<rparr>)"

definition reset_backoff :: "ExponentialBackoff \<Rightarrow> ExponentialBackoff" where
  "reset_backoff b = b\<lparr>current_backoff := bo_initial (bo_bounds b)\<rparr>"

section \<open>The trait\<close>

record 'b backoff_ops =
  bo_get :: "'b \<Rightarrow> duration"
  bo_next :: "'b \<Rightarrow> 'b"
  bo_reset :: "'b \<Rightarrow> 'b"

text \<open>\<open>first\<close> is the wait after a reset; waits are positive and do not shrink until then.\<close>

locale backoff =
  fixes B :: "'b backoff_ops" and invar :: "'b \<Rightarrow> bool" and first :: "'b \<Rightarrow> duration"
  assumes next_invar: "invar b \<Longrightarrow> invar (bo_next B b)"
    and reset_invar: "invar b \<Longrightarrow> invar (bo_reset B b)"
    and next_first: "invar b \<Longrightarrow> first (bo_next B b) = first b"
    and reset_first: "invar b \<Longrightarrow> first (bo_reset B b) = first b"
    and get_reset: "invar b \<Longrightarrow> bo_get B (bo_reset B b) = first b"
    and first_pos: "invar b \<Longrightarrow> 0 < first b"
    and first_get: "invar b \<Longrightarrow> first b \<le> bo_get B b"
    and get_next: "invar b \<Longrightarrow> bo_get B b \<le> bo_get B (bo_next B b)"
begin

lemma iterated: "invar b \<Longrightarrow> invar ((bo_next B ^^ n) b) \<and> first ((bo_next B ^^ n) b) = first b"
  by (induction n) (auto simp: next_invar next_first)

lemma get_positive: "invar b \<Longrightarrow> 0 < bo_get B b"
  using first_pos first_get less_le_trans by blast

lemma get_iterated: "invar b \<Longrightarrow> m \<le> n \<Longrightarrow> bo_get B ((bo_next B ^^ m) b) \<le> bo_get B ((bo_next B ^^ n) b)"
proof (induction n)
  case (Suc n)
  then show ?case
    using get_next [of "(bo_next B ^^ n) b"] iterated [of b n] by (cases "m = Suc n") auto
qed simp

end

definition exponential_backoff :: "ExponentialBackoff backoff_ops" where
  "exponential_backoff = \<lparr>bo_get = get_backoff, bo_next = next_backoff, bo_reset = reset_backoff\<rparr>"

definition backoff_ok :: "ExponentialBackoff \<Rightarrow> bool" where
  "backoff_ok b \<longleftrightarrow> 0 < bo_initial (bo_bounds b) \<and> bo_initial (bo_bounds b) \<le> current_backoff b
     \<and> (\<forall>t. bo_maximal (bo_bounds b) = Some t \<longrightarrow> current_backoff b \<le> t)"

lemmas backoff_defs = exponential_backoff_def get_backoff_def next_backoff_def reset_backoff_def
  EXPONENTIAL_BACKOFF_MULTIPLIER_def Let_def

interpretation exponential: backoff exponential_backoff backoff_ok "bo_initial \<circ> bo_bounds"
  by unfold_locales (auto simp: backoff_defs backoff_ok_def split: option.splits)

lemma new_backoff_ok: "ExponentialBackoff_new bounds = Inr b \<Longrightarrow> backoff_ok b"
  by (auto simp: ExponentialBackoff_new_def backoff_ok_def split: if_splits option.splits)

text \<open>
  After n rounds without a reset the helper waits for the initial time doubled n times, but never
  longer than the maximum.
\<close>

theorem backoff_rounds:
  assumes "ExponentialBackoff_new bounds = Inr b"
  shows "bo_bounds ((next_backoff ^^ n) b) = bounds
    \<and> get_backoff ((next_backoff ^^ n) b) =
        (case bo_maximal bounds of None \<Rightarrow> bo_initial bounds * 2 ^ n
         | Some t \<Rightarrow> min (bo_initial bounds * 2 ^ n) t)"
proof (induction n)
  case 0
  from assms show ?case
    by (auto simp: ExponentialBackoff_new_def get_backoff_def split: if_splits option.splits)
next
  case (Suc n)
  then show ?case
    by (auto simp: backoff_defs min_def split: option.splits)
qed

theorem backoff_rounds_witness:
  "ExponentialBackoff_new \<lparr>bo_initial = 2, bo_maximal = Some 120\<rparr> =
     Inr \<lparr>bo_bounds = \<lparr>bo_initial = 2, bo_maximal = Some 120\<rparr>, current_backoff = 2\<rparr>
   \<and> get_backoff ((next_backoff ^^ 3) \<lparr>bo_bounds = \<lparr>bo_initial = 2, bo_maximal = Some 120\<rparr>, current_backoff = 2\<rparr>) = 16
   \<and> get_backoff ((next_backoff ^^ 9) \<lparr>bo_bounds = \<lparr>bo_initial = 2, bo_maximal = Some 120\<rparr>, current_backoff = 2\<rparr>) = 120"
proof -
  have *: "ExponentialBackoff_new \<lparr>bo_initial = 2, bo_maximal = Some 120\<rparr> =
     Inr \<lparr>bo_bounds = \<lparr>bo_initial = 2, bo_maximal = Some 120\<rparr>, current_backoff = 2\<rparr>"
    by (simp add: ExponentialBackoff_new_def)
  with backoff_rounds [OF this, of 3] backoff_rounds [OF this, of 9] show ?thesis by simp
qed

end
