(* ===== verification/Cross_Ping.thy ===== *)
theory Cross_Ping
  imports Proto_Codecs Lru_Cache Backoff
begin

text \<open>
  The cross-ping check (crates/telio-traversal/src/connectivity_check/cross_ping_check.rs and
  endpoint_state.rs): one session per peer and local endpoint, a state machine per session, and
  the handlers of the task. Channels, endpoint providers and the ping-pong handler are told what to
  do in \<open>cpc_out\<close> and \<open>known_sessions\<close>. Random session numbers, iteration orders of hash
  collections, the text form of socket addresses, the backoff helper and the time since a peer
  was last heard are the environment \<open>cpc_env\<close>.
\<close>

section \<open>States of a session\<close>

datatype EpEvent =
    StartUp
  | SendCallMeMaybeRequest
  | ReceiveCallMeMaybeResponse
  | Publish
  | Timeout
  | EndpointGone

datatype EpState = EpDisconnected EpEvent | EndpointGathering | Ping | Published

definition EpState_default :: EpState where "EpState_default = EpDisconnected StartUp"

fun handle_event :: "EpState \<Rightarrow> EpEvent \<Rightarrow> EpState" where
  "handle_event (EpDisconnected _) SendCallMeMaybeRequest = EndpointGathering"
| "handle_event EndpointGathering ReceiveCallMeMaybeResponse = Ping"
| "handle_event Ping Publish = Published"
| "handle_event EndpointGathering Timeout = EpDisconnected Timeout"
| "handle_event Ping Timeout = EpDisconnected Timeout"
| "handle_event Published EndpointGone = EpDisconnected EndpointGone"
| "handle_event st _ = st"

section \<open>Messages and endpoints\<close>

datatype EndpointProviderType = LocalInterfaces | StunProvider | UpnpProvider

fun api_provider :: "EndpointProviderType \<Rightarrow> EndpointProvider" where
  "api_provider LocalInterfaces = Local"
| "api_provider StunProvider = Stun"
| "api_provider UpnpProvider = Upnp"

record EndpointCandidate =
  cand_wg :: SocketAddr
  cand_udp :: SocketAddr

record PongEvent =
  pong_addr :: SocketAddr
  pong_rtt :: duration
  pong_msg :: PongerMsg

section \<open>State\<close>

record 'b CheckState =
  cs_public_key :: PublicKey
  local_endpoint_candidate :: EndpointCandidate
  local_session :: u64
  cs_state :: EpState
  last_state_transition :: instant
  last_validated_endpoint :: "(SocketAddr \<times> EndpointProvider) option"
  cs_backoff :: 'b
  provider_type :: EndpointProvider

datatype cpc_out =
    SentCmm PublicKey CallMeMaybeMsg
  | SentPing string SocketAddr u64 PublicKey
  | PublishedWg PublicKey Candidate
  | ToldGone string

record ('b, 'm) CpcState =
  endpoint_providers :: "string list"
  check_states :: "u64 \<rightharpoonup> 'b CheckState"
  node_cache :: "PublicKey set"
  local_endpoint_cache :: "EndpointProviderType \<Rightarrow> EndpointCandidate set"
  known_sessions :: "u64 \<rightharpoonup> PublicKey"
  session_id_candidates :: "'m LruCache"
  intercoms_open :: bool
  publisher_open :: bool
  draws :: nat
  cpc_out :: "cpc_out list"

record ('b, 'm) cpc_env =
  cpc_backoff :: "'b backoff_ops"
  new_backoff :: "BackoffError + 'b"
  cpc_lhm :: "(u64, PublicKey TimedValue, 'm) lhm_ops"
  random_session :: "nat \<Rightarrow> u64"
  session_order :: "u64 set \<Rightarrow> u64 list"
  node_order :: "PublicKey set \<Rightarrow> PublicKey list"
  provider_order :: "EndpointProviderType list"
  candidate_order :: "EndpointCandidate set \<Rightarrow> EndpointCandidate list"
  last_rx_time :: "(PublicKey \<Rightarrow> instant \<Rightarrow> string + duration option) option"
  max_no_rx_time :: duration
  parse_addr :: "string \<Rightarrow> SocketAddr option"
  show_addr :: "SocketAddr \<Rightarrow> string"

datatype CpcError =
    UnkownSessionForRxedPongPacket
  | UnexpectedPeer PublicKey
  | ExponentialBackoffError BackoffError
  | RespondingToCMMInitiatorError
  | PublishingWireGuardEndpointError

definition CPC_TIMEOUT :: duration where "CPC_TIMEOUT = from_secs 10"
definition UPGRADE_TIMEOUT :: duration where "UPGRADE_TIMEOUT = from_secs 60"
definition MAX_SESSION_CANDIDATES :: nat where "MAX_SESSION_CANDIDATES = 512"

definition start_with_backoff_provider ::
  "('b, 'm) cpc_env \<Rightarrow> string list \<Rightarrow> ('b, 'm) CpcState" where
  "start_with_backoff_provider E providers =
     \<lparr>endpoint_providers = providers, check_states = Map.empty, node_cache = {},
      local_endpoint_cache = (\<lambda>_. {}), known_sessions = Map.empty,
      session_id_candidates = lru_new (cpc_lhm E) UPGRADE_TIMEOUT MAX_SESSION_CANDIDATES,
      intercoms_open = True, publisher_open = True, draws = 0, cpc_out = []\<rparr>"

definition CallMeMaybeMsg_new :: "('b, 'm) cpc_env \<Rightarrow> bool \<Rightarrow> SocketAddr list \<Rightarrow> u64 \<Rightarrow> CallMeMaybeMsg" where
  "CallMeMaybeMsg_new E initiator addrs ses =
     \<lparr>i_am_initiator = initiator, my_addresses = map (show_addr E) addrs, cmm_session = ses\<rparr>"

definition get_addrs :: "('b, 'm) cpc_env \<Rightarrow> CallMeMaybeMsg \<Rightarrow> SocketAddr list" where
  "get_addrs E m = List.map_filter (parse_addr E) (my_addresses m)"

section \<open>One session\<close>

definition do_state_transition :: "EpEvent \<Rightarrow> instant \<Rightarrow> 'b CheckState \<Rightarrow> 'b CheckState" where
  "do_state_transition ev now cs =
     cs\<lparr>last_state_transition := now, cs_state := handle_event (cs_state cs) ev\<rparr>"

text \<open>The result of a session handler: an error or not, the session, and what was sent.\<close>

type_synonym 'b cs_result = "(CpcError + unit) \<times> 'b CheckState \<times> cpc_out list"

definition send_call_me_maybe_request ::
  "('b, 'm) cpc_env \<Rightarrow> bool \<Rightarrow> u64 \<Rightarrow> 'b CheckState \<Rightarrow> (CpcError + unit) \<times> cpc_out list" where
  "send_call_me_maybe_request E is_open ses cs =
     (if is_open
      then (Inr (), [SentCmm (cs_public_key cs)
                       (CallMeMaybeMsg_new E True [cand_udp (local_endpoint_candidate cs)] ses)])
      else (Inl RespondingToCMMInitiatorError, []))"

definition cs_endpoint_gone_notification :: "instant \<Rightarrow> 'b CheckState \<Rightarrow> 'b CheckState" where
  "cs_endpoint_gone_notification now cs =
     (if cs_state cs = Published then do_state_transition EndpointGone now cs else cs)"

definition cs_endpoint_successful_notification ::
  "('b, 'm) cpc_env \<Rightarrow> 'b CheckState \<Rightarrow> 'b CheckState" where
  "cs_endpoint_successful_notification E cs =
     (if cs_state cs = Published then cs\<lparr>cs_backoff := bo_reset (cpc_backoff E) (cs_backoff cs)\<rparr> else cs)"

text \<open>A provider that fails to ping is only logged.\<close>

definition send_ping_via_all_endpoint_providers ::
  "string list \<Rightarrow> SocketAddr \<Rightarrow> u64 \<Rightarrow> PublicKey \<Rightarrow> cpc_out list" where
  "send_ping_via_all_endpoint_providers providers addr ses pk =
     map (\<lambda>p. SentPing p addr ses pk) providers"

definition cs_call_me_maybe_response ::
  "('b, 'm) cpc_env \<Rightarrow> string list \<Rightarrow> instant \<Rightarrow> u64 \<Rightarrow> PublicKey \<Rightarrow> CallMeMaybeMsg \<Rightarrow> 'b CheckState
     \<Rightarrow> 'b CheckState \<times> cpc_out list" where
  "cs_call_me_maybe_response E providers now ses pk msg cs =
     (if cs_state cs = EndpointGathering
      then (do_state_transition ReceiveCallMeMaybeResponse now cs,
            concat (map (\<lambda>a. send_ping_via_all_endpoint_providers providers a ses pk) (get_addrs E msg)))
      else (cs, []))"

text \<open>
  A pong is taken when it saw the ping come from our local endpoint, or when it was sent from an
  endpoint that is not behind a NAT.
\<close>

definition pong_matches :: "'b CheckState \<Rightarrow> PongerMsg \<Rightarrow> bool" where
  "pong_matches cs m =
     (case get_ping_source_address m of
        Inl _ \<Rightarrow> False
      | Inr src \<Rightarrow> V4 src = sock_ip (cand_udp (local_endpoint_candidate cs))
                  \<or> get_ponging_ep_provider m = Inr (Some Local) \<or> get_ponging_ep_provider m = Inr (Some Upnp))"

definition pong_endpoint :: "PongEvent \<Rightarrow> SocketAddr \<times> EndpointProvider" where
  "pong_endpoint ev =
     (sock_new (sock_ip (pong_addr ev)) (get_wg_port (pong_msg ev)),
      case get_ponging_ep_provider (pong_msg ev) of Inr (Some ep) \<Rightarrow> ep | _ \<Rightarrow> Local)"

definition cs_pong_rx_event ::
  "('b, 'm) cpc_env \<Rightarrow> bool \<Rightarrow> instant \<Rightarrow> PongEvent \<Rightarrow> 'b CheckState \<Rightarrow> 'b cs_result" where
  "cs_pong_rx_event E is_open now ev cs =
     (if cs_state cs = Ping \<and> pong_matches cs (pong_msg ev)
      then let cs1 = do_state_transition Publish now cs;
               cs2 = cs1\<lparr>cs_backoff := bo_reset (cpc_backoff E) (cs_backoff cs1),
                         last_validated_endpoint := Some (pong_endpoint ev)\<rparr>;
               event = \<lparr>remote_endpoint = pong_endpoint ev,
                        local_endpoint = (cand_wg (local_endpoint_candidate cs), provider_type cs),
                        session = local_session cs, changed_at = last_state_transition cs1\<rparr>
           in if is_open then (Inr (), cs2, [PublishedWg (cs_public_key cs) event])
              else (Inl PublishingWireGuardEndpointError, cs2, [])
      else (Inr (), cs, []))"

datatype ShouldSendCMMResult = Yes | Backoff | Unresponsive

definition is_peer_alive ::
  "(PublicKey \<Rightarrow> instant \<Rightarrow> string + duration option) \<Rightarrow> duration \<Rightarrow> PublicKey \<Rightarrow> instant \<Rightarrow> bool" where
  "is_peer_alive last_rx max_no_rx pk now =
     (case last_rx pk now of Inr (Some time) \<Rightarrow> time < max_no_rx | _ \<Rightarrow> False)"

definition should_resend_call_me_maybe_request ::
  "('b, 'm) cpc_env \<Rightarrow> instant \<Rightarrow> duration \<Rightarrow> 'b CheckState \<Rightarrow> ShouldSendCMMResult" where
  "should_resend_call_me_maybe_request E now duration_in_state cs =
     (if duration_in_state > bo_get (cpc_backoff E) (cs_backoff cs)
      then (case last_rx_time E of
              None \<Rightarrow> Yes
            | Some last_rx \<Rightarrow>
                if is_peer_alive last_rx (max_no_rx_time E) (cs_public_key cs) now then Yes else Unresponsive)
      else Backoff)"

text \<open>The clock is read on entry (\<open>clk 0\<close>) and by a transition (\<open>clk 1\<close>).\<close>

definition cs_tick_event ::
  "('b, 'm) cpc_env \<Rightarrow> bool \<Rightarrow> (nat \<Rightarrow> instant) \<Rightarrow> u64 \<Rightarrow> 'b CheckState \<Rightarrow> 'b cs_result" where
  "cs_tick_event E is_open clk ses cs =
     (let duration_in_state = clk 0 - last_state_transition cs;
          request = (\<lambda>cs'. case send_call_me_maybe_request E is_open ses cs' of
                       (Inl e, out) \<Rightarrow> (Inl e, cs', out)
                     | (Inr _, out) \<Rightarrow> (Inr (), do_state_transition SendCallMeMaybeRequest (clk 1) cs', out));
          retry = (if should_resend_call_me_maybe_request E (clk 0) duration_in_state cs = Yes
                   then request (cs\<lparr>cs_backoff := bo_next (cpc_backoff E) (cs_backoff cs)\<rparr>)
                   else (Inr (), cs, []));
          give_up = (if duration_in_state > CPC_TIMEOUT then (Inr (), do_state_transition Timeout (clk 1) cs, [])
                     else (Inr (), cs, []))
      in case cs_state cs of
           EndpointGathering \<Rightarrow> give_up
         | Ping \<Rightarrow> give_up
         | EpDisconnected StartUp \<Rightarrow> request cs
         | EpDisconnected Timeout \<Rightarrow> retry
         | EpDisconnected EndpointGone \<Rightarrow> retry
         | _ \<Rightarrow> (Inr (), cs, []))"

section \<open>The task\<close>

type_synonym ('b, 'm) cpc_step = "('b, 'm) CpcState \<Rightarrow> (CpcError + unit) \<times> ('b, 'm) CpcState"

definition gather_all_local_endpoints :: "('b, 'm) CpcState \<Rightarrow> EndpointCandidate set" where
  "gather_all_local_endpoints s =
     local_endpoint_cache s LocalInterfaces \<union> local_endpoint_cache s StunProvider \<union> local_endpoint_cache s UpnpProvider"

text \<open>A fresh session; the number is drawn before the backoff helper is made.\<close>

definition create_session ::
  "('b, 'm) cpc_env \<Rightarrow> (nat \<Rightarrow> instant) \<Rightarrow> PublicKey \<times> EndpointProviderType \<times> EndpointCandidate
     \<Rightarrow> ('b, 'm) cpc_step" where
  "create_session E clk = (\<lambda>(node, provider, candidate) s.
     let ses = random_session E (draws s); s1 = s\<lparr>draws := Suc (draws s)\<rparr> in
     case new_backoff E of
       Inl e \<Rightarrow> (Inl (ExponentialBackoffError e), s1)
     | Inr b \<Rightarrow>
         (Inr (), s1\<lparr>check_states := (check_states s)(ses \<mapsto>
            \<lparr>cs_public_key = node, local_endpoint_candidate = candidate, local_session = ses,
             cs_state = EpState_default, last_state_transition = clk (draws s),
             last_validated_endpoint = None, cs_backoff = b, provider_type = api_provider provider\<rparr>)\<rparr>))"

definition retain_sessions ::
  "('b CheckState \<Rightarrow> bool) \<Rightarrow> ('b, 'm) CpcState \<Rightarrow> ('b, 'm) CpcState" where
  "retain_sessions keep s =
     s\<lparr>check_states := (\<lambda>k. case check_states s k of
        None \<Rightarrow> None | Some cs \<Rightarrow> if keep cs then Some cs else None)\<rparr>"

definition configure_ping_pong :: "('b, 'm) CpcState \<Rightarrow> ('b, 'm) CpcState" where
  "configure_ping_pong s = s\<lparr>known_sessions := (\<lambda>k. map_option cs_public_key (check_states s k))\<rparr>"

definition cpc_configure ::
  "('b, 'm) cpc_env \<Rightarrow> (nat \<Rightarrow> instant) \<Rightarrow> Config option \<Rightarrow> ('b, 'm) cpc_step" where
  "cpc_configure E clk config s =
     (let new_nodes = (case config of None \<Rightarrow> {}
                       | Some c \<Rightarrow> set (map mp_public_key (list_of (cfg_peers c))));
          added_nodes = new_nodes - node_cache s; removed_nodes = node_cache s - new_nodes;
          s1 = retain_sessions (\<lambda>cs. cs_public_key cs \<notin> removed_nodes) s;
          pairs = concat (map (\<lambda>node. concat (map (\<lambda>provider.
                    map (\<lambda>c. (node, provider, c)) (candidate_order E (local_endpoint_cache s provider)))
                    (provider_order E))) (node_order E added_nodes))
      in case for_each (create_session E clk) pairs s1 of
           (Inl e, s2) \<Rightarrow> (Inl e, s2)
         | (Inr _, s2) \<Rightarrow> (Inr (), (configure_ping_pong s2)\<lparr>node_cache := new_nodes\<rparr>))"

definition handle_endpoint_change_event ::
  "('b, 'm) cpc_env \<Rightarrow> (nat \<Rightarrow> instant) \<Rightarrow> EndpointProviderType \<Rightarrow> EndpointCandidate list
     \<Rightarrow> ('b, 'm) cpc_step" where
  "handle_endpoint_change_event E clk provider candidates s =
     (let old_endpoints = local_endpoint_cache s provider; new_endpoints = set candidates;
          added_endpoints = new_endpoints - old_endpoints; removed_endpoints = old_endpoints - new_endpoints;
          s1 = retain_sessions (\<lambda>cs. local_endpoint_candidate cs \<notin> removed_endpoints) s;
          pairs = concat (map (\<lambda>c. map (\<lambda>node. (node, provider, c)) (node_order E (node_cache s)))
                    (candidate_order E added_endpoints))
      in case for_each (create_session E clk) pairs s1 of
           (Inl e, s2) \<Rightarrow> (Inl e, s2)
         | (Inr _, s2) \<Rightarrow>
             (Inr (), (configure_ping_pong s2)
                \<lparr>local_endpoint_cache := (local_endpoint_cache s2)(provider := new_endpoints)\<rparr>))"

text \<open>The handler of a session, applied to it in the map of sessions.\<close>

definition on_session :: "u64 \<Rightarrow> ('b CheckState \<Rightarrow> 'b cs_result) \<Rightarrow> ('b, 'm) cpc_step" where
  "on_session ses f s =
     (case check_states s ses of
        None \<Rightarrow> (Inl UnkownSessionForRxedPongPacket, s)
      | Some cs \<Rightarrow>
          (case f cs of (r, cs', out) \<Rightarrow>
             (r, s\<lparr>check_states := (check_states s)(ses \<mapsto> cs'), cpc_out := cpc_out s @ out\<rparr>)))"

definition handle_pong_rx_event :: "('b, 'm) cpc_env \<Rightarrow> instant \<Rightarrow> PongEvent \<Rightarrow> ('b, 'm) cpc_step" where
  "handle_pong_rx_event E now ev s =
     on_session (pong_session (pong_msg ev)) (cs_pong_rx_event E (publisher_open s) now ev) s"

definition handle_call_me_maybe_rxed_event ::
  "('b, 'm) cpc_env \<Rightarrow> instant \<Rightarrow> PublicKey \<Rightarrow> CallMeMaybeMsg \<Rightarrow> ('b, 'm) cpc_step" where
  "handle_call_me_maybe_rxed_event E now pk msg s =
     (if i_am_initiator msg
      then (case find (\<lambda>k. map_option cs_public_key (check_states s k) = Some pk)
                   (session_order E (dom (check_states s))) of
              None \<Rightarrow> (Inl (UnexpectedPeer pk), s)
            | Some local_session_id \<Rightarrow>
                let pings = concat (map (\<lambda>a. send_ping_via_all_endpoint_providers (endpoint_providers s) a
                                      local_session_id pk) (get_addrs E msg));
                    s1 = s\<lparr>cpc_out := cpc_out s @ pings,
                           session_id_candidates := lru_insert (cpc_lhm E) (session_id_candidates s)
                             (cmm_session msg) pk now\<rparr>;
                    response = CallMeMaybeMsg_new E False
                      (map cand_udp (candidate_order E (gather_all_local_endpoints s))) (cmm_session msg)
                in if intercoms_open s then (Inr (), s1\<lparr>cpc_out := cpc_out s1 @ [SentCmm pk response]\<rparr>)
                   else (Inl RespondingToCMMInitiatorError, s1))
      else on_session (cmm_session msg)
             (\<lambda>cs. (Inr (), cs_call_me_maybe_response E (endpoint_providers s) now (cmm_session msg) pk msg cs)) s)"

definition handle_tick_event :: "('b, 'm) cpc_env \<Rightarrow> (u64 \<Rightarrow> nat \<Rightarrow> instant) \<Rightarrow> ('b, 'm) cpc_step" where
  "handle_tick_event E clk s =
     for_each (\<lambda>ses. on_session ses (cs_tick_event E (intercoms_open s) (clk ses) ses))
       (session_order E (dom (check_states s))) s"

definition check_if_upgrade_is_allowed ::
  "('b, 'm) cpc_env \<Rightarrow> instant \<Rightarrow> u64 \<Rightarrow> PublicKey \<Rightarrow> ('b, 'm) CpcState \<Rightarrow> bool \<times> ('b, 'm) CpcState" where
  "check_if_upgrade_is_allowed E now ses pk s =
     (case lru_get (cpc_lhm E) (session_id_candidates s) ses now of
        (r, c) \<Rightarrow> (case r of Some pk' \<Rightarrow> pk' = pk | None \<Rightarrow> False, s\<lparr>session_id_candidates := c\<rparr>))"

definition sessions_of :: "('b, 'm) cpc_env \<Rightarrow> PublicKey \<Rightarrow> ('b, 'm) CpcState \<Rightarrow> u64 list" where
  "sessions_of E pk s =
     filter (\<lambda>k. map_option cs_public_key (check_states s k) = Some pk) (session_order E (dom (check_states s)))"

text \<open>
  A failed connection: the sessions of the peer are told, and every provider that currently has the
  endpoint of the session (\<open>current\<close>).
\<close>

definition notify_failed_wg_connection ::
  "('b, 'm) cpc_env \<Rightarrow> (u64 \<Rightarrow> instant) \<Rightarrow> (string \<Rightarrow> EndpointCandidate list option) \<Rightarrow> PublicKey
     \<Rightarrow> ('b, 'm) CpcState \<Rightarrow> ('b, 'm) CpcState" where
  "notify_failed_wg_connection E clk current pk s =
     snd (for_each (\<lambda>ses. on_session ses (\<lambda>cs.
       (Inr (), cs_endpoint_gone_notification (clk ses) cs,
        map ToldGone (filter (\<lambda>p. case current p of None \<Rightarrow> False
                                   | Some cands \<Rightarrow> local_endpoint_candidate cs \<in> set cands)
          (endpoint_providers s))))) (sessions_of E pk s) s)"

definition notify_successfull_wg_connection_upgrade ::
  "('b, 'm) cpc_env \<Rightarrow> PublicKey \<Rightarrow> ('b, 'm) CpcState \<Rightarrow> ('b, 'm) CpcState" where
  "notify_successfull_wg_connection_upgrade E pk s =
     snd (for_each (\<lambda>ses. on_session ses (\<lambda>cs. (Inr (), cs_endpoint_successful_notification E cs, [])))
       (sessions_of E pk s) s)"

text \<open>Collected into a map: of several sessions of a peer the last one counts.\<close>

definition validated_endpoint :: "u64 \<Rightarrow> 'b CheckState \<Rightarrow> Candidate option" where
  "validated_endpoint ses cs =
     (case (cs_state cs, last_validated_endpoint cs) of
        (Published, Some ep) \<Rightarrow>
          Some \<lparr>remote_endpoint = ep, local_endpoint = (cand_wg (local_endpoint_candidate cs), provider_type cs),
                session = ses, changed_at = last_state_transition cs\<rparr>
      | _ \<Rightarrow> None)"

definition get_validated_endpoints ::
  "('b, 'm) cpc_env \<Rightarrow> ('b, 'm) CpcState \<Rightarrow> (PublicKey \<rightharpoonup> Candidate)" where
  "get_validated_endpoints E s =
     fold (\<lambda>ses m. case check_states s ses of
         None \<Rightarrow> m
       | Some cs \<Rightarrow> (case validated_endpoint ses cs of None \<Rightarrow> m | Some c \<Rightarrow> m(cs_public_key cs \<mapsto> c)))
       (session_order E (dom (check_states s))) Map.empty"

end
