(* ===== verification/Upgrade_Sync.thy ===== *)
theory Upgrade_Sync
  imports Cross_Ping
begin

text \<open>
  The upgrade negotiation (crates/telio-traversal/src/upgrade_sync.rs): a node asks a peer to move the
  connection to a direct endpoint, the peer decides and answers, and both remember which kinds of
  endpoints the direct session uses. The verdict of the upgrade controller is an argument of the
  handler (\<open>check_if_upgrade_is_allowed\<close> of the cross-ping check or an error of its task), and the
  iteration order of the hash map is an argument where it matters. What is sent is recorded in
  \<open>us_out\<close>.
\<close>

section \<open>State\<close>

datatype UpgradeError =
    SendUpgradeMsgErr
  | SendUpgradeDecisionMsgErr
  | SendUpgradeRequestChangeEventErr
  | UpgradeRejected Decision

record UpgradeRequest =
  ur_endpoint :: SocketAddr
  requested_at :: instant
  ur_session :: u64

datatype 'a Direction = Sent 'a | Received 'a

fun direction_into :: "'a Direction \<Rightarrow> 'a" where
  "direction_into (Sent t) = t"
| "direction_into (Received t) = t"

record SessionData =
  local_ep :: EndpointProvider
  remote_ep :: EndpointProvider

datatype us_out =
    SentUpgrade PublicKey UpgradeMsg
  | SentDecision PublicKey UpgradeDecisionMsg
  | RequestChanged
  | ToldFailed PublicKey

record 'm UpgradeState =
  upgrade_requests :: "PublicKey Direction \<rightharpoonup> UpgradeRequest"
  expiration_period :: duration
  pending_direct_sessions :: "'m LruCache"
  accepted_direct_sessions :: "PublicKey \<rightharpoonup> SessionData"
  our_public_key :: PublicKey
  upgrade_open :: bool
  decision_open :: bool
  request_publisher_open :: bool
  us_out :: "us_out list"

definition MAX_PENDING_SESSIONS :: nat where "MAX_PENDING_SESSIONS = 512"

type_synonym 'm pending_ops = "(u64, SessionData TimedValue, 'm) lhm_ops"

definition UpgradeSync_new :: "'m pending_ops \<Rightarrow> duration \<Rightarrow> PublicKey \<Rightarrow> 'm UpgradeState" where
  "UpgradeSync_new L period pk =
     \<lparr>upgrade_requests = Map.empty, expiration_period = period,
      pending_direct_sessions = lru_new L (from_secs 15) MAX_PENDING_SESSIONS,
      accepted_direct_sessions = Map.empty, our_public_key = pk, upgrade_open = True, decision_open = True,
      request_publisher_open = True, us_out = []\<rparr>"

definition us_set_public_key :: "PublicKey \<Rightarrow> 'm UpgradeState \<Rightarrow> 'm UpgradeState" where
  "us_set_public_key pk s = s\<lparr>our_public_key := pk\<rparr>"

definition us_is_expired :: "duration \<Rightarrow> instant \<Rightarrow> UpgradeRequest \<Rightarrow> bool" where
  "us_is_expired period now r \<longleftrightarrow> now - requested_at r > period"

section \<open>Calls\<close>

text \<open>Both directions of a peer are one entry; the one that is iterated last stays.\<close>

definition get_upgrade_requests ::
  "(PublicKey Direction set \<Rightarrow> PublicKey Direction list) \<Rightarrow> 'm UpgradeState \<Rightarrow> (PublicKey \<rightharpoonup> UpgradeRequest)" where
  "get_upgrade_requests order s =
     fold (\<lambda>d m. case upgrade_requests s d of None \<Rightarrow> m | Some r \<Rightarrow> m(direction_into d \<mapsto> r))
       (order (dom (upgrade_requests s))) Map.empty"

definition get_accepted_session :: "PublicKey \<Rightarrow> 'm UpgradeState \<Rightarrow> SessionData option" where
  "get_accepted_session pk s = accepted_direct_sessions s pk"

definition clear_accepted_session :: "PublicKey \<Rightarrow> 'm UpgradeState \<Rightarrow> 'm UpgradeState" where
  "clear_accepted_session pk s = s\<lparr>accepted_direct_sessions := (accepted_direct_sessions s)(pk := None)\<rparr>"

text \<open>
  The clock is read by the check of an earlier request (\<open>clk 0\<close>), for the request itself
  (\<open>clk 1\<close>) and by the cache of pending sessions (\<open>clk 2\<close>).
\<close>

definition request_upgrade ::
  "'m pending_ops \<Rightarrow> (nat \<Rightarrow> instant) \<Rightarrow> PublicKey \<Rightarrow> SocketAddr \<times> EndpointProvider
     \<Rightarrow> SocketAddr \<times> EndpointProvider \<Rightarrow> u64 \<Rightarrow> 'm UpgradeState \<Rightarrow> (UpgradeError + bool) \<times> 'm UpgradeState" where
  "request_upgrade L clk pk remote_ep_addr local_ep_addr ses s =
     (if (case upgrade_requests s (Received pk) of None \<Rightarrow> False
          | Some r \<Rightarrow> \<not> us_is_expired (expiration_period s) (clk 0) r)
      then (Inr False, s)
      else if \<not> upgrade_open s then (Inl SendUpgradeMsgErr, s)
      else (Inr True, s\<lparr>
        us_out := us_out s @ [SentUpgrade pk \<lparr>um_endpoint = fst local_ep_addr, um_session = ses,
          endpoint_type = snd local_ep_addr, receiver_endpoint_type = snd remote_ep_addr\<rparr>],
        upgrade_requests := (upgrade_requests s)(Sent pk \<mapsto>
          \<lparr>ur_endpoint = fst remote_ep_addr, requested_at = clk 1, ur_session = ses\<rparr>),
        pending_direct_sessions := lru_insert L (pending_direct_sessions s) ses
          \<lparr>local_ep = snd local_ep_addr, remote_ep = snd remote_ep_addr\<rparr> (clk 2)\<rparr>))"

section \<open>Events of the task\<close>

definition decide :: "instant \<Rightarrow> PublicKey \<Rightarrow> 'm UpgradeState \<Rightarrow> Decision" where
  "decide now pk s =
     (case upgrade_requests s (Sent pk) of
        None \<Rightarrow> Accepted
      | Some v \<Rightarrow>
          if us_is_expired (expiration_period s) now v then Accepted
          else if our_public_key s = smaller_key_in_meshnet_canonical_order (our_public_key s) pk
          then RejectedDueToConcurrentUpgrade
          else Accepted)"

definition send_decision ::
  "PublicKey \<Rightarrow> u64 \<Rightarrow> Decision \<Rightarrow> 'm UpgradeState \<Rightarrow> (UpgradeError + unit) \<times> 'm UpgradeState" where
  "send_decision pk ses decision s =
     (if \<not> decision_open s then (Inl SendUpgradeDecisionMsgErr, s)
      else let s1 = s\<lparr>us_out := us_out s @ [SentDecision pk \<lparr>ud_decision = decision, ud_session = ses\<rparr>]\<rparr>
           in if decision \<noteq> Accepted then (Inl (UpgradeRejected decision), s1) else (Inr (), s1))"

definition handle_upgrade_request_msg ::
  "string + bool \<Rightarrow> (nat \<Rightarrow> instant) \<Rightarrow> PublicKey \<Rightarrow> UpgradeMsg \<Rightarrow> 'm UpgradeState
     \<Rightarrow> (UpgradeError + unit) \<times> 'm UpgradeState" where
  "handle_upgrade_request_msg allowed clk pk msg s =
     (let decision = (case allowed of Inr True \<Rightarrow> decide (clk 0) pk s | _ \<Rightarrow> RejectedDueToUnknownSession)
      in case send_decision pk (um_session msg) decision s of
           (Inl e, s1) \<Rightarrow> (Inl e, s1)
         | (Inr _, s1) \<Rightarrow>
             let s2 = s1\<lparr>accepted_direct_sessions := (accepted_direct_sessions s1)(pk \<mapsto>
                          \<lparr>local_ep = receiver_endpoint_type msg, remote_ep = endpoint_type msg\<rparr>),
                         upgrade_requests := (upgrade_requests s1)(Received pk \<mapsto>
                          \<lparr>ur_endpoint = um_endpoint msg, requested_at = clk 1, ur_session = um_session msg\<rparr>)\<rparr>
             in if request_publisher_open s2 then (Inr (), s2\<lparr>us_out := us_out s2 @ [RequestChanged]\<rparr>)
                else (Inl SendUpgradeRequestChangeEventErr, s2))"

definition handle_upgrade_decision_msg ::
  "'m pending_ops \<Rightarrow> (PublicKey Direction set \<Rightarrow> PublicKey Direction list) \<Rightarrow> PublicKey \<Rightarrow> UpgradeDecisionMsg
     \<Rightarrow> 'm UpgradeState \<Rightarrow> 'm UpgradeState" where
  "handle_upgrade_decision_msg L order pk msg s =
     (case ud_decision msg of
        Accepted \<Rightarrow>
          (case lru_remove L (pending_direct_sessions s) (ud_session msg) of
             (Some d, c) \<Rightarrow> s\<lparr>pending_direct_sessions := c,
                               accepted_direct_sessions := (accepted_direct_sessions s)(pk \<mapsto> d)\<rparr>
           | (None, c) \<Rightarrow> s\<lparr>pending_direct_sessions := c\<rparr>)
      | RejectedDueToUnknownSession \<Rightarrow>
          (case find (\<lambda>d. map_option ur_session (upgrade_requests s d) = Some (ud_session msg))
                  (order (dom (upgrade_requests s))) of
             Some d \<Rightarrow> s\<lparr>us_out := us_out s @ [ToldFailed (direction_into d)]\<rparr>
           | None \<Rightarrow> s)
      | RejectedDueToConcurrentUpgrade \<Rightarrow>
          s\<lparr>upgrade_requests := (\<lambda>d. case upgrade_requests s d of
               None \<Rightarrow> None
             | Some r \<Rightarrow> if d = Sent pk \<and> ur_session r = ud_session msg then None else Some r)\<rparr>)"

text \<open>
  One change event per expired request, then the expired ones are dropped; a closed channel aborts the
  tick at the first of them. \<open>clk 0\<close> and \<open>clk 1\<close> are the clock readings of the two passes, one for
  each entry.
\<close>

definition us_handle_tick ::
  "(PublicKey Direction set \<Rightarrow> PublicKey Direction list) \<Rightarrow> (nat \<Rightarrow> PublicKey Direction \<Rightarrow> instant)
     \<Rightarrow> 'm UpgradeState \<Rightarrow> (UpgradeError + unit) \<times> 'm UpgradeState" where
  "us_handle_tick order clk s =
     (let expired = filter (\<lambda>d. case upgrade_requests s d of None \<Rightarrow> False
                             | Some r \<Rightarrow> us_is_expired (expiration_period s) (clk 0 d) r)
                      (order (dom (upgrade_requests s)))
      in if expired \<noteq> [] \<and> \<not> request_publisher_open s then (Inl SendUpgradeRequestChangeEventErr, s)
         else (Inr (), s\<lparr>us_out := us_out s @ replicate (length expired) RequestChanged,
                 upgrade_requests := (\<lambda>d. case upgrade_requests s d of
                    None \<Rightarrow> None
                  | Some r \<Rightarrow> if us_is_expired (expiration_period s) (clk 1 d) r then None else Some r)\<rparr>))"

end
