(* ===== verification/Cross_Ping_Props.thy ===== *)
theory Cross_Ping_Props
  imports Cross_Ping
begin

text \<open>
  Runs of the cross-ping check and their invariant. A run is any interleaving of the handlers of
  the task and of the calls made to it; it records the pongs that were received and the call-me-maybe
  requests that were received from peers with a session. The contract of the environment is the locale \<open>cross_ping\<close>.
\<close>

section \<open>Runs\<close>

inductive cpc_run ::
  "('b, 'm) cpc_env \<Rightarrow> PongEvent list \<Rightarrow> (u64 \<times> PublicKey) list \<Rightarrow> ('b, 'm) CpcState \<Rightarrow> instant \<Rightarrow> bool"
  for E where
  start: "cpc_run E [] [] (start_with_backoff_provider E providers) now"
| later: "cpc_run E ps cs s now \<Longrightarrow> now \<le> now' \<Longrightarrow> cpc_run E ps cs s now'"
| configure: "cpc_run E ps cs s now \<Longrightarrow> cpc_run E ps cs (snd (cpc_configure E clk config s)) now"
| endpoints: "cpc_run E ps cs s now \<Longrightarrow>
    cpc_run E ps cs (snd (handle_endpoint_change_event E clk provider candidates s)) now"
| pong: "cpc_run E ps cs s now \<Longrightarrow> cpc_run E (ev # ps) cs (snd (handle_pong_rx_event E t ev s)) now"
| request: "cpc_run E ps cs s now \<Longrightarrow> i_am_initiator msg \<Longrightarrow> pk \<in> cs_public_key ` ran (check_states s) \<Longrightarrow>
    cpc_run E ps ((cmm_session msg, pk) # cs) (snd (handle_call_me_maybe_rxed_event E now pk msg s)) now"
| stranger: "cpc_run E ps cs s now \<Longrightarrow> i_am_initiator msg \<Longrightarrow> pk \<notin> cs_public_key ` ran (check_states s) \<Longrightarrow>
    cpc_run E ps cs (snd (handle_call_me_maybe_rxed_event E now pk msg s)) now"
| response: "cpc_run E ps cs s now \<Longrightarrow> \<not> i_am_initiator msg \<Longrightarrow>
    cpc_run E ps cs (snd (handle_call_me_maybe_rxed_event E now pk msg s)) now"
| tick: "cpc_run E ps cs s now \<Longrightarrow> cpc_run E ps cs (snd (handle_tick_event E clks s)) now"
| allowed: "cpc_run E ps cs s now \<Longrightarrow> cpc_run E ps cs (snd (check_if_upgrade_is_allowed E now ses pk s)) now"
| failed: "cpc_run E ps cs s now \<Longrightarrow> cpc_run E ps cs (notify_failed_wg_connection E at current pk s) now"
| upgraded: "cpc_run E ps cs s now \<Longrightarrow> cpc_run E ps cs (notify_successfull_wg_connection_upgrade E pk s) now"
| channels: "cpc_run E ps cs s now \<Longrightarrow> cpc_run E ps cs (s\<lparr>intercoms_open := a, publisher_open := b\<rparr>) now"

section \<open>Invariant\<close>

text \<open>
  A session belongs to a node and a local endpoint that are known, its state can be left, and what
  it published was confirmed by a pong for this session.
\<close>

definition session_ok ::
  "('b \<Rightarrow> bool) \<Rightarrow> PublicKey set \<Rightarrow> (EndpointProviderType \<Rightarrow> EndpointCandidate set) \<Rightarrow> PongEvent list
     \<Rightarrow> u64 \<Rightarrow> 'b CheckState \<Rightarrow> bool" where
  "session_ok bo_ok nodes cache ps k cs \<longleftrightarrow>
     local_session cs = k \<and> cs_public_key cs \<in> nodes
     \<and> (\<exists>p. provider_type cs = api_provider p \<and> local_endpoint_candidate cs \<in> cache p)
     \<and> bo_ok (cs_backoff cs)
     \<and> (\<forall>e. cs_state cs = EpDisconnected e \<longrightarrow> e \<in> {StartUp, Timeout, EndpointGone})
     \<and> (cs_state cs = Published \<longrightarrow>
          (\<exists>ev \<in> set ps. pong_session (pong_msg ev) = k \<and> last_validated_endpoint cs = Some (pong_endpoint ev)))"

definition sessions_ok ::
  "('b \<Rightarrow> bool) \<Rightarrow> PublicKey set \<Rightarrow> (EndpointProviderType \<Rightarrow> EndpointCandidate set) \<Rightarrow> PongEvent list
     \<Rightarrow> ('b, 'm) CpcState \<Rightarrow> bool" where
  "sessions_ok bo_ok nodes cache ps s \<longleftrightarrow>
     finite (dom (check_states s))
     \<and> (\<forall>k cs. check_states s k = Some cs \<longrightarrow> session_ok bo_ok nodes cache ps k cs)"

definition cpc_inv ::
  "('b \<Rightarrow> bool) \<Rightarrow> PongEvent list \<Rightarrow> ('b, 'm) CpcState \<Rightarrow> bool" where
  "cpc_inv bo_ok ps s \<longleftrightarrow>
     finite (node_cache s) \<and> (\<forall>p. finite (local_endpoint_cache s p))
     \<and> sessions_ok bo_ok (node_cache s) (local_endpoint_cache s) ps s
     \<and> (\<forall>k cs. check_states s k = Some cs \<longrightarrow> known_sessions s k = Some (cs_public_key cs))"

lemma sessions_okD:
  "sessions_ok ok nodes cache ps s \<Longrightarrow> check_states s k = Some cs \<Longrightarrow> session_ok ok nodes cache ps k cs"
  "sessions_ok ok nodes cache ps s \<Longrightarrow> finite (dom (check_states s))"
  by (simp_all add: sessions_ok_def)

text \<open>Handlers that keep what identifies a session.\<close>

definition keeps_session :: "('b CheckState \<Rightarrow> 'b cs_result) \<Rightarrow> bool" where
  "keeps_session f \<longleftrightarrow> (\<forall>cs. cs_public_key (fst (snd (f cs))) = cs_public_key cs)"

text \<open>The parts of the state that the handlers of sessions leave alone.\<close>

definition same_caches :: "('b, 'm) CpcState \<Rightarrow> ('b, 'm) CpcState \<Rightarrow> bool" where
  "same_caches s s' \<longleftrightarrow>
     node_cache s' = node_cache s \<and> local_endpoint_cache s' = local_endpoint_cache s
     \<and> known_sessions s' = known_sessions s \<and> session_id_candidates s' = session_id_candidates s
     \<and> endpoint_providers s' = endpoint_providers s
     \<and> (\<forall>k. map_option cs_public_key (check_states s' k) = map_option cs_public_key (check_states s k))"

lemma same_caches_refl [simp]: "same_caches s s"
  by (simp add: same_caches_def)

lemma same_caches_trans: "same_caches s t \<Longrightarrow> same_caches t u \<Longrightarrow> same_caches s u"
  by (simp add: same_caches_def)

lemma same_caches_dom: "same_caches s s' \<Longrightarrow> dom (check_states s') = dom (check_states s)"
  unfolding same_caches_def dom_def by (metis map_option_is_None)

lemma on_session_same:
  assumes "keeps_session f"
  shows "same_caches s (snd (on_session k f s))"
proof (cases "check_states s k")
  case (Some cs)
  obtain r cs' out where f: "f cs = (r, cs', out)" by (rule prod_cases3)
  with assms have "cs_public_key cs' = cs_public_key cs" by (metis keeps_session_def fst_conv snd_conv)
  with f Some show ?thesis by (simp add: on_session_def same_caches_def)
qed (simp add: on_session_def)

lemma for_each_same:
  assumes "\<And>k s. same_caches s (snd (f k s))"
  shows "same_caches s (snd (for_each f ks s))"
proof (induction ks arbitrary: s)
  case (Cons k ks)
  obtain r t where f: "f k s = (r, t)" by (rule prod.exhaust)
  with assms [of s k] have "same_caches s t" by simp
  with Cons [of t] f show ?case by (cases r) (auto intro: same_caches_trans)
qed simp

lemma on_session_ok:
  assumes "sessions_ok ok nodes cache ps s"
    and "\<And>cs. session_ok ok nodes cache ps k cs \<Longrightarrow> session_ok ok nodes cache ps' k (fst (snd (f cs)))"
    and "set ps \<subseteq> set ps'"
  shows "sessions_ok ok nodes cache ps' (snd (on_session k f s))"
proof -
  have mono: "session_ok ok nodes cache ps j cs \<Longrightarrow> session_ok ok nodes cache ps' j cs" for j cs
    using assms(3) unfolding session_ok_def by blast
  show ?thesis
  proof (cases "check_states s k")
    case None
    with assms(1) mono show ?thesis by (auto simp: on_session_def sessions_ok_def)
  next
    case (Some cs)
    obtain r cs' out where f: "f cs = (r, cs', out)" by (rule prod_cases3)
    have "session_ok ok nodes cache ps' k cs'"
      using assms(2) [OF sessions_okD(1) [OF assms(1) Some]] f by simp
    with Some f assms(1) mono show ?thesis by (auto simp: on_session_def sessions_ok_def)
  qed
qed

lemma for_each_ok:
  assumes "sessions_ok ok nodes cache ps s"
    and "\<And>k s. sessions_ok ok nodes cache ps s \<Longrightarrow> sessions_ok ok nodes cache ps (snd (f k s))"
  shows "sessions_ok ok nodes cache ps (snd (for_each f ks s))"
  using assms(1)
proof (induction ks arbitrary: s)
  case (Cons k ks)
  obtain r t where f: "f k s = (r, t)" by (rule prod.exhaust)
  with assms(2) [OF Cons.prems, of k] have "sessions_ok ok nodes cache ps t" by simp
  with Cons.IH [of t] f Cons.prems show ?case by (cases r) auto
qed simp

lemma inv_of_same:
  assumes "cpc_inv ok ps s" "same_caches s s'" "sessions_ok ok (node_cache s) (local_endpoint_cache s) ps' s'"
  shows "cpc_inv ok ps' s'"
proof -
  have "known_sessions s' k = Some (cs_public_key cs)" if "check_states s' k = Some cs" for k cs
  proof -
    from assms(2) that have "map_option cs_public_key (check_states s k) = Some (cs_public_key cs)"
      by (metis same_caches_def option.map(2))
    then obtain cs0 where "check_states s k = Some cs0" "cs_public_key cs0 = cs_public_key cs" by auto
    with assms(1,2) show ?thesis by (auto simp: cpc_inv_def same_caches_def)
  qed
  with assms show ?thesis by (auto simp: cpc_inv_def same_caches_def)
qed

section \<open>Handlers of a session\<close>

lemma keeps_session_handlers [simp]:
  "keeps_session (cs_pong_rx_event E b now ev)"
  "keeps_session (cs_tick_event E b clk ses)"
  "keeps_session (\<lambda>cs. (Inr (), cs_call_me_maybe_response E provs now ses pk msg cs))"
  "keeps_session (\<lambda>cs. (Inr (), cs_endpoint_gone_notification now cs, outs cs))"
  "keeps_session (\<lambda>cs. (Inr (), cs_endpoint_successful_notification E cs, []))"
  by (auto simp: keeps_session_def cs_pong_rx_event_def cs_tick_event_def cs_call_me_maybe_response_def
      cs_endpoint_gone_notification_def cs_endpoint_successful_notification_def do_state_transition_def
      send_call_me_maybe_request_def Let_def split: EpState.split EpEvent.split)

locale cross_ping =
  fixes E :: "('b, 'm) cpc_env" and invar :: "'m \<Rightarrow> bool" and bo_ok :: "'b \<Rightarrow> bool" and first :: "'b \<Rightarrow> duration"
  assumes backoff: "backoff (cpc_backoff E) bo_ok first"
    and lhm: "linked_hash_map (cpc_lhm E) invar"
    and new_ok: "new_backoff E = Inr b \<Longrightarrow> bo_ok b"
    and session_order: "finite S \<Longrightarrow> set (session_order E S) = S \<and> distinct (session_order E S)"
    and node_order: "finite N \<Longrightarrow> set (node_order E N) = N"
    and candidate_order: "finite C \<Longrightarrow> set (candidate_order E C) = C"
begin

lemma lru: "lru (cpc_lhm E) invar"
  by (rule lru_of_linked_hash_map [OF lhm])

lemma reset_ok: "bo_ok b \<Longrightarrow> bo_ok (bo_reset (cpc_backoff E) b)"
  by (rule backoff.reset_invar [OF backoff])

lemma next_ok: "bo_ok b \<Longrightarrow> bo_ok (bo_next (cpc_backoff E) b)"
  by (rule backoff.next_invar [OF backoff])

lemma pong_session_ok:
  assumes "session_ok bo_ok nodes cache ps (pong_session (pong_msg ev)) cs"
  shows "session_ok bo_ok nodes cache (ev # ps) (pong_session (pong_msg ev)) (fst (snd (cs_pong_rx_event E b now ev cs)))"
  using assms reset_ok by (auto simp: session_ok_def cs_pong_rx_event_def do_state_transition_def Let_def)

lemma response_session_ok:
  "session_ok bo_ok nodes cache ps k cs \<Longrightarrow>
     session_ok bo_ok nodes cache ps k (fst (cs_call_me_maybe_response E provs now ses pk msg cs))"
  by (auto simp: session_ok_def cs_call_me_maybe_response_def do_state_transition_def)

lemma gone_session_ok:
  "session_ok bo_ok nodes cache ps k cs \<Longrightarrow> session_ok bo_ok nodes cache ps k (cs_endpoint_gone_notification now cs)"
  by (auto simp: session_ok_def cs_endpoint_gone_notification_def do_state_transition_def)

lemma successful_session_ok:
  "session_ok bo_ok nodes cache ps k cs \<Longrightarrow>
     session_ok bo_ok nodes cache ps k (cs_endpoint_successful_notification E cs)"
  using reset_ok by (auto simp: session_ok_def cs_endpoint_successful_notification_def)

lemma tick_session_ok:
  "session_ok bo_ok nodes cache ps k cs \<Longrightarrow>
     session_ok bo_ok nodes cache ps k (fst (snd (cs_tick_event E b clk ses cs)))"
  using next_ok by (auto simp: session_ok_def cs_tick_event_def do_state_transition_def
      send_call_me_maybe_request_def Let_def split: EpState.split EpEvent.split)

section \<open>Creation of sessions\<close>

lemma create_fails:
  assumes "new_backoff E = Inl e"
  shows "check_states (snd (for_each (create_session E clk) es s)) = check_states s
    \<and> same_caches s (snd (for_each (create_session E clk) es s))"
  using assms by (cases es) (auto simp: create_session_def Let_def same_caches_def)

lemma create_succeeds:
  assumes "new_backoff E = Inr b" "sessions_ok bo_ok nodes cache ps s"
    and "\<And>n p c. (n, p, c) \<in> set es \<Longrightarrow> n \<in> nodes \<and> c \<in> cache p"
  shows "\<exists>t. for_each (create_session E clk) es s = (Inr (), t) \<and> sessions_ok bo_ok nodes cache ps t
    \<and> node_cache t = node_cache s \<and> local_endpoint_cache t = local_endpoint_cache s
    \<and> session_id_candidates t = session_id_candidates s"
  using assms(2,3)
proof (induction es arbitrary: s)
  case (Cons e es)
  obtain n p c where e: "e = (n, p, c)" by (rule prod_cases3)
  obtain t where t: "create_session E clk e s = (Inr (), t)" "check_states t = (check_states s)
      (random_session E (draws s) \<mapsto> \<lparr>cs_public_key = n, local_endpoint_candidate = c, local_session = random_session E (draws s),
             cs_state = EpState_default, last_state_transition = clk (draws s),
             last_validated_endpoint = None, cs_backoff = b, provider_type = api_provider p\<rparr>)"
    and f: "node_cache t = node_cache s" "local_endpoint_cache t = local_endpoint_cache s"
    "session_id_candidates t = session_id_candidates s"
    by (simp add: create_session_def e assms(1) Let_def)
  have "n \<in> nodes" "c \<in> cache p" using Cons.prems(2) [of n p c] by (simp_all add: e)
  then have "sessions_ok bo_ok nodes cache ps t"
    using Cons.prems(1) new_ok [OF assms(1)]
    by (auto simp: sessions_ok_def t(2) session_ok_def EpState_default_def)
  from Cons.IH [OF this] Cons.prems(2) obtain u where
    "for_each (create_session E clk) es t = (Inr (), u)" "sessions_ok bo_ok nodes cache ps u"
    "node_cache u = node_cache t" "local_endpoint_cache u = local_endpoint_cache t"
    "session_id_candidates u = session_id_candidates t"
    by (metis list.set_intros(2))
  with t(1) f show ?case by simp
qed simp

lemma retain_ok:
  assumes "sessions_ok bo_ok nodes cache ps s" "\<And>cs k. session_ok bo_ok nodes cache ps k cs \<Longrightarrow> keep cs
      \<Longrightarrow> session_ok bo_ok nodes' cache' ps k cs"
  shows "sessions_ok bo_ok nodes' cache' ps (retain_sessions keep s)"
proof -
  have "dom (check_states (retain_sessions keep s)) \<subseteq> dom (check_states s)"
    by (auto simp: retain_sessions_def dom_def split: option.splits)
  with assms show ?thesis
    by (auto simp: sessions_ok_def retain_sessions_def intro: finite_subset split: option.splits if_splits)
qed

lemma retain_known:
  assumes "\<forall>k cs. check_states s k = Some cs \<longrightarrow> known_sessions s k = Some (cs_public_key cs)"
  shows "\<forall>k cs. check_states (retain_sessions keep s) k = Some cs
    \<longrightarrow> known_sessions (retain_sessions keep s) k = Some (cs_public_key cs)"
  using assms by (auto simp: retain_sessions_def split: option.splits if_splits)

lemma retain_frame [simp]:
  "node_cache (retain_sessions keep s) = node_cache s"
  "local_endpoint_cache (retain_sessions keep s) = local_endpoint_cache s"
  "session_id_candidates (retain_sessions keep s) = session_id_candidates s"
  by (simp_all add: retain_sessions_def)

text \<open>Both handlers that create sessions: drop some, create some, then adopt the new caches.\<close>

lemma recreate_inv:
  assumes inv: "cpc_inv bo_ok ps s" and fin: "finite nodes" "\<And>p. finite (cache p)"
    and keep: "\<And>cs k. session_ok bo_ok (node_cache s) (local_endpoint_cache s) ps k cs \<Longrightarrow> keep cs
      \<Longrightarrow> session_ok bo_ok nodes cache ps k cs"
    and new: "\<And>n p c. (n, p, c) \<in> set es \<Longrightarrow> n \<in> nodes \<and> c \<in> cache p"
    and res: "for_each (create_session E clk) es (retain_sessions keep s) = (r, t)"
  shows "(case r of Inl _ \<Rightarrow> cpc_inv bo_ok ps t
      | Inr _ \<Rightarrow> cpc_inv bo_ok ps ((configure_ping_pong t)\<lparr>node_cache := nodes, local_endpoint_cache := cache\<rparr>))
    \<and> node_cache t = node_cache s \<and> local_endpoint_cache t = local_endpoint_cache s
    \<and> session_id_candidates t = session_id_candidates s"
proof (cases "new_backoff E")
  case (Inl e)
  let ?s = "retain_sessions keep s"
  from create_fails [OF Inl, of clk es ?s] res
  have t: "check_states t = check_states ?s" "same_caches ?s t" by simp_all
  have old: "cpc_inv bo_ok ps ?s"
    using inv retain_ok [where s = s and keep = keep and nodes = "node_cache s" and nodes' = "node_cache s"
        and cache = "local_endpoint_cache s" and cache' = "local_endpoint_cache s" and ps = ps]
      retain_known [of s keep] by (simp add: cpc_inv_def)
  have "cpc_inv bo_ok ps t"
    by (rule inv_of_same [OF old t(2)]) (use old t in \<open>simp add: cpc_inv_def sessions_ok_def\<close>)
  moreover have "cpc_inv bo_ok ps ((configure_ping_pong t)\<lparr>node_cache := nodes, local_endpoint_cache := cache\<rparr>)"
    using retain_ok [where s = s and keep = keep and nodes = "node_cache s" and nodes' = nodes
        and cache = "local_endpoint_cache s" and cache' = cache and ps = ps] inv keep t(1) fin
    by (auto simp: cpc_inv_def sessions_ok_def configure_ping_pong_def)
  ultimately show ?thesis using t(2) by (auto simp: same_caches_def split: sum.split)
next
  case (Inr b)
  have "sessions_ok bo_ok nodes cache ps (retain_sessions keep s)"
    by (rule retain_ok [where nodes = "node_cache s" and cache = "local_endpoint_cache s"])
      (use inv keep in \<open>auto simp: cpc_inv_def\<close>)
  from create_succeeds [OF Inr this, of es clk] new res
  have "r = Inr ()" "sessions_ok bo_ok nodes cache ps t" "node_cache t = node_cache s"
    "local_endpoint_cache t = local_endpoint_cache s" "session_id_candidates t = session_id_candidates s"
    by auto
  then show ?thesis
    using fin by (auto simp: cpc_inv_def sessions_ok_def configure_ping_pong_def)
qed

lemma configure_inv:
  assumes inv: "cpc_inv bo_ok ps s"
  shows "cpc_inv bo_ok ps (snd (cpc_configure E clk config s))
    \<and> session_id_candidates (snd (cpc_configure E clk config s)) = session_id_candidates s"
proof -
  define nodes where "nodes = (case config of None \<Rightarrow> {}
                       | Some c \<Rightarrow> set (map mp_public_key (list_of (cfg_peers c))))"
  define keep where "keep = (\<lambda>cs :: 'b CheckState. cs_public_key cs \<notin> node_cache s - nodes)"
  define es where "es = concat (map (\<lambda>node. concat (map (\<lambda>provider.
      map (\<lambda>c. (node, provider, c)) (candidate_order E (local_endpoint_cache s provider)))
      (provider_order E))) (node_order E (nodes - node_cache s)))"
  obtain r t where res: "for_each (create_session E clk) es (retain_sessions keep s) = (r, t)" by (rule prod.exhaust)
  have fin: "finite nodes" "\<And>p. finite (local_endpoint_cache s p)"
    using inv by (auto simp: nodes_def cpc_inv_def split: option.split)
  have new: "n \<in> nodes \<and> c \<in> local_endpoint_cache s p" if "(n, p, c) \<in> set es" for n p c
    using that fin by (auto simp: es_def node_order candidate_order)
  have keeps: "session_ok bo_ok nodes (local_endpoint_cache s) ps k cs"
    if "session_ok bo_ok (node_cache s) (local_endpoint_cache s) ps k cs" "keep cs" for k cs
    using that by (auto simp: session_ok_def keep_def)
  note * = recreate_inv [OF inv fin keeps new res]
  have "cpc_configure E clk config s = (case (r, t) of (Inl e, s2) \<Rightarrow> (Inl e, s2)
         | (Inr _, s2) \<Rightarrow> (Inr (), (configure_ping_pong s2)\<lparr>node_cache := nodes\<rparr>))"
    unfolding cpc_configure_def Let_def res [symmetric] es_def keep_def nodes_def by (rule refl)
  then show ?thesis using * by (cases r) (auto simp: configure_ping_pong_def cpc_inv_def sessions_ok_def)
qed

lemma endpoint_change_inv:
  assumes inv: "cpc_inv bo_ok ps s"
  shows "cpc_inv bo_ok ps (snd (handle_endpoint_change_event E clk provider candidates s))
    \<and> session_id_candidates (snd (handle_endpoint_change_event E clk provider candidates s)) = session_id_candidates s"
proof -
  let ?old = "local_endpoint_cache s provider" and ?new = "set candidates"
  define cache where "cache = (local_endpoint_cache s)(provider := ?new)"
  define keep where "keep = (\<lambda>cs :: 'b CheckState. local_endpoint_candidate cs \<notin> ?old - ?new)"
  define es where "es = concat (map (\<lambda>c. map (\<lambda>node. (node, provider, c)) (node_order E (node_cache s)))
      (candidate_order E (?new - ?old)))"
  obtain r t where res: "for_each (create_session E clk) es (retain_sessions keep s) = (r, t)" by (rule prod.exhaust)
  have fin: "finite (node_cache s)" "\<And>p. finite (cache p)"
    using inv by (auto simp: cache_def cpc_inv_def)
  have new: "n \<in> node_cache s \<and> c \<in> cache p" if "(n, p, c) \<in> set es" for n p c
    using that fin by (auto simp: es_def node_order candidate_order cache_def)
  have keeps: "session_ok bo_ok (node_cache s) cache ps k cs"
    if "session_ok bo_ok (node_cache s) (local_endpoint_cache s) ps k cs" "keep cs" for k cs
  proof -
    from that(1) obtain p where p: "provider_type cs = api_provider p"
      "local_endpoint_candidate cs \<in> local_endpoint_cache s p" by (auto simp: session_ok_def)
    with that(2) have "local_endpoint_candidate cs \<in> cache p" by (auto simp: keep_def cache_def)
    with p(1) that(1) show ?thesis unfolding session_ok_def by blast
  qed
  note * = recreate_inv [OF inv fin keeps new res]
  have "handle_endpoint_change_event E clk provider candidates s = (case (r, t) of (Inl e, s2) \<Rightarrow> (Inl e, s2)
         | (Inr _, s2) \<Rightarrow> (Inr (), (configure_ping_pong s2)\<lparr>local_endpoint_cache := (local_endpoint_cache s2)(provider := ?new)\<rparr>))"
    unfolding handle_endpoint_change_event_def Let_def res [symmetric] es_def keep_def by (rule refl)
  then show ?thesis using *
    by (cases r) (auto simp: configure_ping_pong_def cpc_inv_def sessions_ok_def cache_def)
qed

section \<open>Every run\<close>

lemma on_session_inv:
  assumes "cpc_inv bo_ok ps s" "keeps_session f" "set ps \<subseteq> set ps'"
    and "\<And>cs. session_ok bo_ok (node_cache s) (local_endpoint_cache s) ps k cs
      \<Longrightarrow> session_ok bo_ok (node_cache s) (local_endpoint_cache s) ps' k (fst (snd (f cs)))"
  shows "cpc_inv bo_ok ps' (snd (on_session k f s))"
proof (rule inv_of_same [OF assms(1) on_session_same [OF assms(2)]])
  have "sessions_ok bo_ok (node_cache s) (local_endpoint_cache s) ps s" using assms(1) by (simp add: cpc_inv_def)
  then show "sessions_ok bo_ok (node_cache s) (local_endpoint_cache s) ps' (snd (on_session k f s))"
    by (rule on_session_ok) (rule assms(4), assumption, rule assms(3))
qed

lemma for_each_session_inv:
  assumes "cpc_inv bo_ok ps s" "\<And>k. keeps_session (f k)"
    and "\<And>k cs. session_ok bo_ok (node_cache s) (local_endpoint_cache s) ps k cs
      \<Longrightarrow> session_ok bo_ok (node_cache s) (local_endpoint_cache s) ps k (fst (snd (f k cs)))"
  shows "cpc_inv bo_ok ps (snd (for_each (\<lambda>k. on_session k (f k)) ks s))"
proof (rule inv_of_same [OF assms(1)])
  show "same_caches s (snd (for_each (\<lambda>k. on_session k (f k)) ks s))"
    by (rule for_each_same) (rule on_session_same [OF assms(2)])
  have "sessions_ok bo_ok (node_cache s) (local_endpoint_cache s) ps s" using assms(1) by (simp add: cpc_inv_def)
  then show "sessions_ok bo_ok (node_cache s) (local_endpoint_cache s) ps (snd (for_each (\<lambda>k. on_session k (f k)) ks s))"
    by (rule for_each_ok) (rule on_session_ok, assumption, rule assms(3), auto)
qed

lemma run_inv: "cpc_run E ps cs s now \<Longrightarrow> cpc_inv bo_ok ps s"
proof (induction rule: cpc_run.induct)
  case (start providers now)
  show ?case by (simp add: start_with_backoff_provider_def cpc_inv_def sessions_ok_def)
next
  case (configure ps cs s now clk config)
  then show ?case using configure_inv by blast
next
  case (endpoints ps cs s now clk provider candidates)
  then show ?case using endpoint_change_inv by blast
next
  case (pong ps cs s now ev t)
  then show ?case
    unfolding handle_pong_rx_event_def by (intro on_session_inv [where ps = ps] pong_session_ok) auto
next
  case (request ps cs s now msg pk)
  then show ?case
    by (auto simp: handle_call_me_maybe_rxed_event_def Let_def cpc_inv_def sessions_ok_def split: option.split)
next
  case (stranger ps cs s now msg pk)
  then show ?case
    by (auto simp: handle_call_me_maybe_rxed_event_def Let_def cpc_inv_def sessions_ok_def split: option.split)
next
  case (response ps cs s now msg pk)
  then show ?case
    by (auto simp: handle_call_me_maybe_rxed_event_def intro!: on_session_inv [where ps = ps] response_session_ok)
next
  case (tick ps cs s now clks)
  then show ?case
    unfolding handle_tick_event_def by (intro for_each_session_inv tick_session_ok) auto
next
  case (allowed ps cs s now ses pk)
  then show ?case
    by (simp add: check_if_upgrade_is_allowed_def cpc_inv_def sessions_ok_def split: prod.split)
next
  case (failed ps cs s now at' current pk)
  then show ?case
    unfolding notify_failed_wg_connection_def by (intro for_each_session_inv) (auto intro: gone_session_ok)
next
  case (upgraded ps cs s now pk)
  then show ?case
    unfolding notify_successfull_wg_connection_upgrade_def
    by (intro for_each_session_inv) (auto intro: successful_session_ok)
next
  case (channels ps cs s now a b)
  then show ?case by (simp add: cpc_inv_def sessions_ok_def)
qed

text \<open>What the cache of announced sessions holds.\<close>

definition announced :: "(u64 \<times> PublicKey) list \<Rightarrow> ('b, 'm) CpcState \<Rightarrow> instant \<Rightarrow> bool" where
  "announced rs s now \<longleftrightarrow> lru_inv (cpc_lhm E) invar (session_id_candidates s) now
     \<and> lru_all (cpc_lhm E) (\<lambda>ses pk. (ses, pk) \<in> set rs) (session_id_candidates s)"

lemma announced_cong: "announced rs s now \<Longrightarrow> session_id_candidates s' = session_id_candidates s \<Longrightarrow> announced rs s' now"
  by (simp add: announced_def)

lemma announced_insert:
  assumes "announced rs s now" "(ses, pk) \<in> set rs'" "set rs \<subseteq> set rs'"
    and "session_id_candidates s' = lru_insert (cpc_lhm E) (session_id_candidates s) ses pk now"
  shows "announced rs' s' now"
proof -
  have "lru_all (cpc_lhm E) (\<lambda>ses pk. (ses, pk) \<in> set rs') (session_id_candidates s)"
    using assms(1,3) by (auto simp: announced_def intro: lru_all_mono)
  with assms(1,2) show ?thesis
    using lru.lru_insert_inv [OF lru] lru.lru_all_intros(7) [OF lru] lru.lru_invD(1) [OF lru]
    by (metis announced_def assms(4))
qed

lemma find_session:
  assumes "finite (dom (check_states s))"
  shows "find (\<lambda>k. map_option cs_public_key (check_states s k) = Some pk) (session_order E (dom (check_states s))) = None
    \<longleftrightarrow> pk \<notin> cs_public_key ` ran (check_states s)"
  using session_order [OF assms] by (auto simp: find_None_iff ran_def)

lemma run_announced: "cpc_run E ps rs s now \<Longrightarrow> announced rs s now"
proof (induction rule: cpc_run.induct)
  case (start providers now)
  show ?case using lru.lru_new_inv [OF lru] lru.lru_all_new [OF lru]
    by (simp add: start_with_backoff_provider_def announced_def)
next
  case (later ps cs s now now')
  then show ?case by (auto simp: announced_def intro: lru_inv_later)
next
  case (configure ps cs s now clk config)
  then show ?case using configure_inv [OF run_inv] announced_cong by metis
next
  case (endpoints ps cs s now clk provider candidates)
  then show ?case using endpoint_change_inv [OF run_inv] announced_cong by metis
next
  case (request ps cs s now msg pk)
  then have "finite (dom (check_states s))" using run_inv by (auto simp: cpc_inv_def sessions_ok_def)
  with request(3) find_session obtain k where k: "find (\<lambda>k. map_option cs_public_key (check_states s k) = Some pk)
      (session_order E (dom (check_states s))) = Some k" by fastforce
  have "session_id_candidates (snd (handle_call_me_maybe_rxed_event E now pk msg s)) =
      lru_insert (cpc_lhm E) (session_id_candidates s) (cmm_session msg) pk now"
    unfolding handle_call_me_maybe_rxed_event_def k by (simp add: request(2) Let_def)
  then show ?case by (intro announced_insert [OF request.IH, where ses = "cmm_session msg" and pk = pk]) auto
next
  case (stranger ps cs s now msg pk)
  then have "finite (dom (check_states s))" using run_inv by (auto simp: cpc_inv_def sessions_ok_def)
  with stranger(3) find_session have none: "find (\<lambda>k. map_option cs_public_key (check_states s k) = Some pk)
      (session_order E (dom (check_states s))) = None" by blast
  have "snd (handle_call_me_maybe_rxed_event E now pk msg s) = s"
    unfolding handle_call_me_maybe_rxed_event_def none by (simp add: stranger(2))
  with stranger.IH show ?case by simp
next
  case (response ps cs s now msg pk)
  have "same_caches s (snd (handle_call_me_maybe_rxed_event E now pk msg s))"
    using response(2) by (simp add: handle_call_me_maybe_rxed_event_def on_session_same)
  with response.IH show ?case by (auto simp: same_caches_def intro: announced_cong)
next
  case (pong ps cs s now ev t)
  have "same_caches s (snd (handle_pong_rx_event E t ev s))"
    by (simp add: handle_pong_rx_event_def on_session_same)
  with pong.IH show ?case by (auto simp: same_caches_def intro: announced_cong)
next
  case (tick ps cs s now clks)
  have "same_caches s (snd (handle_tick_event E clks s))"
    unfolding handle_tick_event_def by (rule for_each_same) (simp add: on_session_same)
  with tick.IH show ?case by (auto simp: same_caches_def intro: announced_cong)
next
  case (failed ps cs s now at' current pk)
  have "same_caches s (notify_failed_wg_connection E at' current pk s)"
    unfolding notify_failed_wg_connection_def by (rule for_each_same) (simp add: on_session_same)
  with failed.IH show ?case by (auto simp: same_caches_def intro: announced_cong)
next
  case (upgraded ps cs s now pk)
  have "same_caches s (notify_successfull_wg_connection_upgrade E pk s)"
    unfolding notify_successfull_wg_connection_upgrade_def by (rule for_each_same) (simp add: on_session_same)
  with upgraded.IH show ?case by (auto simp: same_caches_def intro: announced_cong)
next
  case (allowed ps cs s now ses pk)
  have "session_id_candidates (snd (check_if_upgrade_is_allowed E now ses pk s)) =
      snd (lru_get (cpc_lhm E) (session_id_candidates s) ses now)"
    by (simp add: check_if_upgrade_is_allowed_def split: prod.split)
  with allowed.IH show ?case
    using lru.lru_get_inv [OF lru] lru.lru_all_intros(9) [OF lru] lru.lru_invD(1) [OF lru]
    by (metis announced_def)
next
  case (channels ps cs s now a b)
  then show ?case by (simp add: announced_def)
qed

end

end
