(* ===== verification/Cross_Ping_Theorems.thy ===== *)
theory Cross_Ping_Theorems
  imports Cross_Ping_Props "HOL-Library.Product_Lexorder"
begin

text \<open>
  What the cross-ping check promises: the endpoints it offers were confirmed by pongs, a failed
  connection withdraws them, a session that has nothing to offer keeps asking, and an upgrade is only
  allowed for a session that the peer announced. The environment is instantiated with the backoff
  helper and the cache of this development.
\<close>

section \<open>Loops over sessions\<close>

definition session_out :: "(u64 \<Rightarrow> 'b CheckState \<Rightarrow> 'b cs_result) \<Rightarrow> ('b, 'm) CpcState \<Rightarrow> u64 \<Rightarrow> cpc_out list" where
  "session_out f s k = (case check_states s k of None \<Rightarrow> [] | Some cs \<Rightarrow> snd (snd (f k cs)))"

definition each_session ::
  "u64 set \<Rightarrow> (u64 \<Rightarrow> 'b CheckState \<Rightarrow> 'b cs_result) \<Rightarrow> (u64 \<rightharpoonup> 'b CheckState) \<Rightarrow> (u64 \<rightharpoonup> 'b CheckState)" where
  "each_session ks f m = (\<lambda>j. if j \<in> ks then map_option (\<lambda>cs. fst (snd (f j cs))) (m j) else m j)"

lemma for_each_on_session:
  assumes "distinct ks" "set ks \<subseteq> dom (check_states s)" "\<And>k cs. fst (f k cs) = Inr ()"
  shows "for_each (\<lambda>k. on_session k (f k)) ks s =
    (Inr (), s\<lparr>check_states := each_session (set ks) f (check_states s),
               cpc_out := cpc_out s @ concat (map (session_out f s) ks)\<rparr>)"
  using assms(1,2)
proof (induction ks arbitrary: s)
  case Nil
  then show ?case by (simp add: each_session_def)
next
  case (Cons k ks)
  then obtain cs where cs: "check_states s k = Some cs" by auto
  define t where "t = s\<lparr>check_states := (check_states s)(k \<mapsto> fst (snd (f k cs))),
                         cpc_out := cpc_out s @ session_out f s k\<rparr>"
  have t: "on_session k (f k) s = (Inr (), t)"
    using assms(3) [of k cs] cs by (cases "f k cs") (simp add: on_session_def t_def session_out_def)
  have out: "map (session_out f t) ks = map (session_out f s) ks"
    using Cons.prems(1) by (auto simp: session_out_def t_def)
  have states: "each_session (set ks) f (check_states t) = each_session (set (k # ks)) f (check_states s)"
    using Cons.prems(1) cs by (auto simp: each_session_def t_def fun_eq_iff)
  have "set ks \<subseteq> dom (check_states t)" using Cons.prems(2) by (auto simp: t_def)
  with Cons.IH [of t] Cons.prems(1)
  have "for_each (\<lambda>k. on_session k (f k)) ks t =
    (Inr (), t\<lparr>check_states := each_session (set (k # ks)) f (check_states s),
               cpc_out := cpc_out t @ concat (map (session_out f s) ks)\<rparr>)"
    unfolding out states by simp
  moreover have "cpc_out t = cpc_out s @ session_out f s k" "t\<lparr>check_states := x, cpc_out := y\<rparr> = s\<lparr>check_states := x, cpc_out := y\<rparr>" for x y
    by (simp_all add: t_def)
  ultimately show ?case using t by simp
qed

section \<open>Validated endpoints\<close>

lemma validated_fold:
  "fold (\<lambda>ses m. case check_states s ses of
         None \<Rightarrow> m
       | Some cs \<Rightarrow> (case validated_endpoint ses cs of None \<Rightarrow> m | Some c \<Rightarrow> m(cs_public_key cs \<mapsto> c))) ks m pk =
   fold (\<lambda>ses r. case check_states s ses of
         None \<Rightarrow> r
       | Some cs \<Rightarrow> (if cs_public_key cs = pk then case validated_endpoint ses cs of None \<Rightarrow> r | Some c \<Rightarrow> Some c else r))
     ks (m pk)"
  by (induction ks arbitrary: m) (auto simp: fun_eq_iff split: option.split intro!: arg_cong2 [where f = "fold _"])

text \<open>What a session offers for a peer.\<close>

definition offer :: "PublicKey \<Rightarrow> ('b, 'm) CpcState \<Rightarrow> u64 \<Rightarrow> Candidate option" where
  "offer pk s ses = (case check_states s ses of
     None \<Rightarrow> None | Some cs \<Rightarrow> if cs_public_key cs = pk then validated_endpoint ses cs else None)"

lemma validated_offers:
  "get_validated_endpoints E s pk =
     fold (\<lambda>ses r. case offer pk s ses of None \<Rightarrow> r | Some c \<Rightarrow> Some c) (session_order E (dom (check_states s))) None"
  unfolding get_validated_endpoints_def validated_fold
  by (intro arg_cong [where f = "\<lambda>g. fold g _ _"] ext) (auto simp: offer_def split: option.split)

lemma fold_offer_None: "\<forall>k \<in> set ks. f k = None \<Longrightarrow> fold (\<lambda>k r. case f k of None \<Rightarrow> r | Some c \<Rightarrow> Some c) ks r = r"
  by (induction ks arbitrary: r) auto

lemma fold_offer_Some:
  "fold (\<lambda>k r. case f k of None \<Rightarrow> r | Some c \<Rightarrow> Some c) ks None = Some c \<Longrightarrow> \<exists>k \<in> set ks. f k = Some c"
  by (induction ks rule: rev_induct) (auto split: option.splits)

section \<open>The environment with the backoff helper and the cache of this development\<close>

text \<open>Socket addresses in the order Rust derives for them.\<close>

fun sock_key :: "SocketAddr \<Rightarrow> nat list" where
  "sock_key (SockV4 ip port) = [0, unat ip, unat port]"
| "sock_key (SockV6 ip port flow scope) = [1, unat ip, unat port, unat flow, unat scope]"

lemma sock_key_inject [simp]: "sock_key a = sock_key b \<longleftrightarrow> a = b"
  by (cases a; cases b) (auto simp: unsigned_word_eqI)

instantiation SocketAddr :: linorder
begin

definition less_eq_SocketAddr :: "SocketAddr \<Rightarrow> SocketAddr \<Rightarrow> bool" where
  "less_eq_SocketAddr a b \<longleftrightarrow> sock_key a \<le> sock_key b"

definition less_SocketAddr :: "SocketAddr \<Rightarrow> SocketAddr \<Rightarrow> bool" where
  "less_SocketAddr a b \<longleftrightarrow> sock_key a < sock_key b"

instance
  by standard (auto simp: less_eq_SocketAddr_def less_SocketAddr_def less_le_not_le)

end

definition sorted_candidates :: "EndpointCandidate set \<Rightarrow> EndpointCandidate list" where
  "sorted_candidates C = map (\<lambda>(w, u). \<lparr>cand_wg = w, cand_udp = u\<rparr>)
     (sorted_list_of_set ((\<lambda>c. (cand_wg c, cand_udp c)) ` C))"

lemma candidate_eta [simp]: "\<lparr>cand_wg = cand_wg c, cand_udp = cand_udp c\<rparr> = c"
  by simp

lemma set_sorted_candidates: "finite C \<Longrightarrow> set (sorted_candidates C) = C"
  by (simp add: sorted_candidates_def image_image)

definition std_cpc_env ::
  "ExponentialBackoffBounds \<Rightarrow> (nat \<Rightarrow> u64) \<Rightarrow> (PublicKey \<Rightarrow> instant \<Rightarrow> string + duration option) option \<Rightarrow> duration
     \<Rightarrow> (string \<Rightarrow> SocketAddr option) \<Rightarrow> (SocketAddr \<Rightarrow> string)
     \<Rightarrow> (ExponentialBackoff, (u64 \<times> PublicKey TimedValue) list) cpc_env" where
  "std_cpc_env bounds rand last_rx max_rx parse shw =
     \<lparr>cpc_backoff = exponential_backoff, new_backoff = ExponentialBackoff_new bounds, cpc_lhm = alist_lhm,
      random_session = rand, session_order = sorted_list_of_set, node_order = sorted_list_of_set,
      provider_order = [LocalInterfaces, StunProvider, UpnpProvider],
      candidate_order = sorted_candidates, last_rx_time = last_rx, max_no_rx_time = max_rx,
      parse_addr = parse, show_addr = shw\<rparr>"

interpretation std_cpc: cross_ping "std_cpc_env bounds rand last_rx max_rx parse shw"
  "\<lambda>m. distinct (map fst m)" backoff_ok "bo_initial \<circ> bo_bounds"
proof (rule cross_ping.intro, goal_cases)
  case 1
  show ?case by (simp add: std_cpc_env_def exponential.backoff_axioms)
next
  case 2
  show ?case by (simp add: std_cpc_env_def alist_lhm.linked_hash_map_axioms)
next
  case (3 b)
  then show ?case by (intro new_backoff_ok) (simp add: std_cpc_env_def)
qed (simp_all add: std_cpc_env_def set_sorted_candidates)

section \<open>Properties\<close>

lemma validated_endpoint_Some:
  "validated_endpoint k cs = Some c \<longleftrightarrow>
     cs_state cs = Published \<and> last_validated_endpoint cs = Some (remote_endpoint c)
     \<and> local_endpoint c = (cand_wg (local_endpoint_candidate cs), provider_type cs)
     \<and> session c = k \<and> changed_at c = last_state_transition cs"
  by (cases c) (auto simp: validated_endpoint_def split: option.split EpState.split)

lemma validated_session:
  assumes "get_validated_endpoints E s pk = Some c"
  shows "\<exists>cs. check_states s (session c) = Some cs \<and> cs_public_key cs = pk
    \<and> validated_endpoint (session c) cs = Some c"
proof -
  from fold_offer_Some [OF assms [unfolded validated_offers]]
  obtain k where "offer pk s k = Some c" by blast
  then show ?thesis
    by (auto simp: offer_def validated_endpoint_Some split: option.splits if_splits)
qed

text \<open>
  C14. In every run, an endpoint that is offered for a peer was confirmed: a pong for the session of
  the offer named it, the session belongs to that peer (also for the ping-pong handler), the peer is
  configured, and the local endpoint of the offer is one that a provider currently reports.
\<close>

theorem validated_endpoint_confirmed:
  assumes "cross_ping E invar bo_ok fi" "cpc_run E ps rs s now" "get_validated_endpoints E s pk = Some c"
  shows "(\<exists>ev \<in> set ps. pong_session (pong_msg ev) = session c \<and> remote_endpoint c = pong_endpoint ev)
    \<and> known_sessions s (session c) = Some pk \<and> pk \<in> node_cache s
    \<and> (\<exists>p. \<exists>cand \<in> local_endpoint_cache s p. local_endpoint c = (cand_wg cand, api_provider p))"
proof -
  obtain cs where cs: "check_states s (session c) = Some cs" "cs_public_key cs = pk"
    "validated_endpoint (session c) cs = Some c"
    using validated_session [OF assms(3)] by blast
  have inv: "cpc_inv bo_ok ps s" by (rule cross_ping.run_inv [OF assms(1,2)])
  then have ok: "session_ok bo_ok (node_cache s) (local_endpoint_cache s) ps (session c) cs"
    using cs(1) by (simp add: cpc_inv_def sessions_ok_def)
  from cs(3) obtain ep where v: "cs_state cs = Published" "last_validated_endpoint cs = Some ep"
    "remote_endpoint c = ep" "local_endpoint c = (cand_wg (local_endpoint_candidate cs), provider_type cs)"
    by (simp add: validated_endpoint_Some)
  have "\<exists>ev \<in> set ps. pong_session (pong_msg ev) = session c \<and> last_validated_endpoint cs = Some (pong_endpoint ev)"
    using ok v(1) unfolding session_ok_def by blast
  then have pong: "\<exists>ev \<in> set ps. pong_session (pong_msg ev) = session c \<and> remote_endpoint c = pong_endpoint ev"
    using v(2,3) by force
  have "\<exists>p. provider_type cs = api_provider p \<and> local_endpoint_candidate cs \<in> local_endpoint_cache s p"
    using ok unfolding session_ok_def by blast
  then have "\<exists>p. \<exists>cand \<in> local_endpoint_cache s p. local_endpoint c = (cand_wg cand, api_provider p)"
    using v(4) by metis
  moreover have "known_sessions s (session c) = Some pk" "pk \<in> node_cache s"
    using cs inv ok by (simp_all add: cpc_inv_def session_ok_def)
  ultimately show ?thesis using pong by blast
qed

lemma dom_each_session [simp]: "dom (each_session ks f m) = dom m"
  by (auto simp: each_session_def split: if_splits)

lemma sessions_of_props:
  assumes "cross_ping E invar bo_ok fi" "finite (dom (check_states s))"
  shows "distinct (sessions_of E pk s)" "set (sessions_of E pk s) \<subseteq> dom (check_states s)"
    and "k \<in> set (sessions_of E pk s) \<longleftrightarrow> (\<exists>cs. check_states s k = Some cs \<and> cs_public_key cs = pk)"
  using cross_ping.session_order [OF assms] by (auto simp: sessions_of_def)

lemma run_finite:
  "cross_ping E invar bo_ok fi \<Longrightarrow> cpc_run E ps rs s now \<Longrightarrow> finite (dom (check_states s))"
  using cross_ping.run_inv by (auto simp: cpc_inv_def sessions_ok_def)

text \<open>
  C33. After a failed connection to a peer the check offers no endpoint for that peer, and the offers
  for all other peers are what they were.
\<close>

theorem failed_connection_withdraws:
  assumes env: "cross_ping E invar bo_ok fi" and run: "cpc_run E ps rs s now"
  shows "get_validated_endpoints E (notify_failed_wg_connection E clk current pk s) =
    (get_validated_endpoints E s)(pk := None)"
proof
  fix q
  note fin = run_finite [OF env run]
  define f where "f = (\<lambda>ses cs :: 'a CheckState. (Inr () :: CpcError + unit, cs_endpoint_gone_notification (clk ses) cs,
        map ToldGone (filter (\<lambda>p. case current p of None \<Rightarrow> False
                                   | Some cands \<Rightarrow> local_endpoint_candidate cs \<in> set cands) (endpoint_providers s))))"
  let ?s = "notify_failed_wg_connection E clk current pk s" and ?ks = "sessions_of E pk s"
  have states: "check_states ?s = each_session (set ?ks) f (check_states s)"
    using for_each_on_session [where f = f, OF sessions_of_props(1,2) [OF env fin]]
    unfolding notify_failed_wg_connection_def f_def by simp
  have gone: "offer pk ?s k = None" for k
    using sessions_of_props(3) [OF env fin, of k pk]
    by (auto simp: offer_def states each_session_def f_def cs_endpoint_gone_notification_def do_state_transition_def
        validated_endpoint_def split: option.split EpState.split)
  have others: "offer q ?s k = offer q s k" if "q \<noteq> pk" for k
    using that sessions_of_props(3) [OF env fin, of k pk]
    by (auto simp: offer_def states each_session_def f_def cs_endpoint_gone_notification_def do_state_transition_def
        split: option.split)
  have dom: "dom (check_states ?s) = dom (check_states s)" by (simp add: states)
  show "get_validated_endpoints E ?s q = ((get_validated_endpoints E s)(pk := None)) q"
  proof (cases "q = pk")
    case True
    show ?thesis unfolding True validated_offers fun_upd_same by (rule fold_offer_None) (simp add: gone)
  next
    case False
    with others [OF False] show ?thesis by (simp add: validated_offers dom)
  qed
qed

lemma lru_get_all:
  assumes "lru L invar" "invar (lru_map c)" "lru_all L P c" "fst (lru_get L c k now) = Some v"
  shows "P k v"
proof -
  let ?c = "fst (remove_expired L c now)"
  have "lru_all L P ?c" by (rule lru.lru_all_intros(1) [OF assms(1-3)])
  moreover have "invar (lru_map ?c)"
    using assms(1,2) by (simp add: remove_expired_def Let_def lru_def linked_hash_map.invar_fold_remove)
  moreover obtain tv where "lhm_get L (lru_map ?c) k = Some tv" "data tv = v"
    using assms(4) by (auto simp: lru_get_def lru_get_mut_def Let_def split: option.splits)
  ultimately show ?thesis
    using linked_hash_map.get_iter [OF lru.axioms [OF assms(1)]] by (fastforce simp: lru_all_def dest!: map_of_SomeD)
qed

text \<open>
  An upgrade to a session is allowed for a peer only if that peer announced the session in a
  call-me-maybe request while it had a session here.
\<close>

lemma upgrade_needs_announcement:
  assumes "cross_ping E invar bo_ok fi" "cpc_run E ps rs s now"
    and "fst (check_if_upgrade_is_allowed E now ses pk s)"
  shows "(ses, pk) \<in> set rs"
proof -
  have "lru_inv (cpc_lhm E) invar (session_id_candidates s) now"
    "lru_all (cpc_lhm E) (\<lambda>ses pk. (ses, pk) \<in> set rs) (session_id_candidates s)"
    using cross_ping.run_announced [OF assms(1,2)] by (simp_all add: cross_ping.announced_def [OF assms(1)])
  moreover have "fst (lru_get (cpc_lhm E) (session_id_candidates s) ses now) = Some pk"
    using assms(3) by (auto simp: check_if_upgrade_is_allowed_def split: prod.splits option.splits)
  ultimately show ?thesis
    using lru_get_all [OF cross_ping.lru [OF assms(1)]] lru.lru_invD(1) [OF cross_ping.lru [OF assms(1)]] by metis
qed

text \<open>One tick when call-me-maybe messages can be sent.\<close>

lemma tick_succeeds [simp]: "fst (cs_tick_event E True clk k cs) = Inr ()"
  by (simp add: cs_tick_event_def Let_def send_call_me_maybe_request_def split: EpState.split EpEvent.split)

lemma tick_all:
  assumes "cross_ping E invar bo_ok fi" "finite (dom (check_states s))" "intercoms_open s"
  shows "fst (handle_tick_event E clks s) = Inr ()"
    and "intercoms_open (snd (handle_tick_event E clks s))"
    and "check_states s k = Some cs \<Longrightarrow>
      check_states (snd (handle_tick_event E clks s)) k = Some (fst (snd (cs_tick_event E True (clks k) k cs)))"
    and "\<exists>out. cpc_out (snd (handle_tick_event E clks s)) = cpc_out s @ out
      \<and> (check_states s k = Some cs \<longrightarrow> set (snd (snd (cs_tick_event E True (clks k) k cs))) \<subseteq> set out)
      \<and> (\<forall>x \<in> set out. \<exists>j cs. check_states s j = Some cs \<and> x \<in> set (snd (snd (cs_tick_event E True (clks j) j cs))))"
proof -
  define f where "f = (\<lambda>ses. cs_tick_event E True (clks ses) ses)"
  let ?ks = "session_order E (dom (check_states s))"
  have ks: "distinct ?ks" "set ?ks = dom (check_states s)"
    using cross_ping.session_order [OF assms(1,2)] by simp_all
  have eq: "handle_tick_event E clks s =
      (Inr (), s\<lparr>check_states := each_session (dom (check_states s)) f (check_states s),
                 cpc_out := cpc_out s @ concat (map (session_out f s) ?ks)\<rparr>)"
    unfolding handle_tick_event_def using for_each_on_session [of ?ks s f] ks assms(3) by (simp add: f_def)
  from eq assms(3) show "fst (handle_tick_event E clks s) = Inr ()" "intercoms_open (snd (handle_tick_event E clks s))"
    by simp_all
  show "check_states (snd (handle_tick_event E clks s)) k = Some (fst (snd (cs_tick_event E True (clks k) k cs)))"
    if "check_states s k = Some cs"
    using that by (simp add: eq each_session_def f_def domI)
  show "\<exists>out. cpc_out (snd (handle_tick_event E clks s)) = cpc_out s @ out
      \<and> (check_states s k = Some cs \<longrightarrow> set (snd (snd (cs_tick_event E True (clks k) k cs))) \<subseteq> set out)
      \<and> (\<forall>x \<in> set out. \<exists>j cs. check_states s j = Some cs \<and> x \<in> set (snd (snd (cs_tick_event E True (clks j) j cs))))"
    using ks by (intro exI [of _ "concat (map (session_out f s) ?ks)"])
      (force simp: eq session_out_def f_def intro!: bexI [of _ k])
qed

text \<open>
  The peer has been heard recently, as far as the node keeps track: the provider, if there is one, knows
  the time since the last packet of the peer, and it is less than the limit.
\<close>

definition heard_recently :: "('b, 'm) cpc_env \<Rightarrow> PublicKey \<Rightarrow> instant \<Rightarrow> bool" where
  "heard_recently E pk now \<longleftrightarrow> (\<forall>last_rx. last_rx_time E = Some last_rx \<longrightarrow>
     (\<exists>time < max_no_rx_time E. last_rx pk now = Inr (Some time)))"

lemma heard_recently_alive:
  "heard_recently E pk now \<longleftrightarrow> (case last_rx_time E of
     None \<Rightarrow> True | Some last_rx \<Rightarrow> is_peer_alive last_rx (max_no_rx_time E) pk now)"
  by (auto simp: heard_recently_def is_peer_alive_def split: option.split sum.splits option.splits)

definition request_of :: "('b, 'm) cpc_env \<Rightarrow> u64 \<Rightarrow> 'b CheckState \<Rightarrow> cpc_out" where
  "request_of E k cs = SentCmm (cs_public_key cs)
     (CallMeMaybeMsg_new E True [cand_udp (local_endpoint_candidate cs)] k)"

lemma tick_disconnected:
  assumes "cs_state cs \<in> {EpDisconnected StartUp, EpDisconnected Timeout, EpDisconnected EndpointGone}"
    and "heard_recently E (cs_public_key cs) (clk 0)"
    and "last_state_transition cs + bo_get (cpc_backoff E) (cs_backoff cs) < clk 0"
  shows "request_of E k cs \<in> set (snd (snd (cs_tick_event E True clk k cs)))"
  using assms by (auto simp: cs_tick_event_def Let_def send_call_me_maybe_request_def request_of_def heard_recently_alive
      should_resend_call_me_maybe_request_def split: option.splits)

lemma tick_requests:
  assumes "SentCmm pk m \<in> set (snd (snd (cs_tick_event E True clk j cs)))"
  shows "cmm_session m = j \<and> (cs_state cs = EpDisconnected StartUp \<or> heard_recently E (cs_public_key cs) (clk 0))"
  using assms by (auto simp: cs_tick_event_def Let_def send_call_me_maybe_request_def heard_recently_alive
      CallMeMaybeMsg_new_def should_resend_call_me_maybe_request_def
      split: EpState.splits EpEvent.splits option.splits if_splits)

lemma tick_waiting:
  assumes "cs_state cs \<in> {EndpointGathering, Ping}" "last_state_transition cs + CPC_TIMEOUT < clk 0"
  shows "cs_tick_event E True clk k cs =
    (Inr (), cs\<lparr>last_state_transition := clk 1, cs_state := EpDisconnected Timeout\<rparr>, [])"
  using assms by (auto simp: cs_tick_event_def Let_def do_state_transition_def)

text \<open>
  C19. A session that has nothing to offer asks again, unless its peer is silent: when the task of a run
  ticks twice while messages can be sent, each time late enough after the last change of the session (the
  timeout and the current backoff have passed), and the peer has been heard recently at both ticks, then a
  new call-me-maybe request for this session has been sent to the peer. If the peer has not been heard
  recently at a tick, then this tick sends no request for the session, except the first one of a new
  session.
\<close>

theorem unpublished_session_asks_again:
  assumes env: "cross_ping E invar bo_ok fi" and run: "cpc_run E ps rs s now"
    and is_open: "intercoms_open s" and cs: "check_states s k = Some cs" "cs_state cs \<noteq> Published"
    and late: "last_state_transition cs + CPC_TIMEOUT + bo_get (cpc_backoff E) (cs_backoff cs) < clks k 0"
      "clks k 1 + bo_get (cpc_backoff E) (cs_backoff cs) < clks' k 0"
  shows "(heard_recently E (cs_public_key cs) (clks k 0) \<and> heard_recently E (cs_public_key cs) (clks' k 0) \<longrightarrow>
      (\<exists>new. cpc_out (snd (handle_tick_event E clks' (snd (handle_tick_event E clks s)))) = cpc_out s @ new
        \<and> SentCmm (cs_public_key cs) (CallMeMaybeMsg_new E True [cand_udp (local_endpoint_candidate cs)] k) \<in> set new))
    \<and> (\<not> heard_recently E (cs_public_key cs) (clks k 0) \<and> cs_state cs \<noteq> EpDisconnected StartUp \<longrightarrow>
      (\<exists>new. cpc_out (snd (handle_tick_event E clks s)) = cpc_out s @ new
        \<and> (\<forall>pk m. SentCmm pk m \<in> set new \<longrightarrow> cmm_session m \<noteq> k)))"
proof (intro conjI impI; (elim conjE)?)
  assume silent: "\<not> heard_recently E (cs_public_key cs) (clks k 0)" "cs_state cs \<noteq> EpDisconnected StartUp"
  obtain out where "cpc_out (snd (handle_tick_event E clks s)) = cpc_out s @ out"
    "\<forall>x \<in> set out. \<exists>j cs. check_states s j = Some cs \<and> x \<in> set (snd (snd (cs_tick_event E True (clks j) j cs)))"
    using tick_all(4) [OF env run_finite [OF env run] is_open] by blast
  then show "\<exists>new. cpc_out (snd (handle_tick_event E clks s)) = cpc_out s @ new
        \<and> (\<forall>pk m. SentCmm pk m \<in> set new \<longrightarrow> cmm_session m \<noteq> k)"
    using silent cs(1) by (intro exI [of _ out]) (auto dest!: bspec tick_requests)
next
  assume alive: "heard_recently E (cs_public_key cs) (clks k 0)" "heard_recently E (cs_public_key cs) (clks' k 0)"
  let ?t = "snd (handle_tick_event E clks s)"
  note fin = run_finite [OF env run]
  note t = tick_all [OF env fin is_open]
  have run_t: "cpc_run E ps rs ?t now" using run by (rule cpc_run.tick)
  note u = tick_all(4) [OF env run_finite [OF env run_t] t(2), where clks = clks' and k = k]
  obtain out where out: "cpc_out ?t = cpc_out s @ out" "set (snd (snd (cs_tick_event E True (clks k) k cs))) \<subseteq> set out"
    using t(4) [where clks = clks and k = k and cs = cs] cs(1) by blast
  have "session_ok bo_ok (node_cache s) (local_endpoint_cache s) ps k cs"
    using cross_ping.run_inv [OF env run] cs(1) by (simp add: cpc_inv_def sessions_ok_def)
  then have "cs_state cs \<in> {EpDisconnected StartUp, EpDisconnected Timeout, EpDisconnected EndpointGone}
      \<or> cs_state cs \<in> {EndpointGathering, Ping}"
    using cs(2) by (cases "cs_state cs") (auto simp: session_ok_def)
  then have "request_of E k cs \<in> set out \<or> (\<exists>out'. cpc_out (snd (handle_tick_event E clks' ?t)) = cpc_out ?t @ out'
      \<and> request_of E k cs \<in> set out')"
  proof
    assume "cs_state cs \<in> {EpDisconnected StartUp, EpDisconnected Timeout, EpDisconnected EndpointGone}"
    from tick_disconnected [OF this, where clk = "clks k" and k = k and E = E] alive(1) late(1) out(2)
    show ?thesis by auto
  next
    assume *: "cs_state cs \<in> {EndpointGathering, Ping}"
    let ?cs = "cs\<lparr>last_state_transition := clks k 1, cs_state := EpDisconnected Timeout\<rparr>"
    have "check_states ?t k = Some ?cs"
      using t(3) [OF cs(1)] tick_waiting [OF *, of "clks k" E k] late(1) by simp
    moreover have "request_of E k ?cs \<in> set (snd (snd (cs_tick_event E True (clks' k) k ?cs)))"
      by (rule tick_disconnected) (use alive(2) late(2) in simp_all)
    ultimately show ?thesis using u [of ?cs] by (auto simp: request_of_def)
  qed
  with out(1) u [of cs]
  show "\<exists>new. cpc_out (snd (handle_tick_event E clks' (snd (handle_tick_event E clks s)))) = cpc_out s @ new
        \<and> SentCmm (cs_public_key cs) (CallMeMaybeMsg_new E True [cand_udp (local_endpoint_candidate cs)] k) \<in> set new"
    unfolding request_of_def by (metis append.assoc Un_iff set_append)
qed

section \<open>A sample run\<close>

definition sample_node :: PublicKey where "sample_node = PublicKey (replicate 32 7)"

definition sample_candidate :: EndpointCandidate where
  "sample_candidate = \<lparr>cand_wg = SockV4 167772161 51820, cand_udp = SockV4 167772161 1000\<rparr>"

definition sample_cpc_env :: "(ExponentialBackoff, (u64 \<times> PublicKey TimedValue) list) cpc_env" where
  "sample_cpc_env = std_cpc_env \<lparr>bo_initial = from_secs 2, bo_maximal = Some (from_secs 120)\<rparr>
     (\<lambda>n. of_nat n + 1) None 0
     (\<lambda>t. if t = ''192.0.2.1:1000'' then Some (SockV4 3221225985 1000) else None) (\<lambda>_. ''10.0.0.1:1000'')"

definition sample_cpc_config :: Config where
  "sample_cpc_config =
     \<lparr>this = \<lparr>base_identifier = ''me'', base_public_key = PublicKey (replicate 32 1), base_hostname = ''me.nord'',
              base_ip_addresses = None, base_nickname = None\<rparr>,
      cfg_peers = Some [\<lparr>mp_base = \<lparr>base_identifier = ''peer'', base_public_key = sample_node, base_hostname = ''peer.nord'',
                base_ip_addresses = None, base_nickname = None\<rparr>,
      is_local = True, allow_incoming_connections = True, allow_peer_traffic_routing = False,
      allow_peer_local_network_access = False, allow_peer_send_files = True, allow_multicast = False,
      peer_allows_multicast = False\<rparr>]\<rparr>"

definition sample_pong :: PongEvent where
  "sample_pong = \<lparr>pong_addr = SockV4 3221225985 1000, pong_rtt = 0,
     pong_msg = \<lparr>pong_session = 1, pong_body = \<lparr>po_start_timestamp = 0, po_wg_port = 51820,
       po_source = Some (SrcV4 167772161), po_ep_provider = 1\<rparr>\<rparr>\<rparr>"

type_synonym sample_cpc = "(ExponentialBackoff, (u64 \<times> PublicKey TimedValue) list) CpcState"

definition cpc_started :: sample_cpc where
  "cpc_started = start_with_backoff_provider sample_cpc_env [''local'']"

text \<open>A node and a local endpoint are known, and the session has asked for the endpoints of the peer.\<close>

definition cpc_known :: sample_cpc where
  "cpc_known = snd (cpc_configure sample_cpc_env (\<lambda>_. 0) (Some sample_cpc_config)
     (snd (handle_endpoint_change_event sample_cpc_env (\<lambda>_. 0) LocalInterfaces [sample_candidate] cpc_started)))"

definition cpc_asked :: sample_cpc where
  "cpc_asked = snd (handle_tick_event sample_cpc_env (\<lambda>_ n. 5 + n) cpc_known)"

definition cpc_pinging :: sample_cpc where
  "cpc_pinging = snd (handle_call_me_maybe_rxed_event sample_cpc_env 7 sample_node
     \<lparr>i_am_initiator = False, my_addresses = [''192.0.2.1:1000''], cmm_session = 1\<rparr> cpc_asked)"

definition cpc_offering :: sample_cpc where
  "cpc_offering = snd (handle_pong_rx_event sample_cpc_env 8 sample_pong cpc_pinging)"

lemma sample_run_known: "cpc_run sample_cpc_env [] [] cpc_known now"
  unfolding cpc_known_def cpc_started_def by (intro cpc_run.configure cpc_run.endpoints cpc_run.start)

lemma sample_run_asked: "cpc_run sample_cpc_env [] [] cpc_asked now"
  unfolding cpc_asked_def by (intro cpc_run.tick sample_run_known)

lemma sample_run_offering: "cpc_run sample_cpc_env [sample_pong] [] cpc_offering 7"
  unfolding cpc_offering_def cpc_pinging_def by (intro cpc_run.pong cpc_run.response sample_run_asked) simp

lemma sample_sel [simp]:
  "cpc_backoff sample_cpc_env = exponential_backoff" "cpc_lhm sample_cpc_env = alist_lhm"
  "new_backoff sample_cpc_env = Inr \<lparr>bo_bounds = \<lparr>bo_initial = from_secs 2, bo_maximal = Some (from_secs 120)\<rparr>,
     current_backoff = from_secs 2\<rparr>"
  "random_session sample_cpc_env n = of_nat n + 1"
  "session_order sample_cpc_env = sorted_list_of_set" "node_order sample_cpc_env = sorted_list_of_set"
  "candidate_order sample_cpc_env = sorted_candidates"
  "provider_order sample_cpc_env = [LocalInterfaces, StunProvider, UpnpProvider]" "last_rx_time sample_cpc_env = None"
  "show_addr sample_cpc_env a = ''10.0.0.1:1000''"
  "parse_addr sample_cpc_env = (\<lambda>t. if t = ''192.0.2.1:1000'' then Some (SockV4 3221225985 1000) else None)"
  by (simp_all add: sample_cpc_env_def std_cpc_env_def ExponentialBackoff_new_def from_secs_def)

lemma sorted_candidates_single [simp]: "sorted_candidates {c} = [c]" "sorted_candidates {} = []"
  by (simp_all add: sorted_candidates_def)

definition sample_session :: "ExponentialBackoff CheckState" where
  "sample_session = \<lparr>cs_public_key = sample_node, local_endpoint_candidate = sample_candidate, local_session = 1,
     cs_state = EpDisconnected StartUp, last_state_transition = 0, last_validated_endpoint = None,
     cs_backoff = \<lparr>bo_bounds = \<lparr>bo_initial = from_secs 2, bo_maximal = Some (from_secs 120)\<rparr>,
       current_backoff = from_secs 2\<rparr>, provider_type = Local\<rparr>"

lemma cpc_known_eq: "cpc_known = cpc_started\<lparr>check_states := [1 \<mapsto> sample_session], node_cache := {sample_node},
    local_endpoint_cache := (\<lambda>_. {})(LocalInterfaces := {sample_candidate}),
    known_sessions := [1 \<mapsto> sample_node], draws := 1\<rparr>"
  by (simp add: cpc_known_def cpc_configure_def handle_endpoint_change_event_def cpc_started_def Let_def
      start_with_backoff_provider_def retain_sessions_def configure_ping_pong_def create_session_def
      sample_cpc_config_def list_of_def sample_session_def EpState_default_def fun_eq_iff)

lemmas session_defs = on_session_def cs_tick_event_def cs_call_me_maybe_response_def cs_pong_rx_event_def
  do_state_transition_def send_call_me_maybe_request_def send_ping_via_all_endpoint_providers_def Let_def

lemma cpc_started_sel [simp]:
  "endpoint_providers cpc_started = [''local'']" "cpc_out cpc_started = []" "intercoms_open cpc_started"
  "publisher_open cpc_started"
  by (simp_all add: cpc_started_def start_with_backoff_provider_def)

lemma cpc_asked_eq: "cpc_asked = cpc_known\<lparr>check_states := [1 \<mapsto> sample_session\<lparr>cs_state := EndpointGathering,
    last_state_transition := 6\<rparr>], cpc_out := [request_of sample_cpc_env 1 sample_session]\<rparr>"
  by (simp add: cpc_asked_def handle_tick_event_def cpc_known_eq session_defs sample_session_def request_of_def)

lemma cpc_pinging_eq: "cpc_pinging = cpc_asked\<lparr>check_states := [1 \<mapsto> sample_session\<lparr>cs_state := Ping,
    last_state_transition := 7\<rparr>], cpc_out := cpc_out cpc_asked @ [SentPing ''local'' (SockV4 3221225985 1000) 1 sample_node]\<rparr>"
  by (simp add: cpc_pinging_def handle_call_me_maybe_rxed_event_def cpc_asked_eq cpc_known_eq session_defs
      sample_session_def get_addrs_def List.map_filter_def)

lemma cpc_offering_states:
  "check_states cpc_offering = [1 \<mapsto> sample_session\<lparr>cs_state := Published, last_state_transition := 8,
     last_validated_endpoint := Some (SockV4 3221225985 51820, Local)\<rparr>]"
  by (simp add: cpc_offering_def handle_pong_rx_event_def cpc_pinging_eq cpc_asked_eq cpc_known_eq session_defs
      sample_session_def sample_pong_def pong_matches_def pong_endpoint_def get_ping_source_address_def
      get_ponging_ep_provider_def ep_try_from_def sample_candidate_def sock_ip_def sock_new_def get_wg_port_def
      exponential_backoff_def reset_backoff_def)

definition sample_offer :: Candidate where
  "sample_offer = \<lparr>remote_endpoint = (SockV4 3221225985 51820, Local), local_endpoint = (SockV4 167772161 51820, Local),
     session = 1, changed_at = 8\<rparr>"

lemma sample_offer_valid: "get_validated_endpoints sample_cpc_env cpc_offering = [sample_node \<mapsto> sample_offer]"
  by (simp add: get_validated_endpoints_def cpc_offering_states validated_endpoint_def sample_session_def
      sample_offer_def sample_candidate_def)

lemma sample_cross_ping:
  "cross_ping sample_cpc_env (\<lambda>m. distinct (map fst m)) backoff_ok (bo_initial \<circ> bo_bounds)"
  unfolding sample_cpc_env_def by (rule std_cpc.cross_ping_axioms)

theorem validated_endpoint_confirmed_witness:
  "get_validated_endpoints sample_cpc_env cpc_offering sample_node = Some sample_offer
   \<and> known_sessions cpc_offering 1 = Some sample_node"
  using validated_endpoint_confirmed [OF sample_cross_ping sample_run_offering, of sample_node sample_offer]
  by (simp add: sample_offer_valid) (simp add: sample_offer_def)

theorem failed_connection_withdraws_witness:
  "get_validated_endpoints sample_cpc_env cpc_offering sample_node = Some sample_offer
   \<and> get_validated_endpoints sample_cpc_env
       (notify_failed_wg_connection sample_cpc_env (\<lambda>_. 9) (\<lambda>_. None) sample_node cpc_offering) sample_node = None"
  using failed_connection_withdraws [OF sample_cross_ping sample_run_offering, of "\<lambda>_. 9" "\<lambda>_. None" sample_node]
  by (simp add: sample_offer_valid)

text \<open>The peer announces its session 42.\<close>

definition sample_request :: CallMeMaybeMsg where
  "sample_request = \<lparr>i_am_initiator = True, my_addresses = [], cmm_session = 42\<rparr>"

definition cpc_announced :: sample_cpc where
  "cpc_announced = snd (handle_call_me_maybe_rxed_event sample_cpc_env 9 sample_node sample_request cpc_asked)"

lemma sample_run_announced: "cpc_run sample_cpc_env [] [(42, sample_node)] cpc_announced 9"
  using cpc_run.request [OF sample_run_asked [of 9], of sample_request sample_node]
  by (simp add: cpc_announced_def) (simp add: sample_request_def cpc_asked_eq sample_session_def)

lemma announced_allowed: "fst (check_if_upgrade_is_allowed sample_cpc_env 9 42 sample_node cpc_announced)"
  by (simp add: cpc_announced_def handle_call_me_maybe_rxed_event_def sample_request_def cpc_asked_eq cpc_known_eq
      sample_session_def check_if_upgrade_is_allowed_def lru_get_def lru_get_mut_def lru_insert_def remove_expired_def
      cpc_started_def start_with_backoff_provider_def lru_new_def pop_over_capacity_def MAX_SESSION_CANDIDATES_def Let_def
      TimedValue_new_def is_expired_def UPGRADE_TIMEOUT_def from_secs_def get_addrs_def List.map_filter_def)

theorem unpublished_session_asks_again_witness:
  "\<exists>new. cpc_out (snd (handle_tick_event sample_cpc_env (\<lambda>_ _. from_secs 30)
       (snd (handle_tick_event sample_cpc_env (\<lambda>_ _. from_secs 20) cpc_asked)))) = cpc_out cpc_asked @ new
    \<and> SentCmm sample_node (CallMeMaybeMsg_new sample_cpc_env True [SockV4 167772161 1000] 1) \<in> set new"
  using unpublished_session_asks_again [OF sample_cross_ping sample_run_asked, where k = 1
      and cs = "sample_session\<lparr>cs_state := EndpointGathering, last_state_transition := 6\<rparr>"
      and clks = "\<lambda>_ _. from_secs 20" and clks' = "\<lambda>_ _. from_secs 30"]
  by (simp add: cpc_asked_eq cpc_known_eq sample_session_def heard_recently_def CPC_TIMEOUT_def from_secs_def
      exponential_backoff_def get_backoff_def sample_candidate_def)

end
