(* ===== verification/Upgrade_Theorems.thy ===== *)
theory Upgrade_Theorems
  imports Upgrade_Sync Cross_Ping_Theorems
begin

text \<open>
  What the upgrade negotiation promises: two nodes that ask each other at the same time agree on one
  of the two requests, a request is only accepted for a session that the peer announced to the
  cross-ping check, and a request that is turned down changes nothing.
\<close>

section \<open>Messages between two nodes\<close>

definition sent_upgrades :: "PublicKey \<Rightarrow> 'm UpgradeState \<Rightarrow> UpgradeMsg list" where
  "sent_upgrades pk s = List.map_filter (\<lambda>m. case m of SentUpgrade pk' u \<Rightarrow> if pk' = pk then Some u else None | _ \<Rightarrow> None) (us_out s)"

definition sent_decisions :: "PublicKey \<Rightarrow> 'm UpgradeState \<Rightarrow> UpgradeDecisionMsg list" where
  "sent_decisions pk s = List.map_filter (\<lambda>m. case m of SentDecision pk' d \<Rightarrow> if pk' = pk then Some d else None | _ \<Rightarrow> None) (us_out s)"

text \<open>The receiver handles the latest message of the sender; the session is known to it.\<close>

definition deliver_upgrade :: "(nat \<Rightarrow> instant) \<Rightarrow> 'm UpgradeState \<Rightarrow> 'm UpgradeState \<Rightarrow> 'm UpgradeState" where
  "deliver_upgrade clk sender receiver =
     snd (handle_upgrade_request_msg (Inr True) clk (our_public_key sender)
            (last (sent_upgrades (our_public_key receiver) sender)) receiver)"

definition deliver_decision ::
  "'m pending_ops \<Rightarrow> (PublicKey Direction set \<Rightarrow> PublicKey Direction list) \<Rightarrow> 'm UpgradeState \<Rightarrow> 'm UpgradeState
     \<Rightarrow> 'm UpgradeState" where
  "deliver_decision L order sender receiver =
     handle_upgrade_decision_msg L order (our_public_key sender)
       (last (sent_decisions (our_public_key receiver) sender)) receiver"

definition channels_open :: "'m UpgradeState \<Rightarrow> bool" where
  "channels_open s \<longleftrightarrow> upgrade_open s \<and> decision_open s \<and> request_publisher_open s"

lemma map_filter_snoc: "List.map_filter f (xs @ [x]) = List.map_filter f xs @ (case f x of None \<Rightarrow> [] | Some y \<Rightarrow> [y])"
  by (simp add: List.map_filter_def split: option.split)

lemma request_upgrade_True:
  assumes "request_upgrade L clk pk rem loc ses s = (Inr True, s')"
  shows "s' = s\<lparr>us_out := us_out s @ [SentUpgrade pk \<lparr>um_endpoint = fst loc, um_session = ses,
          endpoint_type = snd loc, receiver_endpoint_type = snd rem\<rparr>],
        upgrade_requests := (upgrade_requests s)(Sent pk \<mapsto>
          \<lparr>ur_endpoint = fst rem, requested_at = clk 1, ur_session = ses\<rparr>),
        pending_direct_sessions := lru_insert L (pending_direct_sessions s) ses
          \<lparr>local_ep = snd loc, remote_ep = snd rem\<rparr> (clk 2)\<rparr>"
  using assms by (auto simp: request_upgrade_def split: if_splits)

section \<open>Runs of one node\<close>

inductive us_run :: "'m pending_ops \<Rightarrow> 'm UpgradeState \<Rightarrow> instant \<Rightarrow> bool" for L where
  new: "us_run L (UpgradeSync_new L period pk) now"
| later: "us_run L s now \<Longrightarrow> now \<le> now' \<Longrightarrow> us_run L s now'"
| request: "us_run L s now \<Longrightarrow> clk 2 = now \<Longrightarrow> us_run L (snd (request_upgrade L clk pk rem loc ses s)) now"
| upgrade: "us_run L s now \<Longrightarrow> us_run L (snd (handle_upgrade_request_msg allowed clk pk msg s)) now"
| decision: "us_run L s now \<Longrightarrow> us_run L (handle_upgrade_decision_msg L order pk d s) now"
| tick: "us_run L s now \<Longrightarrow> us_run L (snd (us_handle_tick order clks s)) now"
| key: "us_run L s now \<Longrightarrow> us_run L (us_set_public_key pk s) now"
| clear: "us_run L s now \<Longrightarrow> us_run L (clear_accepted_session pk s) now"
| channels: "us_run L s now \<Longrightarrow>
    us_run L (s\<lparr>upgrade_open := a, decision_open := b, request_publisher_open := c\<rparr>) now"

lemma upgrade_msg_pending [simp]:
  "pending_direct_sessions (snd (handle_upgrade_request_msg allowed clk pk msg s)) = pending_direct_sessions s"
  by (auto simp: handle_upgrade_request_msg_def send_decision_def Let_def split: prod.split sum.split)

lemma us_run_pending:
  assumes "linked_hash_map L invar" "us_run L s now"
  shows "lru_inv L invar (pending_direct_sessions s) now \<and> capacity (pending_direct_sessions s) = MAX_PENDING_SESSIONS"
  using assms(2)
proof (induction rule: us_run.induct)
  case (later s now now')
  then show ?case by (auto intro: lru_inv_later)
next
  case (request s now clk pk rem loc ses)
  note L = lru_of_linked_hash_map [OF assms(1)]
  from request show ?case using lru.lru_insert_inv [OF L] by (auto simp: request_upgrade_def lru.lru_insert_keeps [OF L])
next
  case (decision s now order pk d)
  then show ?case using lru.lru_remove_inv [OF lru_of_linked_hash_map [OF assms(1)]]
    by (auto simp: handle_upgrade_decision_msg_def lru_remove_def split: Decision.split option.split)
qed (use lru.lru_new_inv [OF lru_of_linked_hash_map [OF assms(1)]] in
    \<open>simp_all add: UpgradeSync_new_def lru_new_def us_handle_tick_def us_set_public_key_def
       clear_accepted_session_def Let_def\<close>)

lemma pending_after_insert:
  assumes "linked_hash_map L invar" "us_run L s now"
  shows "fst (lru_remove L (lru_insert L (pending_direct_sessions s) ses d t) ses) = Some d"
proof -
  have "lru L invar" by (rule lru_of_linked_hash_map [OF assms(1)])
  from lru.get_lru_insert(1) [OF this, of "pending_direct_sessions s" ses d t] us_run_pending [OF assms]
  show ?thesis by (simp add: lru_remove_def lru_inv_def MAX_PENDING_SESSIONS_def TimedValue_new_def)
qed

section \<open>Crossing requests\<close>

text \<open>The decisions of two nodes whose own requests are still open.\<close>

lemma winner_rejects:
  assumes "our_public_key s < pk" "upgrade_requests s (Sent pk) = Some r" "\<not> us_is_expired (expiration_period s) (clk 0) r"
    and "decision_open s"
  shows "handle_upgrade_request_msg (Inr True) clk pk msg s =
    (Inl (UpgradeRejected RejectedDueToConcurrentUpgrade),
     s\<lparr>us_out := us_out s @ [SentDecision pk \<lparr>ud_decision = RejectedDueToConcurrentUpgrade, ud_session = um_session msg\<rparr>]\<rparr>)"
  using assms by (simp add: handle_upgrade_request_msg_def decide_def send_decision_def
      smaller_key_in_meshnet_canonical_order_def meshnet_canonical_key_order_def Let_def)

lemma loser_accepts:
  assumes "pk < our_public_key s" "channels_open s"
  shows "snd (handle_upgrade_request_msg (Inr True) clk pk msg s) =
    s\<lparr>us_out := us_out s @ [SentDecision pk \<lparr>ud_decision = Accepted, ud_session = um_session msg\<rparr>, RequestChanged],
      accepted_direct_sessions := (accepted_direct_sessions s)(pk \<mapsto>
        \<lparr>local_ep = receiver_endpoint_type msg, remote_ep = endpoint_type msg\<rparr>),
      upgrade_requests := (upgrade_requests s)(Received pk \<mapsto>
        \<lparr>ur_endpoint = um_endpoint msg, requested_at = clk 1, ur_session = um_session msg\<rparr>)\<rparr>"
proof -
  have "decide (clk 0) pk s = Accepted"
    using assms(1) by (auto simp: decide_def smaller_key_in_meshnet_canonical_order_def
        meshnet_canonical_key_order_def split: option.split)
  with assms(2) show ?thesis by (simp add: handle_upgrade_request_msg_def send_decision_def channels_open_def Let_def)
qed

text \<open>
  C9. Two nodes that ask each other for an upgrade at the same time agree: if both requests were sent
  before either was received, the sessions are known, messages get through and the request of the
  node with the smaller key has not expired when the other one arrives, then after both decisions
  arrived it is the request of that node that stands on both sides. Its sender keeps it as sent, the
  other node drops its own request and has the sender's as received, and the endpoint kinds that
  the two nodes remember for the direct session mirror each other.
\<close>

theorem crossing_upgrades_agree:
  assumes L: "linked_hash_map L invar" and run: "us_run L a now"
    and keys: "our_public_key a < our_public_key b" and is_open: "channels_open a" "channels_open b"
    and requests: "request_upgrade L clk_a (our_public_key b) rem_a loc_a x a = (Inr True, a1)"
      "request_upgrade L clk_b (our_public_key a) rem_b loc_b y b = (Inr True, b1)"
    and fresh: "t_a 0 - clk_a 1 \<le> expiration_period a"
    and a2: "a2 = deliver_upgrade t_a b1 a1" and b2: "b2 = deliver_upgrade t_b a1 b1"
    and a3: "a3 = deliver_decision L order b2 a2" and b3: "b3 = deliver_decision L order a2 b2"
  shows "upgrade_requests a3 = (upgrade_requests a)(Sent (our_public_key b) \<mapsto>
      \<lparr>ur_endpoint = fst rem_a, requested_at = clk_a 1, ur_session = x\<rparr>)
    \<and> upgrade_requests b3 = (upgrade_requests b)(Sent (our_public_key a) := None, Received (our_public_key a) \<mapsto>
      \<lparr>ur_endpoint = fst loc_a, requested_at = t_b 1, ur_session = x\<rparr>)
    \<and> get_accepted_session (our_public_key b) a3 = Some \<lparr>local_ep = snd loc_a, remote_ep = snd rem_a\<rparr>
    \<and> get_accepted_session (our_public_key a) b3 = Some \<lparr>local_ep = snd rem_a, remote_ep = snd loc_a\<rparr>"
proof -
  let ?ka = "our_public_key a" and ?kb = "our_public_key b"
  let ?ma = "\<lparr>um_endpoint = fst loc_a, um_session = x, endpoint_type = snd loc_a, receiver_endpoint_type = snd rem_a\<rparr>"
    and ?mb = "\<lparr>um_endpoint = fst loc_b, um_session = y, endpoint_type = snd loc_b, receiver_endpoint_type = snd rem_b\<rparr>"
  note a1 = request_upgrade_True [OF requests(1)] and b1 = request_upgrade_True [OF requests(2)]
  have last: "last (sent_upgrades ?kb a1) = ?ma" "last (sent_upgrades ?ka b1) = ?mb"
    by (simp_all add: a1 b1 sent_upgrades_def map_filter_snoc)
  have a2': "a2 = a1\<lparr>us_out := us_out a1 @ [SentDecision ?kb \<lparr>ud_decision = RejectedDueToConcurrentUpgrade, ud_session = y\<rparr>]\<rparr>"
  proof -
    have "handle_upgrade_request_msg (Inr True) t_a ?kb ?mb a1 = (Inl (UpgradeRejected RejectedDueToConcurrentUpgrade),
     a1\<lparr>us_out := us_out a1 @ [SentDecision ?kb \<lparr>ud_decision = RejectedDueToConcurrentUpgrade, ud_session = um_session ?mb\<rparr>]\<rparr>)"
      by (rule winner_rejects [where r = "\<lparr>ur_endpoint = fst rem_a, requested_at = clk_a 1, ur_session = x\<rparr>"]) (use keys is_open fresh in \<open>simp_all add: a1 us_is_expired_def channels_open_def\<close>)
    then show ?thesis using last(2) by (simp add: a2 deliver_upgrade_def a1 b1)
  qed
  have b2': "b2 = b1\<lparr>us_out := us_out b1 @ [SentDecision ?ka \<lparr>ud_decision = Accepted, ud_session = x\<rparr>, RequestChanged],
      accepted_direct_sessions := (accepted_direct_sessions b)(?ka \<mapsto> \<lparr>local_ep = snd rem_a, remote_ep = snd loc_a\<rparr>),
      upgrade_requests := (upgrade_requests b1)(Received ?ka \<mapsto>
        \<lparr>ur_endpoint = fst loc_a, requested_at = t_b 1, ur_session = x\<rparr>)\<rparr>"
    using loser_accepts [of ?ka b1 t_b ?ma] keys is_open last(1)
    by (simp add: b2 deliver_upgrade_def a1 b1 channels_open_def)
  have last': "last (sent_decisions ?kb a2) = \<lparr>ud_decision = RejectedDueToConcurrentUpgrade, ud_session = y\<rparr>"
    "last (sent_decisions ?ka b2) = \<lparr>ud_decision = Accepted, ud_session = x\<rparr>"
    by (simp_all add: a2' b2' sent_decisions_def List.map_filter_def)
  have keys': "our_public_key a2 = ?ka" "our_public_key b2 = ?kb" by (simp_all add: a2' b2' a1 b1)
  have pending: "fst (lru_remove L (pending_direct_sessions a2) x) = Some \<lparr>local_ep = snd loc_a, remote_ep = snd rem_a\<rparr>"
    using pending_after_insert [OF L run] by (simp add: a2' a1)
  have "upgrade_requests a3 = upgrade_requests a2 \<and> get_accepted_session ?kb a3 = Some \<lparr>local_ep = snd loc_a, remote_ep = snd rem_a\<rparr>"
    using pending by (auto simp: a3 deliver_decision_def keys' last' handle_upgrade_decision_msg_def
        get_accepted_session_def split: prod.split option.split)
  moreover have b3': "b3 = b2\<lparr>upgrade_requests := (\<lambda>d. case upgrade_requests b2 d of
       None \<Rightarrow> None | Some r \<Rightarrow> if d = Sent ?ka \<and> ur_session r = y then None else Some r)\<rparr>"
    unfolding b3 deliver_decision_def keys' last' handle_upgrade_decision_msg_def by (simp cong: option.case_cong)
  moreover have "upgrade_requests b3 = (upgrade_requests b)(Sent ?ka := None, Received ?ka \<mapsto>
      \<lparr>ur_endpoint = fst loc_a, requested_at = t_b 1, ur_session = x\<rparr>)"
    unfolding b3' by (auto simp: b2' b1 fun_eq_iff split: option.split)
  moreover have "get_accepted_session ?ka b3 = Some \<lparr>local_ep = snd rem_a, remote_ep = snd loc_a\<rparr>"
    unfolding b3' by (simp add: get_accepted_session_def b2')
  ultimately show ?thesis by (simp add: a2' a1)
qed

text \<open>
  C28. A node acts on a request to upgrade only if the peer announced the session of the request to its
  cross-ping check: whatever else the handler does, the requests and the accepted sessions stay as
  they are otherwise.
\<close>

theorem upgrade_follows_announcement:
  assumes "cross_ping E invar bo_ok fi" "cpc_run E ps rs s now"
    and "allowed = Inr (fst (check_if_upgrade_is_allowed E now (um_session msg) pk s))"
    and "u' = snd (handle_upgrade_request_msg allowed clk pk msg u)"
    and "upgrade_requests u' \<noteq> upgrade_requests u \<or> accepted_direct_sessions u' \<noteq> accepted_direct_sessions u"
  shows "(um_session msg, pk) \<in> set rs"
proof (rule upgrade_needs_announcement [OF assms(1,2)])
  show "fst (check_if_upgrade_is_allowed E now (um_session msg) pk s)"
    using assms(3-5) by (cases "fst (check_if_upgrade_is_allowed E now (um_session msg) pk s)")
      (auto simp: handle_upgrade_request_msg_def send_decision_def Let_def)
qed

text \<open>
  A request that is turned down is answered with the reason and changes nothing else.
\<close>

theorem rejected_upgrade_changes_nothing:
  assumes "handle_upgrade_request_msg allowed clk pk msg s = (Inl (UpgradeRejected d), s')"
  shows "d \<noteq> Accepted \<and> s' = s\<lparr>us_out := us_out s @ [SentDecision pk \<lparr>ud_decision = d, ud_session = um_session msg\<rparr>]\<rparr>
    \<and> (d = RejectedDueToUnknownSession \<longleftrightarrow> allowed \<noteq> Inr True)"
  using assms by (auto simp: handle_upgrade_request_msg_def send_decision_def decide_def Let_def
      split: if_splits sum.splits bool.splits option.splits)

section \<open>Samples\<close>

definition sample_us :: "u8 \<Rightarrow> (u64 \<times> SessionData TimedValue) list UpgradeState" where
  "sample_us n = UpgradeSync_new alist_lhm (from_secs 30) (PublicKey (replicate 32 n))"

lemma sample_us_key: "our_public_key (sample_us 1) < our_public_key (sample_us 2)"
  by (simp add: sample_us_def UpgradeSync_new_def) code_simp

definition sample_request_a :: "(u64 \<times> SessionData TimedValue) list UpgradeState" where
  "sample_request_a = snd (request_upgrade alist_lhm (\<lambda>_. 5) (our_public_key (sample_us 2)) (SockV4 2 51820, Stun)
     (SockV4 1 51820, Local) 11 (sample_us 1))"

definition sample_request_b :: "(u64 \<times> SessionData TimedValue) list UpgradeState" where
  "sample_request_b = snd (request_upgrade alist_lhm (\<lambda>_. 6) (our_public_key (sample_us 1)) (SockV4 1 51820, Upnp)
     (SockV4 2 51820, Local) 22 (sample_us 2))"

theorem crossing_upgrades_agree_witness:
  "get_accepted_session (our_public_key (sample_us 2))
     (deliver_decision alist_lhm (\<lambda>_. []) (deliver_upgrade (\<lambda>_. 8) sample_request_a sample_request_b)
        (deliver_upgrade (\<lambda>_. 9) sample_request_b sample_request_a)) = Some \<lparr>local_ep = Local, remote_ep = Stun\<rparr>
   \<and> get_accepted_session (our_public_key (sample_us 1))
     (deliver_decision alist_lhm (\<lambda>_. []) (deliver_upgrade (\<lambda>_. 9) sample_request_b sample_request_a)
        (deliver_upgrade (\<lambda>_. 8) sample_request_a sample_request_b)) = Some \<lparr>local_ep = Stun, remote_ep = Local\<rparr>"
proof -
  have run: "us_run alist_lhm (sample_us 1) 0" unfolding sample_us_def by (rule us_run.new)
  have *: "channels_open (sample_us n)" "upgrade_requests (sample_us n) = Map.empty" "upgrade_open (sample_us n)"
      "expiration_period (sample_us n) = from_secs 30" for n
    by (simp_all add: sample_us_def UpgradeSync_new_def channels_open_def)
  have "request_upgrade alist_lhm (\<lambda>_. 5) (our_public_key (sample_us 2)) (SockV4 2 51820, Stun)
     (SockV4 1 51820, Local) 11 (sample_us 1) = (Inr True, sample_request_a)"
    "request_upgrade alist_lhm (\<lambda>_. 6) (our_public_key (sample_us 1)) (SockV4 1 51820, Upnp)
     (SockV4 2 51820, Local) 22 (sample_us 2) = (Inr True, sample_request_b)"
    by (simp_all add: sample_request_a_def sample_request_b_def request_upgrade_def *)
  from crossing_upgrades_agree [OF alist_lhm.linked_hash_map_axioms run sample_us_key *(1) *(1) this _ refl refl refl refl,
      where t_a = "\<lambda>_. 9" and t_b = "\<lambda>_. 8" and order = "\<lambda>_. []"]
  show ?thesis by (simp add: * from_secs_def)
qed

definition sample_upgrade :: UpgradeMsg where
  "sample_upgrade = \<lparr>um_endpoint = SockV4 3221225985 51820, um_session = 42, endpoint_type = Stun,
     receiver_endpoint_type = Local\<rparr>"

theorem upgrade_follows_announcement_witness:
  "accepted_direct_sessions (snd (handle_upgrade_request_msg
      (Inr (fst (check_if_upgrade_is_allowed sample_cpc_env 9 42 sample_node cpc_announced)))
      (\<lambda>_. 9) sample_node sample_upgrade (sample_us 1))) sample_node = Some \<lparr>local_ep = Local, remote_ep = Stun\<rparr>
   \<and> (42, sample_node) \<in> set [(42, sample_node)]"
proof -
  have *: "accepted_direct_sessions (snd (handle_upgrade_request_msg
      (Inr (fst (check_if_upgrade_is_allowed sample_cpc_env 9 (um_session sample_upgrade) sample_node cpc_announced)))
      (\<lambda>_. 9) sample_node sample_upgrade (sample_us 1))) sample_node = Some \<lparr>local_ep = Local, remote_ep = Stun\<rparr>"
    using announced_allowed by (simp add: sample_upgrade_def handle_upgrade_request_msg_def decide_def send_decision_def
        sample_us_def UpgradeSync_new_def)
  moreover have "accepted_direct_sessions (sample_us 1) sample_node = None"
    by (simp add: sample_us_def UpgradeSync_new_def)
  ultimately have "accepted_direct_sessions (snd (handle_upgrade_request_msg
      (Inr (fst (check_if_upgrade_is_allowed sample_cpc_env 9 (um_session sample_upgrade) sample_node cpc_announced)))
      (\<lambda>_. 9) sample_node sample_upgrade (sample_us 1))) \<noteq> accepted_direct_sessions (sample_us 1)" by auto
  with upgrade_follows_announcement [OF sample_cross_ping sample_run_announced refl refl, of sample_upgrade sample_node "\<lambda>_. 9" "sample_us 1"]
  have "(um_session sample_upgrade, sample_node) \<in> set [(42, sample_node)]" by blast
  with * show ?thesis by (simp add: sample_upgrade_def)
qed

theorem rejected_upgrade_changes_nothing_witness:
  "handle_upgrade_request_msg (Inr False) (\<lambda>_. 9) sample_node sample_upgrade (sample_us 1) =
     (Inl (UpgradeRejected RejectedDueToUnknownSession), (sample_us 1)\<lparr>us_out :=
        [SentDecision sample_node \<lparr>ud_decision = RejectedDueToUnknownSession, ud_session = 42\<rparr>]\<rparr>)"
proof -
  have "fst (handle_upgrade_request_msg (Inr False) (\<lambda>_. 9) sample_node sample_upgrade (sample_us 1)) =
      Inl (UpgradeRejected RejectedDueToUnknownSession)"
    by (simp add: handle_upgrade_request_msg_def send_decision_def sample_us_def UpgradeSync_new_def)
  then obtain s' where s': "handle_upgrade_request_msg (Inr False) (\<lambda>_. 9) sample_node sample_upgrade (sample_us 1) =
      (Inl (UpgradeRejected RejectedDueToUnknownSession), s')" by (metis prod.collapse)
  have "us_out (sample_us 1) = []" by (simp add: sample_us_def UpgradeSync_new_def)
  with rejected_upgrade_changes_nothing [OF s'] s' show ?thesis by (simp add: sample_upgrade_def)
qed

end
