(* ===== verification/Proto_Theorems.thy ===== *)
theory Proto_Theorems
  imports Proto_Codecs
begin

text \<open>
  Properties of the messages between nodes, and an executable instance of the generated code: a small
  wire format made of fixed-width integers, counted lists and tags.
\<close>

section \<open>A wire format\<close>

datatype 'a wire = Wire (put: "'a \<Rightarrow> bytes") (take_from: "bytes \<Rightarrow> ('a \<times> bytes) option")

definition good :: "'a wire \<Rightarrow> bool" where
  "good w \<longleftrightarrow> (\<forall>x rest. take_from w (put w x @ rest) = Some (x, rest))"

lemma goodD [simp]: "good w \<Longrightarrow> take_from w (put w x @ rest) = Some (x, rest)"
  by (simp add: good_def)

definition w_word :: "nat \<Rightarrow> 'w::len word wire" where
  "w_word n = Wire (\<lambda>w. be_bytes n (unat w))
     (\<lambda>bs. if length bs < n then None else Some (word_of_nat (from_be_bytes (take n bs)), drop n bs))"

lemma good_word: "LENGTH('w) = 8 * n \<Longrightarrow> good (w_word n :: 'w::len word wire)"
proof -
  assume "LENGTH('w) = 8 * n"
  then have "unat w < 256 ^ n" for w :: "'w word"
    using unsigned_less [of w] by (simp add: power_mult)
  moreover have "from_be_bytes (be_bytes n x) = x mod 256 ^ n" for x
    by (simp add: from_be_bytes_def foldl_be_bytes)
  ultimately show ?thesis by (simp add: good_def w_word_def) (simp add: be_bytes_def)
qed

definition w_map :: "('a \<Rightarrow> 'b) \<Rightarrow> ('b \<Rightarrow> 'a) \<Rightarrow> 'b wire \<Rightarrow> 'a wire" where
  "w_map f g w = Wire (\<lambda>x. put w (f x)) (\<lambda>bs. map_option (\<lambda>(y, rest). (g y, rest)) (take_from w bs))"

lemma good_map: "good w \<Longrightarrow> (\<And>x. g (f x) = x) \<Longrightarrow> good (w_map f g w)"
  by (simp add: good_def w_map_def)

definition w_pair :: "'a wire \<Rightarrow> 'b wire \<Rightarrow> ('a \<times> 'b) wire" where
  "w_pair v w = Wire (\<lambda>(x, y). put v x @ put w y)
     (\<lambda>bs. case take_from v bs of None \<Rightarrow> None
        | Some (x, rest) \<Rightarrow> (case take_from w rest of None \<Rightarrow> None | Some (y, rest') \<Rightarrow> Some ((x, y), rest')))"

lemma good_pair: "good v \<Longrightarrow> good w \<Longrightarrow> good (w_pair v w)"
  by (auto simp: good_def w_pair_def)

primrec take_many :: "'a wire \<Rightarrow> nat \<Rightarrow> bytes \<Rightarrow> ('a list \<times> bytes) option" where
  "take_many w 0 bs = Some ([], bs)"
| "take_many w (Suc n) bs = (case take_from w bs of None \<Rightarrow> None
     | Some (x, rest) \<Rightarrow> map_option (\<lambda>(xs, rest'). (x # xs, rest')) (take_many w n rest))"

definition w_list :: "'a wire \<Rightarrow> 'a list wire" where
  "w_list w = Wire (\<lambda>xs. replicate (length xs) 1 @ 0 # concat (map (put w) xs))
     (\<lambda>bs. let n = length (takeWhile (\<lambda>b. b = 1) bs) in take_many w n (drop (Suc n) bs))"

lemma take_many_put: "good w \<Longrightarrow> take_many w (length xs) (concat (map (put w) xs) @ rest) = Some (xs, rest)"
  by (induction xs) simp_all

lemma good_list: "good w \<Longrightarrow> good (w_list w)"
proof -
  assume w: "good w"
  have "takeWhile (\<lambda>b :: u8. b = 1) (replicate n 1 @ 0 # ys) = replicate n 1" for n ys
    by (induction n) simp_all
  then show ?thesis using take_many_put [OF w] by (simp add: good_def w_list_def Let_def)
qed

definition w_option :: "'a wire \<Rightarrow> 'a option wire" where
  "w_option w = w_map (\<lambda>x. case x of None \<Rightarrow> [] | Some y \<Rightarrow> [y]) (\<lambda>ys. case ys of [] \<Rightarrow> None | y # _ \<Rightarrow> Some y) (w_list w)"

definition w_sum :: "'a wire \<Rightarrow> 'b wire \<Rightarrow> ('a + 'b) wire" where
  "w_sum v w = Wire (\<lambda>x. case x of Inl a \<Rightarrow> 0 # put v a | Inr b \<Rightarrow> 1 # put w b)
     (\<lambda>bs. case bs of [] \<Rightarrow> None
        | t # rest \<Rightarrow> if t = 0 then map_option (\<lambda>(a, r). (Inl a, r)) (take_from v rest)
                     else map_option (\<lambda>(b, r). (Inr b, r)) (take_from w rest))"

lemma good_sum: "good v \<Longrightarrow> good w \<Longrightarrow> good (w_sum v w)"
  by (simp add: good_def w_sum_def split: sum.split)

definition w_nat_enum :: "'a list \<Rightarrow> 'a wire" where
  "w_nat_enum xs = Wire (\<lambda>x. replicate (length (takeWhile (\<lambda>y. y \<noteq> x) xs)) 1 @ [0])
     (\<lambda>bs. let n = length (takeWhile (\<lambda>b. b = 1) bs) in if n < length xs then Some (xs ! n, drop (Suc n) bs) else None)"

lemma good_enum: "set xs = UNIV \<Longrightarrow> good (w_nat_enum xs)"
proof -
  assume all: "set xs = UNIV"
  have "takeWhile (\<lambda>b :: u8. b = 1) (replicate n 1 @ 0 # ys) = replicate n 1" for n ys
    by (induction n) simp_all
  moreover have "length (takeWhile (\<lambda>y. y \<noteq> x) xs) < length xs" "xs ! length (takeWhile (\<lambda>y. y \<noteq> x) xs) = x" for x
  proof -
    have "x \<in> set xs" using all by simp
    then show "length (takeWhile (\<lambda>y. y \<noteq> x) xs) < length xs" by (induction xs) auto
    then show "xs ! length (takeWhile (\<lambda>y. y \<noteq> x) xs) = x" using nth_length_takeWhile by fastforce
  qed
  ultimately show ?thesis by (simp add: good_def w_nat_enum_def Let_def)
qed

definition pb_of :: "'a wire \<Rightarrow> 'a pb" where
  "pb_of w = Pb (\<lambda>m. Inr (put w m)) (\<lambda>bs. case take_from w bs of Some (m, []) \<Rightarrow> Inr m | _ \<Rightarrow> Inl ''malformed'')"

lemma pb_of_roundtrip: "good w \<Longrightarrow> pb_write (pb_of w) m = Inr b \<Longrightarrow> pb_parse (pb_of w) b = Inr m"
  using goodD [of w m "[]"] by (auto simp: pb_of_def)

section \<open>The messages in it\<close>

definition w_u8 :: "u8 wire" where "w_u8 = w_word 1"
definition w_u16 :: "u16 wire" where "w_u16 = w_word 2"
definition w_u32 :: "u32 wire" where "w_u32 = w_word 4"
definition w_u64 :: "u64 wire" where "w_u64 = w_word 8"
definition w_u128 :: "u128 wire" where "w_u128 = w_word 16"
definition w_bytes :: "bytes wire" where "w_bytes = w_list w_u8"
definition char_byte :: "char \<Rightarrow> u8" where "char_byte c = word_of_nat (of_char c)"
definition byte_char :: "u8 \<Rightarrow> char" where "byte_char b = char_of (unat b)"
definition w_string :: "string wire" where "w_string = w_map (map char_byte) (map byte_char) w_bytes"
definition w_bool :: "bool wire" where "w_bool = w_nat_enum [False, True]"
definition w_sock :: "SocketAddr wire" where
  "w_sock = w_map (\<lambda>a. case a of SockV4 ip port \<Rightarrow> Inl (ip, port) | SockV6 ip port flow scope \<Rightarrow> Inr (ip, port, flow, scope))
     (\<lambda>x. case x of Inl (ip, port) \<Rightarrow> SockV4 ip port | Inr (ip, port, flow, scope) \<Rightarrow> SockV6 ip port flow scope)
     (w_sum (w_pair w_u32 w_u16) (w_pair w_u128 (w_pair w_u16 (w_pair w_u32 w_u32))))"
definition w_source :: "PingSource option wire" where
  "w_source = w_option (w_map (\<lambda>a. case a of SrcV4 ip \<Rightarrow> Inl ip | SrcV6 bs \<Rightarrow> Inr bs) (case_sum SrcV4 SrcV6) (w_sum w_u32 w_bytes))"
definition w_pinger :: "Pinger wire" where
  "w_pinger = w_map (\<lambda>m. (pi_start_timestamp m, pi_wg_port m, pi_source m))
     (\<lambda>(t, p, s). \<lparr>pi_start_timestamp = t, pi_wg_port = p, pi_source = s\<rparr>) (w_pair w_u64 (w_pair w_u32 w_source))"
definition w_ponger :: "Ponger wire" where
  "w_ponger = w_map (\<lambda>m. (po_start_timestamp m, po_wg_port m, po_source m, po_ep_provider m))
     (\<lambda>(t, p, s, e). \<lparr>po_start_timestamp = t, po_wg_port = p, po_source = s, po_ep_provider = e\<rparr>)
     (w_pair w_u64 (w_pair w_u32 (w_pair w_source w_u32)))"
definition w_cmm :: "CallMeMaybeMsg wire" where
  "w_cmm = w_map (\<lambda>m. (i_am_initiator m, my_addresses m, cmm_session m))
     (\<lambda>(i, a, s). \<lparr>i_am_initiator = i, my_addresses = a, cmm_session = s\<rparr>) (w_pair w_bool (w_pair (w_list w_string) w_u64))"
definition w_cmm_deprecated :: "CallMeMaybeMsgDeprecated wire" where
  "w_cmm_deprecated = w_map (\<lambda>m. (dep_initiator m, dep_addresses m, dep_peer_id m, dep_session m))
     (\<lambda>(i, a, p, s). \<lparr>dep_initiator = i, dep_addresses = a, dep_peer_id = p, dep_session = s\<rparr>)
     (w_pair w_bool (w_pair (w_list w_string) (w_pair w_u32 w_u64)))"
definition w_heartbeat :: "HeartbeatMessage wire" where
  "w_heartbeat = w_map (\<lambda>m. (hb_is_response m, hb_meshnet_id m, hb_node_fingerprint m, hb_statuses m, hb_nat_type m))
     (\<lambda>(r, i, f, s, n). \<lparr>hb_is_response = r, hb_meshnet_id = i, hb_node_fingerprint = f, hb_statuses = s, hb_nat_type = n\<rparr>)
     (w_pair w_bool (w_pair w_bytes (w_pair w_string (w_pair
        (w_list (w_map (\<lambda>m. (hb_node m, connection_state m)) (\<lambda>(n, c). \<lparr>hb_node = n, connection_state = c\<rparr>) (w_pair w_bytes w_u32)))
        (w_nat_enum [NtUdpBlocked, NtOpenInternet, NtSymmetricUdpFirewall, NtFullCone, NtRestrictedCone,
           NtPortRestrictedCone, NtSymmetric, NtUnknown])))))"
definition w_upgrade :: "UpgradeProto wire" where
  "w_upgrade = w_map (\<lambda>m. (up_endpoint m, up_session m, up_endpoint_type m, up_receiver_endpoint_type m))
     (\<lambda>(e, s, t, r). \<lparr>up_endpoint = e, up_session = s, up_endpoint_type = t, up_receiver_endpoint_type = r\<rparr>)
     (w_pair w_string (w_pair w_u64 (w_pair w_u32 w_u32)))"
definition w_decision :: "UpgradeDecisionMsg wire" where
  "w_decision = w_map (\<lambda>m. (ud_decision m, ud_session m)) (\<lambda>(d, s). \<lparr>ud_decision = d, ud_session = s\<rparr>)
     (w_pair (w_nat_enum [Accepted, RejectedDueToUnknownSession, RejectedDueToConcurrentUpgrade]) w_u64)"

lemma good_option: "good w \<Longrightarrow> good (w_option w)"
  unfolding w_option_def by (intro good_map good_list) (auto split: option.split)

lemma byte_char_inverse [simp]: "byte_char (char_byte c) = c" "char_byte (byte_char b) = b"
proof -
  have "unat (word_of_nat (of_char c) :: u8) = of_char c" by (simp add: unat_byte)
  then show "byte_char (char_byte c) = c" by (simp add: byte_char_def char_byte_def)
  have "unat b < 256" using unsigned_less [of b] by simp
  then have "unat b mod 256 = unat b" by simp
  then show "char_byte (byte_char b) = b" by (simp add: byte_char_def char_byte_def)
qed

lemma good_basic:
  "good w_u8" "good w_u16" "good w_u32" "good w_u64" "good w_u128" "good w_bytes" "good w_string" "good w_bool"
  unfolding w_string_def w_bytes_def w_u8_def w_u16_def w_u32_def w_u64_def w_u128_def w_bool_def
  by (auto intro!: good_map good_list good_word good_enum simp: comp_def)

lemma good_sock: "good w_sock"
  unfolding w_sock_def by (intro good_map good_sum good_pair good_basic) (auto split: SocketAddr.split)

lemma good_source: "good w_source"
  unfolding w_source_def by (intro good_map good_sum good_option good_basic) (auto split: PingSource.split)

lemma good_pings: "good w_pinger" "good w_ponger"
  unfolding w_pinger_def w_ponger_def by (auto intro!: good_map good_pair good_basic good_source)

lemma good_cmm: "good w_cmm" "good w_cmm_deprecated"
  unfolding w_cmm_def w_cmm_deprecated_def by (auto intro!: good_map good_pair good_list good_basic)

lemma good_upgrade: "good w_upgrade" "good w_decision"
proof -
  have "set [Accepted, RejectedDueToUnknownSession, RejectedDueToConcurrentUpgrade] = UNIV"
    using Decision.exhaust by auto
  then show "good w_upgrade" "good w_decision" unfolding w_upgrade_def w_decision_def
    by (auto intro!: good_map good_pair good_basic good_enum)
qed

lemma good_heartbeat: "good w_heartbeat"
proof -
  have "set [NtUdpBlocked, NtOpenInternet, NtSymmetricUdpFirewall, NtFullCone, NtRestrictedCone,
           NtPortRestrictedCone, NtSymmetric, NtUnknown] = UNIV"
    using NatType.exhaust by auto
  then show ?thesis unfolding w_heartbeat_def
    by (intro good_map good_pair good_list good_basic good_enum) auto
qed

definition sample_proto :: proto_env where
  "sample_proto = \<lparr>pb_pinger = pb_of w_pinger, pb_ponger = pb_of w_ponger, pb_cmm = pb_of w_cmm,
     pb_cmm_deprecated = pb_of w_cmm_deprecated, pb_heartbeat = pb_of w_heartbeat, pb_upgrade = pb_of w_upgrade,
     pb_decision = pb_of w_decision, sock_to_string = (\<lambda>a. map byte_char (put w_sock a)),
     sock_parse = (\<lambda>t. map_option fst (take_from w_sock (map char_byte t)))\<rparr>"

interpretation sample: protobuf sample_proto
proof -
  have "sock_parse sample_proto (sock_to_string sample_proto a) = Some a" for a
    using goodD [OF good_sock, of a "[]"] by (simp add: sample_proto_def comp_def)
  then show "protobuf sample_proto"
    by unfold_locales
      (simp_all add: sample_proto_def pb_of_roundtrip [OF good_pings(1)] pb_of_roundtrip [OF good_pings(2)]
        pb_of_roundtrip [OF good_cmm(1)] pb_of_roundtrip [OF good_cmm(2)] pb_of_roundtrip [OF good_heartbeat]
        pb_of_roundtrip [OF good_upgrade(1)] pb_of_roundtrip [OF good_upgrade(2)])
qed

section \<open>Properties\<close>

text \<open>
  C26. Every packet between nodes survives the wire: the bytes that encode a packet decode to exactly
  this packet, and their first byte names its type. Data messages must have the header of their type
  and addresses no IPv6 flow information, which their text form cannot carry.
\<close>

theorem relayed_packet_roundtrip:
  assumes "protobuf E" "packet_ok p" "PacketRelayed_encode E p = Inr b"
  shows "PacketRelayed_decode E b = Inr p \<and> b \<noteq> [] \<and> packet_type_from (hd b) = PacketRelayed_packet_type p"
proof -
  note codec = protobuf.relayed_codec [OF assms(1)]
  from codec.roundtrip [OF codec assms(2,3)] codec.header [OF codec assms(2,3)] show ?thesis
    by (cases b) simp_all
qed

lemma put_u16_eq: "put_u16 w = [word_of_nat (unat w div 256), word_of_nat (unat w)]"
  by (simp add: put_u16_def be_bytes_def numeral_2_eq_2)

text \<open>The message of the documentation of \<open>DataMsg\<close>.\<close>

theorem relayed_packet_roundtrip_witness:
  "PacketRelayed_encode sample_proto (PData (with_generation [1, 2, 3, 4, 5] 255 42)) = Inr [1, 255, 0, 42, 1, 2, 3, 4, 5]
   \<and> PacketRelayed_decode sample_proto [1, 255, 0, 42, 1, 2, 3, 4, 5] = Inr (PData (with_generation [1, 2, 3, 4, 5] 255 42))"
proof -
  have enc: "PacketRelayed_encode sample_proto (PData (with_generation [1, 2, 3, 4, 5] 255 42)) = Inr [1, 255, 0, 42, 1, 2, 3, 4, 5]"
    by (simp add: DataMsg_encode_def with_generation_def put_u16_eq type_byte.simps)
  have "DataMsg_packet_type (with_generation [1, 2, 3, 4, 5] 255 42) = TGenData"
    by (simp add: with_generation_def DataMsg_packet_type_def)
  then have "packet_ok (PData (with_generation [1, 2, 3, 4, 5] 255 42))"
    by (simp add: packet_ok_def data_ok_def with_generation_def)
  with relayed_packet_roundtrip [OF sample.protobuf_axioms this enc] enc show ?thesis by simp
qed

text \<open>
  Giving a data message a generation does not touch its payload: afterwards the message has the
  header of a generational message with this generation, the payload it had before, and the peer it
  had before, or peer 0 if it had none.
\<close>

theorem set_generation_keeps_payload:
  assumes "data_ok m"
  shows "data_ok (set_generation g m) \<and> get_generation (set_generation g m) = Some g
    \<and> get_payload (set_generation g m) = get_payload m
    \<and> get_peer_id (set_generation g m) = Some (case get_peer_id m of None \<Rightarrow> 0 | Some p \<Rightarrow> p)"
proof -
  obtain b bs where m: "m = DataMsg (b # bs)" "packet_type_from b = DataMsg_packet_type m"
    using assms data_first [of m] by (cases m) (auto simp: data_ok_def)
  have header: "DataMsg_packet_type (DataMsg (type_byte TGenData # ys)) = TGenData" for ys
    by (simp add: DataMsg_packet_type_def)
  show ?thesis
  proof (cases "DataMsg_packet_type m = TData")
    case True
    then have "set_generation g m = DataMsg (type_byte TGenData # g # 0 # 0 # bs)"
      using m(1) by (simp add: set_generation_def convert_to_gen_data_def Let_def)
    moreover have "DataMsg_packet_type (DataMsg (b # ys)) = TData" for ys
      using m(2) True by (simp add: DataMsg_packet_type_def)
    ultimately show ?thesis
      by (simp add: header m(1) data_ok_def get_generation_def get_payload_def get_peer_id_def get_from_def get_range_def
          PeerId_try_from_def u16_from_be_bytes_def from_be_bytes_def)
  next
    case False
    then have gen: "DataMsg_packet_type m = TGenData" "4 \<le> length (b # bs)"
      using assms m by (auto simp: data_ok_def)
    then obtain x p q rest where bs: "bs = x # p # q # rest"
      by (auto simp: Suc_le_length_iff numeral_eq_Suc)
    have "set_generation g m = DataMsg (b # g # p # q # rest)"
      using gen(1) m(1) by (simp add: set_generation_def convert_to_gen_data_def bs Let_def)
    moreover have "DataMsg_packet_type (DataMsg (b # ys)) = TGenData" for ys
      using m(2) gen(1) by (simp add: DataMsg_packet_type_def)
    ultimately show ?thesis
      by (simp add: m(1) data_ok_def get_generation_def get_payload_def get_peer_id_def get_from_def get_range_def
          PeerId_try_from_def bs)
  qed
qed

theorem set_generation_keeps_payload_witness:
  "set_generation 1 (DataMsg [0, 115, 105]) = DataMsg [1, 1, 0, 0, 115, 105]
   \<and> get_payload (DataMsg [1, 1, 0, 0, 115, 105]) = get_payload (DataMsg [0, 115, 105])"
proof -
  have ok: "data_ok (DataMsg [0, 115, 105])"
    by (simp add: data_ok_def DataMsg_packet_type_def packet_type_from_def all_types_def type_byte.simps)
  then have eq: "set_generation 1 (DataMsg [0, 115, 105]) = DataMsg [1, 1, 0, 0, 115, 105]"
    by (simp add: data_ok_def set_generation_def convert_to_gen_data_def Let_def DataMsg_packet_type_def
        packet_type_from_def all_types_def type_byte.simps)
  with set_generation_keeps_payload [OF ok, of 1] show ?thesis by simp
qed

text \<open>
  Generations are compared in a window: each of the 127 generations after a given one is newer,
  and each of the 128 before it is older. Two generations that are 128 apart are in both windows:
  each compares as greater than the other.
\<close>

theorem generation_window:
  assumes "k < 256"
  shows "generation_cmp g (g + word_of_nat k) = Some (if k = 0 then Equal else if k \<le> 127 then Less else Greater)
    \<and> generation_cmp (g + word_of_nat k) g = Some (if k = 0 then Equal else if k < 128 then Greater
        else if k = 128 then Greater else Less)"
proof -
  have k: "unat (word_of_nat k :: u8) = k" using assms by (simp add: unat_byte)
  have zero: "word_of_nat k = (0 :: u8) \<longleftrightarrow> k = 0" by (metis k unat_eq_0)
  have up: "127 < (word_of_nat k :: u8) \<longleftrightarrow> 127 < k" using k by (simp add: word_less_nat_alt)
  have "(- word_of_nat k :: u8) = word_of_nat (256 - k)"
    using assms by (simp add: of_nat_diff)
  then have "unat (- word_of_nat k :: u8) = (256 - k) mod 256" by (simp only: unat_byte)
  then have down: "127 < (- word_of_nat k :: u8) \<longleftrightarrow> 0 < k \<and> 127 < 256 - k"
    using assms by (cases "k = 0") (auto simp: word_less_nat_alt)
  show ?thesis
    using assms by (auto simp: generation_cmp_def zero up down)
qed

theorem generation_window_witness:
  "generation_cmp 250 (250 + word_of_nat 10) = Some Less \<and> generation_cmp 0 (0 + word_of_nat 128) = Some Greater
   \<and> generation_cmp (0 + word_of_nat 128) 0 = Some Greater"
  using generation_window [of 10 250] generation_window [of 128 0] by simp

end
