(* ===== verification/Ping_Pong.thy ===== *)
theory Ping_Pong
  imports Cross_Ping_Theorems Proto_Theorems
begin

text \<open>
  The handler of pings and pongs (crates/telio-traversal/src/ping_pong_handler.rs), on top of the
  messages and their encryption: a node answers the pings of the peers it has sessions with, and
  reports the pongs of its sessions. Random bytes, the clock in microseconds and the results of the
  socket are arguments; what is sent and published is the result. The time of a round trip is
  computed as in a release build, where the subtraction of the timestamps wraps around.
\<close>

section \<open>Model\<close>

record PingPongHandler =
  pp_secret_key :: SecretKey
  known_keys :: "PublicKey set"
  pp_known_sessions :: "u64 \<rightharpoonup> PublicKey"

datatype PingPongError =
    PacketParserError CodecError
  | FailedToBuildPongPacket
  | PpIOError string
  | PongRxedPublishError

datatype pp_out = UdpSent SocketAddr bytes | PongPublished PongEvent

record pp_env =
  pp_proto :: proto_env
  pp_boxes :: box_env

definition PingPongHandler_new :: "SecretKey \<Rightarrow> PingPongHandler" where
  "PingPongHandler_new secret_key =
     \<lparr>pp_secret_key = secret_key, known_keys = {}, pp_known_sessions = Map.empty\<rparr>"

definition pp_configure :: "(u64 \<rightharpoonup> PublicKey) \<Rightarrow> PingPongHandler \<Rightarrow> PingPongHandler" where
  "pp_configure sessions h = h\<lparr>known_keys := ran sessions, pp_known_sessions := sessions\<rparr>"

definition codec_result :: "(CryptError \<Rightarrow> CodecError) \<Rightarrow> CryptError + 'a \<Rightarrow> CodecError + 'a" where
  "codec_result wrap r = (case r of Inl e \<Rightarrow> Inl (wrap e) | Inr x \<Rightarrow> Inr x)"

lemma codec_result_simps [simp]: "codec_result w r = Inr x \<longleftrightarrow> r = Inr x" "codec_result w (Inr x) = Inr x"
  by (auto simp: codec_result_def split: sum.split)

definition udp_send :: "string + unit \<Rightarrow> SocketAddr \<Rightarrow> bytes \<Rightarrow> (PingPongError + unit) \<times> pp_out list" where
  "udp_send io addr buf = (case io of Inl e \<Rightarrow> (Inl (PpIOError e), []) | Inr _ \<Rightarrow> (Inr (), [UdpSent addr buf]))"

record randomness =
  inner_nonce :: bytes
  fill :: "nat \<Rightarrow> bytes"
  outer_nonce :: bytes

definition send_ping ::
  "pp_env \<Rightarrow> randomness \<Rightarrow> nat \<Rightarrow> string + unit \<Rightarrow> SocketAddr \<Rightarrow> u16 \<Rightarrow> u64 \<Rightarrow> PublicKey \<Rightarrow> PingPongHandler
     \<Rightarrow> (PingPongError + unit) \<times> pp_out list" where
  "send_ping E R micros io addr wg_port session_id pk h =
     (case PingerMsg_encode_and_encrypt (pp_proto E)
        (\<lambda>b. codec_result EncryptionFailed (encrypt_request (pp_boxes E) (inner_nonce R) (fill R) (outer_nonce R) b
           (pp_secret_key h) pk))
        (PingerMsg_ping wg_port session_id (word_of_nat micros)) of
        Inl e \<Rightarrow> (Inl (PacketParserError e), [])
      | Inr buf \<Rightarrow> udp_send io addr buf)"

definition decrypt_transform :: "pp_env \<Rightarrow> PingPongHandler \<Rightarrow> decryptor" where
  "decrypt_transform E h packet_type buf =
     (case packet_type of
        TPinger \<Rightarrow> (case decrypt_request (pp_boxes E) buf (pp_secret_key h) (\<lambda>k. k \<in> known_keys h) of
                      Inl e \<Rightarrow> Inl (DecryptionFailed e)
                    | Inr (bytes, pk) \<Rightarrow> Inr (bytes, Some pk))
      | TPonger \<Rightarrow> Inr (buf, None)
      | _ \<Rightarrow> Inl CodecInvalidType)"

definition respond ::
  "pp_env \<Rightarrow> bytes \<Rightarrow> string + unit \<Rightarrow> SocketAddr \<Rightarrow> u16 \<Rightarrow> EndpointProvider \<Rightarrow> PingPongHandler \<Rightarrow> PingerMsg \<Rightarrow> PublicKey
     \<Rightarrow> (PingPongError + unit) \<times> pp_out list" where
  "respond E nonce io addr wg_port provider h packet remote_pk =
     (case PingerMsg_pong wg_port (sock_ip addr) provider packet of
        None \<Rightarrow> (Inl FailedToBuildPongPacket, [])
      | Some pong \<Rightarrow>
          (case PongerMsg_encode_and_encrypt (pp_proto E)
             (\<lambda>b. codec_result EncryptionFailed (encrypt_response (pp_boxes E) nonce b (pp_secret_key h) remote_pk)) pong of
             Inl e \<Rightarrow> (Inl (PacketParserError e), [])
           | Inr buf \<Rightarrow> udp_send io addr buf))"

definition report_pong ::
  "pp_env \<Rightarrow> nat \<Rightarrow> bool \<Rightarrow> SocketAddr \<Rightarrow> PingPongHandler \<Rightarrow> PartialPongerMsg \<Rightarrow> PublicKey
     \<Rightarrow> (PingPongError + unit) \<times> pp_out list" where
  "report_pong E micros is_open addr h packet remote_pk =
     (case PartialPongerMsg_decrypt (pp_proto E)
        (\<lambda>b. codec_result DecryptionFailed (decrypt_response (pp_boxes E) b (pp_secret_key h) remote_pk)) packet of
        Inl e \<Rightarrow> (Inl (PacketParserError e), [])
      | Inr msg \<Rightarrow>
          if is_open
          then (Inr (), [PongPublished \<lparr>pong_addr = addr,
                  pong_rtt = from_millis (unat (word_of_nat micros - po_start_timestamp (pong_body msg))), pong_msg = msg\<rparr>])
          else (Inl PongRxedPublishError, []))"

text \<open>\<open>publisher\<close> is None without a subscriber, and otherwise whether its channel is open.\<close>

definition handle_rx_packet ::
  "pp_env \<Rightarrow> bytes \<Rightarrow> nat \<Rightarrow> string + unit \<Rightarrow> bool option \<Rightarrow> EndpointProvider \<Rightarrow> u16 \<Rightarrow> SocketAddr \<Rightarrow> bytes
     \<Rightarrow> PingPongHandler \<Rightarrow> (PingPongError + unit) \<times> pp_out list" where
  "handle_rx_packet E nonce micros io publisher provider wg_port addr encrypted_buf h =
     (case PacketRelayed_decode_and_decrypt (pp_proto E) (decrypt_transform E h) encrypted_buf of
        Inl e \<Rightarrow> (Inl (PacketParserError e), [])
      | Inr (PPinger packet, Some remote_pk) \<Rightarrow> respond E nonce io addr wg_port provider h packet remote_pk
      | Inr (PPonger packet, _) \<Rightarrow>
          (case publisher of
             None \<Rightarrow> (Inr (), [])
           | Some is_open \<Rightarrow>
               (case pp_known_sessions h (part_session packet) of
                  None \<Rightarrow> (Inr (), [])
                | Some remote_pk \<Rightarrow> report_pong E micros is_open addr h packet remote_pk))
      | Inr _ \<Rightarrow> (Inr (), []))"

section \<open>Properties\<close>

definition handler_ok :: "PingPongHandler \<Rightarrow> bool" where
  "handler_ok h \<longleftrightarrow> length (secret_bytes (pp_secret_key h)) = KEY_SIZE"

definition randomness_ok :: "randomness \<Rightarrow> bool" where
  "randomness_ok R \<longleftrightarrow> length (inner_nonce R) = NONCE_SIZE \<and> length (outer_nonce R) = NONCE_SIZE
     \<and> length (fill R KEY_SIZE) = KEY_SIZE"

definition key_of :: "pp_env \<Rightarrow> PingPongHandler \<Rightarrow> PublicKey" where
  "key_of E h = public (pp_boxes E) (pp_secret_key h)"

text \<open>What the packet of a ping is for the node it was sent to.\<close>

lemma ping_decodes:
  assumes P: "protobuf (pp_proto E)" and B: "boxes (pp_boxes E)"
    and ok: "handler_ok a" "handler_ok b" "randomness_ok R"
    and ping: "send_ping E R micros io addr wg_port ses (key_of E b) a = (Inr (), [UdpSent addr buf])"
  shows "PacketRelayed_decode_and_decrypt (pp_proto E) (decrypt_transform E b) buf =
    (if key_of E a \<in> known_keys b then Inr (PPinger (PingerMsg_ping wg_port ses (word_of_nat micros)), Some (key_of E a))
     else Inl (DecryptionFailed (ForbiddenKey (key_of E a))))"
proof -
  let ?m = "PingerMsg_ping wg_port ses (word_of_nat micros)"
  obtain body enc where body: "written (pb_pinger (pp_proto E)) (ping_body ?m) = Inr body"
    and enc: "encrypt_request (pp_boxes E) (inner_nonce R) (fill R) (outer_nonce R) (put_u64 ses @ body)
        (pp_secret_key a) (key_of E b) = Inr enc" and buf: "buf = type_byte TPinger # enc"
    using ping by (auto simp: send_ping_def PingerMsg_encode_and_encrypt_def udp_send_def PingerMsg_ping_def
        split: sum.splits)
  have "decrypt_request (pp_boxes E) enc (pp_secret_key b) is_allowed =
      (if is_allowed (key_of E a) then Inr (put_u64 ses @ body, key_of E a) else Inl (ForbiddenKey (key_of E a)))" for is_allowed
    unfolding key_of_def
    by (rule boxes.request_roundtrip [OF B, where fill = "fill R" and ?n1.0 = "inner_nonce R" and ?n2.0 = "outer_nonce R"])
      (use ok enc in \<open>simp_all add: handler_ok_def randomness_ok_def key_of_def\<close>)
  then have dec: "decrypt_transform E b TPinger enc = (if key_of E a \<in> known_keys b
      then Inr (put_u64 ses @ body, Some (key_of E a)) else Inl (DecryptionFailed (ForbiddenKey (key_of E a))))"
    by (simp add: decrypt_transform_def)
  have "parsed (pb_pinger (pp_proto E)) body = Inr (ping_body ?m)"
    by (rule protobuf.written_parsed(1) [OF P body])
  with dec show ?thesis
    by (simp add: buf PacketRelayed_decode_and_decrypt_def PingerMsg_decode_and_decrypt_def map_ok_def get_from_def
        PingerMsg_ping_def)
qed

lemma pong_reported:
  assumes P: "protobuf (pp_proto E)" and B: "boxes (pp_boxes E)"
    and ok: "handler_ok a" "handler_ok b" "length nonce = NONCE_SIZE"
    and pong: "PongerMsg_encode_and_encrypt (pp_proto E)
      (\<lambda>x. codec_result EncryptionFailed (encrypt_response (pp_boxes E) nonce x (pp_secret_key b) (key_of E a))) m = Inr buf"
    and known: "pp_known_sessions a (pong_session m) = Some (key_of E b)"
  shows "handle_rx_packet E nonce' micros io (Some True) provider wg_port addr buf a = (Inr (),
    [PongPublished \<lparr>pong_addr = addr, pong_rtt = from_millis (unat (word_of_nat micros - po_start_timestamp (pong_body m))),
                    pong_msg = m\<rparr>])"
proof -
  obtain body enc where body: "written (pb_ponger (pp_proto E)) (pong_body m) = Inr body"
    and enc: "encrypt_response (pp_boxes E) nonce body (pp_secret_key b) (key_of E a) = Inr enc"
    and buf: "buf = type_byte TPonger # put_u64 (pong_session m) @ enc"
    using pong by (auto simp: PongerMsg_encode_and_encrypt_def)
  have "decrypt_response (pp_boxes E) enc (pp_secret_key a) (key_of E b) = Inr body"
    using boxes.response_roundtrip [OF B, where a = "pp_secret_key b" and b = "pp_secret_key a" and nonce = nonce] enc ok
    by (simp add: handler_ok_def key_of_def)
  moreover have "parsed (pb_ponger (pp_proto E)) body = Inr (pong_body m)"
    by (rule protobuf.written_parsed(2) [OF P body])
  ultimately show ?thesis
    by (simp add: handle_rx_packet_def buf PacketRelayed_decode_and_decrypt_def PartialPongerMsg_decode_and_decrypt_def
        map_ok_def get_from_def decrypt_transform_def known report_pong_def PartialPongerMsg_decrypt_def)
qed

text \<open>
  What the libraries do for messages of this size: writing a message to memory and encrypting it
  do not fail.
\<close>

definition writes_succeed :: "pp_env \<Rightarrow> bool" where
  "writes_succeed E \<longleftrightarrow> (\<forall>m. \<exists>b. pb_write (pb_pinger (pp_proto E)) m = Inr b)
     \<and> (\<forall>m. \<exists>b. pb_write (pb_ponger (pp_proto E)) m = Inr b)
     \<and> (\<forall>k n m. \<exists>c. box_encrypt (pp_boxes E) k n m = Inr c)"

lemma ping_is_sent:
  assumes "writes_succeed E"
  shows "\<exists>buf. send_ping E R micros (Inr ()) addr wg_port ses pk h = (Inr (), [UdpSent addr buf])"
proof -
  obtain body where "written (pb_pinger (pp_proto E)) (ping_body (PingerMsg_ping wg_port ses (word_of_nat micros))) = Inr body"
    using assms unfolding writes_succeed_def written_def by (metis sum.case(2))
  moreover obtain c where "encrypt_request (pp_boxes E) (inner_nonce R) (fill R) (outer_nonce R)
      (put_u64 (ping_session (PingerMsg_ping wg_port ses (word_of_nat micros))) @ body) (pp_secret_key h) pk = Inr c"
    using assms unfolding writes_succeed_def encrypt_request_def Let_def by (metis sum.case(2))
  ultimately show ?thesis by (simp add: send_ping_def PingerMsg_encode_and_encrypt_def udp_send_def)
qed

lemma pong_is_encoded:
  assumes "writes_succeed E"
  shows "\<exists>buf. PongerMsg_encode_and_encrypt (pp_proto E)
      (\<lambda>x. codec_result EncryptionFailed (encrypt_response (pp_boxes E) nonce x sk pk)) m = Inr buf"
proof -
  obtain body where "written (pb_ponger (pp_proto E)) (pong_body m) = Inr body"
    using assms unfolding writes_succeed_def written_def by (metis sum.case(2))
  moreover obtain c where "encrypt_response (pp_boxes E) nonce body sk pk = Inr c"
    using assms unfolding writes_succeed_def encrypt_response_def by (metis sum.case(2))
  ultimately show ?thesis by (simp add: PongerMsg_encode_and_encrypt_def)
qed

text \<open>
  C12. A ping comes back as a pong: when a node pings a peer that has a session with it, the ping is
  sent, and if the peer sees it come from an IPv4 address, the peer answers with one packet to that
  address, from which the node publishes a pong with its session number, its own timestamp, the address
  the peer saw, and the port and kind of endpoint of the peer. If the peer sees an IPv6 address, it fails
  to build the pong and sends nothing. (The sockets accept the packets, the node has a subscriber, and
  writing and encrypting messages do not fail.)
\<close>

theorem ping_is_answered:
  assumes P: "protobuf (pp_proto E)" and B: "boxes (pp_boxes E)" and W: "writes_succeed E"
    and ok: "handler_ok a" "handler_ok b" "randomness_ok R" "length nonce = NONCE_SIZE"
    and known: "key_of E a \<in> known_keys b" "pp_known_sessions a ses = Some (key_of E b)"
  shows "\<exists>ping. send_ping E R t0 (Inr ()) addr_b port_a ses (key_of E b) a = (Inr (), [UdpSent addr_b ping])
    \<and> (case sock_ip addr_a of
         V4 src \<Rightarrow> \<exists>pong. handle_rx_packet E nonce t1 (Inr ()) publisher provider_b port_b addr_a ping b =
             (Inr (), [UdpSent addr_a pong])
           \<and> handle_rx_packet E nonce' t2 io (Some True) provider_a port_a addr_b pong a = (Inr (),
               [PongPublished \<lparr>pong_addr = addr_b, pong_rtt = from_millis (unat (word_of_nat t2 - word_of_nat t0 :: u64)),
                  pong_msg = \<lparr>pong_session = ses, pong_body = \<lparr>po_start_timestamp = word_of_nat t0, po_wg_port = ucast port_b,
                    po_source = Some (SrcV4 src), po_ep_provider = ep_code provider_b\<rparr>\<rparr>\<rparr>])
       | V6 _ \<Rightarrow> handle_rx_packet E nonce t1 (Inr ()) publisher provider_b port_b addr_a ping b =
             (Inl FailedToBuildPongPacket, []))"
proof -
  let ?ping = "PingerMsg_ping port_a ses (word_of_nat t0)"
  obtain ping where ping: "send_ping E R t0 (Inr ()) addr_b port_a ses (key_of E b) a = (Inr (), [UdpSent addr_b ping])"
    using ping_is_sent [OF W] by blast
  have rx: "handle_rx_packet E nonce t1 (Inr ()) publisher provider_b port_b addr_a ping b =
      respond E nonce (Inr ()) addr_a port_b provider_b b ?ping (key_of E a)"
    using ping_decodes [OF P B ok(1-3) ping] known(1) by (simp add: handle_rx_packet_def)
  show ?thesis
  proof (cases "sock_ip addr_a")
    case (V4 src)
    define m where "m = \<lparr>pong_session = ses, pong_body = \<lparr>po_start_timestamp = word_of_nat t0, po_wg_port = ucast port_b,
      po_source = Some (SrcV4 src), po_ep_provider = ep_code provider_b\<rparr>\<rparr>"
    obtain pong where pong: "PongerMsg_encode_and_encrypt (pp_proto E)
      (\<lambda>x. codec_result EncryptionFailed (encrypt_response (pp_boxes E) nonce x (pp_secret_key b) (key_of E a))) m = Inr pong"
      using pong_is_encoded [OF W] by blast
    have "respond E nonce (Inr ()) addr_a port_b provider_b b ?ping (key_of E a) = (Inr (), [UdpSent addr_a pong])"
      using V4 pong by (simp add: respond_def PingerMsg_pong_def PingerMsg_ping_def udp_send_def m_def)
    moreover have "pp_known_sessions a (pong_session m) = Some (key_of E b)" using known(2) by (simp add: m_def)
    note pong_reported [OF P B ok(1,2,4) pong this, of nonce' t2 io provider_a port_a addr_b]
    ultimately show ?thesis using V4 ping rx by (auto simp: m_def)
  next
    case (V6 x)
    with ping rx show ?thesis by (auto simp: respond_def PingerMsg_pong_def)
  qed
qed

text \<open>
  A node that has no session with the sender of a ping does not answer it: the handler fails with
  the key of the sender and sends and publishes nothing.
\<close>

theorem stranger_gets_no_answer:
  assumes "protobuf (pp_proto E)" "boxes (pp_boxes E)" "handler_ok a" "handler_ok b" "randomness_ok R"
    and "send_ping E R t0 (Inr ()) addr_b port_a ses (key_of E b) a = (Inr (), [UdpSent addr_b buf])"
    and "key_of E a \<notin> known_keys b"
  shows "handle_rx_packet E nonce t1 io publisher provider_b port_b addr_a buf b =
    (Inl (PacketParserError (DecryptionFailed (ForbiddenKey (key_of E a)))), [])"
  using ping_decodes [OF assms(1-6)] assms(7) by (simp add: handle_rx_packet_def)

text \<open>
  C15. A pong cannot be forged: whenever the handler publishes a pong, the packet carries the number of
  a live session, and its body was encrypted with the secret key of the peer of this session for
  this node, whatever address the packet came from.
\<close>

theorem published_pong_is_authentic:
  assumes B: "boxes (pp_boxes E)" and h: "handler_ok h"
    and pub: "PongPublished ev \<in> set (snd (handle_rx_packet E nonce micros io publisher provider wg_port addr buf h))"
  shows "pong_addr ev = addr \<and> (\<exists>pk. pp_known_sessions h (pong_session (pong_msg ev)) = Some pk
    \<and> (\<forall>peer. handler_ok peer \<and> key_of E peer = pk \<longrightarrow>
         (\<exists>n body. encrypt_response (pp_boxes E) n body (pp_secret_key peer) (key_of E h) = Inr (drop 9 buf)
            \<and> parsed (pb_ponger (pp_proto E)) body = Inr (pong_body (pong_msg ev)))))"
proof -
  from pub obtain packet pk x where dec: "PacketRelayed_decode_and_decrypt (pp_proto E) (decrypt_transform E h) buf = Inr (PPonger packet, x)"
    and known: "pp_known_sessions h (part_session packet) = Some pk"
    and rep: "PongPublished ev \<in> set (snd (report_pong E micros (publisher = Some True) addr h packet pk))"
    by (auto simp: handle_rx_packet_def respond_def udp_send_def split: sum.splits prod.splits PacketRelayed.splits option.splits
        if_splits)
  from rep obtain body where body: "decrypt_response (pp_boxes E) (part_msg packet) (pp_secret_key h) pk = Inr body"
    and m: "parsed (pb_ponger (pp_proto E)) body = Inr (pong_body (pong_msg ev))"
    "pong_session (pong_msg ev) = part_session packet" "pong_addr ev = addr"
    by (auto simp: report_pong_def PartialPongerMsg_decrypt_def split: sum.splits if_splits)
  have msg: "part_msg packet = drop 9 buf"
    using dec by (auto simp: PacketRelayed_decode_and_decrypt_def PartialPongerMsg_decode_and_decrypt_def map_ok_def
        decrypt_transform_def get_from_def ok_or_def PacketRelayed_decode_def split: if_splits option.splits prod.splits PacketTypeRelayed.splits)
  have "\<exists>n body. encrypt_response (pp_boxes E) n body (pp_secret_key peer) (key_of E h) = Inr (drop 9 buf)
            \<and> parsed (pb_ponger (pp_proto E)) body = Inr (pong_body (pong_msg ev))"
    if "handler_ok peer" "key_of E peer = pk" for peer
  proof -
    have "decrypt_response (pp_boxes E) (drop 9 buf) (pp_secret_key h) (public (pp_boxes E) (pp_secret_key peer)) = Inr body"
      using body msg that(2) by (simp add: key_of_def)
    from boxes.response_authentic [OF B _ _ this] h that(1) m(1) show ?thesis
      by (auto simp: handler_ok_def key_of_def)
  qed
  with known m(2,3) show ?thesis by auto
qed

section \<open>Samples\<close>

definition sample_pp :: pp_env where
  "sample_pp = \<lparr>pp_proto = sample_proto, pp_boxes = plain_boxes\<rparr>"

definition sample_handler :: "u8 \<Rightarrow> (u64 \<rightharpoonup> PublicKey) \<Rightarrow> PingPongHandler" where
  "sample_handler n sessions = pp_configure sessions (PingPongHandler_new (SecretKey (replicate 32 n)))"

definition sample_random :: randomness where
  "sample_random = \<lparr>inner_nonce = replicate 24 7, fill = (\<lambda>n. replicate n 9), outer_nonce = replicate 24 8\<rparr>"

definition sample_ping :: bytes where
  "sample_ping = (case send_ping sample_pp sample_random 5 (Inr ()) (SockV4 2 1000) 51820 42 (PublicKey (replicate 32 2))
     (sample_handler 1 Map.empty) of (_, [UdpSent _ buf]) \<Rightarrow> buf | _ \<Rightarrow> [])"

lemma sample_pp_laws: "protobuf (pp_proto sample_pp)" "boxes (pp_boxes sample_pp)"
  by (simp_all add: sample_pp_def sample.protobuf_axioms plain.boxes_axioms)

lemma sample_handler_simps [simp]:
  "handler_ok (sample_handler n f)" "randomness_ok sample_random" "key_of sample_pp (sample_handler n f) = PublicKey (replicate 32 n)"
  "known_keys (sample_handler n f) = ran f" "pp_known_sessions (sample_handler n f) = f"
  "pp_secret_key (sample_handler n f) = SecretKey (replicate 32 n)"
  by (simp_all add: handler_ok_def randomness_ok_def key_of_def sample_handler_def sample_random_def sample_pp_def
      pp_configure_def PingPongHandler_new_def KEY_SIZE_def NONCE_SIZE_def public_def plain_boxes_def)

lemma sample_pp_simps [simp]:
  "written (pb_ponger (pp_proto sample_pp)) m = Inr (put w_ponger m)"
  "written (pb_pinger (pp_proto sample_pp)) m' = Inr (put w_pinger m')"
  "box_encrypt (pp_boxes sample_pp) k n x = Inr (x @ k @ n)"
  by (simp_all add: written_def sample_pp_def sample_proto_def pb_of_def box_encrypt_def plain_boxes_def)

lemma sample_ping_sent:
  "send_ping sample_pp sample_random 5 (Inr ()) (SockV4 2 1000) 51820 42 (key_of sample_pp (sample_handler 2 g))
     (sample_handler 1 f) = (Inr (), [UdpSent (SockV4 2 1000) sample_ping])"
  by (simp add: sample_ping_def send_ping_def PingerMsg_encode_and_encrypt_def encrypt_request_def udp_send_def Let_def)

definition sample_answer :: "(u64 \<rightharpoonup> PublicKey) \<Rightarrow> (PingPongError + unit) \<times> pp_out list" where
  "sample_answer sessions = handle_rx_packet sample_pp (replicate 24 3) 6 (Inr ()) None Stun 51821 (SockV4 1 1000) sample_ping
     (sample_handler 2 sessions)"

lemma sample_writes_succeed: "writes_succeed sample_pp"
  by (simp add: writes_succeed_def) (simp add: sample_pp_def sample_proto_def pb_of_def)

theorem ping_is_answered_witness:
  "let b = sample_handler 2 [1 \<mapsto> PublicKey (replicate 32 1)]; a = sample_handler 1 [42 \<mapsto> PublicKey (replicate 32 2)] in
   \<exists>ping pong. send_ping sample_pp sample_random 5 (Inr ()) (SockV4 2 1000) 51820 42 (key_of sample_pp b) a =
       (Inr (), [UdpSent (SockV4 2 1000) ping])
   \<and> handle_rx_packet sample_pp (replicate 24 3) 6 (Inr ()) None Stun 51821 (SockV4 1 1000) ping b =
       (Inr (), [UdpSent (SockV4 1 1000) pong])
   \<and> handle_rx_packet sample_pp [] 8 (Inr ()) (Some True) Local 51820 (SockV4 2 1000) pong a = (Inr (),
        [PongPublished \<lparr>pong_addr = SockV4 2 1000, pong_rtt = from_millis 3,
           pong_msg = \<lparr>pong_session = 42, pong_body = \<lparr>po_start_timestamp = 5, po_wg_port = 51821,
             po_source = Some (SrcV4 1), po_ep_provider = 2\<rparr>\<rparr>\<rparr>])"
proof -
  let ?b = "sample_handler 2 [1 \<mapsto> PublicKey (replicate 32 1)]" and ?a = "sample_handler 1 [42 \<mapsto> PublicKey (replicate 32 2)]"
  have nonce: "length (replicate 24 3 :: bytes) = NONCE_SIZE" by (simp add: NONCE_SIZE_def)
  have known: "key_of sample_pp ?a \<in> known_keys ?b" "pp_known_sessions ?a 42 = Some (key_of sample_pp ?b)" by simp_all
  from ping_is_answered [OF sample_pp_laws sample_writes_succeed _ _ _ nonce known, where R = sample_random and ?t0.0 = 5
      and addr_b = "SockV4 2 1000" and port_a = 51820 and addr_a = "SockV4 1 1000" and ?t1.0 = 6 and publisher = None
      and provider_b = Stun and port_b = 51821 and nonce' = "[]" and ?t2.0 = 8 and io = "Inr ()" and provider_a = Local]
  show ?thesis unfolding Let_def by (simp add: sock_ip_def)
qed

theorem stranger_gets_no_answer_witness:
  "sample_answer Map.empty = (Inl (PacketParserError (DecryptionFailed (ForbiddenKey (PublicKey (replicate 32 1))))), [])"
  using stranger_gets_no_answer [OF sample_pp_laws _ _ _ sample_ping_sent [of Map.empty Map.empty]]
  by (simp add: sample_answer_def)

definition sample_pong_msg :: PongerMsg where
  "sample_pong_msg = \<lparr>pong_session = 42, pong_body = \<lparr>po_start_timestamp = 5, po_wg_port = 51821, po_source = Some (SrcV4 1),
     po_ep_provider = 2\<rparr>\<rparr>"

definition sample_pong_packet :: bytes where
  "sample_pong_packet = (case PongerMsg_encode_and_encrypt (pp_proto sample_pp) (\<lambda>x. codec_result EncryptionFailed
     (encrypt_response (pp_boxes sample_pp) (replicate 24 3) x (SecretKey (replicate 32 2)) (PublicKey (replicate 32 1))))
     sample_pong_msg of Inr buf \<Rightarrow> buf | Inl _ \<Rightarrow> [])"

theorem published_pong_is_authentic_witness:
  "snd (handle_rx_packet sample_pp [] 8 (Inr ()) (Some True) Local 51820 (SockV4 2 1000) sample_pong_packet
     (sample_handler 1 [42 \<mapsto> PublicKey (replicate 32 2)])) =
       [PongPublished \<lparr>pong_addr = SockV4 2 1000, pong_rtt = from_millis 3, pong_msg = sample_pong_msg\<rparr>]
   \<and> (\<exists>n body. encrypt_response (pp_boxes sample_pp) n body (SecretKey (replicate 32 2)) (PublicKey (replicate 32 1))
        = Inr (drop 9 sample_pong_packet))"
proof -
  let ?h = "sample_handler 1 [42 \<mapsto> PublicKey (replicate 32 2)]" and ?peer = "sample_handler 2 Map.empty"
  have nonce: "length (replicate 24 3 :: bytes) = NONCE_SIZE" by (simp add: NONCE_SIZE_def)
  have "PongerMsg_encode_and_encrypt (pp_proto sample_pp) (\<lambda>x. codec_result EncryptionFailed
     (encrypt_response (pp_boxes sample_pp) (replicate 24 3) x (pp_secret_key ?peer) (key_of sample_pp ?h)))
     sample_pong_msg = Inr sample_pong_packet"
    by (simp add: sample_pong_packet_def PongerMsg_encode_and_encrypt_def encrypt_response_def)
  from pong_reported [OF sample_pp_laws _ _ nonce this, of "[]" 8 "Inr ()" Local 51820 "SockV4 2 1000"]
  have pub: "snd (handle_rx_packet sample_pp [] 8 (Inr ()) (Some True) Local 51820 (SockV4 2 1000) sample_pong_packet ?h) =
       [PongPublished \<lparr>pong_addr = SockV4 2 1000, pong_rtt = from_millis 3, pong_msg = sample_pong_msg\<rparr>]"
    by (simp add: sample_pong_msg_def)
  then have "PongPublished \<lparr>pong_addr = SockV4 2 1000, pong_rtt = from_millis 3, pong_msg = sample_pong_msg\<rparr>
      \<in> set (snd (handle_rx_packet sample_pp [] 8 (Inr ()) (Some True) Local 51820 (SockV4 2 1000) sample_pong_packet ?h))"
    by simp
  from published_pong_is_authentic [OF sample_pp_laws(2) _ this]
  have "\<forall>peer. handler_ok peer \<and> key_of sample_pp peer = PublicKey (replicate 32 2) \<longrightarrow>
     (\<exists>n body. encrypt_response (pp_boxes sample_pp) n body (pp_secret_key peer) (key_of sample_pp ?h) = Inr (drop 9 sample_pong_packet))"
    by (simp add: sample_pong_msg_def) blast
  then have "\<exists>n body. encrypt_response (pp_boxes sample_pp) n body (pp_secret_key ?peer) (key_of sample_pp ?h) = Inr (drop 9 sample_pong_packet)"
    using sample_handler_simps(1,3) by blast
  with pub show ?thesis by simp
qed

end
