(* ===== verification/Relay_Types.thy ===== *)
theory Relay_Types
  imports Controller
begin

text \<open>
  Types of the relay that several components share (crates/telio-model/src/config.rs): servers, the state
  of the connection to one, and the events reported to the analytics. The record of a server extends the
  part that the controller reads.
\<close>

datatype RelayState = RelayDisconnected | RelayConnecting | RelayConnected

record DerpServer = Server +
  srv_region_code :: string
  srv_name :: string
  srv_hostname :: string
  relay_port :: u16
  stun_plaintext_port :: u16
  srv_weight :: u32
  use_plain_text :: bool
  conn_state :: RelayState

text \<open>\<open>PartialEq for Server\<close> ignores the weight and the state of the connection.\<close>

definition server_eq :: "DerpServer \<Rightarrow> DerpServer \<Rightarrow> bool" where
  "server_eq a b \<longleftrightarrow> srv_region_code a = srv_region_code b \<and> srv_name a = srv_name b \<and> srv_hostname a = srv_hostname b
     \<and> srv_ipv4 a = srv_ipv4 b \<and> relay_port a = relay_port b \<and> stun_port a = stun_port b
     \<and> stun_plaintext_port a = stun_plaintext_port b \<and> srv_public_key a = srv_public_key b
     \<and> use_plain_text a = use_plain_text b"

lemma server_eq_equiv: "server_eq a a" "server_eq a b \<Longrightarrow> server_eq b a" "server_eq a b \<Longrightarrow> server_eq b c \<Longrightarrow> server_eq a c"
  by (simp_all add: server_eq_def)

lemma server_eq_updates [simp]:
  "server_eq (a\<lparr>conn_state := x\<rparr>) b = server_eq a b" "server_eq a (b\<lparr>conn_state := x\<rparr>) = server_eq a b"
  by (simp_all add: server_eq_def)

text \<open>\<open>==\<close> of two vectors of servers.\<close>

definition servers_eq :: "DerpServer list \<Rightarrow> DerpServer list \<Rightarrow> bool" where
  "servers_eq xs ys = list_all2 server_eq xs ys"

text \<open>The kinds of \<open>std::io::Error\<close> that the sources name; \<open>OtherKind\<close> stands for the kinds of the operating system.\<close>

datatype ErrorKind = UnexpectedEof | InvalidData | IoOther | TimedOut | OtherKind nat

datatype RelayConnectionChangeReason = ConfigurationChange | DisabledByUser | ClientError | ReasonIoError ErrorKind

record DerpAnalyticsEvent =
  dae_server_address :: SocketAddr
  dae_state :: RelayState
  dae_reason :: RelayConnectionChangeReason
  dae_timestamp :: instant

definition DerpAnalyticsEvent_new :: "DerpServer \<Rightarrow> RelayConnectionChangeReason \<Rightarrow> instant \<Rightarrow> DerpAnalyticsEvent" where
  "DerpAnalyticsEvent_new server reason now =
     \<lparr>dae_server_address = SockV4 (srv_ipv4 server) (relay_port server), dae_state = conn_state server,
      dae_reason = reason, dae_timestamp = now\<rparr>"

end
