(* ===== verification/Stun.thy ===== *)
theory Stun
  imports Ping_Pong Relay_Types
begin

text \<open>
  The STUN endpoint provider (crates/telio-traversal/src/endpoint_providers/stun.rs): a node asks a STUN
  server twice for its own address, through the WireGuard tunnel and directly, and both answers together
  are its endpoint candidate. The state of the task is the record \<open>StunProvider\<close>; what an operation
  sends or publishes is a list of \<open>stun_out\<close>. The messages of the library stun_codec, the address of a
  network of ipnet, and the backoff (a trait in the code) are parameters; what WireGuard, sockets, channels and the
  random generator answer are arguments. A sleep is its duration, and its end is an event.
\<close>

section \<open>Messages\<close>

type_synonym TransactionId = bytes

record stun_answer =
  sa_tid :: TransactionId
  sa_xor_mapped :: "SocketAddr option"
  sa_mapped :: "SocketAddr option"

text \<open>\<open>sc_request\<close> encodes a binding request with a transaction id, the name of the software and a fingerprint.\<close>

record ('n, 'b) stun_env =
  sc_request :: "TransactionId \<Rightarrow> string \<Rightarrow> string + bytes"
  sc_decode :: "bytes \<Rightarrow> string + stun_answer"
  su_net_addr :: "'n \<Rightarrow> StdIpAddr"
  su_backoff_ops :: "'b backoff_ops"
  su_pp :: pp_env

definition STUN_TIMEOUT_PAUSED :: duration where "STUN_TIMEOUT_PAUSED = from_secs 600"
definition STUN_TIMEOUT :: duration where "STUN_TIMEOUT = from_secs 5"
definition STUN_SOFTWARE :: string where "STUN_SOFTWARE = ''libtelio''"

datatype StunError =
    StunIOError string
  | StunWireGuardError
  | StunPingError PingPongError
  | ByteCodecError string
  | NoStunPeer
  | BadStunPeer
  | StunNotConfigured

definition new_request :: "('n, 'b) stun_env \<Rightarrow> TransactionId \<Rightarrow> StunError + TransactionId \<times> bytes" where
  "new_request E tid =
     (case sc_request E tid STUN_SOFTWARE of Inl e \<Rightarrow> Inl (ByteCodecError e) | Inr packet \<Rightarrow> Inr (tid, packet))"

definition decode_response :: "('n, 'b) stun_env \<Rightarrow> bytes \<Rightarrow> StunError + SocketAddr \<times> TransactionId" where
  "decode_response E payload =
     (case sc_decode E payload of
        Inl e \<Rightarrow> Inl (ByteCodecError e)
      | Inr decoded \<Rightarrow>
          (case (case sa_xor_mapped decoded of Some a \<Rightarrow> Some a | None \<Rightarrow> sa_mapped decoded) of
             None \<Rightarrow> Inl (ByteCodecError ''NotFound'')
           | Some addr \<Rightarrow> Inr (addr, sa_tid decoded)))"

section \<open>Sessions\<close>

datatype StunRequest = Waiting SocketAddr TransactionId | Result SocketAddr

record StunSession =
  ses_wg :: StunRequest
  ses_udp :: StunRequest

datatype StunResult = Final EndpointCandidate | Consumed | Skipped

definition try_update ::
  "('n, 'b) stun_env \<Rightarrow> bytes \<Rightarrow> SocketAddr \<Rightarrow> StunRequest \<Rightarrow> (StunError + bool) \<times> StunRequest" where
  "try_update E payload src_addr req =
     (case req of
        Waiting addr tid \<Rightarrow>
          if addr \<noteq> src_addr then (Inr False, req)
          else (case decode_response E payload of
                  Inl e \<Rightarrow> (Inl e, req)
                | Inr (sa, id') \<Rightarrow> if id' \<noteq> tid then (Inr False, req) else (Inr True, Result sa))
      | Result _ \<Rightarrow> (Inr False, req))"

definition try_consume ::
  "('n, 'b) stun_env \<Rightarrow> bytes \<Rightarrow> SocketAddr \<Rightarrow> StunSession \<Rightarrow> (StunError + StunResult) \<times> StunSession" where
  "try_consume E payload src_addr s =
     (let finish = (\<lambda>s. (Inr (case (ses_wg s, ses_udp s) of
            (Result wg, Result udp) \<Rightarrow> Final \<lparr>cand_wg = wg, cand_udp = udp\<rparr>
          | _ \<Rightarrow> Consumed), s))
      in case try_update E payload src_addr (ses_wg s) of
           (Inl e, _) \<Rightarrow> (Inl e, s)
         | (Inr True, wg) \<Rightarrow> finish (s\<lparr>ses_wg := wg\<rparr>)
         | (Inr False, _) \<Rightarrow>
             (case try_update E payload src_addr (ses_udp s) of
                (Inl e, _) \<Rightarrow> (Inl e, s)
              | (Inr True, udp) \<Rightarrow> finish (s\<lparr>ses_udp := udp\<rparr>)
              | (Inr False, _) \<Rightarrow> (Inr Skipped, s)))"

datatype stun_socket = TunV4 | TunV6 | External

datatype stun_out =
    StunSent stun_socket SocketAddr bytes
  | PeerPublished "DerpServer option"
  | CandidatesChanged "EndpointCandidate list"
  | PingPongOut pp_out

text \<open>
  What the outside answers while a session is started: the interface for the readiness check and for the
  lookup of the server, two random transaction ids, and the results of the two sends.
\<close>

record 'n start_answers =
  an_ready :: "'n Interface option"
  an_interface :: "'n Interface option"
  an_tid_wg :: TransactionId
  an_tid_udp :: TransactionId
  an_send_wg :: "string + unit"
  an_send_udp :: "string + unit"

definition StunSession_start ::
  "('n, 'b) stun_env \<Rightarrow> 'n start_answers \<Rightarrow> stun_socket \<Rightarrow> SocketAddr \<Rightarrow> SocketAddr
     \<Rightarrow> (StunError + StunSession) \<times> stun_out list" where
  "StunSession_start E A socket_via_wg wg udp =
     (case new_request E (an_tid_wg A) of
        Inl e \<Rightarrow> (Inl e, [])
      | Inr (wg_tid, wg_packet) \<Rightarrow>
          (case new_request E (an_tid_udp A) of
             Inl e \<Rightarrow> (Inl e, [])
           | Inr (udp_tid, udp_packet) \<Rightarrow>
               (case an_send_wg A of
                  Inl e \<Rightarrow> (Inl (StunIOError e), [])
                | Inr _ \<Rightarrow>
                    (case an_send_udp A of
                       Inl e \<Rightarrow> (Inl (StunIOError e), [StunSent socket_via_wg wg wg_packet])
                     | Inr _ \<Rightarrow>
                         (Inr \<lparr>ses_wg = Waiting wg wg_tid, ses_udp = Waiting udp udp_tid\<rparr>,
                          [StunSent socket_via_wg wg wg_packet, StunSent External udp udp_packet])))))"

section \<open>State\<close>

datatype IpProto = ProtoIPv4 | ProtoIPv6

datatype StunState = WaitingForWg | SearchingForServer | BackingOff | HasEndpoints | StunPaused

text \<open>The external socket always exists; the others may have failed to open.\<close>

record StunSockets =
  tun_socket_v4 :: bool
  tun_socket_v6 :: bool

record 'b StunProvider =
  su_servers :: "DerpServer list"
  su_sockets :: "StunSockets option"
  current_server_index :: nat
  current_proto :: IpProto
  change_event :: bool
  pong_event :: bool
  stun_session :: "StunSession option"
  su_exponential_backoff :: 'b
  current_timeout :: duration
  last_candidates :: "EndpointCandidate list"
  stun_state :: StunState
  is_battery_optimization_on :: bool

definition start_with_exp_backoff :: "'b \<Rightarrow> bool \<Rightarrow> 'b StunProvider" where
  "start_with_exp_backoff b battery =
     \<lparr>su_servers = [], su_sockets = None, current_server_index = 0, current_proto = ProtoIPv6, change_event = False,
      pong_event = False, stun_session = None, su_exponential_backoff = b, current_timeout = STUN_TIMEOUT,
      last_candidates = [], stun_state = WaitingForWg, is_battery_optimization_on = battery\<rparr>"

definition stun_start :: "ExponentialBackoffBounds \<Rightarrow> bool \<Rightarrow> BackoffError + ExponentialBackoff StunProvider" where
  "stun_start bounds battery =
     (case ExponentialBackoff_new bounds of Inl e \<Rightarrow> Inl e | Inr b \<Rightarrow> Inr (start_with_exp_backoff b battery))"

section \<open>Queries\<close>

definition ipv6_is_enabled :: "'b StunProvider \<Rightarrow> bool" where
  "ipv6_is_enabled st = (case su_sockets st of Some sockets \<Rightarrow> tun_socket_v6 sockets | None \<Rightarrow> False)"

definition is_in_ipv6_mode :: "'b StunProvider \<Rightarrow> bool" where
  "is_in_ipv6_mode st \<longleftrightarrow> ipv6_is_enabled st \<and> current_proto st = ProtoIPv6"

definition get_socket :: "'b StunProvider \<Rightarrow> stun_socket option" where
  "get_socket st =
     (case su_sockets st of
        Some sockets \<Rightarrow>
          if is_in_ipv6_mode st then (if tun_socket_v6 sockets then Some TunV6 else None)
          else (if tun_socket_v4 sockets then Some TunV4 else None)
      | None \<Rightarrow> None)"

text \<open>\<open>servers.get(current_server_index)\<close>.\<close>

definition current_server :: "'b StunProvider \<Rightarrow> DerpServer option" where
  "current_server st =
     (if current_server_index st < length (su_servers st) then Some (su_servers st ! current_server_index st) else None)"

definition su_get_wg_port :: "'b StunProvider \<Rightarrow> u16" where
  "su_get_wg_port st = (case last_candidates st of c # _ \<Rightarrow> sock_port (cand_wg c) | [] \<Rightarrow> 0)"

definition is_ipv6 :: "StdIpAddr \<Rightarrow> bool" where "is_ipv6 ip = (case ip of V6 _ \<Rightarrow> True | V4 _ \<Rightarrow> False)"

definition get_stun_endpoints ::
  "('n, 'b) stun_env \<Rightarrow> 'n Interface option \<Rightarrow> 'b StunProvider \<Rightarrow> StunError + SocketAddr \<times> SocketAddr" where
  "get_stun_endpoints E wg st =
     (if su_sockets st = None then Inl StunNotConfigured
      else
        (case current_server st of
           None \<Rightarrow> Inl NoStunPeer
         | Some server \<Rightarrow>
             (case wg of
                None \<Rightarrow> Inl StunWireGuardError
              | Some i \<Rightarrow>
                  (case map_of (peers i) (srv_public_key server) of
                     None \<Rightarrow> Inl NoStunPeer
                   | Some stun_peer \<Rightarrow>
                       (case find (\<lambda>n. is_ipv6 (su_net_addr E n) = is_in_ipv6_mode st) (allowed_ips stun_peer) of
                          None \<Rightarrow> Inl BadStunPeer
                        | Some net \<Rightarrow>
                            (case endpoint stun_peer of
                               None \<Rightarrow> Inl BadStunPeer
                             | Some ep \<Rightarrow>
                                 Inr (sock_new (su_net_addr E net) (stun_port server),
                                      sock_new (sock_ip ep) (stun_plaintext_port server))))))))"

definition is_wg_ready :: "'n Interface option \<Rightarrow> 'b StunProvider \<Rightarrow> bool" where
  "is_wg_ready wg st =
     (case wg of
        None \<Rightarrow> False
      | Some i \<Rightarrow>
          (case current_server st of None \<Rightarrow> False | Some server \<Rightarrow> map_of (peers i) (srv_public_key server) \<noteq> None))"

section \<open>Transitions\<close>

definition start_stun_session ::
  "('n, 'b) stun_env \<Rightarrow> 'n start_answers \<Rightarrow> 'b StunProvider \<Rightarrow> (StunError + unit) \<times> stun_out list \<times> 'b StunProvider" where
  "start_stun_session E A st =
     (if su_sockets st = None then (Inl StunNotConfigured, [], st)
      else if stun_session st \<noteq> None then (Inr (), [], st)
      else
        (case get_stun_endpoints E (an_interface A) st of
           Inl e \<Rightarrow> (Inl e, [], st)
         | Inr (wg, udp) \<Rightarrow>
             (case get_socket st of
                None \<Rightarrow> (Inl StunNotConfigured, [], st)
              | Some int_socket \<Rightarrow>
                  (case StunSession_start E A int_socket wg udp of
                     (Inl e, os) \<Rightarrow> (Inl e, os, st)
                   | (Inr ses, os) \<Rightarrow>
                       (Inr (), os, st\<lparr>stun_session := Some ses, current_timeout := STUN_TIMEOUT\<rparr>)))))"

definition transition_to_wait_for_wg :: "'b StunProvider \<Rightarrow> 'b StunProvider" where
  "transition_to_wait_for_wg st = st\<lparr>stun_state := WaitingForWg, current_timeout := STUN_TIMEOUT\<rparr>"

definition try_transition_to_searching_for_server ::
  "('n, 'b) stun_env \<Rightarrow> 'n start_answers \<Rightarrow> 'b StunProvider \<Rightarrow> stun_out list \<times> 'b StunProvider" where
  "try_transition_to_searching_for_server E A st =
     (if su_servers st \<noteq> [] \<and> stun_state st \<noteq> StunPaused \<and> is_wg_ready (an_ready A) st
      then snd (start_stun_session E A (st\<lparr>stun_state := SearchingForServer\<rparr>))
      else ([], st))"

definition transition_to_has_endpoints_state ::
  "('n, 'b) stun_env \<Rightarrow> EndpointCandidate \<Rightarrow> 'b StunProvider \<Rightarrow> stun_out list \<times> 'b StunProvider" where
  "transition_to_has_endpoints_state E candidate st =
     (let b = bo_reset (su_backoff_ops E) (su_exponential_backoff st)
      in (if last_candidates st \<noteq> [candidate] \<and> change_event st then [CandidatesChanged [candidate]] else [],
          st\<lparr>last_candidates := [candidate], stun_state := HasEndpoints, su_exponential_backoff := b,
             current_timeout := bo_get (su_backoff_ops E) b\<rparr>))"

text \<open>\<open>published\<close> tells whether the channel to the controller takes the new server.\<close>

definition next_server :: "bool \<Rightarrow> 'b StunProvider \<Rightarrow> bool \<times> stun_out list \<times> 'b StunProvider" where
  "next_server published st =
     (let last_server_index = current_server_index st;
          st = st\<lparr>current_server_index := (if su_servers st \<noteq> [] then (current_server_index st + 1) mod length (su_servers st) else 0)\<rparr>;
          os = (if published then [PeerPublished (current_server st)] else []);
          st = (if published then st else st\<lparr>current_server_index := last_server_index\<rparr>)
      in (last_server_index \<ge> current_server_index st, os, st))"

definition transition_to_backing_off_state_or_change_proto ::
  "('n, 'b) stun_env \<Rightarrow> 'n start_answers \<Rightarrow> bool \<Rightarrow> 'b StunProvider \<Rightarrow> stun_out list \<times> 'b StunProvider" where
  "transition_to_backing_off_state_or_change_proto E A published st =
     (let cleared = (if last_candidates st \<noteq> [] \<and> change_event st then [CandidatesChanged []] else []);
          st = st\<lparr>last_candidates := [], stun_session := None\<rparr>
      in if is_in_ipv6_mode st
         then case try_transition_to_searching_for_server E A (transition_to_wait_for_wg (st\<lparr>current_proto := ProtoIPv4\<rparr>)) of
                (os, st) \<Rightarrow> (cleared @ os, st)
         else
           let st = st\<lparr>current_proto := (if ipv6_is_enabled st then ProtoIPv6 else ProtoIPv4)\<rparr>;
               st = st\<lparr>current_timeout := bo_get (su_backoff_ops E) (su_exponential_backoff st), stun_state := BackingOff\<rparr>
           in case next_server published st of
                (list_reset, os, st) \<Rightarrow>
                  (cleared @ os,
                   if list_reset then st\<lparr>su_exponential_backoff := bo_next (su_backoff_ops E) (su_exponential_backoff st)\<rparr> else st))"

section \<open>Operations\<close>

text \<open>The two tunnel sockets and the external one open or fail as \<open>v4\<close>, \<open>v6\<close> and \<open>ext\<close> tell.\<close>

record socket_answers =
  open_v4 :: bool
  open_v6 :: bool
  open_ext :: bool

definition configure_with_ext_socket_addr ::
  "('n, 'b) stun_env \<Rightarrow> 'n start_answers \<Rightarrow> bool \<Rightarrow> socket_answers \<Rightarrow> DerpServer list \<Rightarrow> bool \<Rightarrow> 'b StunProvider
     \<Rightarrow> stun_out list \<times> 'b StunProvider" where
  "configure_with_ext_socket_addr E A published S servers use_ipv6 st =
     (let ip_version_changed = (ipv6_is_enabled st \<noteq> use_ipv6);
          st = (if su_sockets st = None \<or> ip_version_changed
                then st\<lparr>su_sockets := (if open_ext S
                       then Some \<lparr>tun_socket_v4 = open_v4 S, tun_socket_v6 = (use_ipv6 \<and> open_v6 S)\<rparr> else None)\<rparr>
                else st);
          st = st\<lparr>current_proto := (if use_ipv6 then ProtoIPv6 else ProtoIPv4)\<rparr>;
          servers = sort_key (\<lambda>s. (srv_weight s, srv_public_key s)) servers;
          (os, st) =
            (if \<not> servers_eq (su_servers st) servers then
               let st = st\<lparr>su_servers := filter (\<lambda>s. stun_plaintext_port s \<noteq> 0) servers, current_server_index := 0\<rparr>
               in (if published then [PeerPublished (current_server st)] else [], st)
             else ([], st))
      in if stun_state st = StunPaused then (os, st)
         else case try_transition_to_searching_for_server E A
                (transition_to_wait_for_wg (st\<lparr>su_exponential_backoff := bo_reset (su_backoff_ops E) (su_exponential_backoff st)\<rparr>)) of
                (os', st) \<Rightarrow> (os @ os', st))"

definition trigger_endpoint_candidates_discovery ::
  "('n, 'b) stun_env \<Rightarrow> 'n start_answers \<Rightarrow> bool \<Rightarrow> 'b StunProvider \<Rightarrow> stun_out list \<times> 'b StunProvider" where
  "trigger_endpoint_candidates_discovery E A force st =
     (let st = (if force \<and> stun_state st = BackingOff then transition_to_wait_for_wg st else st);
          (os, st) = (if stun_state st = WaitingForWg then try_transition_to_searching_for_server E A st else ([], st));
          (os', st) = (if stun_state st = HasEndpoints \<and> stun_session st = None
                       then snd (start_stun_session E A st) else ([], st))
      in (os @ os', st))"

definition subscribe_for_pong_events :: "'b StunProvider \<Rightarrow> 'b StunProvider" where
  "subscribe_for_pong_events st = st\<lparr>pong_event := True\<rparr>"

definition subscribe_for_endpoint_candidates_change_events :: "'b StunProvider \<Rightarrow> 'b StunProvider" where
  "subscribe_for_endpoint_candidates_change_events st = st\<lparr>change_event := True\<rparr>"

definition handle_endpoint_gone_notification :: "'b StunProvider \<Rightarrow> 'b StunProvider" where
  "handle_endpoint_gone_notification st = st\<lparr>stun_session := None\<rparr>"

definition stun_pause :: "'b StunProvider \<Rightarrow> 'b StunProvider" where
  "stun_pause st =
     (if \<not> is_battery_optimization_on st then st
      else st\<lparr>stun_state := StunPaused, current_timeout := STUN_TIMEOUT_PAUSED\<rparr>)"

definition stun_unpause ::
  "('n, 'b) stun_env \<Rightarrow> 'n start_answers \<Rightarrow> 'b StunProvider \<Rightarrow> stun_out list \<times> 'b StunProvider" where
  "stun_unpause E A st =
     (if stun_state st = StunPaused
      then try_transition_to_searching_for_server E A
             (transition_to_wait_for_wg (st\<lparr>su_exponential_backoff := bo_reset (su_backoff_ops E) (su_exponential_backoff st)\<rparr>))
      else ([], st))"

definition stun_reconnect ::
  "('n, 'b) stun_env \<Rightarrow> 'n start_answers \<Rightarrow> 'b StunProvider \<Rightarrow> stun_out list \<times> 'b StunProvider" where
  "stun_reconnect E A st =
     (if stun_state st \<in> {BackingOff, StunPaused}
      then try_transition_to_searching_for_server E A
             ((transition_to_wait_for_wg st)\<lparr>su_exponential_backoff := bo_reset (su_backoff_ops E) (su_exponential_backoff st)\<rparr>)
      else ([], st))"

text \<open>Pings go through the external socket; the arguments of the handler stand in \<open>P\<close>.\<close>

record ping_answers =
  pa_random :: randomness
  pa_nonce :: bytes
  pa_micros :: nat
  pa_send :: "string + unit"
  pa_pong_open :: bool

definition stun_send_ping ::
  "('n, 'b) stun_env \<Rightarrow> ping_answers \<Rightarrow> SocketAddr \<Rightarrow> u64 \<Rightarrow> PublicKey \<Rightarrow> PingPongHandler \<Rightarrow> 'b StunProvider
     \<Rightarrow> (StunError + unit) \<times> stun_out list" where
  "stun_send_ping E P addr session_id pk h st =
     (if su_sockets st = None then (Inl StunNotConfigured, [])
      else (case send_ping (su_pp E) (pa_random P) (pa_micros P) (pa_send P) addr (su_get_wg_port st) session_id pk h of
              (r, os) \<Rightarrow> (map_sum StunPingError id r, map PingPongOut os)))"

definition handle_ping_rx ::
  "('n, 'b) stun_env \<Rightarrow> ping_answers \<Rightarrow> bytes \<Rightarrow> SocketAddr \<Rightarrow> PingPongHandler \<Rightarrow> 'b StunProvider
     \<Rightarrow> (StunError + unit) \<times> stun_out list" where
  "handle_ping_rx E P encrypted_buf addr h st =
     (if su_sockets st = None then (Inl StunNotConfigured, [])
      else (case handle_rx_packet (su_pp E) (pa_nonce P) (pa_micros P) (pa_send P)
               (if pong_event st then Some (pa_pong_open P) else None) Stun (su_get_wg_port st) addr encrypted_buf h of
              (r, os) \<Rightarrow> (map_sum StunPingError id r, map PingPongOut os)))"

section \<open>Reception and time\<close>

definition try_handle_stun_rx ::
  "('n, 'b) stun_env \<Rightarrow> bytes \<Rightarrow> SocketAddr \<Rightarrow> 'b StunProvider \<Rightarrow> (StunError + bool) \<times> stun_out list \<times> 'b StunProvider" where
  "try_handle_stun_rx E payload src_addr st =
     (case stun_session st of
        None \<Rightarrow> (Inr False, [], st)
      | Some ses \<Rightarrow>
          let st = st\<lparr>stun_session := None\<rparr> in
          (case try_consume E payload src_addr ses of
             (Inl e, _) \<Rightarrow> (Inl e, [], st)
           | (Inr (Final candidate), _) \<Rightarrow>
               (case transition_to_has_endpoints_state E candidate st of (os, st) \<Rightarrow> (Inr True, os, st))
           | (Inr Consumed, ses) \<Rightarrow> (Inr True, [], st\<lparr>stun_session := Some ses\<rparr>)
           | (Inr Skipped, ses) \<Rightarrow> (Inr False, [], st\<lparr>stun_session := Some ses\<rparr>)))"

definition stun_handle_rx ::
  "('n, 'b) stun_env \<Rightarrow> ping_answers \<Rightarrow> PingPongHandler \<Rightarrow> bytes \<Rightarrow> SocketAddr \<Rightarrow> 'b StunProvider
     \<Rightarrow> (StunError + unit) \<times> stun_out list \<times> 'b StunProvider" where
  "stun_handle_rx E P h payload src_addr st =
     (case try_handle_stun_rx E payload src_addr st of
        (Inl e, os, st) \<Rightarrow> (Inl e, os, st)
      | (Inr True, os, st) \<Rightarrow> (Inr (), os, st)
      | (Inr False, os, st) \<Rightarrow>
          (case handle_ping_rx E P payload src_addr h st of (r, os') \<Rightarrow> (r, os @ os', st)))"

definition handle_timeout ::
  "('n, 'b) stun_env \<Rightarrow> 'n start_answers \<Rightarrow> 'n start_answers \<Rightarrow> bool \<Rightarrow> 'b StunProvider \<Rightarrow> stun_out list \<times> 'b StunProvider" where
  "handle_timeout E A A' published st =
     (case stun_state st of
        StunPaused \<Rightarrow> ([], st)
      | BackingOff \<Rightarrow> try_transition_to_searching_for_server E A (transition_to_wait_for_wg st)
      | HasEndpoints \<Rightarrow>
          if stun_session st \<noteq> None
          then transition_to_backing_off_state_or_change_proto E A published (st\<lparr>stun_session := None\<rparr>)
          else (case start_stun_session E A st of
                  (Inr _, os, st) \<Rightarrow> (os, st)
                | (Inl _, os, st) \<Rightarrow>
                    (case transition_to_backing_off_state_or_change_proto E A' published st of (os', st) \<Rightarrow> (os @ os', st)))
      | _ \<Rightarrow> transition_to_backing_off_state_or_change_proto E A published st)"

text \<open>
  One round of the task. Without sockets, without servers, or paused, it waits for the next operation. The
  answers \<open>A'\<close> are for a second attempt to start a session in the same round.
\<close>

datatype stun_event = ExtRecv bytes SocketAddr | TunRecv bytes SocketAddr | TimeoutFired

definition stun_wait ::
  "('n, 'b) stun_env \<Rightarrow> 'n start_answers \<Rightarrow> 'n start_answers \<Rightarrow> bool \<Rightarrow> ping_answers \<Rightarrow> PingPongHandler \<Rightarrow> stun_event
     \<Rightarrow> 'b StunProvider \<Rightarrow> stun_out list \<times> 'b StunProvider" where
  "stun_wait E A A' published P h ev st =
     (if su_sockets st = None \<or> su_servers st = [] \<or> stun_state st = StunPaused \<or> get_socket st = None then ([], st)
      else
        (case ev of
           ExtRecv payload src_addr \<Rightarrow> snd (stun_handle_rx E P h payload src_addr st)
         | TunRecv payload src_addr \<Rightarrow> snd (try_handle_stun_rx E payload src_addr st)
         | TimeoutFired \<Rightarrow> handle_timeout E A A' published st))"

section \<open>Runs\<close>

datatype 'n stun_input =
    StunConfigure "'n start_answers" bool socket_answers "DerpServer list" bool
  | SubscribePongs
  | SubscribeCandidates
  | TriggerDiscovery "'n start_answers" bool
  | StunEndpointGone
  | StunPause
  | StunUnpause "'n start_answers"
  | StunReconnect "'n start_answers"
  | StunRound "'n start_answers" "'n start_answers" bool ping_answers PingPongHandler stun_event

fun stun_step :: "('n, 'b) stun_env \<Rightarrow> 'n stun_input \<Rightarrow> 'b StunProvider \<Rightarrow> stun_out list \<times> 'b StunProvider" where
  "stun_step E (StunConfigure A p S servers v6) st = configure_with_ext_socket_addr E A p S servers v6 st"
| "stun_step E SubscribePongs st = ([], subscribe_for_pong_events st)"
| "stun_step E SubscribeCandidates st = ([], subscribe_for_endpoint_candidates_change_events st)"
| "stun_step E (TriggerDiscovery A force) st = trigger_endpoint_candidates_discovery E A force st"
| "stun_step E StunEndpointGone st = ([], handle_endpoint_gone_notification st)"
| "stun_step E StunPause st = ([], stun_pause st)"
| "stun_step E (StunUnpause A) st = stun_unpause E A st"
| "stun_step E (StunReconnect A) st = stun_reconnect E A st"
| "stun_step E (StunRound A A' p P h ev) st = stun_wait E A A' p P h ev st"

text \<open>Reachable states, with the trace of inputs and of what was sent and published for each.\<close>

inductive stun_reachable :: "('n, 'b) stun_env \<Rightarrow> ('n stun_input \<times> stun_out list) list \<Rightarrow> 'b StunProvider \<Rightarrow> bool" for E where
  start: "stun_reachable E [] (start_with_exp_backoff b battery)"
| step: "stun_reachable E tr st \<Longrightarrow> stun_step E i st = (os, st') \<Longrightarrow> stun_reachable E (tr @ [(i, os)]) st'"

end
