(* ===== verification/Stun_Theorems.thy ===== *)
theory Stun_Theorems
  imports Stun
begin

text \<open>
  Properties of the STUN endpoint provider: candidates are authentic in every run, a search ends with
  the endpoint once both answers arrive, and silent servers are tried in turn.
\<close>

section \<open>Authentic candidates\<close>

text \<open>Both requests of a session were sent in one step, with the transaction ids \<open>t\<close> and \<open>t'\<close>.\<close>

definition asked ::
  "('n, 'b) stun_env \<Rightarrow> stun_out list \<Rightarrow> SocketAddr \<Rightarrow> TransactionId \<Rightarrow> SocketAddr \<Rightarrow> TransactionId \<Rightarrow> bool" where
  "asked E os wg t udp t' \<longleftrightarrow> (\<exists>sock p p'. sock \<noteq> External \<and> new_request E t = Inr (t, p) \<and> new_request E t' = Inr (t', p')
     \<and> StunSent sock wg p \<in> set os \<and> StunSent External udp p' \<in> set os)"

fun received :: "'n stun_input \<Rightarrow> (bytes \<times> SocketAddr) option" where
  "received (StunRound _ _ _ _ _ (ExtRecv payload addr)) = Some (payload, addr)"
| "received (StunRound _ _ _ _ _ (TunRecv payload addr)) = Some (payload, addr)"
| "received _ = None"

text \<open>An answer that names the address \<open>sa\<close> came from \<open>addr\<close> under the transaction id.\<close>

definition answered ::
  "('n, 'b) stun_env \<Rightarrow> ('n stun_input \<times> stun_out list) list \<Rightarrow> SocketAddr \<Rightarrow> TransactionId \<Rightarrow> SocketAddr \<Rightarrow> bool" where
  "answered E tr addr tid sa \<longleftrightarrow>
     (\<exists>x \<in> set tr. \<exists>payload. received (fst x) = Some (payload, addr) \<and> decode_response E payload = Inr (sa, tid))"

definition request_ok ::
  "('n, 'b) stun_env \<Rightarrow> ('n stun_input \<times> stun_out list) list \<Rightarrow> SocketAddr \<Rightarrow> TransactionId \<Rightarrow> StunRequest \<Rightarrow> bool" where
  "request_ok E tr addr tid req = (case req of Waiting a t \<Rightarrow> a = addr \<and> t = tid | Result sa \<Rightarrow> answered E tr addr tid sa)"

definition stun_session_ok :: "('n, 'b) stun_env \<Rightarrow> ('n stun_input \<times> stun_out list) list \<Rightarrow> StunSession \<Rightarrow> bool" where
  "stun_session_ok E tr s \<longleftrightarrow> (\<exists>before x after wg t udp t'. tr = before @ x # after \<and> asked E (snd x) wg t udp t'
     \<and> request_ok E after wg t (ses_wg s) \<and> request_ok E after udp t' (ses_udp s))"

definition candidate_ok :: "('n, 'b) stun_env \<Rightarrow> ('n stun_input \<times> stun_out list) list \<Rightarrow> EndpointCandidate \<Rightarrow> bool" where
  "candidate_ok E tr c \<longleftrightarrow> (\<exists>before x after wg t udp t'. tr = before @ x # after \<and> asked E (snd x) wg t udp t'
     \<and> answered E after wg t (cand_wg c) \<and> answered E after udp t' (cand_udp c))"

lemma answered_mono: "answered E tr a t sa \<Longrightarrow> answered E (tr @ tr') a t sa"
  by (auto simp: answered_def)

lemma request_ok_mono: "request_ok E tr a t r \<Longrightarrow> request_ok E (tr @ tr') a t r"
  by (auto simp: request_ok_def answered_mono split: StunRequest.splits)

lemma session_ok_mono: "stun_session_ok E tr s \<Longrightarrow> stun_session_ok E (tr @ tr') s"
  unfolding stun_session_ok_def by (metis append_Cons append_assoc request_ok_mono)

lemma candidate_ok_mono: "candidate_ok E tr c \<Longrightarrow> candidate_ok E (tr @ tr') c"
  unfolding candidate_ok_def by (metis append_Cons append_assoc answered_mono)

lemma asked_mono: "asked E os wg t udp t' \<Longrightarrow> set os \<subseteq> set os' \<Longrightarrow> asked E os' wg t udp t'"
  unfolding asked_def by blast

text \<open>A step that receives nothing: it keeps, ends or starts a session, and announces no candidate.\<close>

definition quiet :: "('n, 'b) stun_env \<Rightarrow> stun_out list \<Rightarrow> 'b StunProvider \<Rightarrow> 'b StunProvider \<Rightarrow> bool" where
  "quiet E os st st' \<longleftrightarrow>
     (stun_session st' = None \<or> stun_session st' = stun_session st
      \<or> (\<exists>wg t udp t'. stun_session st' = Some \<lparr>ses_wg = Waiting wg t, ses_udp = Waiting udp t'\<rparr> \<and> asked E os wg t udp t'))
     \<and> set (last_candidates st') \<subseteq> set (last_candidates st) \<and> (\<forall>cs. CandidatesChanged cs \<in> set os \<longrightarrow> cs = [])"

lemma quiet_trans: "quiet E os st st' \<Longrightarrow> quiet E os' st' st'' \<Longrightarrow> quiet E (os @ os') st st''"
  unfolding quiet_def by (auto dest: asked_mono [of _ os _ _ _ _ "os @ os'"] asked_mono [of _ os' _ _ _ _ "os @ os'"])

lemma quiet_refl: "quiet E [] st st'" if "stun_session st' \<in> {None, stun_session st}" "last_candidates st' = last_candidates st"
  using that by (auto simp: quiet_def)

lemma session_started:
  "StunSession_start E A sock wg udp = (Inr ses, os) \<Longrightarrow> sock \<noteq> External \<Longrightarrow>
     ses = \<lparr>ses_wg = Waiting wg (an_tid_wg A), ses_udp = Waiting udp (an_tid_udp A)\<rparr>
     \<and> asked E os wg (an_tid_wg A) udp (an_tid_udp A) \<and> (\<forall>cs. CandidatesChanged cs \<notin> set os)"
  "StunSession_start E A sock wg udp = (r, os) \<Longrightarrow> CandidatesChanged cs \<notin> set os"
  by (fastforce simp: StunSession_start_def asked_def new_request_def split: sum.splits)+

lemma quiet_start: "start_stun_session E A st = (r, os, st') \<Longrightarrow> quiet E os st st'"
  by (auto simp: start_stun_session_def quiet_def get_socket_def dest!: session_started(1) dest: session_started(2)
      split: if_splits option.splits sum.splits prod.splits)

lemma quiet_try: "try_transition_to_searching_for_server E A st = (os, st') \<Longrightarrow> quiet E os st st'"
proof (cases "su_servers st \<noteq> [] \<and> stun_state st \<noteq> StunPaused \<and> is_wg_ready (an_ready A) st")
  case True
  assume step: "try_transition_to_searching_for_server E A st = (os, st')"
  obtain r where "start_stun_session E A (st\<lparr>stun_state := SearchingForServer\<rparr>) = (r, os, st')"
    using step True by (cases "start_stun_session E A (st\<lparr>stun_state := SearchingForServer\<rparr>)")
      (auto simp: try_transition_to_searching_for_server_def)
  from quiet_start [OF this] show ?thesis by (simp add: quiet_def)
qed (auto simp: try_transition_to_searching_for_server_def intro!: quiet_refl)

lemma quiet_from:
  assumes "quiet E os st1 st'" and "stun_session st1 \<in> {None, stun_session st}" and "set (last_candidates st1) \<subseteq> set (last_candidates st)"
  shows "quiet E os st st'"
  using assms by (auto simp: quiet_def)

lemma quiet_backing_off:
  assumes "transition_to_backing_off_state_or_change_proto E A p st = (os, st')"
  shows "quiet E os st st'"
proof -
  define cleared where "cleared = (if last_candidates st \<noteq> [] \<and> change_event st then [CandidatesChanged []] else [])"
  have c: "quiet E cleared st (st\<lparr>last_candidates := [], stun_session := None\<rparr>)" by (auto simp: quiet_def cleared_def)
  show ?thesis
  proof (cases "is_in_ipv6_mode (st\<lparr>last_candidates := [], stun_session := None\<rparr>)")
    case True
    obtain os' where os: "os = cleared @ os'" and
      t: "try_transition_to_searching_for_server E A (transition_to_wait_for_wg
        (st\<lparr>last_candidates := [], stun_session := None, current_proto := ProtoIPv4\<rparr>)) = (os', st')"
      using assms True by (auto simp: transition_to_backing_off_state_or_change_proto_def Let_def cleared_def split: prod.splits)
    have "quiet E os' (st\<lparr>last_candidates := [], stun_session := None\<rparr>) st'"
      by (rule quiet_from [OF quiet_try [OF t]]) (simp_all add: transition_to_wait_for_wg_def)
    from quiet_trans [OF c this] show ?thesis by (simp only: os)
  next
    case False
    with assms show ?thesis
      by (auto simp: transition_to_backing_off_state_or_change_proto_def Let_def next_server_def quiet_def split: if_splits)
  qed
qed

lemmas quiet_waiting = quiet_from [OF quiet_try]

text \<open>A configuration first publishes at most a server, and then starts to search unless the provider is paused.\<close>

lemma configure_split:
  assumes "configure_with_ext_socket_addr E A p S servers v6 st = (os, st')"
  obtains os1 st1 where "set os1 \<subseteq> range PeerPublished" "stun_session st1 = stun_session st" "last_candidates st1 = last_candidates st"
    "os = os1 \<and> st' = st1 \<or> (\<exists>os'. os = os1 @ os' \<and> try_transition_to_searching_for_server E A (transition_to_wait_for_wg st1) = (os', st'))"
proof -
  define st1 where "st1 = (if su_sockets st = None \<or> ipv6_is_enabled st \<noteq> v6
      then st\<lparr>su_sockets := (if open_ext S then Some \<lparr>tun_socket_v4 = open_v4 S, tun_socket_v6 = (v6 \<and> open_v6 S)\<rparr> else None)\<rparr>
      else st)\<lparr>current_proto := (if v6 then ProtoIPv6 else ProtoIPv4)\<rparr>"
  define sorted_servers where "sorted_servers = sort_key (\<lambda>s. (srv_weight s, srv_public_key s)) servers"
  define st2 where "st2 = (if \<not> servers_eq (su_servers st1) sorted_servers
      then st1\<lparr>su_servers := filter (\<lambda>s. stun_plaintext_port s \<noteq> 0) sorted_servers, current_server_index := 0\<rparr> else st1)"
  define os1 where "os1 = (if \<not> servers_eq (su_servers st1) sorted_servers \<and> p then [PeerPublished (current_server st2)] else [])"
  define st3 where "st3 = (if stun_state st2 = StunPaused then st2
      else st2\<lparr>su_exponential_backoff := bo_reset (su_backoff_ops E) (su_exponential_backoff st2)\<rparr>)"
  have "os = os1 \<and> st' = st3 \<or>
      (\<exists>os'. os = os1 @ os' \<and> try_transition_to_searching_for_server E A (transition_to_wait_for_wg st3) = (os', st'))"
  proof (cases "stun_state st2 = StunPaused")
    case True
    have "os = os1 \<and> st' = st2" using assms True
      by (auto simp: configure_with_ext_socket_addr_def Let_def st1_def st2_def os1_def sorted_servers_def split: if_splits)
    with True show ?thesis by (simp add: st3_def)
  next
    case False
    have "configure_with_ext_socket_addr E A p S servers v6 st =
        (case try_transition_to_searching_for_server E A (transition_to_wait_for_wg
           (st2\<lparr>su_exponential_backoff := bo_reset (su_backoff_ops E) (su_exponential_backoff st2)\<rparr>)) of (os', st) \<Rightarrow> (os1 @ os', st))"
      using False by (auto simp: configure_with_ext_socket_addr_def Let_def st1_def st2_def os1_def sorted_servers_def)
    with assms False show ?thesis by (simp add: st3_def split: prod.splits)
  qed
  moreover have "set os1 \<subseteq> range PeerPublished" "stun_session st3 = stun_session st" "last_candidates st3 = last_candidates st"
    by (auto simp: os1_def st3_def st2_def st1_def)
  ultimately show ?thesis using that by blast
qed

lemma quiet_configure:
  assumes "configure_with_ext_socket_addr E A p S servers v6 st = (os, st')"
  shows "quiet E os st st'"
proof -
  from assms obtain os1 st1 where c: "set os1 \<subseteq> range PeerPublished" "stun_session st1 = stun_session st"
    "last_candidates st1 = last_candidates st"
    "os = os1 \<and> st' = st1 \<or> (\<exists>os'. os = os1 @ os' \<and> try_transition_to_searching_for_server E A (transition_to_wait_for_wg st1) = (os', st'))"
    by (rule configure_split)
  from c(1-3) have 1: "quiet E os1 st st1" by (auto simp: quiet_def)
  have "quiet E os' st1 st'" if "try_transition_to_searching_for_server E A (transition_to_wait_for_wg st1) = (os', st')" for os'
    by (rule quiet_waiting [OF that]) (simp_all add: transition_to_wait_for_wg_def)
  with c(4) 1 quiet_trans [OF 1] show ?thesis by blast
qed

lemma quiet_trigger:
  assumes "trigger_endpoint_candidates_discovery E A force st = (os, st')"
  shows "quiet E os st st'"
proof -
  define st1 where "st1 = (if force \<and> stun_state st = BackingOff then transition_to_wait_for_wg st else st)"
  obtain os1 st2 where 1: "(if stun_state st1 = WaitingForWg then try_transition_to_searching_for_server E A st1 else ([], st1)) = (os1, st2)"
    by (cases "if stun_state st1 = WaitingForWg then try_transition_to_searching_for_server E A st1 else ([], st1)")
  obtain r os2 st3 where s: "start_stun_session E A st2 = (r, os2, st3)" by (cases "start_stun_session E A st2")
  have "quiet E os1 st1 st2" using 1 by (auto intro: quiet_try quiet_refl split: if_splits)
  then have "quiet E os1 st st2" by (rule quiet_from) (auto simp: st1_def transition_to_wait_for_wg_def)
  moreover have "os = os1 @ os2 \<and> st' = st3 \<or> os = os1 @ [] \<and> st' = st2"
    using assms 1 s by (auto simp: trigger_endpoint_candidates_discovery_def Let_def st1_def split: if_splits prod.splits)
  ultimately show ?thesis using quiet_trans [OF _ quiet_start [OF s]] by auto
qed

lemma quiet_timeout:
  assumes "handle_timeout E A A' p st = (os, st')"
  shows "quiet E os st st'"
proof -
  consider "stun_state st = StunPaused" | "stun_state st = BackingOff" | "stun_state st = HasEndpoints" "stun_session st \<noteq> None"
    | "stun_state st = HasEndpoints" "stun_session st = None" | "stun_state st \<in> {SearchingForServer, WaitingForWg}"
    by (cases "stun_state st") auto
  then show ?thesis
  proof cases
    case 2
    with assms show ?thesis
      by (intro quiet_waiting [of E A "transition_to_wait_for_wg st"]) (auto simp: handle_timeout_def transition_to_wait_for_wg_def)
  next
    case 3
    with assms show ?thesis
      by (intro quiet_from [OF quiet_backing_off [of E A p "st\<lparr>stun_session := None\<rparr>"]]) (auto simp: handle_timeout_def)
  next
    case 4
    obtain r os1 st1 where s: "start_stun_session E A st = (r, os1, st1)" by (cases "start_stun_session E A st")
    obtain os2 st2 where b: "transition_to_backing_off_state_or_change_proto E A' p st1 = (os2, st2)"
      by (cases "transition_to_backing_off_state_or_change_proto E A' p st1")
    have "os = os1 \<and> st' = st1 \<or> os = os1 @ os2 \<and> st' = st2"
      using assms 4 s b by (auto simp: handle_timeout_def split: sum.splits)
    then show ?thesis using quiet_start [OF s] quiet_trans [OF quiet_start [OF s] quiet_backing_off [OF b]] by auto
  next
    case 5
    with assms show ?thesis by (auto simp: handle_timeout_def intro: quiet_backing_off)
  qed (use assms in \<open>auto simp: handle_timeout_def intro: quiet_refl\<close>)
qed

lemma quiet_step:
  assumes "stun_step E i st = (os, st')" and "received i = None"
  shows "quiet E os st st'"
proof (cases i)
  case (StunUnpause A)
  with assms show ?thesis
    by (auto simp: stun_unpause_def transition_to_wait_for_wg_def intro: quiet_refl quiet_waiting split: if_splits)
next
  case (StunReconnect A)
  with assms show ?thesis
    by (auto simp: stun_reconnect_def transition_to_wait_for_wg_def intro: quiet_refl quiet_waiting split: if_splits)
next
  case (StunRound A A' p P h ev)
  with assms have "ev = TimeoutFired" by (cases ev) auto
  with assms StunRound show ?thesis by (auto simp: stun_wait_def intro: quiet_timeout quiet_refl split: if_splits)
qed (use assms in \<open>auto simp: subscribe_for_pong_events_def subscribe_for_endpoint_candidates_change_events_def
    handle_endpoint_gone_notification_def stun_pause_def intro!: quiet_refl intro: quiet_configure quiet_trigger
    split: if_splits\<close>)

lemma updated_request_ok:
  assumes "request_ok E tr a t req" and "try_update E payload src req = (Inr True, req')" and "received (fst x) = Some (payload, src)"
  shows "request_ok E (tr @ [x]) a t req'"
  using assms by (auto simp: try_update_def request_ok_def answered_def split: StunRequest.splits if_splits sum.splits)

lemma consumed_session_ok:
  assumes "stun_session_ok E tr s" and "received (fst x) = Some (payload, src)" and "try_consume E payload src s = (Inr res, s')"
  shows "stun_session_ok E (tr @ [x]) s'"
proof -
  from assms(1) obtain before y after wg t udp t' where s: "tr = before @ y # after" "asked E (snd y) wg t udp t'"
    "request_ok E after wg t (ses_wg s)" "request_ok E after udp t' (ses_udp s)"
    unfolding stun_session_ok_def by blast
  obtain rw w where w: "try_update E payload src (ses_wg s) = (rw, w)" by (cases "try_update E payload src (ses_wg s)")
  obtain ru u where u: "try_update E payload src (ses_udp s) = (ru, u)" by (cases "try_update E payload src (ses_udp s)")
  have "s' = s \<or> rw = Inr True \<and> s' = s\<lparr>ses_wg := w\<rparr> \<or> ru = Inr True \<and> s' = s\<lparr>ses_udp := u\<rparr>"
    using assms(3) w u by (cases rw; cases ru) (auto simp: try_consume_def Let_def split: bool.splits)
  then have "request_ok E (after @ [x]) wg t (ses_wg s') \<and> request_ok E (after @ [x]) udp t' (ses_udp s')"
    using updated_request_ok [OF s(3) _ assms(2)] updated_request_ok [OF s(4) _ assms(2)] w u
      request_ok_mono [OF s(3), of "[x]"] request_ok_mono [OF s(4), of "[x]"]
    by auto
  with s(1,2) show ?thesis unfolding stun_session_ok_def by (metis append_Cons append_assoc)
qed

lemma finished_session_ok: "stun_session_ok E tr s \<Longrightarrow> ses_wg s = Result a \<Longrightarrow> ses_udp s = Result b \<Longrightarrow>
    candidate_ok E tr \<lparr>cand_wg = a, cand_udp = b\<rparr>"
  unfolding stun_session_ok_def candidate_ok_def request_ok_def by fastforce

lemma final_consumed:
  "try_consume E payload src s = (Inr (Final c), s') \<Longrightarrow>
     ses_wg s' = Result (cand_wg c) \<and> ses_udp s' = Result (cand_udp c)"
  by (auto simp: try_consume_def Let_def split: prod.splits sum.splits bool.splits StunRequest.splits)

text \<open>The invariant of the runs.\<close>

definition stun_inv :: "('n, 'b) stun_env \<Rightarrow> ('n stun_input \<times> stun_out list) list \<Rightarrow> 'b StunProvider \<Rightarrow> bool" where
  "stun_inv E tr st \<longleftrightarrow> (\<forall>s. stun_session st = Some s \<longrightarrow> stun_session_ok E tr s)
     \<and> (\<forall>c \<in> set (last_candidates st). candidate_ok E tr c)
     \<and> (\<forall>x \<in> set tr. \<forall>cs. CandidatesChanged cs \<in> set (snd x) \<longrightarrow> (\<forall>c \<in> set cs. candidate_ok E tr c))"

lemma stun_inv_quiet:
  assumes "stun_inv E tr st" and "quiet E os st st'"
  shows "stun_inv E (tr @ [(i, os)]) st'"
proof -
  have "stun_session_ok E (tr @ [(i, os)]) \<lparr>ses_wg = Waiting wg t, ses_udp = Waiting udp t'\<rparr>" if "asked E os wg t udp t'" for wg t udp t'
    unfolding stun_session_ok_def using that
    by (intro exI [of _ tr] exI [of _ "(i, os)"] exI [of _ "[]"] exI [of _ wg] exI [of _ t] exI [of _ udp] exI [of _ t'])
      (simp add: request_ok_def)
  with assms show ?thesis
    unfolding stun_inv_def quiet_def by (auto simp: subset_iff intro: session_ok_mono candidate_ok_mono)
qed

lemma stun_inv_rx:
  assumes "stun_inv E tr st" and "received i = Some (payload, src)" and "try_handle_stun_rx E payload src st = (r, os', st')"
    and "\<And>cs. CandidatesChanged cs \<in> set os \<Longrightarrow> CandidatesChanged cs \<in> set os'"
  shows "stun_inv E (tr @ [(i, os)]) st'"
proof (cases "stun_session st")
  case None
  with assms(3) have "os' = []" "st' = st" by (auto simp: try_handle_stun_rx_def)
  with assms(1,4) show ?thesis
    unfolding stun_inv_def by (auto intro: session_ok_mono candidate_ok_mono)
next
  case (Some s)
  let ?tr = "tr @ [(i, os)]"
  obtain rc s' where c: "try_consume E payload src s = (rc, s')" by (cases "try_consume E payload src s")
  have ok: "stun_session_ok E ?tr s'" if "rc = Inr res" for res
    using consumed_session_ok [of E tr s "(i, os)" payload src res s'] assms(1,2) Some c that by (auto simp: stun_inv_def)
  have fin: "candidate_ok E ?tr cand" if "rc = Inr (Final cand)" for cand
    using finished_session_ok [OF ok] final_consumed [of E payload src s cand s'] that c by fastforce
  have ses: "stun_session st' = None \<or> stun_session st' = Some s' \<and> (\<exists>res. rc = Inr res)"
    and last: "last_candidates st' = last_candidates st \<or> (\<exists>cand. rc = Inr (Final cand) \<and> last_candidates st' = [cand])"
    and out: "\<And>cs. CandidatesChanged cs \<in> set os' \<Longrightarrow> \<exists>cand. rc = Inr (Final cand) \<and> cs = [cand]"
    using assms(3) Some c
    by (auto simp: try_handle_stun_rx_def transition_to_has_endpoints_state_def Let_def split: sum.splits StunResult.splits)
  show ?thesis unfolding stun_inv_def
  proof (intro conjI ballI allI impI)
    show "stun_session_ok E ?tr x" if "stun_session st' = Some x" for x using ses ok that by auto
    show "candidate_ok E ?tr x" if "x \<in> set (last_candidates st')" for x
      using last fin that assms(1) candidate_ok_mono [of E tr x] by (auto simp: stun_inv_def)
    show "candidate_ok E ?tr cand" if "x \<in> set ?tr" "CandidatesChanged cs \<in> set (snd x)" "cand \<in> set cs" for x cs cand
    proof (cases "x \<in> set tr")
      case True
      with that(2,3) assms(1) show ?thesis unfolding stun_inv_def by (blast intro: candidate_ok_mono)
    next
      case False
      with that(1,2) assms(4) have "CandidatesChanged cs \<in> set os'" by auto
      with out fin that(3) show ?thesis by fastforce
    qed
  qed
qed

lemma stun_inv_reachable: "stun_reachable E tr st \<Longrightarrow> stun_inv E tr st"
proof (induction rule: stun_reachable.induct)
  case (start b battery)
  then show ?case by (simp add: stun_inv_def start_with_exp_backoff_def)
next
  case (step tr st i os st')
  show ?case
  proof (cases "received i")
    case None
    with step show ?thesis by (auto intro: stun_inv_quiet quiet_step)
  next
    case (Some x)
    then obtain A A' p P h payload src where x: "x = (payload, src)"
      "i = StunRound A A' p P h (ExtRecv payload src) \<or> i = StunRound A A' p P h (TunRecv payload src)"
      by (cases i rule: received.cases) auto
    obtain r os' st2 where t: "try_handle_stun_rx E payload src st = (r, os', st2)" by (cases "try_handle_stun_rx E payload src st")
    have "os = [] \<and> st' = st \<or> st' = st2 \<and> (\<forall>cs. CandidatesChanged cs \<in> set os \<longrightarrow> CandidatesChanged cs \<in> set os')"
      using step.hyps(2) x(2) t
      by (auto simp: stun_wait_def stun_handle_rx_def handle_ping_rx_def split: if_splits sum.splits bool.splits prod.splits)
    then show ?thesis
    proof (elim disjE conjE)
      assume "os = []" "st' = st"
      then show ?thesis using stun_inv_quiet [OF step.IH quiet_refl] by simp
    next
      assume "st' = st2" "\<forall>cs. CandidatesChanged cs \<in> set os \<longrightarrow> CandidatesChanged cs \<in> set os'"
      then show ?thesis using stun_inv_rx [OF step.IH _ t, of i os] Some x(1) by blast
    qed
  qed
qed

text \<open>
  C1. Announced candidates are authentic. In every run of the provider, for each candidate that it announces
  or holds there is one step that sent both requests of a session, through the tunnel and directly, and
  later the addresses of the candidate arrived from exactly the two asked addresses, in answers with the
  transaction ids of these requests. No packet from elsewhere and no answer to another request can
  become a part of a candidate.
\<close>

theorem stun_candidates_are_authentic:
  assumes "stun_reachable E tr st"
    and "c \<in> set (last_candidates st) \<or> (\<exists>x \<in> set tr. \<exists>cs. CandidatesChanged cs \<in> set (snd x) \<and> c \<in> set cs)"
  shows "\<exists>before x after wg t udp t'. tr = before @ x # after \<and> asked E (snd x) wg t udp t'
    \<and> answered E after wg t (cand_wg c) \<and> answered E after udp t' (cand_udp c)"
  using stun_inv_reachable [OF assms(1)] assms(2) unfolding stun_inv_def candidate_ok_def by blast

section \<open>Silent servers\<close>

text \<open>Rounds in which the timeout fires; the channel to the controller takes every server.\<close>

fun timeouts ::
  "('n, 'b) stun_env \<Rightarrow> ping_answers \<Rightarrow> PingPongHandler \<Rightarrow> ('n start_answers \<times> 'n start_answers) list \<Rightarrow> 'b StunProvider
     \<Rightarrow> stun_out list \<times> 'b StunProvider" where
  "timeouts E P h [] st = ([], st)"
| "timeouts E P h ((A, A') # as) st =
     (case stun_wait E A A' True P h TimeoutFired st of
        (os, st) \<Rightarrow> (case timeouts E P h as st of (os', st) \<Rightarrow> (os @ os', st)))"

lemma timeouts_append:
  "timeouts E P h (as @ as') st =
     (case timeouts E P h as st of (os, st) \<Rightarrow> (case timeouts E P h as' st of (os', st) \<Rightarrow> (os @ os', st)))"
  by (induction as arbitrary: st) (auto split: prod.splits)

definition published_servers :: "stun_out list \<Rightarrow> DerpServer option list" where
  "published_servers os = List.map_filter (\<lambda>x. case x of PeerPublished s \<Rightarrow> Some s | _ \<Rightarrow> None) os"

lemma published_servers_simps [simp]:
  "published_servers [] = []" "published_servers (os @ os') = published_servers os @ published_servers os'"
  "published_servers (PeerPublished s # os) = s # published_servers os"
  "published_servers (CandidatesChanged cs # os) = published_servers os"
  "published_servers (StunSent a b c # os) = published_servers os"
  by (simp_all add: published_servers_def)

text \<open>The provider searches: it waits for WireGuard or for an answer of the server with index \<open>i\<close>.\<close>

definition searching :: "bool \<Rightarrow> bool \<Rightarrow> DerpServer list \<Rightarrow> nat \<Rightarrow> 'b \<Rightarrow> 'b StunProvider \<Rightarrow> bool" where
  "searching v6 in_v6 ss i b st \<longleftrightarrow> su_sockets st = Some \<lparr>tun_socket_v4 = True, tun_socket_v6 = v6\<rparr> \<and> su_servers st = ss
     \<and> current_server_index st = i \<and> su_exponential_backoff st = b \<and> current_proto st = (if in_v6 then ProtoIPv6 else ProtoIPv4)
     \<and> stun_state st \<in> {WaitingForWg, SearchingForServer}"

lemma start_keeps:
  assumes "start_stun_session E A st = (r, os, st')"
  shows "published_servers os = [] \<and> su_sockets st' = su_sockets st \<and> su_servers st' = su_servers st
    \<and> current_server_index st' = current_server_index st \<and> su_exponential_backoff st' = su_exponential_backoff st
    \<and> current_proto st' = current_proto st \<and> stun_state st' = stun_state st"
  using assms by (auto simp: start_stun_session_def StunSession_start_def split: if_splits option.splits sum.splits prod.splits)

lemma try_searching:
  assumes "try_transition_to_searching_for_server E A st = (os, st')" and "searching v6 m ss i b st"
  shows "published_servers os = [] \<and> searching v6 m ss i b st'"
proof (cases "su_servers st \<noteq> [] \<and> stun_state st \<noteq> StunPaused \<and> is_wg_ready (an_ready A) st")
  case True
  obtain r where "start_stun_session E A (st\<lparr>stun_state := SearchingForServer\<rparr>) = (r, os, st')"
    using assms(1) True by (cases "start_stun_session E A (st\<lparr>stun_state := SearchingForServer\<rparr>)")
      (auto simp: try_transition_to_searching_for_server_def)
  from start_keeps [OF this] assms(2) show ?thesis by (simp add: searching_def)
qed (use assms in \<open>auto simp: try_transition_to_searching_for_server_def\<close>)

definition backing_off :: "bool \<Rightarrow> DerpServer list \<Rightarrow> nat \<Rightarrow> 'b \<Rightarrow> 'b StunProvider \<Rightarrow> bool" where
  "backing_off v6 ss i b st \<longleftrightarrow> su_sockets st = Some \<lparr>tun_socket_v4 = True, tun_socket_v6 = v6\<rparr> \<and> su_servers st = ss
     \<and> current_server_index st = i \<and> su_exponential_backoff st = b \<and> current_proto st = (if v6 then ProtoIPv6 else ProtoIPv4)
     \<and> stun_state st = BackingOff"

lemma searching_simps:
  assumes "searching v6 m ss i b st" and "ss \<noteq> []"
  shows "stun_wait E A A' p P h TimeoutFired st = transition_to_backing_off_state_or_change_proto E A p st"
    and "is_in_ipv6_mode st \<longleftrightarrow> v6 \<and> m" and "ipv6_is_enabled st = v6"
  using assms by (auto simp: searching_def stun_wait_def handle_timeout_def get_socket_def is_in_ipv6_mode_def ipv6_is_enabled_def)

text \<open>In IPv6 the search falls back to IPv4 with the same server.\<close>

lemma fallback_round:
  assumes "searching True True ss i b st" and "ss \<noteq> []" and "stun_wait E A A' True P h TimeoutFired st = (os, st')"
  shows "published_servers os = [] \<and> searching True False ss i b st'"
proof -
  let ?st = "transition_to_wait_for_wg (st\<lparr>last_candidates := [], stun_session := None, current_proto := ProtoIPv4\<rparr>)"
  have "is_in_ipv6_mode (st\<lparr>last_candidates := [], stun_session := None\<rparr>)"
    using searching_simps(2) [OF assms(1,2)] by (simp add: is_in_ipv6_mode_def ipv6_is_enabled_def)
  then obtain os' where "published_servers os = published_servers os'" "try_transition_to_searching_for_server E A ?st = (os', st')"
    using assms(3) unfolding searching_simps(1) [OF assms(1,2)] transition_to_backing_off_state_or_change_proto_def
    by (auto simp: Let_def split: prod.splits if_splits)
  moreover have "searching True False ss i b ?st" using assms(1) by (simp add: searching_def transition_to_wait_for_wg_def)
  ultimately show ?thesis using try_searching by metis
qed

lemma give_up_round:
  assumes "searching v6 False ss i b st" and "i < length ss" and "stun_wait E A A' True P h TimeoutFired st = (os, st')"
  shows "published_servers os = [Some (ss ! (Suc i mod length ss))]
    \<and> backing_off v6 ss (Suc i mod length ss) (if Suc i = length ss then bo_next (su_backoff_ops E) b else b) st'"
proof -
  have ne: "ss \<noteq> []" using assms(2) by auto
  have wrap: "i \<ge> Suc i mod length ss \<longleftrightarrow> Suc i = length ss" using assms(2) by (cases "Suc i = length ss") auto
  have m: "Suc i mod length ss < length ss" using assms(2) by (intro mod_less_divisor) auto
  have "\<not> is_in_ipv6_mode (st\<lparr>last_candidates := [], stun_session := None\<rparr>)"
    using searching_simps(2) [OF assms(1) ne] by (simp add: is_in_ipv6_mode_def ipv6_is_enabled_def)
  then show ?thesis
    using assms(1,3) wrap m ne unfolding searching_simps(1) [OF assms(1) ne] transition_to_backing_off_state_or_change_proto_def
    by (auto simp: Let_def next_server_def searching_def backing_off_def current_server_def ipv6_is_enabled_def split: if_splits)
qed

lemma retry_round:
  assumes "backing_off v6 ss i b st" and "ss \<noteq> []" and "stun_wait E A A' True P h TimeoutFired st = (os, st')"
  shows "published_servers os = [] \<and> searching v6 v6 ss i b st'"
proof -
  have "try_transition_to_searching_for_server E A (transition_to_wait_for_wg st) = (os, st')"
    using assms by (cases v6) (auto simp: backing_off_def stun_wait_def handle_timeout_def get_socket_def is_in_ipv6_mode_def ipv6_is_enabled_def)
  moreover have "searching v6 v6 ss i b (transition_to_wait_for_wg st)"
    using assms(1) by (simp add: backing_off_def searching_def transition_to_wait_for_wg_def)
  ultimately show ?thesis using try_searching by metis
qed

lemma server_round:
  assumes "searching v6 v6 ss i b st" and "i < length ss" and "length as = (if v6 then 3 else 2)"
    and "timeouts E P h as st = (os, st')"
  shows "published_servers os = [Some (ss ! (Suc i mod length ss))]
    \<and> searching v6 v6 ss (Suc i mod length ss) (if Suc i = length ss then bo_next (su_backoff_ops E) b else b) st'"
proof -
  have ne: "ss \<noteq> []" using assms(2) by auto
  have two: "published_servers os = [Some (ss ! (Suc i mod length ss))]
      \<and> searching v6 v6 ss (Suc i mod length ss) (if Suc i = length ss then bo_next (su_backoff_ops E) b else b) st'"
    if s: "searching v6 False ss i b st" and as: "as = [a, a']" and t: "timeouts E P h as st = (os, st')" for st a a' as os
  proof -
    obtain os1 st1 where 1: "stun_wait E (fst a) (snd a) True P h TimeoutFired st = (os1, st1)"
      by (cases "stun_wait E (fst a) (snd a) True P h TimeoutFired st")
    obtain os2 st2 where 2: "stun_wait E (fst a') (snd a') True P h TimeoutFired st1 = (os2, st2)"
      by (cases "stun_wait E (fst a') (snd a') True P h TimeoutFired st1")
    from 1 2 t as have "os = os1 @ os2" "st' = st2" by (cases a; cases a'; auto)+
    with give_up_round [OF s assms(2) 1] retry_round [OF _ ne 2] show ?thesis by auto
  qed
  show ?thesis
  proof (cases v6)
    case True
    with assms(3) obtain a a' a'' where as: "as = [a, a', a'']" by (auto simp: length_Suc_conv numeral_3_eq_3)
    obtain os1 st1 where 1: "stun_wait E (fst a) (snd a) True P h TimeoutFired st = (os1, st1)"
      by (cases "stun_wait E (fst a) (snd a) True P h TimeoutFired st")
    obtain os2 where 2: "timeouts E P h [a', a''] st1 = (os2, st')" and os: "os = os1 @ os2"
      using assms(4) 1 as by (cases a) (auto split: prod.splits)
    from fallback_round [of ss i b st E] assms(1) ne 1 True have "published_servers os1 = [] \<and> searching v6 False ss i b st1" by simp
    with two [OF _ refl 2] os show ?thesis by simp
  next
    case False
    with assms(3) obtain a a' where "as = [a, a']" by (auto simp: length_Suc_conv numeral_2_eq_2)
    with two [OF _ this assms(4)] assms(1) False show ?thesis by simp
  qed
qed

text \<open>
  C23. Silent servers are tried in turn. While no answer arrives, every server is given up after its timeouts
  (one for each IP version in use, and one for the backoff), and the next one in the list is
  published to the controller, cyclically; the wait grows by one step each time the list has been
  exhausted, and only then.
\<close>

theorem stun_servers_in_turn:
  assumes "su_sockets st = Some \<lparr>tun_socket_v4 = True, tun_socket_v6 = v6\<rparr>" and "i = current_server_index st"
    and "i < length (su_servers st)" and "stun_state st \<in> {WaitingForWg, SearchingForServer}"
    and "current_proto st = (if v6 then ProtoIPv6 else ProtoIPv4)"
    and "length as = (if v6 then 3 else 2) * k" and "timeouts E P h as st = (os, st')"
  shows "published_servers os = map (\<lambda>j. Some (su_servers st ! ((i + j) mod length (su_servers st)))) [1..<k + 1]
    \<and> current_server_index st' = (i + k) mod length (su_servers st)
    \<and> su_exponential_backoff st' = (bo_next (su_backoff_ops E) ^^ ((i + k) div length (su_servers st))) (su_exponential_backoff st)"
proof -
  let ?ss = "su_servers st" and ?B = "bo_next (su_backoff_ops E)" and ?w = "if v6 then 3 else 2 :: nat"
  have "published_servers os = map (\<lambda>j. Some (?ss ! ((i + j) mod length ?ss))) [1..<k + 1]
      \<and> searching v6 v6 ?ss ((i + k) mod length ?ss) ((?B ^^ ((i + k) div length ?ss)) (su_exponential_backoff st)) st'"
    using assms(6,7)
  proof (induction k arbitrary: as os st')
    case 0
    with assms(1-5) show ?case by (simp add: searching_def)
  next
    case (Suc k)
    let ?as = "take (?w * k) as" and ?bs = "drop (?w * k) as"
    obtain os1 st1 where 1: "timeouts E P h ?as st = (os1, st1)" by (cases "timeouts E P h ?as st")
    obtain os2 where 2: "timeouts E P h ?bs st1 = (os2, st')" and os: "os = os1 @ os2"
      using Suc.prems(2) timeouts_append [of E P h ?as ?bs st] 1 by (auto split: prod.splits)
    have IH: "published_servers os1 = map (\<lambda>j. Some (?ss ! ((i + j) mod length ?ss))) [1..<k + 1]
        \<and> searching v6 v6 ?ss ((i + k) mod length ?ss) ((?B ^^ ((i + k) div length ?ss)) (su_exponential_backoff st)) st1"
      using Suc.prems(1) 1 by (intro Suc.IH) auto
    have lt: "(i + k) mod length ?ss < length ?ss" using assms(3) by (intro mod_less_divisor) auto
    have s: "Suc (i + k) = i + Suc k" by simp
    have b: "(if Suc ((i + k) mod length ?ss) = length ?ss then ?B ((?B ^^ ((i + k) div length ?ss)) x)
        else (?B ^^ ((i + k) div length ?ss)) x) = (?B ^^ ((i + Suc k) div length ?ss)) x" for x
      unfolding s [symmetric] by (simp add: div_Suc mod_Suc)
    have "length ?bs = ?w" using Suc.prems(1) by simp
    from server_round [OF IH [THEN conjunct2] lt this 2] IH os show ?case
      by (simp add: mod_Suc_eq b)
  qed
  then show ?thesis by (simp add: searching_def)
qed

section \<open>A search that is answered\<close>

text \<open>
  C32. A search ends with the endpoint: when both answers of the current session arrive, in either order, the
  provider has the candidate made of the two addresses, announces it if it is new, and waits for
  the first interval of its backoff before it asks again.
\<close>

theorem stun_search_finds_endpoint:
  assumes "backoff (su_backoff_ops E) invar first" and "invar (su_exponential_backoff st)"
    and "su_servers st \<noteq> []" and "get_socket st \<noteq> None" and "stun_state st \<noteq> StunPaused"
    and "stun_session st = Some \<lparr>ses_wg = Waiting wg t, ses_udp = Waiting udp t'\<rparr>" and "wg \<noteq> udp"
    and "decode_response E p = Inr (a, t)" and "decode_response E p' = Inr (b, t')"
    and "(ev, ev') = (TunRecv p wg, ExtRecv p' udp) \<or> (ev, ev') = (ExtRecv p' udp, TunRecv p wg)"
    and "stun_wait E A1 A2 q P h ev st = (os, st1)" and "stun_wait E A3 A4 q' P' h' ev' st1 = (os', st2)"
  shows "os = [] \<and> os' = (if change_event st \<and> last_candidates st \<noteq> [\<lparr>cand_wg = a, cand_udp = b\<rparr>]
        then [CandidatesChanged [\<lparr>cand_wg = a, cand_udp = b\<rparr>]] else [])
    \<and> stun_state st2 = HasEndpoints \<and> stun_session st2 = None \<and> last_candidates st2 = [\<lparr>cand_wg = a, cand_udp = b\<rparr>]
    \<and> current_timeout st2 = first (su_exponential_backoff st)"
proof -
  have sock: "su_sockets st \<noteq> None" using assms(4) by (cases "su_sockets st") (auto simp: get_socket_def)
  have get: "get_socket (st\<lparr>stun_session := x\<rparr>) = get_socket st" for x
    by (cases "su_sockets st") (simp_all add: get_socket_def is_in_ipv6_mode_def ipv6_is_enabled_def)
  note defs = stun_wait_def stun_handle_rx_def try_handle_stun_rx_def try_consume_def try_update_def
    transition_to_has_endpoints_state_def Let_def get sock backoff.get_reset [OF assms(1,2)]
  from assms(10) show ?thesis
  proof
    assume ev: "(ev, ev') = (TunRecv p wg, ExtRecv p' udp)"
    with assms(3-9,11) sock have st1: "os = []" "st1 = st\<lparr>stun_session := Some \<lparr>ses_wg = Result a, ses_udp = Waiting udp t'\<rparr>\<rparr>"
      by (auto simp: defs)
    with assms(3-9,12) sock ev show ?thesis by (auto simp: defs)
  next
    assume ev: "(ev, ev') = (ExtRecv p' udp, TunRecv p wg)"
    with assms(3-9,11) sock have st1: "os = []" "st1 = st\<lparr>stun_session := Some \<lparr>ses_wg = Waiting wg t, ses_udp = Result b\<rparr>\<rparr>"
      by (auto simp: defs)
    with assms(3-9,12) sock ev show ?thesis by (auto simp: defs)
  qed
qed

section \<open>Where the provider falls short\<close>

text \<open>A server without a plaintext port makes every configuration a change: the search starts over with the first server.\<close>

lemma port_zero_restarts_search:
  assumes "s \<in> set servers" and "stun_plaintext_port s = 0"
    and "su_servers st = filter (\<lambda>s. stun_plaintext_port s \<noteq> 0) (sort_key (\<lambda>s. (srv_weight s, srv_public_key s)) servers)"
    and "stun_state st = StunPaused"
  shows "fst (configure_with_ext_socket_addr E A True S servers v6 st) = [PeerPublished (if su_servers st = [] then None else Some (su_servers st ! 0))]
    \<and> current_server_index (snd (configure_with_ext_socket_addr E A True S servers v6 st)) = 0"
proof -
  have "length (filter (\<lambda>s. stun_plaintext_port s \<noteq> 0) (sort_key (\<lambda>s. (srv_weight s, srv_public_key s)) servers)) < length servers"
    using assms(1,2) length_filter_less [of s "sort_key (\<lambda>s. (srv_weight s, srv_public_key s)) servers"] by auto
  then have "\<not> servers_eq (su_servers st) (sort_key (\<lambda>s. (srv_weight s, srv_public_key s)) servers)"
    using assms(3) list_all2_lengthD by (fastforce simp: servers_eq_def)
  with assms(3,4) show ?thesis
    by (auto simp: configure_with_ext_socket_addr_def Let_def current_server_def)
qed

text \<open>A packet of a server that does not decode ends the session, although the real answer may still come.\<close>

lemma garbled_packet_ends_session:
  assumes "stun_session st = Some \<lparr>ses_wg = Waiting wg t, ses_udp = u\<rparr>" and "decode_response E p = Inl e"
  shows "stun_session (snd (snd (try_handle_stun_rx E p wg st))) = None"
  using assms by (simp add: try_handle_stun_rx_def try_consume_def try_update_def)

text \<open>A session that is open, to whatever server, keeps a new configuration from asking the servers it names.\<close>

lemma open_session_blocks_requests:
  assumes "stun_session st \<noteq> None"
  shows "StunSent sock addr p \<notin> set (fst (configure_with_ext_socket_addr E A q S servers v6 st))"
proof -
  obtain os st' where conf: "configure_with_ext_socket_addr E A q S servers v6 st = (os, st')"
    by (cases "configure_with_ext_socket_addr E A q S servers v6 st")
  then obtain os1 st1 where c: "set os1 \<subseteq> range PeerPublished" "stun_session st1 = stun_session st"
    "os = os1 \<and> st' = st1 \<or> (\<exists>os'. os = os1 @ os' \<and> try_transition_to_searching_for_server E A (transition_to_wait_for_wg st1) = (os', st'))"
    by (rule configure_split)
  have "os' = []" if "try_transition_to_searching_for_server E A (transition_to_wait_for_wg st1) = (os', st')" for os'
    using that assms c(2) by (auto simp: try_transition_to_searching_for_server_def start_stun_session_def transition_to_wait_for_wg_def
        split: if_splits)
  with c(1,3) conf show ?thesis by auto
qed

text \<open>A paused provider neither answers nor searches, whatever arrives.\<close>

lemma paused_provider_is_silent: "stun_state st = StunPaused \<Longrightarrow> stun_wait E A A' p P h ev st = ([], st)"
  by (simp add: stun_wait_def)

section \<open>Samples\<close>

definition sample_stun :: "(StdIpAddr, ExponentialBackoff) stun_env" where
  "sample_stun = \<lparr>sc_request = (\<lambda>tid software. Inr tid),
     sc_decode = (\<lambda>p. case p of [t, x] \<Rightarrow> Inr \<lparr>sa_tid = [t], sa_xor_mapped = Some (SockV4 (ucast x) 99), sa_mapped = None\<rparr>
        | _ \<Rightarrow> Inl ''short''),
     su_net_addr = (\<lambda>n. n), su_backoff_ops = exponential_backoff, su_pp = sample_pp\<rparr>"

definition stun_server :: "u32 \<Rightarrow> DerpServer" where
  "stun_server n = \<lparr>srv_ipv4 = n, stun_port = 3479, srv_public_key = PublicKey [ucast n], srv_region_code = ''nl'',
     srv_name = ''nl'', srv_hostname = ''nl'', relay_port = 8765, stun_plaintext_port = 3480, srv_weight = n,
     use_plain_text = True, conn_state = RelayDisconnected\<rparr>"

definition sample_answers :: "StdIpAddr start_answers" where
  "sample_answers = (let i = Interface_default\<lparr>peers := [(PublicKey [1], Peer_default\<lparr>allowed_ips := [V4 100], endpoint := Some (SockV4 5 51820)\<rparr>)]\<rparr>
     in \<lparr>an_ready = Some i, an_interface = Some i, an_tid_wg = [1], an_tid_udp = [2], an_send_wg = Inr (), an_send_udp = Inr ()\<rparr>)"

definition sample_provider :: "ExponentialBackoff StunProvider" where
  "sample_provider = (start_with_exp_backoff \<lparr>bo_bounds = \<lparr>bo_initial = 10, bo_maximal = Some 30\<rparr>, current_backoff = 10\<rparr> False)
     \<lparr>su_servers := [stun_server 1, stun_server 2], su_sockets := Some \<lparr>tun_socket_v4 = True, tun_socket_v6 = False\<rparr>,
      current_proto := ProtoIPv4, change_event := True,
      stun_session := Some \<lparr>ses_wg = Waiting (SockV4 100 3479) [1], ses_udp = Waiting (SockV4 5 3480) [2]\<rparr>,
      stun_state := SearchingForServer\<rparr>"

definition sample_pings :: ping_answers where
  "sample_pings = \<lparr>pa_random = sample_random, pa_nonce = replicate 24 3, pa_micros = 6, pa_send = Inr (), pa_pong_open = True\<rparr>"

abbreviation sample_pp_handler :: PingPongHandler where "sample_pp_handler \<equiv> sample_handler 1 Map.empty"

theorem stun_search_finds_endpoint_witness:
  "\<exists>st. stun_wait sample_stun sample_answers sample_answers True sample_pings sample_pp_handler (ExtRecv [2, 8] (SockV4 5 3480)) sample_provider = ([], st)
    \<and> (\<exists>st2. stun_wait sample_stun sample_answers sample_answers True sample_pings sample_pp_handler (TunRecv [1, 7] (SockV4 100 3479)) st =
          ([CandidatesChanged [\<lparr>cand_wg = SockV4 7 99, cand_udp = SockV4 8 99\<rparr>]], st2)
        \<and> stun_state st2 = HasEndpoints \<and> current_timeout st2 = 10)"
proof -
  have d: "decode_response sample_stun [1, 7] = Inr (SockV4 7 99, [1])" "decode_response sample_stun [2, 8] = Inr (SockV4 8 99, [2])"
    by (simp_all add: decode_response_def sample_stun_def)
  have b: "backoff (su_backoff_ops sample_stun) backoff_ok (bo_initial \<circ> bo_bounds)"
    by (simp add: sample_stun_def exponential.backoff_axioms)
  have sample: "backoff_ok (su_exponential_backoff sample_provider)" "su_servers sample_provider \<noteq> []" "get_socket sample_provider \<noteq> None"
    "stun_state sample_provider \<noteq> StunPaused"
    "stun_session sample_provider = Some \<lparr>ses_wg = Waiting (SockV4 100 3479) [1], ses_udp = Waiting (SockV4 5 3480) [2]\<rparr>"
    by (simp_all add: sample_provider_def start_with_exp_backoff_def backoff_ok_def get_socket_def is_in_ipv6_mode_def ipv6_is_enabled_def)
  obtain os st where 1: "stun_wait sample_stun sample_answers sample_answers True sample_pings sample_pp_handler (ExtRecv [2, 8] (SockV4 5 3480)) sample_provider = (os, st)"
    by (cases "stun_wait sample_stun sample_answers sample_answers True sample_pings sample_pp_handler (ExtRecv [2, 8] (SockV4 5 3480)) sample_provider")
  obtain os2 st2 where 2: "stun_wait sample_stun sample_answers sample_answers True sample_pings sample_pp_handler (TunRecv [1, 7] (SockV4 100 3479)) st = (os2, st2)"
    by (cases "stun_wait sample_stun sample_answers sample_answers True sample_pings sample_pp_handler (TunRecv [1, 7] (SockV4 100 3479)) st")
  from stun_search_finds_endpoint [OF b sample _ d disjI2 [OF refl] 1 2] 1 2 show ?thesis
    by (simp add: sample_provider_def start_with_exp_backoff_def)
qed

theorem stun_servers_in_turn_witness:
  "published_servers (fst (timeouts sample_stun sample_pings sample_pp_handler (replicate 6 (sample_answers, sample_answers)) sample_provider)) =
     [Some (stun_server 2), Some (stun_server 1), Some (stun_server 2)]
   \<and> current_server_index (snd (timeouts sample_stun sample_pings sample_pp_handler (replicate 6 (sample_answers, sample_answers)) sample_provider)) = 1
   \<and> current_backoff (su_exponential_backoff (snd (timeouts sample_stun sample_pings sample_pp_handler (replicate 6 (sample_answers, sample_answers)) sample_provider))) = 20"
proof -
  let ?as = "replicate 6 (sample_answers, sample_answers)"
  obtain os st where t: "timeouts sample_stun sample_pings sample_pp_handler ?as sample_provider = (os, st)" by (cases "timeouts sample_stun sample_pings sample_pp_handler ?as sample_provider")
  have sample: "su_sockets sample_provider = Some \<lparr>tun_socket_v4 = True, tun_socket_v6 = False\<rparr>" "0 = current_server_index sample_provider"
    "0 < length (su_servers sample_provider)" "stun_state sample_provider \<in> {WaitingForWg, SearchingForServer}"
    "current_proto sample_provider = (if False then ProtoIPv6 else ProtoIPv4)" "length ?as = (if False then 3 else 2) * 3"
    and ss: "su_servers sample_provider = [stun_server 1, stun_server 2]"
    by (simp_all add: sample_provider_def start_with_exp_backoff_def)
  have js: "[1..<3 + 1] = [1, 2, 3 :: nat]" and l: "length [stun_server 1, stun_server 2] = (2 :: nat)" by (simp_all add: upt_rec)
  have "published_servers os = [Some (stun_server 2), Some (stun_server 1), Some (stun_server 2)] \<and> current_server_index st = 1
      \<and> su_exponential_backoff st = next_backoff (su_exponential_backoff sample_provider)"
    using stun_servers_in_turn [OF sample t, unfolded ss js l] by (simp add: sample_stun_def exponential_backoff_def)
  then show ?thesis using t
    by (simp add: sample_provider_def start_with_exp_backoff_def next_backoff_def EXPONENTIAL_BACKOFF_MULTIPLIER_def)
qed

text \<open>The trace of a run, to compute with.\<close>

fun stun_trace :: "('n, 'b) stun_env \<Rightarrow> 'n stun_input list \<Rightarrow> 'b StunProvider \<Rightarrow> ('n stun_input \<times> stun_out list) list \<times> 'b StunProvider" where
  "stun_trace E [] st = ([], st)"
| "stun_trace E (i # is) st =
     (case stun_step E i st of (os, st) \<Rightarrow> (case stun_trace E is st of (tr, st) \<Rightarrow> ((i, os) # tr, st)))"

lemma trace_reachable: "stun_reachable E tr0 st0 \<Longrightarrow> stun_trace E is st0 = (tr, st) \<Longrightarrow> stun_reachable E (tr0 @ tr) st"
proof (induction "is" arbitrary: tr0 st0 tr)
  case (Cons i "is")
  obtain os st1 where 1: "stun_step E i st0 = (os, st1)" by (cases "stun_step E i st0")
  obtain tr1 where 2: "stun_trace E is st1 = (tr1, st)" "tr = (i, os) # tr1" using Cons.prems(2) 1 by (auto split: prod.splits)
  from Cons.IH [OF stun_reachable.step [OF Cons.prems(1) 1] 2(1)] 2(2) show ?case by simp
qed simp

definition sample_inputs :: "StdIpAddr stun_input list" where
  "sample_inputs = [SubscribeCandidates,
     StunConfigure sample_answers True \<lparr>open_v4 = True, open_v6 = False, open_ext = True\<rparr> [stun_server 1] False,
     StunRound sample_answers sample_answers True sample_pings sample_pp_handler (TunRecv [1, 7] (SockV4 100 3479)),
     StunRound sample_answers sample_answers True sample_pings sample_pp_handler (ExtRecv [2, 8] (SockV4 5 3480))]"

definition sample_start :: "ExponentialBackoff StunProvider" where
  "sample_start = start_with_exp_backoff \<lparr>bo_bounds = \<lparr>bo_initial = 10, bo_maximal = Some 30\<rparr>, current_backoff = 10\<rparr> False"

lemma sample_configured:
  "configure_with_ext_socket_addr sample_stun sample_answers True \<lparr>open_v4 = True, open_v6 = False, open_ext = True\<rparr> [stun_server 1] False
     (subscribe_for_endpoint_candidates_change_events sample_start) =
   ([PeerPublished (Some (stun_server 1)), StunSent TunV4 (SockV4 100 3479) [1], StunSent External (SockV4 5 3480) [2]],
    sample_provider\<lparr>su_servers := [stun_server 1]\<rparr>)"
  by (simp add: configure_with_ext_socket_addr_def Let_def ipv6_is_enabled_def is_in_ipv6_mode_def servers_eq_def
      try_transition_to_searching_for_server_def start_stun_session_def transition_to_wait_for_wg_def is_wg_ready_def current_server_def
      get_stun_endpoints_def get_socket_def StunSession_start_def new_request_def sample_stun_def sample_answers_def stun_server_def
      subscribe_for_endpoint_candidates_change_events_def sample_start_def sample_provider_def start_with_exp_backoff_def
      is_ipv6_def exponential_backoff_def reset_backoff_def sock_new_def sock_ip_def Interface_default_def Peer_default_def)

theorem stun_candidates_are_authentic_witness:
  "\<exists>tr st. stun_reachable sample_stun tr st \<and> last_candidates st = [\<lparr>cand_wg = SockV4 7 99, cand_udp = SockV4 8 99\<rparr>]
    \<and> (\<exists>before x after wg t udp t'. tr = before @ x # after \<and> asked sample_stun (snd x) wg t udp t'
      \<and> answered sample_stun after wg t (SockV4 7 99) \<and> answered sample_stun after udp t' (SockV4 8 99))"
proof -
  obtain tr st where t: "stun_trace sample_stun sample_inputs sample_start = (tr, st)"
    by (cases "stun_trace sample_stun sample_inputs sample_start")
  have sub: "stun_step sample_stun SubscribeCandidates sample_start = ([], subscribe_for_endpoint_candidates_change_events sample_start)" by simp
  let ?ses = "\<lambda>w. Some \<lparr>ses_wg = w, ses_udp = Waiting (SockV4 5 3480) [2]\<rparr>"
  have 1: "stun_wait sample_stun sample_answers sample_answers True sample_pings sample_pp_handler (TunRecv [1, 7] (SockV4 100 3479))
      (sample_provider\<lparr>su_servers := [stun_server 1]\<rparr>) =
      ([], sample_provider\<lparr>su_servers := [stun_server 1], stun_session := ?ses (Result (SockV4 7 99))\<rparr>)"
    by (simp add: stun_wait_def sample_provider_def start_with_exp_backoff_def get_socket_def is_in_ipv6_mode_def ipv6_is_enabled_def
        try_handle_stun_rx_def try_consume_def try_update_def decode_response_def sample_stun_def)
  have "last_candidates (snd (stun_wait sample_stun sample_answers sample_answers True sample_pings sample_pp_handler (ExtRecv [2, 8] (SockV4 5 3480))
      (sample_provider\<lparr>su_servers := [stun_server 1], stun_session := ?ses (Result (SockV4 7 99))\<rparr>))) =
      [\<lparr>cand_wg = SockV4 7 99, cand_udp = SockV4 8 99\<rparr>]"
    by (simp add: stun_wait_def sample_provider_def start_with_exp_backoff_def get_socket_def is_in_ipv6_mode_def ipv6_is_enabled_def
        stun_handle_rx_def try_handle_stun_rx_def try_consume_def try_update_def decode_response_def sample_stun_def
        transition_to_has_endpoints_state_def Let_def)
  with t sample_configured 1 have last: "last_candidates st = [\<lparr>cand_wg = SockV4 7 99, cand_udp = SockV4 8 99\<rparr>]"
    unfolding sample_inputs_def by (auto split: prod.splits)
  have reach: "stun_reachable sample_stun tr st"
    using trace_reachable [OF stun_reachable.start t [unfolded sample_start_def]] by simp
  have "\<lparr>cand_wg = SockV4 7 99, cand_udp = SockV4 8 99\<rparr> \<in> set (last_candidates st)" by (simp add: last)
  from stun_candidates_are_authentic [OF reach disjI1 [OF this], unfolded EndpointCandidate.select_convs] last reach
  show ?thesis by blast
qed

end
