(* ===== verification/Starcast_Checksum.thy ===== *)
theory Starcast_Checksum
  imports Byte_Order
begin

text \<open>
  Incremental checksums of the multicast address translation
  (crates/telio-starcast/src/utils.rs, module \<open>checksum\<close>). The reference is the Internet checksum: the
  complement of the sum of the 16-bit words with end-around carry. The lemmas show that the 32-bit
  accumulator of the code does not overflow, that the folding loop ends, and that the incremental update
  gives the checksum of the changed words.
\<close>

unbundle bit_operations_syntax

section \<open>The code\<close>

text \<open>The two halves of a word, which the loop of \<open>fold_checksum\<close> adds.\<close>

lemma halves:
  "unat (drop_bit 16 (s :: u32)) = unat s div 65536" "unat (s AND 0xFFFF :: u32) = unat s mod 65536"
proof -
  show "unat (drop_bit 16 s) = unat s div 65536"
    by (simp add: drop_bit_eq_div unat_div)
  have "s AND 0xFFFF = take_bit 16 s" by (simp add: take_bit_eq_mask mask_eq_exp_minus_1)
  then show "unat (s AND 0xFFFF) = unat s mod 65536"
    by (simp add: take_bit_eq_mod unat_mod)
qed

lemma unat_add_halves: "unat (drop_bit 16 s + (s AND 0xFFFF) :: u32) = unat s div 65536 + unat s mod 65536"
proof -
  have "unat s < 2 ^ 32" using unsigned_less [of s] by simp
  moreover have "unat s div 65536 + unat s mod 65536 \<le> unat s"
    using div_mult_mod_eq [of "unat s" 65536] by linarith
  ultimately have "unat s div 65536 + unat s mod 65536 < 2 ^ 32" by (rule le_less_trans [rotated])
  then show ?thesis by (simp add: unat_word_ariths halves)
qed

lemma high_half_zero: "drop_bit 16 (s :: u32) = 0 \<longleftrightarrow> unat s < 65536"
  using halves(1) [of s] by (metis div_eq_0_iff unat_eq_zero zero_neq_numeral)

function fold_checksum :: "u32 \<Rightarrow> u16" where
  "fold_checksum s =
     (if drop_bit 16 s \<noteq> 0 then fold_checksum (drop_bit 16 s + (s AND 0xFFFF)) else ucast s)"
  by pat_completeness auto
termination
proof (relation "measure unat")
  fix s :: u32
  assume "drop_bit 16 s \<noteq> 0"
  then have "0 < unat s div 65536" by (simp add: high_half_zero div_greater_zero_iff)
  then have "unat s div 65536 + unat s mod 65536 < unat s"
    using div_mult_mod_eq [of "unat s" 65536] by linarith
  then show "(drop_bit 16 s + (s AND 0xFFFF), s) \<in> measure unat" by (simp add: unat_add_halves)
qed simp

declare fold_checksum.simps [simp del]

definition add_u16 :: "u32 \<Rightarrow> u16 \<Rightarrow> u32" where "add_u16 s d = s + ucast d"
definition sub_u16 :: "u32 \<Rightarrow> u16 \<Rightarrow> u32" where "sub_u16 s d = s + ucast (NOT d)"

definition op_on_u16s :: "u32 \<Rightarrow> bytes \<Rightarrow> (u32 \<Rightarrow> u16 \<Rightarrow> u32) \<Rightarrow> u32" where
  "op_on_u16s s d oper =
     fold (\<lambda>i s. oper s (u16_from_be_bytes (take 2 (drop (i * 2) d)))) [0..<length d div 2] s"

definition add_bytes :: "u32 \<Rightarrow> bytes \<Rightarrow> u32" where "add_bytes s d = op_on_u16s s d add_u16"
definition sub_bytes :: "u32 \<Rightarrow> bytes \<Rightarrow> u32" where "sub_bytes s d = op_on_u16s s d sub_u16"

definition ipv4_header_update :: "u16 \<Rightarrow> u32 \<Rightarrow> u32 \<Rightarrow> u16" where
  "ipv4_header_update old_checksum old_ip_addr new_ip_addr =
     (let s = ucast (NOT old_checksum);
          s = sub_bytes s (put_u32 old_ip_addr);
          s = add_bytes s (put_u32 new_ip_addr)
      in NOT (fold_checksum s))"

definition ipv4_udp_header_update :: "u16 \<Rightarrow> u32 \<Rightarrow> u32 \<Rightarrow> u16 \<Rightarrow> u16 \<Rightarrow> u16" where
  "ipv4_udp_header_update old_checksum old_ip_addr new_ip_addr old_port new_port =
     (let s = ucast (NOT old_checksum);
          s = sub_bytes s (put_u32 old_ip_addr);
          s = add_bytes s (put_u32 new_ip_addr);
          s = sub_u16 s old_port;
          s = add_u16 s new_port
      in NOT (fold_checksum s))"

definition ipv6_udp_header_update :: "u16 \<Rightarrow> u128 \<Rightarrow> u128 \<Rightarrow> u16 \<Rightarrow> u16 \<Rightarrow> u16" where
  "ipv6_udp_header_update old_checksum old_ip_addr new_ip_addr old_port new_port =
     (let s = ucast (NOT old_checksum);
          s = sub_bytes s (put_u128 old_ip_addr);
          s = add_bytes s (put_u128 new_ip_addr);
          s = sub_u16 s old_port;
          s = add_u16 s new_port
      in NOT (fold_checksum s))"

section \<open>The reference\<close>

text \<open>Sixteen-bit addition with end-around carry, and the checksum of a sequence of words.\<close>

definition ones_add :: "nat \<Rightarrow> u16 \<Rightarrow> nat" where
  "ones_add a w = (let t = a + unat w in if 65535 < t then t - 65535 else t)"

definition internet_checksum :: "u16 list \<Rightarrow> u16" where
  "internet_checksum ws = NOT (word_of_nat (foldl ones_add 0 ws))"

definition be_words :: "bytes \<Rightarrow> u16 list" where
  "be_words d = map (\<lambda>i. u16_from_be_bytes (take 2 (drop (i * 2) d))) [0..<length d div 2]"

text \<open>The representative of a sum modulo 65535: 0 only for 0.\<close>

definition folded :: "nat \<Rightarrow> nat" where "folded n = (if n = 0 then 0 else (n - 1) mod 65535 + 1)"

definition total :: "u16 list \<Rightarrow> nat" where "total ws = sum_list (map unat ws)"

lemma total_simps [simp]: "total [] = 0" "total (w # ws) = unat w + total ws" "total (ws @ vs) = total ws + total vs"
  by (simp_all add: total_def)

lemma total_pos: "0 < total ws \<longleftrightarrow> (\<exists>w \<in> set ws. w \<noteq> 0)"
  by (induction ws) (auto simp: unat_gt_0)

lemma folded_shift:
  assumes "0 < n"
  shows "folded (n + 65535 * k) = folded n"
proof -
  have "n + 65535 * k - 1 = (n - 1) + 65535 * k" using assms by simp
  then have "(n + 65535 * k - 1) mod 65535 = (n - 1) mod 65535" by (simp only: mod_mult_self2)
  then show ?thesis using assms unfolding folded_def by simp
qed

lemma folded_small: "n \<le> 65535 \<Longrightarrow> folded n = n"
  by (auto simp: folded_def)

lemma folded_le: "folded n \<le> 65535"
  by (simp add: folded_def Suc_le_eq)

lemma folded_pos: "0 < folded n \<longleftrightarrow> 0 < n"
  by (simp add: folded_def)

lemma folded_split: "\<exists>q. n = folded n + 65535 * q"
proof (cases "n = 0")
  case False
  then have "n = folded n + 65535 * ((n - 1) div 65535)"
    using div_mult_mod_eq [of "n - 1" 65535] unfolding folded_def by simp
  then show ?thesis ..
qed (simp add: folded_def)

lemma folded_add: "folded (folded a + b) = folded (a + b)"
proof (cases "a = 0")
  case False
  from folded_split obtain q where q: "a = folded a + 65535 * q" by blast
  have "a + b = folded a + b + 65535 * q" using q by linarith
  then have "folded (a + b) = folded (folded a + b + 65535 * q)" by (rule arg_cong)
  also have "\<dots> = folded (folded a + b)" using False folded_pos [of a] by (intro folded_shift) simp
  finally show ?thesis ..
qed (simp add: folded_def)

section \<open>The accumulator\<close>

lemma unat_fold_checksum: "unat (fold_checksum s) = folded (unat s)"
proof (induction s rule: fold_checksum.induct)
  case (1 s)
  show ?case
  proof (cases "drop_bit 16 s = 0")
    case True
    then have "unat s < 65536" by (simp add: high_half_zero)
    then show ?thesis using True
      by (simp add: fold_checksum.simps [of s] unsigned_ucast_eq take_bit_eq_mod folded_small)
  next
    case False
    let ?h = "unat s div 65536" and ?l = "unat s mod 65536"
    have "0 < ?h" using False by (simp add: high_half_zero div_greater_zero_iff)
    moreover have "unat s = (?h + ?l) + 65535 * ?h" using div_mult_mod_eq [of "unat s" 65536] by linarith
    ultimately have "folded (unat s) = folded (?h + ?l)"
      using folded_shift [of "?h + ?l" ?h] by simp
    with False show ?thesis using 1 [OF False]
      by (simp add: fold_checksum.simps [of s] unat_add_halves)
  qed
qed

lemma op_on_u16s_words: "op_on_u16s s d oper = foldl oper s (be_words d)"
  by (simp add: op_on_u16s_def be_words_def foldl_conv_fold fold_map comp_def)

lemma unat_not: "unat (NOT w :: u16) = 65535 - unat w"
proof -
  have "NOT w = - 1 - w" by (simp add: not_eq_complement)
  then have "unat (NOT w) = unat (- 1 :: u16) - unat w" by (simp only: unat_sub [OF word_n1_ge])
  then show ?thesis by (simp add: unsigned_minus_1_eq_mask mask_eq_exp_minus_1)
qed

lemma unat_u16_le: "unat (w :: u16) \<le> 65535"
proof -
  have "unat w < 2 ^ 16" using unsigned_less [of w] by simp
  then show ?thesis by simp
qed

lemma total_le: "total ws \<le> 65535 * length ws"
proof (induction ws)
  case (Cons w ws)
  then show ?case using unat_u16_le [of w] by simp
qed simp

lemma total_not: "total ws + total (map (\<lambda>w. NOT w) ws) = 65535 * length ws"
proof (induction ws)
  case (Cons w ws)
  then show ?case using unat_u16_le [of w] by (simp add: unat_not)
qed simp

lemma unat_add_u16: "unat s + unat d < 2 ^ 32 \<Longrightarrow> unat (add_u16 s d) = unat s + unat d"
  by (simp add: add_u16_def unat_word_ariths unsigned_ucast_eq take_bit_eq_mod)

lemma unat_sub_u16: "unat s + unat (NOT d) < 2 ^ 32 \<Longrightarrow> unat (sub_u16 s d) = unat s + unat (NOT d)"
  using unat_add_u16 [of s "NOT d"] by (simp only: sub_u16_def add_u16_def)

lemma unat_foldl_add: "unat s + total ws < 2 ^ 32 \<Longrightarrow> unat (foldl add_u16 s ws) = unat s + total ws"
  by (induction ws arbitrary: s) (simp_all add: unat_add_u16)

lemma unat_foldl_sub:
  "unat s + total (map (\<lambda>w. NOT w) ws) < 2 ^ 32 \<Longrightarrow>
     unat (foldl sub_u16 s ws) = unat s + total (map (\<lambda>w. NOT w) ws)"
proof (induction ws arbitrary: s)
  case (Cons w ws)
  then show ?case using unat_sub_u16 [of s w] by (simp del: unat_not)
qed simp

lemma ones_sum: "a \<le> 65535 \<Longrightarrow> foldl ones_add a ws = folded (a + total ws)"
proof (induction ws arbitrary: a)
  case (Cons w ws)
  have b: "ones_add a w \<le> 65535" using Cons.prems unat_u16_le [of w] by (auto simp: ones_add_def Let_def)
  have "ones_add a w = folded (a + unat w)"
  proof (cases "65535 < a + unat w")
    case True
    then have "folded (a + unat w) = folded ((a + unat w - 65535) + 65535 * 1)" by simp
    also have "\<dots> = folded (a + unat w - 65535)" using True by (intro folded_shift) simp
    finally show ?thesis using True b by (simp add: ones_add_def folded_small)
  qed (simp add: ones_add_def folded_small)
  then show ?case using Cons.IH [OF b] by (simp add: folded_add add.assoc)
qed (simp add: folded_small)

lemma complement_checksum: "unat (NOT (internet_checksum ws)) = folded (total ws)"
  using ones_sum [of 0 ws] folded_le [of "total ws"]
  by (simp add: internet_checksum_def unat_of_nat)

text \<open>The sum of the old complement, the complements of the old words and the new words folds to the new sum.\<close>

lemma update_folds:
  assumes "unat s = folded (r + total old) + total (map (\<lambda>w. NOT w) old) + total new" and "0 < r"
  shows "unat (fold_checksum s) = folded (r + total new)"
proof -
  have "folded (unat s) = folded (folded (r + total old) + (total (map (\<lambda>w. NOT w) old) + total new))"
    by (simp only: assms(1) add.assoc)
  also have "\<dots> = folded (r + total old + (total (map (\<lambda>w. NOT w) old) + total new))"
    by (rule folded_add)
  also have "\<dots> = folded ((r + total new) + 65535 * length old)"
    using total_not [of old] by (intro arg_cong [where f = folded]) linarith
  also have "\<dots> = folded (r + total new)" using assms(2) by (intro folded_shift) simp
  finally show ?thesis by (simp only: unat_fold_checksum)
qed

lemma checksum_eqI: "unat c = folded (total ws) \<Longrightarrow> NOT c = internet_checksum ws"
  using complement_checksum [of ws] by (metis bit.double_compl unsigned_word_eqI)

lemma length_be_words [simp]: "length (be_words d) = length d div 2"
  by (simp add: be_words_def)

section \<open>Incremental updates are exact\<close>

text \<open>One accumulation for all three: the words taken out, then the words put in.\<close>

lemma accumulated:
  assumes "length old + length new \<le> 100"
  shows "unat (foldl add_u16 (foldl sub_u16 (ucast (c :: u16)) old) new) =
      unat c + total (map (\<lambda>w. NOT w) old) + total new"
proof -
  have "unat c + total (map (\<lambda>w. NOT w) old) + total new \<le> 65535 * 101"
    using unat_u16_le [of c] total_le [of "map (\<lambda>w. NOT w) old"] total_le [of new] assms by simp
  then have "unat c + total (map (\<lambda>w. NOT w) old) + total new < 2 ^ 32" by (rule le_less_trans) simp
  then show ?thesis
    using unat_foldl_sub [of "ucast c" old] unat_foldl_add [of "foldl sub_u16 (ucast c) old" new]
    by (simp add: unsigned_ucast_eq take_bit_eq_mod)
qed

lemma sub_add_commute: "sub_u16 (add_u16 s a) b = add_u16 (sub_u16 s b) a"
  by (simp add: sub_u16_def add_u16_def add.commute add.left_commute)

lemma sub_foldl_add: "sub_u16 (foldl add_u16 s ws) b = foldl add_u16 (sub_u16 s b) ws"
  by (induction ws arbitrary: s) (simp_all add: sub_add_commute)

lemma update_exact:
  assumes "length old + length new \<le> 100" and "0 < total rest"
    and "total ws = total rest + total old" "total ws' = total rest + total new"
  shows "NOT (fold_checksum (foldl add_u16 (foldl sub_u16 (ucast (NOT (internet_checksum ws))) old) new)) =
      internet_checksum ws'"
proof (rule checksum_eqI)
  show "unat (fold_checksum (foldl add_u16 (foldl sub_u16 (ucast (NOT (internet_checksum ws))) old) new)) =
      folded (total ws')"
    unfolding assms(4)
    by (rule update_folds [where old = old])
      (simp_all only: accumulated [OF assms(1)] complement_checksum assms(3) assms(2))
qed

text \<open>
  C20. The incremental updates are exact: the IPv4 header checksum and the UDP checksums over IPv4 and
  IPv6 become the checksum of the words with the address and the port replaced, whenever one of the other
  words covered is not zero (the version of the header, the protocol number of the pseudo header).
\<close>

theorem incremental_checksum_exact:
  assumes "\<exists>w \<in> set (pre @ mid @ post). w \<noteq> 0"
  shows "ipv4_header_update (internet_checksum (pre @ be_words (put_u32 a) @ mid @ post)) a a' =
      internet_checksum (pre @ be_words (put_u32 a') @ mid @ post)
    \<and> ipv4_udp_header_update (internet_checksum (pre @ be_words (put_u32 a) @ mid @ [p] @ post)) a a' p p' =
      internet_checksum (pre @ be_words (put_u32 a') @ mid @ [p'] @ post)
    \<and> ipv6_udp_header_update (internet_checksum (pre @ be_words (put_u128 b) @ mid @ [p] @ post)) b b' p p' =
      internet_checksum (pre @ be_words (put_u128 b') @ mid @ [p'] @ post)"
proof (intro conjI)
  have pos: "0 < total (pre @ mid @ post)" using assms by (simp only: total_pos)
  note defs = Let_def sub_bytes_def add_bytes_def op_on_u16s_words sub_foldl_add
  show "ipv4_header_update (internet_checksum (pre @ be_words (put_u32 a) @ mid @ post)) a a' =
      internet_checksum (pre @ be_words (put_u32 a') @ mid @ post)"
    unfolding ipv4_header_update_def defs using pos
    by (intro update_exact [where rest = "pre @ mid @ post"]) simp_all
  show "ipv4_udp_header_update (internet_checksum (pre @ be_words (put_u32 a) @ mid @ [p] @ post)) a a' p p' =
      internet_checksum (pre @ be_words (put_u32 a') @ mid @ [p'] @ post)"
    using pos update_exact [where rest = "pre @ mid @ post" and old = "be_words (put_u32 a) @ [p]" and new = "be_words (put_u32 a') @ [p']"]
    unfolding ipv4_udp_header_update_def defs by simp
  show "ipv6_udp_header_update (internet_checksum (pre @ be_words (put_u128 b) @ mid @ [p] @ post)) b b' p p' =
      internet_checksum (pre @ be_words (put_u128 b') @ mid @ [p'] @ post)"
    using pos update_exact [where rest = "pre @ mid @ post" and old = "be_words (put_u128 b) @ [p]" and new = "be_words (put_u128 b') @ [p']"]
    unfolding ipv6_udp_header_update_def defs by simp
qed

theorem incremental_checksum_exact_witness:
  "ipv4_header_update (internet_checksum ([0x4500, 0x11] @ be_words (put_u32 0x64400001) @ [] @ [])) 0x64400001 0x64400005 =
      internet_checksum ([0x4500, 0x11] @ be_words (put_u32 0x64400005) @ [] @ [])"
  using incremental_checksum_exact [where pre = "[0x4500, 0x11]" and mid = "[]" and post = "[]" and a = "0x64400001" and a' = "0x64400005"]
  by simp

text \<open>
  The update may produce 0, which in UDP means that there is no checksum (it has to be sent as 0xFFFF): here
  the words of a datagram with the checksum 0xFFFE add up to 0xFFFF once the port has changed.
\<close>

lemma udp_checksum_may_vanish: "ipv4_udp_header_update 0xFFFE 0 0 0 0xFFFE = 0"
  by (simp add: ipv4_udp_header_update_def sub_bytes_def add_bytes_def op_on_u16s_def put_u32_def be_bytes_def
      u16_from_be_bytes_def from_be_bytes_def upt_rec sub_u16_def add_u16_def fold_checksum.simps
      Let_def unsigned_minus_1_eq_mask mask_eq_exp_minus_1)

end
