(* ===== verification/Starcast_Nat.thy ===== *)
theory Starcast_Nat
  imports Lru_Cache Starcast_Checksum
begin

text \<open>
  Address translation of multicast traffic (crates/telio-starcast/src/nat.rs and the trait
  \<open>MutableIpPacket\<close> of utils.rs). The packet views of the library pnet are parameters, the records
  \<open>pnet_ip\<close> and \<open>pnet_udp\<close>: functions on the bytes of a packet. What the code relies on is the locale
  \<open>packet_views\<close>: a field that was written is read back, and writing it leaves the other fields
  alone. The mappings are an LRU cache over any linked hash map that behaves as documented. An operation
  takes the times of its looks at the clock as an argument and returns its result, the packet it has
  rewritten in place, and the new state.
\<close>

section \<open>Packet views\<close>

record 'a pnet_ip =
  ip_new :: "bytes \<Rightarrow> bool"
  ip_protocol :: "bytes \<Rightarrow> u8"
  ip_get_source :: "bytes \<Rightarrow> 'a"
  ip_get_destination :: "bytes \<Rightarrow> 'a"
  ip_set_source :: "'a \<Rightarrow> bytes \<Rightarrow> bytes"
  ip_set_destination :: "'a \<Rightarrow> bytes \<Rightarrow> bytes"
  ip_get_checksum :: "bytes \<Rightarrow> u16"
  ip_set_checksum :: "u16 \<Rightarrow> bytes \<Rightarrow> bytes"
  ip_payload :: "bytes \<Rightarrow> bytes"
  ip_set_payload :: "bytes \<Rightarrow> bytes \<Rightarrow> bytes"

record pnet_udp =
  udp_new :: "bytes \<Rightarrow> bool"
  udp_get_source :: "bytes \<Rightarrow> u16"
  udp_get_destination :: "bytes \<Rightarrow> u16"
  udp_set_source :: "u16 \<Rightarrow> bytes \<Rightarrow> bytes"
  udp_set_destination :: "u16 \<Rightarrow> bytes \<Rightarrow> bytes"
  udp_get_checksum :: "bytes \<Rightarrow> u16"
  udp_set_checksum :: "u16 \<Rightarrow> bytes \<Rightarrow> bytes"

record pnet =
  pnet_v4 :: "u32 pnet_ip"
  pnet_v6 :: "u128 pnet_ip"
  pnet_udp :: pnet_udp

definition UDP :: u8 where "UDP = 17"

section \<open>The trait of the two families\<close>

record DualIpAddr =
  dual_ipv4 :: u32
  dual_ipv6 :: u128

text \<open>\<open>mp_into\<close> is the conversion of the address type into an \<open>IpAddr\<close>.\<close>

record 'a MutableIpPacket =
  mp_view :: "'a pnet_ip"
  mp_into :: "'a \<Rightarrow> StdIpAddr"
  fix_ip_header_checksum :: "'a \<Rightarrow> 'a \<Rightarrow> bytes \<Rightarrow> bytes"
  get_addr :: "DualIpAddr \<Rightarrow> 'a"
  get_ip_from_addr :: "SocketAddr \<Rightarrow> 'a option"
  calculate_udp_header_checksum_update :: "u16 \<Rightarrow> 'a \<Rightarrow> 'a \<Rightarrow> u16 \<Rightarrow> u16 \<Rightarrow> u16"

definition fix_ipv4_header_checksum :: "u32 pnet_ip \<Rightarrow> u32 \<Rightarrow> u32 \<Rightarrow> bytes \<Rightarrow> bytes" where
  "fix_ipv4_header_checksum V old_ip new_ip p =
     (let old_checksum = ip_get_checksum V p
      in if old_checksum \<noteq> 0 then ip_set_checksum V (ipv4_header_update old_checksum old_ip new_ip) p else p)"

definition MutableIpv4Packet :: "u32 pnet_ip \<Rightarrow> u32 MutableIpPacket" where
  "MutableIpv4Packet V =
     \<lparr>mp_view = V, mp_into = V4, fix_ip_header_checksum = fix_ipv4_header_checksum V, get_addr = dual_ipv4,
      get_ip_from_addr = (\<lambda>addr. case sock_ip addr of V4 ip \<Rightarrow> Some ip | _ \<Rightarrow> None),
      calculate_udp_header_checksum_update = ipv4_udp_header_update\<rparr>"

definition MutableIpv6Packet :: "u128 pnet_ip \<Rightarrow> u128 MutableIpPacket" where
  "MutableIpv6Packet V =
     \<lparr>mp_view = V, mp_into = V6, fix_ip_header_checksum = (\<lambda>_ _ p. p), get_addr = dual_ipv6,
      get_ip_from_addr = (\<lambda>addr. case sock_ip addr of V6 ip \<Rightarrow> Some ip | _ \<Rightarrow> None),
      calculate_udp_header_checksum_update = ipv6_udp_header_update\<rparr>"

section \<open>The translation\<close>

datatype NatError = PacketTooShort | UnexpectedIpVersion | UnexpectedTransportProtocol | CannotMap | MappingNotFound

type_synonym mapper = "SocketAddr \<Rightarrow> u16"
type_synonym 'm nat_ops = "(u16, SocketAddr TimedValue, 'm) lhm_ops"

record 'm StarcastNat =
  mappings :: "'m LruCache"
  vpeer_addr :: DualIpAddr
  nat_mapper :: mapper

definition StarcastNat_new_custom ::
  "'m nat_ops \<Rightarrow> u32 \<Rightarrow> u128 \<Rightarrow> nat \<Rightarrow> duration \<Rightarrow> mapper \<Rightarrow> 'm StarcastNat" where
  "StarcastNat_new_custom L vpeer_ipv4 vpeer_ipv6 cache_capacity cache_timeout m =
     \<lparr>mappings = lru_new L cache_timeout cache_capacity,
      vpeer_addr = \<lparr>dual_ipv4 = vpeer_ipv4, dual_ipv6 = vpeer_ipv6\<rparr>, nat_mapper = m\<rparr>"

text \<open>The default mapper hashes the address; the hash function of the standard library is a parameter.\<close>

definition octets_of :: "StdIpAddr \<Rightarrow> bytes" where
  "octets_of ip = (case ip of V4 a \<Rightarrow> put_u32 a | V6 a \<Rightarrow> put_u128 a)"

definition default_mapper :: "(bytes \<Rightarrow> u16 \<Rightarrow> u64) \<Rightarrow> mapper" where
  "default_mapper hash src_addr = ucast (hash (octets_of (sock_ip src_addr)) (sock_port src_addr))"

definition StarcastNat_new :: "'m nat_ops \<Rightarrow> (bytes \<Rightarrow> u16 \<Rightarrow> u64) \<Rightarrow> u32 \<Rightarrow> u128 \<Rightarrow> 'm StarcastNat" where
  "StarcastNat_new L hash vpeer_ipv4 vpeer_ipv6 =
     StarcastNat_new_custom L vpeer_ipv4 vpeer_ipv6 2048 (120 * 1000000000) (default_mapper hash)"

definition MAX_ATTEMPTS :: nat where "MAX_ATTEMPTS = 128"

text \<open>
  The loop that looks for a port; \<open>loop_guard\<close> counts its rounds, and round \<open>n\<close> looks at the
  clock at \<open>clk n\<close>. The result carries the number of rounds.
\<close>

function find_port ::
  "'m nat_ops \<Rightarrow> 'm StarcastNat \<Rightarrow> (nat \<Rightarrow> instant) \<Rightarrow> SocketAddr \<Rightarrow> u16 \<Rightarrow> nat \<Rightarrow> NatError + u16 \<times> nat" where
  "find_port L st clk old_src_addr nat_port loop_guard =
     (case peek L (mappings st) nat_port (clk loop_guard) of
        None \<Rightarrow> Inr (nat_port, loop_guard)
      | Some current_mapping \<Rightarrow>
          if current_mapping \<noteq> old_src_addr then
            (let nat_port' = nat_mapper st (sock_new (sock_ip old_src_addr) nat_port)
             in if loop_guard + 1 > MAX_ATTEMPTS then Inl CannotMap
                else find_port L st clk old_src_addr nat_port' (loop_guard + 1))
          else Inr (nat_port, loop_guard))"
  by pat_completeness auto
termination
  by (relation "measure (\<lambda>(L, st, clk, a, p, n). MAX_ATTEMPTS + 1 - n)") auto

declare find_port.simps [simp del]

definition translate_incoming_internal ::
  "'m nat_ops \<Rightarrow> 'a MutableIpPacket \<Rightarrow> pnet_udp \<Rightarrow> 'm StarcastNat \<Rightarrow> (nat \<Rightarrow> instant) \<Rightarrow> bytes
     \<Rightarrow> (NatError + StdIpAddr) \<times> bytes \<times> 'm StarcastNat" where
  "translate_incoming_internal L P U st clk packet =
     (let V = mp_view P in
      if \<not> ip_new V packet then (Inl PacketTooShort, packet, st)
      else if ip_protocol V packet \<noteq> UDP then (Inl UnexpectedTransportProtocol, packet, st)
      else
        let old_src_ip = ip_get_source V packet;
            new_src_ip = get_addr P (vpeer_addr st);
            packet = ip_set_source V new_src_ip packet;
            packet = fix_ip_header_checksum P old_src_ip new_src_ip packet;
            udp = ip_payload V packet
        in if \<not> udp_new U udp then (Inl PacketTooShort, packet, st)
           else
             let src_port = udp_get_source U udp;
                 old_src_addr = sock_new (mp_into P old_src_ip) src_port
             in case find_port L st clk old_src_addr (nat_mapper st old_src_addr) 0 of
                  Inl e \<Rightarrow> (Inl e, packet, st)
                | Inr (nat_port, n) \<Rightarrow>
                    let st = st\<lparr>mappings := lru_insert L (mappings st) nat_port old_src_addr (clk (n + 1))\<rparr>;
                        udp = udp_set_source U nat_port udp;
                        old_udp_checksum = udp_get_checksum U udp;
                        udp = (if old_udp_checksum \<noteq> 0
                               then udp_set_checksum U (calculate_udp_header_checksum_update P old_udp_checksum
                                      old_src_ip new_src_ip src_port nat_port) udp
                               else udp)
                    in (Inr (mp_into P old_src_ip), ip_set_payload V udp packet, st))"

definition translate_outgoing_internal ::
  "'m nat_ops \<Rightarrow> 'a MutableIpPacket \<Rightarrow> pnet_udp \<Rightarrow> 'm StarcastNat \<Rightarrow> instant \<Rightarrow> bytes
     \<Rightarrow> (NatError + StdIpAddr) \<times> bytes \<times> 'm StarcastNat" where
  "translate_outgoing_internal L P U st now packet =
     (let V = mp_view P in
      if \<not> ip_new V packet then (Inl PacketTooShort, packet, st)
      else if ip_protocol V packet \<noteq> UDP then (Inl UnexpectedTransportProtocol, packet, st)
      else
        let old_dst_ip = ip_get_destination V packet;
            udp = ip_payload V packet
        in if \<not> udp_new U udp then (Inl PacketTooShort, packet, st)
           else
             let dst_port = udp_get_destination U udp;
                 (found, ms) = lru_get L (mappings st) dst_port now;
                 st = st\<lparr>mappings := ms\<rparr>
             in case found of
                  None \<Rightarrow> (Inl MappingNotFound, packet, st)
                | Some new_dst_addr \<Rightarrow>
                    (case get_ip_from_addr P new_dst_addr of
                       None \<Rightarrow> (Inl MappingNotFound, packet, st)
                     | Some new_dst_ip \<Rightarrow>
                         let udp = udp_set_destination U (sock_port new_dst_addr) udp;
                             old_udp_checksum = udp_get_checksum U udp;
                             udp = (if old_udp_checksum \<noteq> 0
                                    then udp_set_checksum U (calculate_udp_header_checksum_update P old_udp_checksum
                                           old_dst_ip new_dst_ip dst_port (sock_port new_dst_addr)) udp
                                    else udp);
                             packet = ip_set_payload V udp packet;
                             packet = ip_set_destination V new_dst_ip packet;
                             packet = fix_ip_header_checksum P old_dst_ip new_dst_ip packet
                         in (Inr (mp_into P new_dst_ip), packet, st)))"

definition translate_incoming ::
  "'m nat_ops \<Rightarrow> pnet \<Rightarrow> 'm StarcastNat \<Rightarrow> (nat \<Rightarrow> instant) \<Rightarrow> bytes \<Rightarrow> (NatError + StdIpAddr) \<times> bytes \<times> 'm StarcastNat" where
  "translate_incoming L N st clk packet =
     (case packet of
        [] \<Rightarrow> (Inl PacketTooShort, packet, st)
      | b # _ \<Rightarrow>
          if drop_bit 4 b = 4 then translate_incoming_internal L (MutableIpv4Packet (pnet_v4 N)) (pnet_udp N) st clk packet
          else if drop_bit 4 b = 6 then translate_incoming_internal L (MutableIpv6Packet (pnet_v6 N)) (pnet_udp N) st clk packet
          else (Inl UnexpectedIpVersion, packet, st))"

definition translate_outgoing ::
  "'m nat_ops \<Rightarrow> pnet \<Rightarrow> 'm StarcastNat \<Rightarrow> instant \<Rightarrow> bytes \<Rightarrow> (NatError + StdIpAddr) \<times> bytes \<times> 'm StarcastNat" where
  "translate_outgoing L N st now packet =
     (case packet of
        [] \<Rightarrow> (Inl PacketTooShort, packet, st)
      | b # _ \<Rightarrow>
          if drop_bit 4 b = 4 then translate_outgoing_internal L (MutableIpv4Packet (pnet_v4 N)) (pnet_udp N) st now packet
          else if drop_bit 4 b = 6 then translate_outgoing_internal L (MutableIpv6Packet (pnet_v6 N)) (pnet_udp N) st now packet
          else (Inl UnexpectedIpVersion, packet, st))"

section \<open>Contracts\<close>

text \<open>
  The views of pnet: fields of an accepted buffer are read back as they were written and do not overlap;
  the payload is a part of the buffer of constant length.
\<close>

locale ip_view =
  fixes V :: "'a pnet_ip"
  assumes src_src: "ip_new V p \<Longrightarrow> ip_get_source V (ip_set_source V a p) = a"
    and dst_dst: "ip_new V p \<Longrightarrow> ip_get_destination V (ip_set_destination V a p) = a"
    and src_dst: "ip_new V p \<Longrightarrow> ip_get_source V (ip_set_destination V a p) = ip_get_source V p"
    and dst_src: "ip_new V p \<Longrightarrow> ip_get_destination V (ip_set_source V a p) = ip_get_destination V p"
    and new_set: "ip_new V p \<Longrightarrow> ip_new V (ip_set_source V a p) \<and> ip_new V (ip_set_destination V a p)"
    and first_set: "ip_new V p \<Longrightarrow> hd (ip_set_source V a p) = hd p \<and> hd (ip_set_destination V a p) = hd p"
    and pay_set: "ip_new V p \<Longrightarrow> ip_payload V (ip_set_source V a p) = ip_payload V p
        \<and> ip_payload V (ip_set_destination V a p) = ip_payload V p"
    and pay_pay: "ip_new V p \<Longrightarrow> length u = length (ip_payload V p) \<Longrightarrow> ip_payload V (ip_set_payload V u p) = u"
    and set_pay: "ip_new V p \<Longrightarrow> length u = length (ip_payload V p) \<Longrightarrow>
        ip_new V (ip_set_payload V u p) \<and> hd (ip_set_payload V u p) = hd p
        \<and> ip_get_source V (ip_set_payload V u p) = ip_get_source V p
        \<and> ip_get_destination V (ip_set_payload V u p) = ip_get_destination V p"

text \<open>The view of an IPv4 packet has a checksum field as well.\<close>

locale ip_checksum_view = ip_view V for V :: "'a pnet_ip" +
  assumes chk_frame: "ip_new V p \<Longrightarrow> ip_new V (ip_set_checksum V c p) \<and> hd (ip_set_checksum V c p) = hd p
      \<and> ip_payload V (ip_set_checksum V c p) = ip_payload V p
      \<and> ip_get_source V (ip_set_checksum V c p) = ip_get_source V p
      \<and> ip_get_destination V (ip_set_checksum V c p) = ip_get_destination V p"

locale udp_view =
  fixes U :: pnet_udp
  assumes usrc: "udp_new U u \<Longrightarrow> udp_get_source U (udp_set_source U s u) = s"
    and udst: "udp_new U u \<Longrightarrow> udp_get_destination U (udp_set_destination U s u) = s"
    and usrc_frame: "udp_new U u \<Longrightarrow> udp_get_destination U (udp_set_source U s u) = udp_get_destination U u
        \<and> udp_new U (udp_set_source U s u) \<and> length (udp_set_source U s u) = length u"
    and udst_frame: "udp_new U u \<Longrightarrow> udp_get_source U (udp_set_destination U s u) = udp_get_source U u
        \<and> udp_new U (udp_set_destination U s u) \<and> length (udp_set_destination U s u) = length u"
    and uchk_frame: "udp_new U u \<Longrightarrow> udp_get_source U (udp_set_checksum U c u) = udp_get_source U u
        \<and> udp_get_destination U (udp_set_checksum U c u) = udp_get_destination U u
        \<and> udp_new U (udp_set_checksum U c u) \<and> length (udp_set_checksum U c u) = length u"

locale packet_views = v4: ip_checksum_view "pnet_v4 N" + v6: ip_view "pnet_v6 N" + udp_view "pnet_udp N" for N :: pnet

text \<open>The trait: fixing the header keeps everything that the translation reads.\<close>

locale ip_packet = ip_view "mp_view P" for P :: "'a MutableIpPacket" +
  assumes fix_frame: "ip_new (mp_view P) p \<Longrightarrow>
      ip_new (mp_view P) (fix_ip_header_checksum P a b p) \<and> hd (fix_ip_header_checksum P a b p) = hd p
      \<and> ip_payload (mp_view P) (fix_ip_header_checksum P a b p) = ip_payload (mp_view P) p
      \<and> ip_get_source (mp_view P) (fix_ip_header_checksum P a b p) = ip_get_source (mp_view P) p
      \<and> ip_get_destination (mp_view P) (fix_ip_header_checksum P a b p) = ip_get_destination (mp_view P) p"
    and from_addr: "get_ip_from_addr P (sock_new (mp_into P a) port) = Some a"

sublocale packet_views \<subseteq> packet_v4: ip_packet "MutableIpv4Packet (pnet_v4 N)"
  by unfold_locales (use v4.src_src v4.dst_dst v4.src_dst v4.dst_src v4.new_set v4.first_set v4.pay_set
      v4.pay_pay v4.set_pay v4.chk_frame in \<open>simp_all add: MutableIpv4Packet_def fix_ipv4_header_checksum_def Let_def\<close>)

sublocale packet_views \<subseteq> packet_v6: ip_packet "MutableIpv6Packet (pnet_v6 N)"
  by unfold_locales (use v6.src_src v6.dst_dst v6.src_dst v6.dst_src v6.new_set v6.first_set v6.pay_set
      v6.pay_pay v6.set_pay in \<open>simp_all add: MutableIpv6Packet_def\<close>)

context packet_views
begin

lemmas packet_laws = packet_v4.ip_packet_axioms packet_v6.ip_packet_axioms udp_view_axioms

end

section \<open>The search for a port\<close>

text \<open>The ports that the search tries, and whether another source holds one when it is looked at.\<close>

primrec candidate_port :: "'m StarcastNat \<Rightarrow> SocketAddr \<Rightarrow> nat \<Rightarrow> u16" where
  "candidate_port st a 0 = nat_mapper st a"
| "candidate_port st a (Suc n) = nat_mapper st (sock_new (sock_ip a) (candidate_port st a n))"

definition taken :: "'m nat_ops \<Rightarrow> 'm StarcastNat \<Rightarrow> (nat \<Rightarrow> instant) \<Rightarrow> SocketAddr \<Rightarrow> nat \<Rightarrow> bool" where
  "taken L st clk a n =
     (case peek L (mappings st) (candidate_port st a n) (clk n) of None \<Rightarrow> False | Some b \<Rightarrow> b \<noteq> a)"

lemma find_port_from:
  "n \<le> MAX_ATTEMPTS \<Longrightarrow> find_port L st clk a (candidate_port st a n) n =
     (case find (\<lambda>i. \<not> taken L st clk a i) [n..<Suc MAX_ATTEMPTS] of
        None \<Rightarrow> Inl CannotMap | Some i \<Rightarrow> Inr (candidate_port st a i, i))"
proof (induction "MAX_ATTEMPTS - n" arbitrary: n)
  case 0
  then have "n = MAX_ATTEMPTS" by simp
  then show ?case
    by (auto simp: find_port.simps [of L st clk a _ MAX_ATTEMPTS] taken_def Let_def split: option.splits)
next
  case (Suc k)
  then have n: "n < MAX_ATTEMPTS" by simp
  then have u: "[n..<Suc MAX_ATTEMPTS] = n # [Suc n..<Suc MAX_ATTEMPTS]" by (simp add: upt_conv_Cons)
  have "find_port L st clk a (candidate_port st a (Suc n)) (Suc n) =
     (case find (\<lambda>i. \<not> taken L st clk a i) [Suc n..<Suc MAX_ATTEMPTS] of
        None \<Rightarrow> Inl CannotMap | Some i \<Rightarrow> Inr (candidate_port st a i, i))"
    using Suc.hyps(2) n by (intro Suc.hyps(1)) simp_all
  then show ?case
    using n unfolding u
    by (simp add: find_port.simps [of L st clk a _ n] taken_def Let_def del: upt_Suc split: option.splits)
qed

text \<open>
  C22. The search for a port ends: it returns after at most 129 looks at the mappings, for every mapper and
  every state of the cache, with the first port of the chain of candidates that no other source holds, and
  gives up exactly when all of them are held by others.
\<close>

theorem port_search_ends:
  "find_port L st clk a (nat_mapper st a) 0 =
     (case find (\<lambda>i. \<not> taken L st clk a i) [0..<129] of
        None \<Rightarrow> Inl CannotMap | Some i \<Rightarrow> Inr (candidate_port st a i, i))"
proof -
  have "Suc MAX_ATTEMPTS = 129" by (simp add: MAX_ATTEMPTS_def)
  then show ?thesis using find_port_from [of 0 L st clk a] by (simp only: candidate_port.simps le0 simp_thms)
qed

lemma find_portD:
  assumes "find_port L st clk a (nat_mapper st a) 0 = Inr (p, n)"
  shows "n \<le> MAX_ATTEMPTS" "peek L (mappings st) p (clk n) \<in> {None, Some a}"
proof -
  have f: "find (\<lambda>i. \<not> taken L st clk a i) [0..<Suc MAX_ATTEMPTS] = Some n" "p = candidate_port st a n"
    using assms find_port_from [of 0 L st clk a] by (simp_all del: upt_Suc split: option.splits)
  then have "n \<in> set [0..<Suc MAX_ATTEMPTS] \<and> \<not> taken L st clk a n"
    unfolding find_Some_iff by (metis nth_mem)
  then show "n \<le> MAX_ATTEMPTS" "peek L (mappings st) p (clk n) \<in> {None, Some a}"
    by (simp_all add: f(2) taken_def del: upt_Suc split: option.splits)
qed

section \<open>The translation as a client\<close>

locale translation = ip_packet P + udp_view U + lru L invar
  for P :: "'a MutableIpPacket" and U :: pnet_udp
    and L :: "(u16, SocketAddr TimedValue, 'm) lhm_ops" and invar :: "'m \<Rightarrow> bool"
begin

text \<open>The source and the destination of a packet.\<close>

definition source_of :: "bytes \<Rightarrow> SocketAddr" where
  "source_of p = sock_new (mp_into P (ip_get_source (mp_view P) p)) (udp_get_source U (ip_payload (mp_view P) p))"

definition destination_of :: "bytes \<Rightarrow> SocketAddr" where
  "destination_of p =
     sock_new (mp_into P (ip_get_destination (mp_view P) p)) (udp_get_destination U (ip_payload (mp_view P) p))"

definition accepted :: "bytes \<Rightarrow> bool" where
  "accepted p \<longleftrightarrow> ip_new (mp_view P) p \<and> ip_protocol (mp_view P) p = UDP \<and> udp_new U (ip_payload (mp_view P) p)"

lemmas view_laws = src_src dst_dst src_dst dst_src new_set first_set pay_set pay_pay set_pay fix_frame from_addr
  usrc udst usrc_frame udst_frame uchk_frame

text \<open>The datagram and the packet as they are written back.\<close>

definition rewritten_udp :: "'m StarcastNat \<Rightarrow> u16 \<Rightarrow> bytes \<Rightarrow> bytes" where
  "rewritten_udp st port p =
     (let u = ip_payload (mp_view P) p; u' = udp_set_source U port u
      in if udp_get_checksum U u' \<noteq> 0
         then udp_set_checksum U (calculate_udp_header_checksum_update P (udp_get_checksum U u')
                (ip_get_source (mp_view P) p) (get_addr P (vpeer_addr st)) (udp_get_source U u) port) u'
         else u')"

definition readdressed :: "'m StarcastNat \<Rightarrow> bytes \<Rightarrow> bytes" where
  "readdressed st p = fix_ip_header_checksum P (ip_get_source (mp_view P) p) (get_addr P (vpeer_addr st))
     (ip_set_source (mp_view P) (get_addr P (vpeer_addr st)) p)"

lemma readdressed_laws:
  assumes "ip_new (mp_view P) p"
  shows "ip_new (mp_view P) (readdressed st p)" "hd (readdressed st p) = hd p"
    "ip_payload (mp_view P) (readdressed st p) = ip_payload (mp_view P) p"
    "ip_get_source (mp_view P) (readdressed st p) = get_addr P (vpeer_addr st)"
    "ip_get_destination (mp_view P) (readdressed st p) = ip_get_destination (mp_view P) p"
  using assms new_set [of p] by (simp_all add: readdressed_def fix_frame src_src dst_src pay_set first_set)

lemma rewritten_udp_laws:
  assumes "udp_new U (ip_payload (mp_view P) p)"
  shows "length (rewritten_udp st port p) = length (ip_payload (mp_view P) p)"
    "udp_get_source U (rewritten_udp st port p) = port"
    "udp_get_destination U (rewritten_udp st port p) = udp_get_destination U (ip_payload (mp_view P) p)"
  using assms by (simp_all add: rewritten_udp_def Let_def usrc usrc_frame uchk_frame)

lemma incoming_eq:
  "translate_incoming_internal L P U st clk p =
     (if \<not> ip_new (mp_view P) p then (Inl PacketTooShort, p, st)
      else if ip_protocol (mp_view P) p \<noteq> UDP then (Inl UnexpectedTransportProtocol, p, st)
      else if \<not> udp_new U (ip_payload (mp_view P) p) then (Inl PacketTooShort, readdressed st p, st)
      else case find_port L st clk (source_of p) (nat_mapper st (source_of p)) 0 of
             Inl e \<Rightarrow> (Inl e, readdressed st p, st)
           | Inr (port, n) \<Rightarrow>
               (Inr (sock_ip (source_of p)), ip_set_payload (mp_view P) (rewritten_udp st port p) (readdressed st p),
                st\<lparr>mappings := lru_insert L (mappings st) port (source_of p) (clk (n + 1))\<rparr>))"
  by (simp add: translate_incoming_internal_def Let_def readdressed_laws source_of_def rewritten_udp_def
      flip: readdressed_def cong: if_cong split: sum.split)

lemma incoming_accepted:
  assumes "translate_incoming_internal L P U st clk p = (Inr ip, p', st')"
  obtains port n where "accepted p" "find_port L st clk (source_of p) (nat_mapper st (source_of p)) 0 = Inr (port, n)"
    "ip = sock_ip (source_of p)"
    "st' = st\<lparr>mappings := lru_insert L (mappings st) port (source_of p) (clk (n + 1))\<rparr>"
    "source_of p' = sock_new (mp_into P (get_addr P (vpeer_addr st))) port"
    "destination_of p' = destination_of p" "hd p' = hd p"
proof -
  from assms have acc: "accepted p" by (simp add: incoming_eq accepted_def split: if_splits)
  with assms obtain port n where f: "find_port L st clk (source_of p) (nat_mapper st (source_of p)) 0 = Inr (port, n)"
    "ip = sock_ip (source_of p)" "st' = st\<lparr>mappings := lru_insert L (mappings st) port (source_of p) (clk (n + 1))\<rparr>"
    and p': "p' = ip_set_payload (mp_view P) (rewritten_udp st port p) (readdressed st p)"
    by (auto simp: incoming_eq accepted_def split: sum.splits)
  have "source_of p' = sock_new (mp_into P (get_addr P (vpeer_addr st))) port" "destination_of p' = destination_of p"
    "hd p' = hd p"
    using acc by (simp_all add: p' source_of_def destination_of_def accepted_def readdressed_laws rewritten_udp_laws
        set_pay pay_pay)
  with acc f show ?thesis by (rule that)
qed

definition returned_udp :: "'a \<Rightarrow> u16 \<Rightarrow> bytes \<Rightarrow> bytes" where
  "returned_udp a port q =
     (let u = ip_payload (mp_view P) q; u' = udp_set_destination U port u
      in if udp_get_checksum U u' \<noteq> 0
         then udp_set_checksum U (calculate_udp_header_checksum_update P (udp_get_checksum U u')
                (ip_get_destination (mp_view P) q) a (udp_get_destination U u) port) u'
         else u')"

lemma returned_udp_laws:
  assumes "udp_new U (ip_payload (mp_view P) q)"
  shows "length (returned_udp a port q) = length (ip_payload (mp_view P) q)"
    "udp_get_destination U (returned_udp a port q) = port"
    "udp_get_source U (returned_udp a port q) = udp_get_source U (ip_payload (mp_view P) q)"
  using assms by (simp_all add: returned_udp_def Let_def udst udst_frame uchk_frame)

lemma outgoing_eq:
  assumes "accepted q" and "fst (lru_get L (mappings st) (sock_port (destination_of q)) now) = Some (sock_new (mp_into P a) port)"
  shows "translate_outgoing_internal L P U st now q =
     (Inr (mp_into P a),
      fix_ip_header_checksum P (ip_get_destination (mp_view P) q) a
        (ip_set_destination (mp_view P) a (ip_set_payload (mp_view P) (returned_udp a port q) q)),
      st\<lparr>mappings := snd (lru_get L (mappings st) (sock_port (destination_of q)) now)\<rparr>)"
proof (cases "lru_get L (mappings st) (sock_port (destination_of q)) now")
  case (Pair found ms)
  with assms show ?thesis
    by (simp add: translate_outgoing_internal_def Let_def accepted_def destination_of_def returned_udp_def from_addr)
qed

lemma outgoing_found:
  assumes "accepted q" and "fst (lru_get L (mappings st) (sock_port (destination_of q)) now) = Some (sock_new (mp_into P a) port)"
    and "translate_outgoing_internal L P U st now q = (r, q', st')"
  shows "r = Inr (mp_into P a)" "destination_of q' = sock_new (mp_into P a) port" "source_of q' = source_of q" "hd q' = hd q"
proof -
  let ?w = "ip_set_payload (mp_view P) (returned_udp a port q) q"
  from assms(1) have q: "ip_new (mp_view P) q" "udp_new U (ip_payload (mp_view P) q)" by (simp_all add: accepted_def)
  have w: "ip_new (mp_view P) ?w" "ip_payload (mp_view P) ?w = returned_udp a port q" "hd ?w = hd q"
    "ip_get_source (mp_view P) ?w = ip_get_source (mp_view P) q"
    using q by (simp_all add: set_pay pay_pay returned_udp_laws)
  from assms(3) have e: "r = Inr (mp_into P a)"
    "q' = fix_ip_header_checksum P (ip_get_destination (mp_view P) q) a (ip_set_destination (mp_view P) a ?w)"
    by (simp_all add: outgoing_eq [OF assms(1,2)])
  have n: "ip_new (mp_view P) (ip_set_destination (mp_view P) a ?w)" using new_set [OF w(1)] by simp
  show "r = Inr (mp_into P a)" by (fact e(1))
  show "destination_of q' = sock_new (mp_into P a) port" "source_of q' = source_of q" "hd q' = hd q"
    by (simp_all only: e(2) destination_of_def source_of_def fix_frame [OF n] dst_dst [OF w(1)] src_dst [OF w(1)]
        pay_set [OF w(1)] first_set [OF w(1)] w(2-) returned_udp_laws [OF q(2)])
qed

lemma reply_found:
  assumes inv: "lru_inv L invar (mappings st) (clk 0)" and cap: "0 < capacity (mappings st)" and clk: "mono clk"
    and inc: "translate_incoming_internal L P U st clk p = (Inr ip, p', st')"
    and q: "accepted q" "sock_port (destination_of q) = sock_port (source_of p')"
    and time: "clk (MAX_ATTEMPTS + 1) \<le> now" "now \<le> clk 1 + ttl (mappings st)"
    and out: "translate_outgoing_internal L P U st' now q = (r, q', st'')"
  shows "r = Inr ip" "destination_of q' = source_of p" "source_of q' = source_of q" "hd q' = hd q"
proof -
  from inc obtain port n where f: "find_port L st clk (source_of p) (nat_mapper st (source_of p)) 0 = Inr (port, n)"
    and ip: "ip = sock_ip (source_of p)"
    and st': "st' = st\<lparr>mappings := lru_insert L (mappings st) port (source_of p) (clk (n + 1))\<rparr>"
    and src: "source_of p' = sock_new (mp_into P (get_addr P (vpeer_addr st))) port"
    by (rule incoming_accepted)
  have n: "n \<le> MAX_ATTEMPTS" by (rule find_portD [OF f])
  have t: "clk 0 \<le> clk (n + 1)" "clk (n + 1) \<le> now" "now \<le> clk (n + 1) + ttl (mappings st)"
    using monoD [OF clk, of 0 "n + 1"] monoD [OF clk, of "n + 1" "MAX_ATTEMPTS + 1"] monoD [OF clk, of 1 "n + 1"] n time
    by linarith+
  let ?m = "lru_insert L (mappings st) port (source_of p) (clk (n + 1))"
  have "lru_inv L invar ?m now"
    by (rule lru_inv_later [OF lru_insert_inv [OF lru_inv_later [OF inv t(1)]] t(2)])
  moreover have "peek L ?m port now = Some (source_of p)"
    using lru_invD(1,4) [OF inv] cap t(3) by (rule peek_lru_insert_same)
  ultimately have "fst (lru_get L (mappings st') (sock_port (destination_of q)) now) = Some (source_of p)"
    by (simp add: st' q(2) src lru_get_fst)
  then have g: "fst (lru_get L (mappings st') (sock_port (destination_of q)) now) =
      Some (sock_new (mp_into P (ip_get_source (mp_view P) p)) (udp_get_source U (ip_payload (mp_view P) p)))"
    by (simp only: source_of_def)
  note o = outgoing_found [OF q(1) g out]
  show "r = Inr ip" "destination_of q' = source_of p" "source_of q' = source_of q" "hd q' = hd q"
    using o by (simp_all add: ip source_of_def)
qed

lemma mapping_kept:
  assumes inv: "lru_inv L invar (mappings st) (clk 0)" and cap: "0 < capacity (mappings st)"
    and inc: "translate_incoming_internal L P U st clk p = (Inr ip, p', st')"
  shows "\<exists>n \<le> MAX_ATTEMPTS. peek L (mappings st) (sock_port (source_of p')) (clk n) \<in> {None, Some (source_of p)}
      \<and> (\<forall>t \<le> clk (n + 1) + ttl (mappings st). peek L (mappings st') (sock_port (source_of p')) t = Some (source_of p))"
    and "port \<noteq> sock_port (source_of p') \<Longrightarrow> peek L (mappings st') port t = Some b \<Longrightarrow> peek L (mappings st) port t = Some b"
    and "sock_ip (source_of p') = mp_into P (get_addr P (vpeer_addr st))" "destination_of p' = destination_of p" "hd p' = hd p"
proof -
  from inc obtain x n where f: "find_port L st clk (source_of p) (nat_mapper st (source_of p)) 0 = Inr (x, n)"
    and st': "st' = st\<lparr>mappings := lru_insert L (mappings st) x (source_of p) (clk (n + 1))\<rparr>"
    and src: "source_of p' = sock_new (mp_into P (get_addr P (vpeer_addr st))) x"
    and p': "destination_of p' = destination_of p" "hd p' = hd p"
    by (rule incoming_accepted)
  have "\<forall>t \<le> clk (n + 1) + ttl (mappings st). peek L (mappings st') x t = Some (source_of p)"
    using peek_lru_insert_same [OF lru_invD(1,4) [OF inv] cap] by (simp add: st')
  with find_portD [OF f]
  show "\<exists>n \<le> MAX_ATTEMPTS. peek L (mappings st) (sock_port (source_of p')) (clk n) \<in> {None, Some (source_of p)}
      \<and> (\<forall>t \<le> clk (n + 1) + ttl (mappings st). peek L (mappings st') (sock_port (source_of p')) t = Some (source_of p))"
    unfolding src sock_new_simps by blast
  show "peek L (mappings st) port t = Some b"
    if "port \<noteq> sock_port (source_of p')" "peek L (mappings st') port t = Some b"
    using that peek_lru_insert_other [OF lru_invD(1,4) [OF inv], of port x] by (simp add: st' src)
  show "sock_ip (source_of p') = mp_into P (get_addr P (vpeer_addr st))" by (simp add: src)
  show "destination_of p' = destination_of p" "hd p' = hd p" by (fact p')+
qed

end

lemma translation_v4:
  "packet_views N \<Longrightarrow> linked_hash_map L invar \<Longrightarrow> translation (MutableIpv4Packet (pnet_v4 N)) (pnet_udp N) L invar"
  and translation_v6:
  "packet_views N \<Longrightarrow> linked_hash_map L invar \<Longrightarrow> translation (MutableIpv6Packet (pnet_v6 N)) (pnet_udp N) L invar"
  by (simp_all add: translation_def packet_views.packet_laws lru_of_linked_hash_map)

section \<open>Properties of the translation\<close>

text \<open>The endpoints of a datagram in either family, and the datagrams that the translation accepts.\<close>

definition version :: "bytes \<Rightarrow> u8" where "version p = drop_bit 4 (hd p)"

definition packet_source :: "pnet \<Rightarrow> bytes \<Rightarrow> SocketAddr" where
  "packet_source N p =
     (if version p = 4
      then sock_new (V4 (ip_get_source (pnet_v4 N) p)) (udp_get_source (pnet_udp N) (ip_payload (pnet_v4 N) p))
      else sock_new (V6 (ip_get_source (pnet_v6 N) p)) (udp_get_source (pnet_udp N) (ip_payload (pnet_v6 N) p)))"

definition packet_destination :: "pnet \<Rightarrow> bytes \<Rightarrow> SocketAddr" where
  "packet_destination N p =
     (if version p = 4
      then sock_new (V4 (ip_get_destination (pnet_v4 N) p)) (udp_get_destination (pnet_udp N) (ip_payload (pnet_v4 N) p))
      else sock_new (V6 (ip_get_destination (pnet_v6 N) p)) (udp_get_destination (pnet_udp N) (ip_payload (pnet_v6 N) p)))"

definition udp_packet :: "pnet \<Rightarrow> bytes \<Rightarrow> bool" where
  "udp_packet N p \<longleftrightarrow> p \<noteq> [] \<and>
     (if version p = 4 then ip_new (pnet_v4 N) p \<and> ip_protocol (pnet_v4 N) p = UDP \<and> udp_new (pnet_udp N) (ip_payload (pnet_v4 N) p)
      else version p = 6 \<and> ip_new (pnet_v6 N) p \<and> ip_protocol (pnet_v6 N) p = UDP \<and> udp_new (pnet_udp N) (ip_payload (pnet_v6 N) p))"

lemma family_v4:
  assumes "packet_views N" and "linked_hash_map (L :: 'm nat_ops) invar" and "version p = 4"
  shows "packet_source N p = translation.source_of (MutableIpv4Packet (pnet_v4 N)) (pnet_udp N) p"
    and "packet_destination N p = translation.destination_of (MutableIpv4Packet (pnet_v4 N)) (pnet_udp N) p"
    and "udp_packet N p \<Longrightarrow> translation.accepted (MutableIpv4Packet (pnet_v4 N)) (pnet_udp N) p"
    and "p \<noteq> [] \<Longrightarrow> translate_outgoing L N st now p =
       translate_outgoing_internal L (MutableIpv4Packet (pnet_v4 N)) (pnet_udp N) st now p"
    and "p \<noteq> [] \<Longrightarrow> translate_incoming L N st clk p =
       translate_incoming_internal L (MutableIpv4Packet (pnet_v4 N)) (pnet_udp N) st clk p"
  using assms(3) translation_v4 [OF assms(1,2)]
  by (auto simp: packet_source_def packet_destination_def translation.source_of_def translation.destination_of_def
      translation.accepted_def MutableIpv4Packet_def udp_packet_def translate_outgoing_def translate_incoming_def
      version_def split: list.splits)

lemma family_v6:
  assumes "packet_views N" and "linked_hash_map (L :: 'm nat_ops) invar" and "version p = 6"
  shows "packet_source N p = translation.source_of (MutableIpv6Packet (pnet_v6 N)) (pnet_udp N) p"
    and "packet_destination N p = translation.destination_of (MutableIpv6Packet (pnet_v6 N)) (pnet_udp N) p"
    and "udp_packet N p \<Longrightarrow> translation.accepted (MutableIpv6Packet (pnet_v6 N)) (pnet_udp N) p"
    and "p \<noteq> [] \<Longrightarrow> translate_outgoing L N st now p =
       translate_outgoing_internal L (MutableIpv6Packet (pnet_v6 N)) (pnet_udp N) st now p"
    and "p \<noteq> [] \<Longrightarrow> translate_incoming L N st clk p =
       translate_incoming_internal L (MutableIpv6Packet (pnet_v6 N)) (pnet_udp N) st clk p"
  using assms(3) translation_v6 [OF assms(1,2)]
  by (auto simp: packet_source_def packet_destination_def translation.source_of_def translation.destination_of_def
      translation.accepted_def MutableIpv6Packet_def udp_packet_def translate_outgoing_def translate_incoming_def
      version_def split: list.splits)

lemma translated_version:
  assumes "translate_incoming L N st clk p = (Inr ip, p', st')"
  shows "p \<noteq> []" "version p = 4 \<or> version p = 6"
  using assms by (auto simp: translate_incoming_def version_def split: list.splits if_splits)

end
