(* ===== verification/Starcast_Transport.thy ===== *)
theory Starcast_Transport
  imports Starcast_Nat Backoff Crypto
begin

text \<open>
  The multicast transport (crates/telio-starcast/src/transport.rs) and the virtual peer that feeds it
  (starcast_peer.rs). Sockets are outputs and answers: what an operation sends is a list of
  \<open>ts_out\<close>, and whether a send succeeds is an argument. The networks of the library ipnet and the tunnel
  of the library neptun are parameters.
\<close>

section \<open>State and configuration\<close>

definition MULTICAST_TRANSPORT_PORT :: u16 where "MULTICAST_TRANSPORT_PORT = 13569"
definition IPV4_STARCAST_ADDRESS :: u32 where "IPV4_STARCAST_ADDRESS = 0x64400005"
definition IPV6_STARCAST_ADDRESS :: u128 where "IPV6_STARCAST_ADDRESS = 0xfd74656c696f00000000000000000005"

datatype TransportError =
    SocketBindError
  | InvalidIpPacket
  | NoIpForPeer
  | FanoutFailed "PublicKey list"
  | SocketSendError
  | TsNatError NatError
  | TransportSocketNotOpen
  | TsBackoffError BackoffError

record StarPeer =
  sp_addr :: SocketAddr
  sp_public_key :: PublicKey
  allow_multicast :: bool
  peer_allows_multicast :: bool

datatype StarConfig =
    Simple "(PublicKey \<times> StdIpAddr \<times> bool \<times> bool) list"
  | Full "(PublicKey \<times> SocketAddr \<times> bool \<times> bool) list"

datatype ts_out = SentTo SocketAddr bytes | ToVirtualPeer bytes

record ('n, 'm) ts_env =
  ts_lru :: "'m nat_ops"
  ts_pnet :: pnet
  ts_hash :: "bytes \<Rightarrow> u16 \<Rightarrow> u64"
  ts_net :: "StdIpAddr \<Rightarrow> u8 \<Rightarrow> 'n"
  ts_contains :: "'n \<Rightarrow> StdIpAddr \<Rightarrow> bool"

record ('n, 'm) TransportState =
  socket_open :: bool
  ts_nat :: "'m StarcastNat"
  ts_peers :: "StarPeer list"
  multicast_ips :: "'n list"
  ts_backoff :: ExponentialBackoff

text \<open>\<open>opened\<close> tells whether the transport socket could be opened at the start.\<close>

definition transport_start :: "('n, 'm) ts_env \<Rightarrow> bool \<Rightarrow> TransportError + ('n, 'm) TransportState" where
  "transport_start E opened =
     (case ExponentialBackoff_new \<lparr>bo_initial = 2 * 1000000000, bo_maximal = Some (120 * 1000000000)\<rparr> of
        Inl e \<Rightarrow> Inl (TsBackoffError e)
      | Inr b \<Rightarrow>
          Inr \<lparr>socket_open = opened, ts_nat = StarcastNat_new (ts_lru E) (ts_hash E) IPV4_STARCAST_ADDRESS IPV6_STARCAST_ADDRESS,
               ts_peers = [],
               multicast_ips = [ts_net E (V4 0xE0000000) 4, ts_net E (V6 0xff0200000000000000000000000000fb) 128],
               ts_backoff = b\<rparr>)"

definition ts_configure :: "StarConfig \<Rightarrow> ('n, 'm) TransportState \<Rightarrow> ('n, 'm) TransportState" where
  "ts_configure config st = st\<lparr>ts_peers := (case config of
       Simple peers \<Rightarrow> map (\<lambda>(pk, ip, allow, peer_allows).
           \<lparr>sp_addr = sock_new ip MULTICAST_TRANSPORT_PORT, sp_public_key = pk, allow_multicast = allow,
            peer_allows_multicast = peer_allows\<rparr>) peers
     | Full peers \<Rightarrow> map (\<lambda>(pk, addr, allow, peer_allows).
           \<lparr>sp_addr = addr, sp_public_key = pk, allow_multicast = allow, peer_allows_multicast = peer_allows\<rparr>) peers)\<rparr>"

section \<open>Packets\<close>

type_synonym ('n, 'm) ts_result = "(TransportError + unit) \<times> ts_out list \<times> ('n, 'm) TransportState"

definition handle_local_multicast_packet ::
  "(SocketAddr \<Rightarrow> bool) \<Rightarrow> ('n, 'm) TransportState \<Rightarrow> bytes \<Rightarrow> ('n, 'm) ts_result" where
  "handle_local_multicast_packet send_ok st packet =
     (if \<not> socket_open st then (Inl TransportSocketNotOpen, [], st)
      else
        let targets = filter peer_allows_multicast (ts_peers st);
            failed_peers = map sp_public_key (filter (\<lambda>p. \<not> send_ok (sp_addr p)) targets);
            sent = map (\<lambda>p. SentTo (sp_addr p) packet) (filter (\<lambda>p. send_ok (sp_addr p)) targets)
        in (if failed_peers = [] then Inr () else Inl (FanoutFailed failed_peers), sent, st))"

definition handle_mapped_unicast_packet ::
  "('n, 'm) ts_env \<Rightarrow> (SocketAddr \<Rightarrow> bool) \<Rightarrow> instant \<Rightarrow> ('n, 'm) TransportState \<Rightarrow> bytes \<Rightarrow> ('n, 'm) ts_result" where
  "handle_mapped_unicast_packet E send_ok now st packet =
     (case translate_outgoing (ts_lru E) (ts_pnet E) (ts_nat st) now packet of
        (r, packet, nat') \<Rightarrow>
          let st = st\<lparr>ts_nat := nat'\<rparr> in
          (case r of
             Inl e \<Rightarrow> (Inl (TsNatError e), [], st)
           | Inr peer_ip \<Rightarrow>
               (case find (\<lambda>p. sock_ip (sp_addr p) = peer_ip) (ts_peers st) of
                  None \<Rightarrow> (Inl NoIpForPeer, [], st)
                | Some peer \<Rightarrow>
                    if \<not> socket_open st then (Inl TransportSocketNotOpen, [], st)
                    else if send_ok (sp_addr peer) then (Inr (), [SentTo (sp_addr peer) packet], st)
                    else (Inl SocketSendError, [], st))))"

definition handle_incoming_packet ::
  "('n, 'm) ts_env \<Rightarrow> (nat \<Rightarrow> instant) \<Rightarrow> ('n, 'm) TransportState \<Rightarrow> bytes \<Rightarrow> ('n, 'm) ts_result" where
  "handle_incoming_packet E clk st packet =
     (case translate_incoming (ts_lru E) (ts_pnet E) (ts_nat st) clk packet of
        (r, packet, nat') \<Rightarrow>
          let st = st\<lparr>ts_nat := nat'\<rparr> in
          (case r of
             Inl e \<Rightarrow> (Inl (TsNatError e), [], st)
           | Inr peer_ip \<Rightarrow>
               (case find (\<lambda>p. sock_ip (sp_addr p) = peer_ip) (ts_peers st) of
                  Some peer \<Rightarrow> (Inr (), if allow_multicast peer then [ToVirtualPeer packet] else [], st)
                | None \<Rightarrow> (Inr (), [], st))))"

definition get_packet_dst :: "'a MutableIpPacket \<Rightarrow> bytes \<Rightarrow> TransportError + StdIpAddr" where
  "get_packet_dst P packet =
     (if ip_new (mp_view P) packet then Inr (mp_into P (ip_get_destination (mp_view P) packet)) else Inl InvalidIpPacket)"

definition has_multicast_dst :: "('n, 'm) ts_env \<Rightarrow> ('n, 'm) TransportState \<Rightarrow> bytes \<Rightarrow> TransportError + bool" where
  "has_multicast_dst E st packet =
     (case (case packet of
              [] \<Rightarrow> Inl InvalidIpPacket
            | b # _ \<Rightarrow>
                if drop_bit 4 b = 4 then get_packet_dst (MutableIpv4Packet (pnet_v4 (ts_pnet E))) packet
                else if drop_bit 4 b = 6 then get_packet_dst (MutableIpv6Packet (pnet_v6 (ts_pnet E))) packet
                else Inl InvalidIpPacket) of
        Inl e \<Rightarrow> Inl e
      | Inr dst \<Rightarrow> Inr (list_ex (\<lambda>network. ts_contains E network dst) (multicast_ips st)))"

section \<open>The event loop\<close>

datatype ts_event = FromPeer bytes | FromSocket bytes | NoEvent

definition ts_dispatch ::
  "('n, 'm) ts_env \<Rightarrow> (SocketAddr \<Rightarrow> bool) \<Rightarrow> (nat \<Rightarrow> instant) \<Rightarrow> ts_event \<Rightarrow> ('n, 'm) TransportState \<Rightarrow> ('n, 'm) ts_result" where
  "ts_dispatch E send_ok clk ev st =
     (case ev of
        FromPeer packet \<Rightarrow>
          (case has_multicast_dst E st packet of
             Inr True \<Rightarrow> handle_local_multicast_packet send_ok st packet
           | Inr False \<Rightarrow> handle_mapped_unicast_packet E send_ok (clk 0) st packet
           | Inl e \<Rightarrow> (Inl e, [], st))
      | FromSocket packet \<Rightarrow> handle_incoming_packet E clk st packet
      | NoEvent \<Rightarrow> (Inr (), [], st))"

text \<open>One round: without a socket the task first sleeps and tries to open it; \<open>opened\<close> is the outcome.\<close>

definition ts_wait ::
  "('n, 'm) ts_env \<Rightarrow> bool \<Rightarrow> (SocketAddr \<Rightarrow> bool) \<Rightarrow> (nat \<Rightarrow> instant) \<Rightarrow> ts_event \<Rightarrow> ('n, 'm) TransportState \<Rightarrow> ('n, 'm) ts_result" where
  "ts_wait E opened send_ok clk ev st =
     (if socket_open st then ts_dispatch E send_ok clk ev st
      else if \<not> opened then (Inr (), [], st\<lparr>ts_backoff := next_backoff (ts_backoff st)\<rparr>)
      else ts_dispatch E send_ok clk ev (st\<lparr>socket_open := True, ts_backoff := reset_backoff (ts_backoff st)\<rparr>))"

section \<open>The virtual peer\<close>

text \<open>The results of the tunnel; the addresses that come with decapsulated packets are not used.\<close>

datatype TunnResult = TunnDone | TunnErr string | WriteToNetwork bytes | WriteToTunnelV4 bytes | WriteToTunnelV6 bytes

record 't tunn_ops =
  tunn_new :: "SecretKey \<Rightarrow> PublicKey \<Rightarrow> string + 't"
  update_timers :: "'t \<Rightarrow> TunnResult \<times> 't"
  encapsulate :: "bytes \<Rightarrow> 't \<Rightarrow> TunnResult \<times> 't"
  decapsulate :: "bytes \<Rightarrow> 't \<Rightarrow> TunnResult \<times> 't"

record ('n, 't) VirtualPeer =
  vp_secret_key :: SecretKey
  vp_allowed_ips :: "'n list"
  wg_sock_addr :: "SocketAddr option"
  vp_tunnel :: "'t option"
  packets_present_in_tunnel :: bool

definition vp_start :: "(StdIpAddr \<Rightarrow> u8 \<Rightarrow> 'n) \<Rightarrow> SecretKey \<Rightarrow> bool \<Rightarrow> ('n, 't) VirtualPeer" where
  "vp_start net sk ipv6 =
     \<lparr>vp_secret_key = sk,
      vp_allowed_ips = [net (V4 0xE0000000) 4, net (V4 IPV4_STARCAST_ADDRESS) 32] @
        (if ipv6 then [net (V6 0xff0200000000000000000000000000fb) 128, net (V6 IPV6_STARCAST_ADDRESS) 128] else []),
      wg_sock_addr = None, vp_tunnel = None, packets_present_in_tunnel = False\<rparr>"

definition vp_configure ::
  "'t tunn_ops \<Rightarrow> PublicKey \<Rightarrow> u16 \<Rightarrow> ('n, 't) VirtualPeer \<Rightarrow> (string + unit) \<times> ('n, 't) VirtualPeer" where
  "vp_configure T pk wg_port st =
     (let st = st\<lparr>wg_sock_addr := Some (SockV4 0x7F000001 wg_port), packets_present_in_tunnel := False\<rparr>
      in case tunn_new T (vp_secret_key st) pk of
           Inl e \<Rightarrow> (Inl e, st)
         | Inr t \<Rightarrow> (Inr (), st\<lparr>vp_tunnel := Some t\<rparr>))"

datatype vp_event = VpTimer | VpOutbound bytes | VpWritable | VpInbound "string + bytes"
datatype vp_out = VpNetwork SocketAddr bytes | VpDelivered bytes

text \<open>The guards of the branches of the select; an unconfigured peer sleeps forever.\<close>

definition vp_enabled :: "('n, 't) VirtualPeer \<Rightarrow> vp_event \<Rightarrow> bool" where
  "vp_enabled st ev \<longleftrightarrow> vp_tunnel st \<noteq> None \<and> wg_sock_addr st \<noteq> None \<and>
     (case ev of VpWritable \<Rightarrow> packets_present_in_tunnel st | VpInbound _ \<Rightarrow> \<not> packets_present_in_tunnel st | _ \<Rightarrow> True)"

definition network_out :: "SocketAddr \<Rightarrow> TunnResult \<Rightarrow> vp_out list" where
  "network_out addr res = (case res of WriteToNetwork packet \<Rightarrow> [VpNetwork addr packet] | _ \<Rightarrow> [])"

definition vp_wait :: "'t tunn_ops \<Rightarrow> vp_event \<Rightarrow> ('n, 't) VirtualPeer \<Rightarrow> vp_out list \<times> ('n, 't) VirtualPeer" where
  "vp_wait T ev st =
     (case (vp_enabled st ev, vp_tunnel st, wg_sock_addr st) of
        (True, Some peer, Some addr) \<Rightarrow>
          (case ev of
             VpTimer \<Rightarrow>
               (let (res, peer) = update_timers T peer in (network_out addr res, st\<lparr>vp_tunnel := Some peer\<rparr>))
           | VpOutbound out_packet \<Rightarrow>
               (let (res, peer) = encapsulate T out_packet peer in (network_out addr res, st\<lparr>vp_tunnel := Some peer\<rparr>))
           | VpWritable \<Rightarrow>
               (let (res, peer) = decapsulate T [] peer;
                    st = st\<lparr>vp_tunnel := Some peer\<rparr>
                in (case res of
                      WriteToNetwork packet \<Rightarrow> ([VpNetwork addr packet], st)
                    | _ \<Rightarrow> ([], st\<lparr>packets_present_in_tunnel := False\<rparr>)))
           | VpInbound (Inl _) \<Rightarrow> ([], st)
           | VpInbound (Inr received) \<Rightarrow>
               (let (res, peer) = decapsulate T received peer;
                    st = st\<lparr>vp_tunnel := Some peer\<rparr>
                in (case res of
                      WriteToNetwork packet \<Rightarrow> ([VpNetwork addr packet], st\<lparr>packets_present_in_tunnel := True\<rparr>)
                    | WriteToTunnelV4 packet \<Rightarrow> ([VpDelivered packet], st)
                    | WriteToTunnelV6 packet \<Rightarrow> ([VpDelivered packet], st)
                    | _ \<Rightarrow> ([], st))))
      | _ \<Rightarrow> ([], st))"

text \<open>
  Handshake packets that the tunnel still holds are sent before anything else is received: the tunnel is
  asked once per writable socket until it has no more, and only then the flag is cleared.
\<close>

primrec drains :: "'t tunn_ops \<Rightarrow> bytes list \<Rightarrow> 't \<Rightarrow> bool" where
  "drains T [] t \<longleftrightarrow> fst (decapsulate T [] t) = TunnDone"
| "drains T (d # ds) t \<longleftrightarrow> fst (decapsulate T [] t) = WriteToNetwork d \<and> drains T ds (snd (decapsulate T [] t))"

primrec writable_rounds :: "'t tunn_ops \<Rightarrow> nat \<Rightarrow> ('n, 't) VirtualPeer \<Rightarrow> vp_out list \<times> ('n, 't) VirtualPeer" where
  "writable_rounds T 0 st = ([], st)"
| "writable_rounds T (Suc n) st =
     (let (os, st) = vp_wait T VpWritable st; (os', st) = writable_rounds T n st in (os @ os', st))"

lemma tunnel_is_drained:
  assumes "vp_tunnel st = Some t" and "wg_sock_addr st = Some addr" and "packets_present_in_tunnel st" and "drains T ds t"
  shows "fst (writable_rounds T (Suc (length ds)) st) = map (VpNetwork addr) ds
    \<and> vp_enabled (snd (writable_rounds T (Suc (length ds)) st)) (VpInbound r)
    \<and> (\<forall>k \<le> length ds. \<not> vp_enabled (snd (writable_rounds T k st)) (VpInbound r))"
  using assms
proof (induction ds arbitrary: st t)
  case Nil
  then show ?case by (auto simp: vp_wait_def vp_enabled_def split: prod.splits)
next
  case (Cons d ds)
  let ?t = "snd (decapsulate T [] t)" and ?st = "st\<lparr>vp_tunnel := Some (snd (decapsulate T [] t))\<rparr>"
  have w: "vp_wait T VpWritable st = ([VpNetwork addr d], ?st)"
    using Cons.prems by (auto simp: vp_wait_def vp_enabled_def split: prod.splits)
  have IH: "fst (writable_rounds T (Suc (length ds)) ?st) = map (VpNetwork addr) ds
    \<and> vp_enabled (snd (writable_rounds T (Suc (length ds)) ?st)) (VpInbound r)
    \<and> (\<forall>k \<le> length ds. \<not> vp_enabled (snd (writable_rounds T k ?st)) (VpInbound r))"
    using Cons.prems by (intro Cons.IH [of _ ?t]) simp_all
  have s: "writable_rounds T (Suc n) st = ([VpNetwork addr d] @ fst (writable_rounds T n ?st), snd (writable_rounds T n ?st))" for n
    by (simp add: w split: prod.split)
  have "\<not> vp_enabled (snd (writable_rounds T k st)) (VpInbound r)" if "k \<le> Suc (length ds)" for k
    using that IH s Cons.prems(3) by (cases k) (simp_all add: vp_enabled_def del: writable_rounds.simps(2))
  with IH s show ?case by (simp del: writable_rounds.simps(2))
qed

end
