(* ===== verification/Starcast_Theorems.thy ===== *)
theory Starcast_Theorems
  imports Starcast_Transport
begin

text \<open>
  Properties of the address translation for every hash map, every view of packets and every mapper that
  behave as documented, and an instance of the views on the plain layout of the headers (without options)
  for the examples.
\<close>

section \<open>Replies and mappings\<close>

text \<open>
  A reply reaches the origin: a datagram that is sent back, while the mapping lives, to the port under
  which a source was introduced is readdressed to exactly that source, and its own source is kept.
\<close>

lemma reply_reaches_origin:
  assumes "packet_views N" and "linked_hash_map L invar"
    and "lru_inv L invar (mappings st) (clk 0)" and "0 < capacity (mappings st)" and "mono clk"
    and inc: "translate_incoming L N st clk p = (Inr ip, p', st')"
    and "udp_packet N q" and ver: "version q = version p" and "sock_port (packet_destination N q) = sock_port (packet_source N p')"
    and "clk 129 \<le> now" and "now \<le> clk 1 + ttl (mappings st)"
    and "translate_outgoing L N st' now q = (r, q', st'')"
  shows "r = Inr ip \<and> packet_destination N q' = packet_source N p \<and> packet_source N q' = packet_source N q"
proof -
  have q: "q \<noteq> []" using assms(7) by (simp add: udp_packet_def)
  have clk: "clk (MAX_ATTEMPTS + 1) \<le> now" using assms(10) by (simp add: MAX_ATTEMPTS_def)
  from translated_version [OF inc] have "p \<noteq> []" and "version p = 4 \<or> version p = 6" by blast+
  then show ?thesis
  proof (elim disjE)
    assume v: "version p = 4" and p: "p \<noteq> []"
    note T = translation_v4 [OF assms(1,2)] and f = family_v4 [OF assms(1,2)]
    have vq: "version q = 4" using ver v by simp
    have vp': "version p' = 4"
      using translation.mapping_kept(5) [where clk = clk, OF T assms(3,4)] inc v unfolding f(5) [OF v p] by (simp add: version_def)
    note r = translation.reply_found [where clk = clk, OF T assms(3,4,5) inc [unfolded f(5) [OF v p]] f(3) [OF vq assms(7)]
        assms(9) [unfolded f(1) [OF vp'] f(2) [OF vq]] clk assms(11) assms(12) [unfolded f(4) [OF vq q]]]
    have "version q' = 4" using r(4) vq by (simp add: version_def)
    then show ?thesis using r f(1,2) v vq by simp
  next
    assume v: "version p = 6" and p: "p \<noteq> []"
    note T = translation_v6 [OF assms(1,2)] and f = family_v6 [OF assms(1,2)]
    have vq: "version q = 6" using ver v by simp
    have vp': "version p' = 6"
      using translation.mapping_kept(5) [where clk = clk, OF T assms(3,4)] inc v unfolding f(5) [OF v p] by (simp add: version_def)
    note r = translation.reply_found [where clk = clk, OF T assms(3,4,5) inc [unfolded f(5) [OF v p]] f(3) [OF vq assms(7)]
        assms(9) [unfolded f(1) [OF vp'] f(2) [OF vq]] clk assms(11) assms(12) [unfolded f(4) [OF vq q]]]
    have "version q' = 6" using r(4) vq by (simp add: version_def)
    then show ?thesis using r f(1,2) v vq by simp
  qed
qed

text \<open>
  C21. Translation does not take a port away: the port that a source gets was free or its own when it was
  looked at, it belongs to the source from then on for the lifetime of a mapping, what other ports map to
  does not change (an entry is at most evicted), and the packet that goes on carries the address of the
  virtual peer as its source.
\<close>

theorem mapping_is_exclusive:
  assumes "packet_views N" and "linked_hash_map L invar"
    and "lru_inv L invar (mappings st) (clk 0)" and "0 < capacity (mappings st)"
    and inc: "translate_incoming L N st clk p = (Inr ip, p', st')"
  shows "(\<exists>n \<le> 128. peek L (mappings st) (sock_port (packet_source N p')) (clk n) \<in> {None, Some (packet_source N p)}
        \<and> (\<forall>t \<le> clk (n + 1) + ttl (mappings st). peek L (mappings st') (sock_port (packet_source N p')) t = Some (packet_source N p)))
    \<and> (\<forall>port t b. port \<noteq> sock_port (packet_source N p') \<and> peek L (mappings st') port t = Some b
        \<longrightarrow> peek L (mappings st) port t = Some b)
    \<and> sock_ip (packet_source N p') \<in> {V4 (dual_ipv4 (vpeer_addr st)), V6 (dual_ipv6 (vpeer_addr st))}
    \<and> packet_destination N p' = packet_destination N p"
proof -
  from translated_version [OF inc] have "p \<noteq> []" and "version p = 4 \<or> version p = 6" by blast+
  then show ?thesis
  proof (elim disjE)
    assume v: "version p = 4" and p: "p \<noteq> []"
    note T = translation_v4 [OF assms(1,2)] and f = family_v4 [OF assms(1,2)]
    note k = translation.mapping_kept [where clk = clk, OF T assms(3,4) inc [unfolded f(5) [OF v p]]]
    have v': "version p' = 4" using k(5) v by (simp add: version_def)
    show ?thesis using k v v' by (auto simp: f(1,2) MutableIpv4Packet_def MAX_ATTEMPTS_def)
  next
    assume v: "version p = 6" and p: "p \<noteq> []"
    note T = translation_v6 [OF assms(1,2)] and f = family_v6 [OF assms(1,2)]
    note k = translation.mapping_kept [where clk = clk, OF T assms(3,4) inc [unfolded f(5) [OF v p]]]
    have v': "version p' = 6" using k(5) v by (simp add: version_def)
    show ?thesis using k v v' by (auto simp: f(1,2) MutableIpv6Packet_def MAX_ATTEMPTS_def)
  qed
qed

section \<open>The transport\<close>

lemma translated_ip:
  assumes "packet_views N" and "linked_hash_map L invar" and inc: "translate_incoming L N st clk p = (Inr ip, p', st')"
  shows "ip = sock_ip (packet_source N p)"
proof -
  from translated_version [OF inc] have "p \<noteq> []" and "version p = 4 \<or> version p = 6" by blast+
  then show ?thesis
  proof (elim disjE)
    assume v: "version p = 4" and p: "p \<noteq> []"
    note T = translation_v4 [OF assms(1,2)] and f = family_v4 [OF assms(1,2)]
    from translation.incoming_accepted [OF T inc [unfolded f(5) [OF v p]]] show ?thesis by (simp add: f(1) [OF v])
  next
    assume v: "version p = 6" and p: "p \<noteq> []"
    note T = translation_v6 [OF assms(1,2)] and f = family_v6 [OF assms(1,2)]
    from translation.incoming_accepted [OF T inc [unfolded f(5) [OF v p]]] show ?thesis by (simp add: f(1) [OF v])
  qed
qed

lemma find_peer: "find P xs = Some x \<Longrightarrow> x \<in> set xs \<and> P x"
  by (auto simp: find_Some_iff)

text \<open>
  C3. Multicast keeps to the permissions: in every round of the transport, the virtual peer gets a packet
  only if it came from the address of a configured peer that may send multicast to us, a multicast packet
  of ours goes only to configured peers that accept it, and any other packet goes to at most one configured
  peer.
\<close>

theorem starcast_keeps_permissions:
  assumes "packet_views (ts_pnet E)" and "linked_hash_map (ts_lru E) invar"
    and "ts_wait E opened send_ok clk ev st = (r, outs, st')"
  shows "(\<forall>d. ToVirtualPeer d \<in> set outs \<longrightarrow> (\<exists>p peer. ev = FromSocket p \<and> peer \<in> set (ts_peers st)
        \<and> allow_multicast peer \<and> sock_ip (sp_addr peer) = sock_ip (packet_source (ts_pnet E) p)))
    \<and> (\<forall>a d. SentTo a d \<in> set outs \<longrightarrow> (\<exists>p peer. ev = FromPeer p \<and> peer \<in> set (ts_peers st) \<and> sp_addr peer = a
        \<and> (if has_multicast_dst E st p = Inr True then d = p \<and> peer_allows_multicast peer else length outs = 1)))"
proof -
  have multi: "has_multicast_dst E (st\<lparr>socket_open := True, ts_backoff := b\<rparr>) p = has_multicast_dst E st p" for b p
    by (simp add: has_multicast_dst_def split: sum.split)
  have D: "(\<forall>d. ToVirtualPeer d \<in> set outs \<longrightarrow> (\<exists>p peer. ev = FromSocket p \<and> peer \<in> set (ts_peers s)
        \<and> allow_multicast peer \<and> sock_ip (sp_addr peer) = sock_ip (packet_source (ts_pnet E) p)))
    \<and> (\<forall>a d. SentTo a d \<in> set outs \<longrightarrow> (\<exists>p peer. ev = FromPeer p \<and> peer \<in> set (ts_peers s) \<and> sp_addr peer = a
        \<and> (if has_multicast_dst E s p = Inr True then d = p \<and> peer_allows_multicast peer else length outs = 1)))"
    if d: "ts_dispatch E send_ok clk ev s = (r, outs, st')" for s
  proof (cases ev)
    case (FromSocket p)
    with d show ?thesis
      by (auto simp: ts_dispatch_def handle_incoming_packet_def Let_def
          split: prod.splits sum.splits option.splits if_splits dest!: find_peer translated_ip [OF assms(1,2)])
  next
    case (FromPeer p)
    with d show ?thesis
      by (auto simp: ts_dispatch_def handle_local_multicast_packet_def handle_mapped_unicast_packet_def Let_def
          split: prod.splits sum.splits option.splits if_splits bool.splits dest!: find_peer)
  qed (use d in \<open>simp add: ts_dispatch_def\<close>)
  consider "ts_dispatch E send_ok clk ev st = (r, outs, st')" | "outs = []"
    | "ts_dispatch E send_ok clk ev (st\<lparr>socket_open := True, ts_backoff := reset_backoff (ts_backoff st)\<rparr>) = (r, outs, st')"
    using assms(3) by (auto simp: ts_wait_def split: if_splits)
  then show ?thesis
  proof cases
    case 1
    then show ?thesis by (rule D)
  next
    case 3
    from D [OF 3] show ?thesis by (simp add: multi)
  qed simp
qed

text \<open>The multicast test, told by the networks that contain the destination of a datagram.\<close>

lemma has_multicast_dst_networks:
  assumes "udp_packet (ts_pnet E) p"
  shows "has_multicast_dst E st p =
    Inr (\<exists>n \<in> set (multicast_ips st). ts_contains E n (sock_ip (packet_destination (ts_pnet E) p)))"
  using assms
  by (cases p) (auto simp: has_multicast_dst_def udp_packet_def packet_destination_def version_def get_packet_dst_def
      MutableIpv4Packet_def MutableIpv6Packet_def list_ex_iff split: if_splits)

lemma socket_round:
  assumes "ts_wait E opened send_ok clk (FromSocket p) st = (r, ToVirtualPeer p' # outs, st')"
  obtains s where "socket_open s" and "ts_nat s = ts_nat st" and "ts_peers s = ts_peers st"
    and "multicast_ips s = multicast_ips st" and "handle_incoming_packet E clk s p = (r, ToVirtualPeer p' # outs, st')"
proof (cases "socket_open st")
  case True
  with assms show thesis by (intro that [of st]) (simp_all add: ts_wait_def ts_dispatch_def)
next
  case False
  with assms show thesis
    by (intro that [of "st\<lparr>socket_open := True, ts_backoff := reset_backoff (ts_backoff st)\<rparr>"])
      (simp_all add: ts_wait_def ts_dispatch_def split: if_splits)
qed

text \<open>
  C2. Answers find their way through the event loop: after a round in which a peer's multicast datagram was
  handed to the virtual peer, a round that takes a unicast datagram (its destination is in none of the
  multicast networks) to the port the multicast seemed to come from sends it, while the mapping lives, to a
  configured peer with the address of the origin, addressed to the socket that sent the multicast. A datagram
  whose destination is in a multicast network is sent unchanged to exactly the peers that accept multicast.
\<close>

theorem multicast_answer_is_sent:
  assumes "packet_views (ts_pnet E)" and "linked_hash_map (ts_lru E) invar"
    and "lru_inv (ts_lru E) invar (mappings (ts_nat st)) (clk 0)" and "0 < capacity (mappings (ts_nat st))" and "mono clk"
    and inc: "ts_wait E opened send_ok clk (FromSocket p) st = (Inr (), [ToVirtualPeer p'], st')"
    and q: "udp_packet (ts_pnet E) q" "version q = version p"
      "sock_port (packet_destination (ts_pnet E) q) = sock_port (packet_source (ts_pnet E) p')"
    and time: "clk 129 \<le> clk' 0" "clk' 0 \<le> clk 1 + ttl (mappings (ts_nat st))"
    and uni: "\<And>n. n \<in> set (multicast_ips st) \<Longrightarrow> \<not> ts_contains E n (sock_ip (packet_destination (ts_pnet E) q))"
    and multi: "udp_packet (ts_pnet E) m" "n \<in> set (multicast_ips st)"
      "ts_contains E n (sock_ip (packet_destination (ts_pnet E) m))"
    and ok: "\<And>a. send_ok' a"
  shows "(\<exists>peer q' st''. ts_wait E opened' send_ok' clk' (FromPeer q) st' = (Inr (), [SentTo (sp_addr peer) q'], st'')
      \<and> peer \<in> set (ts_peers st) \<and> allow_multicast peer \<and> sock_ip (sp_addr peer) = sock_ip (packet_source (ts_pnet E) p)
      \<and> packet_destination (ts_pnet E) q' = packet_source (ts_pnet E) p)
    \<and> ts_wait E opened' send_ok' clk' (FromPeer m) st' =
        (Inr (), map (\<lambda>x. SentTo (sp_addr x) m) (filter peer_allows_multicast (ts_peers st)), st')"
proof -
  from inc obtain s where s: "socket_open s" "ts_nat s = ts_nat st" "ts_peers s = ts_peers st"
    "multicast_ips s = multicast_ips st" "handle_incoming_packet E clk s p = (Inr (), [ToVirtualPeer p'], st')"
    by (rule socket_round)
  then obtain ip nat' where t: "translate_incoming (ts_lru E) (ts_pnet E) (ts_nat st) clk p = (Inr ip, p', nat')"
    and st': "st' = s\<lparr>ts_nat := nat'\<rparr>"
    and f: "\<exists>peer. find (\<lambda>x. sock_ip (sp_addr x) = ip) (ts_peers st) = Some peer \<and> allow_multicast peer"
    by (auto simp: handle_incoming_packet_def Let_def split: prod.splits sum.splits option.splits if_splits)
  from f obtain peer where peer: "find (\<lambda>x. sock_ip (sp_addr x) = ip) (ts_peers st) = Some peer" "allow_multicast peer" by blast
  obtain r q' nat'' where o: "translate_outgoing (ts_lru E) (ts_pnet E) nat' (clk' 0) q = (r, q', nat'')"
    using prod_cases3 by blast
  have out: "r = Inr ip" "packet_destination (ts_pnet E) q' = packet_source (ts_pnet E) p"
    using reply_reaches_origin [where clk = clk, OF assms(1-5) t q time o] by blast+
  have "has_multicast_dst E st' q = Inr False" "has_multicast_dst E st' m = Inr True"
    using uni multi(2,3) by (auto simp: has_multicast_dst_networks [OF q(1)] has_multicast_dst_networks [OF multi(1)] st' s)
  with out(1) o peer(1) ok s have
    "ts_wait E opened' send_ok' clk' (FromPeer q) st' = (Inr (), [SentTo (sp_addr peer) q'], st'\<lparr>ts_nat := nat''\<rparr>)"
    "ts_wait E opened' send_ok' clk' (FromPeer m) st' =
        (Inr (), map (\<lambda>x. SentTo (sp_addr x) m) (filter peer_allows_multicast (ts_peers st)), st')"
    by (simp_all add: ts_wait_def ts_dispatch_def handle_mapped_unicast_packet_def handle_local_multicast_packet_def st')
  moreover have "peer \<in> set (ts_peers st)" "sock_ip (sp_addr peer) = sock_ip (packet_source (ts_pnet E) p)"
    using find_peer [OF peer(1)] translated_ip [OF assms(1,2) t] by simp_all
  ultimately show ?thesis using peer(2) out(2) by blast
qed

section \<open>Views on the plain layout\<close>

definition read_at :: "nat \<Rightarrow> nat \<Rightarrow> bytes \<Rightarrow> bytes" where "read_at i n p = take n (drop i p)"
definition write_at :: "nat \<Rightarrow> bytes \<Rightarrow> bytes \<Rightarrow> bytes" where "write_at i d p = take i p @ d @ drop (i + length d) p"

lemma length_write_at: "i + length d \<le> length p \<Longrightarrow> length (write_at i d p) = length p"
  by (simp add: write_at_def)

lemma read_write_same: "i + length d \<le> length p \<Longrightarrow> n = length d \<Longrightarrow> read_at i n (write_at i d p) = d"
  by (simp add: read_at_def write_at_def)

lemma nth_write_at:
  "i + length d \<le> length p \<Longrightarrow> k < i \<or> i + length d \<le> k \<Longrightarrow> k < length p \<Longrightarrow> write_at i d p ! k = p ! k"
  by (auto simp: write_at_def nth_append)

lemma read_write_other:
  assumes "i + length d \<le> length p" and "j + n \<le> i \<or> i + length d \<le> j" and "j + n \<le> length p"
  shows "read_at j n (write_at i d p) = read_at j n p"
  by (rule nth_equalityI) (use assms in \<open>auto simp: read_at_def length_write_at nth_write_at\<close>)

lemma drop_write_at: "i + length d \<le> j \<Longrightarrow> j \<le> length p \<Longrightarrow> drop j (write_at i d p) = drop j p"
  by (simp add: write_at_def)

lemma hd_write_at: "0 < i \<Longrightarrow> i + length d \<le> length p \<Longrightarrow> hd (write_at i d p) = hd p"
  by (cases p) (auto simp: write_at_def hd_append)

definition plain_v4 :: "u32 pnet_ip" where
  "plain_v4 = \<lparr>ip_new = (\<lambda>p. 20 \<le> length p), ip_protocol = (\<lambda>p. p ! 9),
     ip_get_source = (\<lambda>p. u32_from_be_bytes (read_at 12 4 p)), ip_get_destination = (\<lambda>p. u32_from_be_bytes (read_at 16 4 p)),
     ip_set_source = (\<lambda>a. write_at 12 (put_u32 a)), ip_set_destination = (\<lambda>a. write_at 16 (put_u32 a)),
     ip_get_checksum = (\<lambda>p. u16_from_be_bytes (read_at 10 2 p)), ip_set_checksum = (\<lambda>c. write_at 10 (put_u16 c)),
     ip_payload = drop 20, ip_set_payload = (\<lambda>u p. take 20 p @ u)\<rparr>"

definition plain_v6 :: "u128 pnet_ip" where
  "plain_v6 = \<lparr>ip_new = (\<lambda>p. 40 \<le> length p), ip_protocol = (\<lambda>p. p ! 6),
     ip_get_source = (\<lambda>p. u128_from_be_bytes (read_at 8 16 p)), ip_get_destination = (\<lambda>p. u128_from_be_bytes (read_at 24 16 p)),
     ip_set_source = (\<lambda>a. write_at 8 (put_u128 a)), ip_set_destination = (\<lambda>a. write_at 24 (put_u128 a)),
     ip_get_checksum = (\<lambda>_. 0), ip_set_checksum = (\<lambda>_ p. p),
     ip_payload = drop 40, ip_set_payload = (\<lambda>u p. take 40 p @ u)\<rparr>"

definition plain_udp :: pnet_udp where
  "plain_udp = \<lparr>udp_new = (\<lambda>u. 8 \<le> length u),
     udp_get_source = (\<lambda>u. u16_from_be_bytes (read_at 0 2 u)), udp_get_destination = (\<lambda>u. u16_from_be_bytes (read_at 2 2 u)),
     udp_set_source = (\<lambda>s. write_at 0 (put_u16 s)), udp_set_destination = (\<lambda>s. write_at 2 (put_u16 s)),
     udp_get_checksum = (\<lambda>u. u16_from_be_bytes (read_at 6 2 u)), udp_set_checksum = (\<lambda>c. write_at 6 (put_u16 c))\<rparr>"

definition plain_pnet :: pnet where
  "plain_pnet = \<lparr>pnet_v4 = plain_v4, pnet_v6 = plain_v6, pnet_udp = plain_udp\<rparr>"

lemmas layout = read_write_same read_write_other length_write_at drop_write_at hd_write_at

lemma read_prefix: "i + n \<le> m \<Longrightarrow> m \<le> length p \<Longrightarrow> read_at i n (take m p @ u) = read_at i n p"
  by (simp add: read_at_def drop_take)

lemma hd_prefix: "0 < m \<Longrightarrow> m \<le> length p \<Longrightarrow> hd (take m p @ u) = hd p"
  by (cases p) (auto simp: hd_append take_Cons' split: if_splits)

interpretation plain_views: packet_views plain_pnet
  by unfold_locales (simp_all add: plain_pnet_def plain_v4_def plain_v6_def plain_udp_def layout read_prefix hd_prefix)

interpretation plain_nat: translation "MutableIpv4Packet (pnet_v4 plain_pnet)" "pnet_udp plain_pnet"
  alist_lhm "\<lambda>m. distinct (map fst m)"
  by (rule translation_v4) (rule plain_views.packet_views_axioms, rule alist_lhm.linked_hash_map_axioms)

section \<open>Examples\<close>

definition sample_datagram :: "u32 \<Rightarrow> u16 \<Rightarrow> u32 \<Rightarrow> u16 \<Rightarrow> bytes" where
  "sample_datagram src sport dst dport =
     [0x45, 0, 0, 28, 0, 0, 0, 0, 64, 17, 0, 0] @ put_u32 src @ put_u32 dst @ put_u16 sport @ put_u16 dport @ [0, 8, 0, 0]"

definition sample_nat :: "(u16 \<times> SocketAddr TimedValue) list StarcastNat" where
  "sample_nat = StarcastNat_new_custom alist_lhm 0x64400005 0 2048 120 (\<lambda>a. sock_port a + 1)"

definition sample_mapped :: "(u16 \<times> SocketAddr TimedValue) list StarcastNat" where
  "sample_mapped = sample_nat\<lparr>mappings := lru_insert alist_lhm (mappings sample_nat) 5001 (SockV4 0x64400002 5000) 7\<rparr>"

lemma sample_nat_simps [simp]:
  "mappings sample_nat = lru_new alist_lhm 120 2048" "vpeer_addr sample_nat = \<lparr>dual_ipv4 = 0x64400005, dual_ipv6 = 0\<rparr>"
  "nat_mapper sample_nat = (\<lambda>a. sock_port a + 1)"
  by (simp_all add: sample_nat_def StarcastNat_new_custom_def)

lemma sample_datagram_fields:
  "version (sample_datagram a s d e) = 4" "udp_packet plain_pnet (sample_datagram a s d e)"
  "packet_source plain_pnet (sample_datagram a s d e) = SockV4 a s"
  "packet_destination plain_pnet (sample_datagram a s d e) = SockV4 d e"
  by (simp_all add: version_def udp_packet_def packet_source_def packet_destination_def sample_datagram_def
      plain_pnet_def plain_v4_def plain_udp_def read_at_def UDP_def sock_new_def)

lemma zero_field: "u16_from_be_bytes [0, 0] = 0"
  by (simp add: u16_from_be_bytes_def from_be_bytes_def)

lemma sample_incoming:
  "translate_incoming alist_lhm plain_pnet sample_nat (\<lambda>_. 7) (sample_datagram 0x64400002 5000 0xEF010101 1900) =
     (Inr (V4 0x64400002), sample_datagram 0x64400005 5001 0xEF010101 1900, sample_mapped)"
  by (simp add: translate_incoming_def translate_incoming_internal_def sample_datagram_def MutableIpv4Packet_def
      plain_pnet_def plain_v4_def plain_udp_def read_at_def write_at_def UDP_def fix_ipv4_header_checksum_def
      zero_field find_port.simps sock_new_def sock_port_def peek_def lru_new_def
      sample_mapped_def)

lemma sample_nat_inv: "lru_inv alist_lhm (\<lambda>m. distinct (map fst m)) (mappings sample_nat) now" "0 < capacity (mappings sample_nat)"
  "ttl (mappings sample_nat) = 120"
  using alist_lru.lru_new_inv by (simp_all add: lru_new_def)

definition sample_ts_env :: "(StdIpAddr \<times> u8, (u16 \<times> SocketAddr TimedValue) list) ts_env" where
  "sample_ts_env = \<lparr>ts_lru = alist_lhm, ts_pnet = plain_pnet, ts_hash = (\<lambda>_ _. 0), ts_net = Pair,
     ts_contains = (\<lambda>n ip. fst n = ip)\<rparr>"

definition sample_ts :: "(StdIpAddr \<times> u8, (u16 \<times> SocketAddr TimedValue) list) TransportState" where
  "sample_ts = \<lparr>socket_open = True, ts_nat = sample_nat,
     ts_peers = [\<lparr>sp_addr = SockV4 0x64400002 13569, sp_public_key = PublicKey [], allow_multicast = True, peer_allows_multicast = False\<rparr>,
       \<lparr>sp_addr = SockV4 0x64400003 13569, sp_public_key = PublicKey [1], allow_multicast = False, peer_allows_multicast = True\<rparr>],
     multicast_ips = [(V4 0xEF010101, 32)], ts_backoff = \<lparr>bo_bounds = \<lparr>bo_initial = 2, bo_maximal = None\<rparr>, current_backoff = 2\<rparr>\<rparr>"

lemma sample_ts_incoming:
  "handle_incoming_packet sample_ts_env (\<lambda>_. 7) sample_ts (sample_datagram 0x64400002 5000 0xEF010101 1900) =
     (Inr (), [ToVirtualPeer (sample_datagram 0x64400005 5001 0xEF010101 1900)], sample_ts\<lparr>ts_nat := sample_mapped\<rparr>)"
  by (simp add: handle_incoming_packet_def sample_ts_env_def sample_ts_def sample_incoming sock_ip_def)

theorem starcast_keeps_permissions_witness:
  "\<exists>peer \<in> set (ts_peers sample_ts). allow_multicast peer \<and> sock_ip (sp_addr peer) = V4 0x64400002"
proof -
  have "ts_wait sample_ts_env False (\<lambda>_. True) (\<lambda>_. 7) (FromSocket (sample_datagram 0x64400002 5000 0xEF010101 1900)) sample_ts =
      (Inr (), [ToVirtualPeer (sample_datagram 0x64400005 5001 0xEF010101 1900)], sample_ts\<lparr>ts_nat := sample_mapped\<rparr>)"
    using sample_ts_incoming by (simp add: ts_wait_def ts_dispatch_def sample_ts_def)
  from starcast_keeps_permissions [OF _ _ this] show ?thesis
    using plain_views.packet_views_axioms alist_lhm.linked_hash_map_axioms
    by (force simp: sample_ts_env_def sample_datagram_fields sock_ip_def)
qed

theorem multicast_answer_is_sent_witness:
  "let st' = sample_ts\<lparr>ts_nat := sample_mapped\<rparr>; m = sample_datagram 0x64400009 1900 0xEF010101 1900 in
     ts_wait sample_ts_env False (\<lambda>_. True) (\<lambda>_. 7) (FromSocket (sample_datagram 0x64400002 5000 0xEF010101 1900)) sample_ts =
       (Inr (), [ToVirtualPeer (sample_datagram 0x64400005 5001 0xEF010101 1900)], st')
   \<and> (\<exists>a q' st''. ts_wait sample_ts_env False (\<lambda>_. True) (\<lambda>_. 100)
        (FromPeer (sample_datagram 0x64400009 1900 0x64400005 5001)) st' = (Inr (), [SentTo a q'], st'')
        \<and> packet_destination plain_pnet q' = SockV4 0x64400002 5000)
   \<and> ts_wait sample_ts_env False (\<lambda>_. True) (\<lambda>_. 100) (FromPeer m) st' = (Inr (), [SentTo (SockV4 0x64400003 13569) m], st')"
proof -
  let ?q = "sample_datagram 0x64400009 1900 0x64400005 5001" and ?m = "sample_datagram 0x64400009 1900 0xEF010101 1900"
    and ?p = "sample_datagram 0x64400002 5000 0xEF010101 1900" and ?n = "(V4 0xEF010101, 32 :: u8)"
  have e: "ts_lru sample_ts_env = alist_lhm" "ts_pnet sample_ts_env = plain_pnet" "ts_nat sample_ts = sample_nat"
    "ts_contains sample_ts_env = (\<lambda>n ip. fst n = ip)" "multicast_ips sample_ts = [?n]"
    by (simp_all add: sample_ts_env_def sample_ts_def)
  have inc: "ts_wait sample_ts_env False (\<lambda>_. True) (\<lambda>_. 7) (FromSocket ?p) sample_ts =
      (Inr (), [ToVirtualPeer (sample_datagram 0x64400005 5001 0xEF010101 1900)], sample_ts\<lparr>ts_nat := sample_mapped\<rparr>)"
    using sample_ts_incoming by (simp add: ts_wait_def ts_dispatch_def sample_ts_def)
  have "(\<exists>peer q' st''. ts_wait sample_ts_env False (\<lambda>_. True) (\<lambda>_. 100) (FromPeer ?q) (sample_ts\<lparr>ts_nat := sample_mapped\<rparr>) =
        (Inr (), [SentTo (sp_addr peer) q'], st'')
      \<and> peer \<in> set (ts_peers sample_ts) \<and> allow_multicast peer
      \<and> sock_ip (sp_addr peer) = sock_ip (packet_source (ts_pnet sample_ts_env) ?p)
      \<and> packet_destination (ts_pnet sample_ts_env) q' = packet_source (ts_pnet sample_ts_env) ?p)
    \<and> ts_wait sample_ts_env False (\<lambda>_. True) (\<lambda>_. 100) (FromPeer ?m) (sample_ts\<lparr>ts_nat := sample_mapped\<rparr>) =
        (Inr (), map (\<lambda>x. SentTo (sp_addr x) ?m) (filter peer_allows_multicast (ts_peers sample_ts)),
          sample_ts\<lparr>ts_nat := sample_mapped\<rparr>)"
    by (rule multicast_answer_is_sent [where clk = "\<lambda>_. 7" and invar = "\<lambda>m. distinct (map fst m)" and n = ?n, OF _ _ _ _ _ inc])
      (use plain_views.packet_views_axioms alist_lhm.linked_hash_map_axioms sample_nat_inv
        in \<open>simp_all add: e sample_datagram_fields sock_port_def sock_ip_def monoI\<close>)
  moreover have "map (\<lambda>x. SentTo (sp_addr x) ?m) (filter peer_allows_multicast (ts_peers sample_ts)) =
      [SentTo (SockV4 0x64400003 13569) ?m]"
    by (simp add: sample_ts_def)
  ultimately show ?thesis using inc unfolding Let_def by (auto simp: e(2) sample_datagram_fields)
qed

theorem mapping_is_exclusive_witness:
  "sock_ip (packet_source plain_pnet (sample_datagram 0x64400005 5001 0xEF010101 1900)) \<in> {V4 0x64400005, V6 0}
    \<and> (\<exists>n \<le> (128 :: nat). \<forall>t \<le> 127. peek alist_lhm (mappings sample_mapped) 5001 t = Some (SockV4 0x64400002 5000))"
  using mapping_is_exclusive [where clk = "\<lambda>_. 7", OF plain_views.packet_views_axioms alist_lhm.linked_hash_map_axioms
      _ _ sample_incoming] sample_nat_inv
  by (auto simp: sample_datagram_fields sock_port_def)

text \<open>
  A header whose checksum is 0 (a legitimate value) is not updated: the header below adds up to 0xFFFF, as
  the sum of a correct header does, and no longer does so after its source has been replaced.
\<close>

definition zero_checksum_header :: bytes where
  "zero_checksum_header = [0x45, 0, 0, 28, 0, 0, 0, 0, 64, 17, 0, 0] @ put_u32 0x7AD20000 @ put_u32 0"

lemma zero_header_checksum_is_kept:
  "internet_checksum (be_words zero_checksum_header) = 0
    \<and> internet_checksum (be_words (fix_ipv4_header_checksum plain_v4 0x7AD20000 0x64400005
         (ip_set_source plain_v4 0x64400005 zero_checksum_header))) \<noteq> 0"
  by (simp add: zero_checksum_header_def plain_v4_def write_at_def read_at_def fix_ipv4_header_checksum_def zero_field
      be_words_def internet_checksum_def upt_rec put_u32_def be_bytes_def u16_from_be_bytes_def from_be_bytes_def
      ones_add_def)

end
