(* ===== verification/Derp_Proto.thy ===== *)
theory Derp_Proto
  imports Byte_Order Relay_Types
begin

text \<open>
  The protocol of the relay (crates/telio-relay/src/derp/proto.rs): frames, the reading and the writing
  loop, and the exchange of keys. A reader is the rest of a byte stream that ends (the peer closes the
  connection), and reading beyond the end is the error \<open>UnexpectedEof\<close>. The channels of the loops are
  outputs; whether a channel still accepts a message, and whether the writer accepts bytes, are arguments that
  may depend on what went before. The box of the library crypto_box is a parameter, the record
  \<open>salsa_env\<close>, with its documented behaviour in the locale \<open>salsa\<close>.
\<close>

section \<open>Frames\<close>

datatype FrameType =
    FServerKey | FClientInfo | FServerInfo | FSendPacket | FRecvPacket | FKeepAlive | FNotePreferred | FPeerGone
  | FPeerPersistent | FWatchConns | FClosePeer | FPing | FPong | FControlMessage

fun frame_code :: "FrameType \<Rightarrow> u8" where
  "frame_code FServerKey = 0x01"
| "frame_code FClientInfo = 0x02"
| "frame_code FServerInfo = 0x03"
| "frame_code FSendPacket = 0x04"
| "frame_code FRecvPacket = 0x05"
| "frame_code FKeepAlive = 0x06"
| "frame_code FNotePreferred = 0x07"
| "frame_code FPeerGone = 0x08"
| "frame_code FPeerPersistent = 0x09"
| "frame_code FWatchConns = 0x10"
| "frame_code FClosePeer = 0x11"
| "frame_code FPing = 0x12"
| "frame_code FPong = 0x13"
| "frame_code FControlMessage = 0x14"

definition all_frames :: "FrameType list" where
  "all_frames = [FServerKey, FClientInfo, FServerInfo, FSendPacket, FRecvPacket, FKeepAlive, FNotePreferred, FPeerGone,
     FPeerPersistent, FWatchConns, FClosePeer, FPing, FPong, FControlMessage]"

text \<open>The derived \<open>TryFromPrimitive\<close>.\<close>

definition frame_try_from :: "u8 \<Rightarrow> FrameType option" where
  "frame_try_from b = find (\<lambda>t. frame_code t = b) all_frames"

lemma frame_try_from_code [simp]: "frame_try_from (frame_code t) = Some t"
  by (cases t) (simp_all add: frame_try_from_def all_frames_def)

declare frame_code.simps [simp del]

datatype DerpError =
    ConnectionTimeoutError
  | ControlMsgSendError bytes
  | FrameTypeParseError u8
  | DerpIoError ErrorKind string
  | PublicKeyParseError
  | PayloadTooLargeError nat
  | RelayedMsgSendError PublicKey bytes

text \<open>\<open>RelayConnectionChangeReason::from\<close>: the kind of an input/output error, or a client error.\<close>

definition reason_of :: "DerpError \<Rightarrow> RelayConnectionChangeReason" where
  "reason_of err =
     (case err of
        DerpIoError k _ \<Rightarrow> ReasonIoError k
      | ConnectionTimeoutError \<Rightarrow> ReasonIoError TimedOut
      | _ \<Rightarrow> ClientError)"

definition read_exact :: "nat \<Rightarrow> bytes \<Rightarrow> (DerpError + bytes) \<times> bytes" where
  "read_exact n r = (if n \<le> length r then (Inr (take n r), drop n r) else (Inl (DerpIoError UnexpectedEof []), []))"

definition read_frame :: "bytes \<Rightarrow> (DerpError + FrameType \<times> bytes) \<times> bytes" where
  "read_frame r =
     (case read_exact 1 r of
        (Inl e, r) \<Rightarrow> (Inl e, r)
      | (Inr buf, r) \<Rightarrow>
          (case frame_try_from (hd buf) of
             None \<Rightarrow> (Inl (FrameTypeParseError (hd buf)), r)
           | Some frame_type \<Rightarrow>
               (case read_exact 4 r of
                  (Inl e, r) \<Rightarrow> (Inl e, r)
                | (Inr buf, r) \<Rightarrow>
                    (case read_exact (unat (u32_from_be_bytes buf)) r of
                       (Inl e, r) \<Rightarrow> (Inl e, r)
                     | (Inr buf, r) \<Rightarrow> (Inr (frame_type, buf), r)))))"

text \<open>The bytes that \<open>write_frame\<close> hands to the writer; the length has to fit into 32 bits.\<close>

definition frame_bytes :: "FrameType \<Rightarrow> bytes \<Rightarrow> DerpError + bytes" where
  "frame_bytes frame_type d =
     (if length d < 2 ^ 32 then Inr ([frame_code frame_type] @ put_u32 (word_of_nat (length d)) @ d)
      else Inl (PayloadTooLargeError (length d)))"

text \<open>The writer: the bytes written so far; \<open>wok\<close> gives the error if it does not take more.\<close>

definition write_frame :: "(bytes \<Rightarrow> ErrorKind option) \<Rightarrow> FrameType \<Rightarrow> bytes \<Rightarrow> bytes \<Rightarrow> (DerpError + unit) \<times> bytes" where
  "write_frame wok frame_type d w =
     (case frame_bytes frame_type d of
        Inl e \<Rightarrow> (Inl e, w)
      | Inr buf \<Rightarrow> (case wok w of None \<Rightarrow> (Inr (), w @ buf) | Some k \<Rightarrow> (Inl (DerpIoError k []), w)))"

lemma read_frame_shrinks: "read_frame r = (Inr x, r') \<Longrightarrow> length r' < length r"
  by (auto simp: read_frame_def read_exact_def split: if_splits option.splits)

section \<open>The loops\<close>

datatype derp_out = Relayed PublicKey bytes | ToDirect bytes

text \<open>\<open>drain(0..KEY_SIZE)\<close> panics on a shorter vector.\<close>

function start_read ::
  "(derp_out list \<Rightarrow> bool) \<Rightarrow> bytes \<Rightarrow> derp_out list \<Rightarrow> (DerpError + unit) outcome \<times> derp_out list" where
  "start_read ok r sent =
     (case read_frame r of
        (Inl e, _) \<Rightarrow> (Returns (Inl e), sent)
      | (Inr (frame_type, d), r) \<Rightarrow>
          (case frame_type of
             FRecvPacket \<Rightarrow>
               if length d < KEY_SIZE then (Panics, sent)
               else (case key_try_from PublicKey (take KEY_SIZE d) of
                       None \<Rightarrow> (Returns (Inl PublicKeyParseError), sent)
                     | Some pk \<Rightarrow>
                         if ok sent then start_read ok r (sent @ [Relayed pk (drop KEY_SIZE d)])
                         else (Returns (Inl (RelayedMsgSendError pk (drop KEY_SIZE d))), sent))
           | FControlMessage \<Rightarrow>
               if ok sent then start_read ok r (sent @ [ToDirect d])
               else (Returns (Inl (ControlMsgSendError d)), sent)
           | _ \<Rightarrow> start_read ok r sent))"
  by pat_completeness auto
termination
  by (relation "measure (\<lambda>(ok, r, sent). length r)") (auto intro: read_frame_shrinks [OF sym])

declare start_read.simps [simp del]

text \<open>What the two receivers of the writing loop yield; \<open>None\<close> is a closed channel.\<close>

datatype derp_in = RelayedRecv "(PublicKey \<times> bytes) option" | DirectRecv "bytes option"

fun start_write :: "(bytes \<Rightarrow> ErrorKind option) \<Rightarrow> derp_in list \<Rightarrow> bytes \<Rightarrow> (DerpError + unit) option \<times> bytes" where
  "start_write wok [] w = (None, w)"
| "start_write wok (RelayedRecv (Some (pk, d)) # evs) w =
     (case write_frame wok FSendPacket (key_bytes pk @ d) w of
        (Inl e, w) \<Rightarrow> (Some (Inl e), w)
      | (Inr _, w) \<Rightarrow> start_write wok evs w)"
| "start_write wok (DirectRecv (Some d) # evs) w =
     (case write_frame wok FControlMessage d w of
        (Inl e, w) \<Rightarrow> (Some (Inl e), w)
      | (Inr _, w) \<Rightarrow> start_write wok evs w)"
| "start_write wok (RelayedRecv None # evs) w = (Some (Inr ()), w)"
| "start_write wok (DirectRecv None # evs) w = (Some (Inr ()), w)"

section \<open>The exchange of keys\<close>

definition MAGIC :: bytes where "MAGIC = [0x44, 0x45, 0x52, 0x50, 0xF0, 0x9F, 0x94, 0x91]"

record salsa_env =
  salsa_public :: "SecretKey \<Rightarrow> PublicKey"
  salsa_encrypt :: "PublicKey \<Rightarrow> SecretKey \<Rightarrow> bytes \<Rightarrow> bytes \<Rightarrow> string + bytes"
  salsa_decrypt :: "PublicKey \<Rightarrow> SecretKey \<Rightarrow> bytes \<Rightarrow> bytes \<Rightarrow> string + bytes"

definition ascii :: "string \<Rightarrow> bytes" where "ascii s = map (\<lambda>c. word_of_nat (of_char c)) s"

definition client_info :: bytes where
  "client_info = ascii (''{'' @ [CHR 0x22] @ ''version'' @ [CHR 0x22] @ '': 2, '' @ [CHR 0x22] @ ''meshKey'' @ [CHR 0x22] @ '': ''
     @ [CHR 0x22, CHR 0x22] @ ''}'')"

definition read_server_key :: "bytes \<Rightarrow> (DerpError + PublicKey) \<times> bytes" where
  "read_server_key r =
     (case read_frame r of
        (Inl e, r) \<Rightarrow> (Inl e, r)
      | (Inr (frame_type, d), r) \<Rightarrow>
          if frame_type \<noteq> FServerKey then (Inl (DerpIoError InvalidData ''invalid frame type for server key''), r)
          else if length d < 40 then (Inl (DerpIoError InvalidData ''invalid server response length''), r)
          else if take (length MAGIC) d \<noteq> MAGIC
          then (Inl (DerpIoError InvalidData ''server key should start with MAGIC sting''), r)
          else (case key_try_from PublicKey (drop (length MAGIC) d) of
                  Some pk \<Rightarrow> (Inr pk, r)
                | None \<Rightarrow> (Inl (DerpIoError InvalidData ''invalid server public key''), r)))"

definition write_client_key ::
  "salsa_env \<Rightarrow> (bytes \<Rightarrow> ErrorKind option) \<Rightarrow> bytes \<Rightarrow> SecretKey \<Rightarrow> PublicKey \<Rightarrow> bytes \<Rightarrow> (DerpError + unit) \<times> bytes" where
  "write_client_key S wok nonce secret_key server_key w =
     (case salsa_encrypt S server_key secret_key nonce client_info of
        Inl e \<Rightarrow> (Inl (DerpIoError IoOther e), w)
      | Inr ciphertext \<Rightarrow> write_frame wok FClientInfo (key_bytes (salsa_public S secret_key) @ nonce @ ciphertext) w)"

definition exchange_keys ::
  "salsa_env \<Rightarrow> (bytes \<Rightarrow> ErrorKind option) \<Rightarrow> bytes \<Rightarrow> SecretKey \<Rightarrow> bytes \<Rightarrow> bytes \<Rightarrow> (DerpError + unit) \<times> bytes \<times> bytes" where
  "exchange_keys S wok nonce secret_key r w =
     (case read_server_key r of
        (Inl e, r) \<Rightarrow> (Inl e, r, w)
      | (Inr server_key, r) \<Rightarrow> (case write_client_key S wok nonce secret_key server_key w of (res, w) \<Rightarrow> (res, r, w)))"

definition read_server_info :: "bytes \<Rightarrow> (DerpError + unit) \<times> bytes" where
  "read_server_info r =
     (case read_frame r of
        (Inl e, r) \<Rightarrow> (Inl e, r)
      | (Inr (frame_type, _), r) \<Rightarrow>
          if frame_type \<noteq> FServerInfo then (Inl (DerpIoError InvalidData ''invalid frame type for server info''), r)
          else (Inr (), r))"

text \<open>What one end encrypts for the other, the other decrypts.\<close>

locale salsa =
  fixes S :: salsa_env
  assumes opens: "salsa_encrypt S (salsa_public S b) a n m = Inr c \<Longrightarrow> salsa_decrypt S (salsa_public S a) b n c = Inr m"
    and public_size: "length (key_bytes (salsa_public S a)) = KEY_SIZE"

section \<open>Streams of frames\<close>

definition frame_of :: "FrameType \<times> bytes \<Rightarrow> bytes" where
  "frame_of f = (case f of (t, d) \<Rightarrow> [frame_code t] @ put_u32 (word_of_nat (length d)) @ d)"

lemma frame_bytes_iff: "frame_bytes t d = Inr b \<longleftrightarrow> length d < 2 ^ 32 \<and> b = frame_of (t, d)"
  by (auto simp: frame_bytes_def frame_of_def)

lemma read_frame_of: "length d < 2 ^ 32 \<Longrightarrow> read_frame (frame_of (t, d) @ rest) = (Inr (t, d), rest)"
proof -
  assume "length d < 2 ^ 32"
  then have "unat (word_of_nat (length d) :: u32) = length d" by (simp add: unat_of_nat)
  then show ?thesis by (simp add: read_frame_def read_exact_def frame_of_def)
qed

text \<open>What a frame contributes to the channels of the reading loop.\<close>

definition delivered :: "FrameType \<times> bytes \<Rightarrow> derp_out option" where
  "delivered f =
     (case f of
        (FRecvPacket, d) \<Rightarrow> Some (Relayed (PublicKey (take KEY_SIZE d)) (drop KEY_SIZE d))
      | (FControlMessage, d) \<Rightarrow> Some (ToDirect d)
      | _ \<Rightarrow> None)"

definition frame_ok :: "FrameType \<times> bytes \<Rightarrow> bool" where
  "frame_ok f \<longleftrightarrow> length (snd f) < 2 ^ 32 \<and> (fst f = FRecvPacket \<longrightarrow> KEY_SIZE \<le> length (snd f))"

lemma start_read_frame:
  assumes "frame_ok f" and "ok sent"
  shows "start_read ok (frame_of f @ rest) sent =
    start_read ok rest (sent @ (case delivered f of None \<Rightarrow> [] | Some m \<Rightarrow> [m]))"
proof (cases f)
  case (Pair t d)
  with assms have "read_frame (frame_of f @ rest) = (Inr (t, d), rest)" by (simp add: frame_ok_def read_frame_of)
  with assms Pair show ?thesis
    by (subst start_read.simps) (auto simp: delivered_def frame_ok_def key_try_from_def split: FrameType.splits)
qed

lemma start_read_frames:
  assumes "\<forall>f \<in> set fs. frame_ok f"
  shows "start_read (\<lambda>_. True) (concat (map frame_of fs)) sent =
    (Returns (Inl (DerpIoError UnexpectedEof [])), sent @ List.map_filter delivered fs)"
  using assms
proof (induction fs arbitrary: sent)
  case Nil
  show ?case by (subst start_read.simps) (simp add: read_frame_def read_exact_def)
next
  case (Cons f fs)
  then show ?case using start_read_frame [of f "\<lambda>_. True" sent] by (simp split: option.split)
qed

text \<open>The frames that the writing loop makes of what it receives.\<close>

definition sent_frame :: "derp_in \<Rightarrow> (FrameType \<times> bytes) option" where
  "sent_frame i =
     (case i of
        RelayedRecv (Some (pk, d)) \<Rightarrow> Some (FSendPacket, key_bytes pk @ d)
      | DirectRecv (Some d) \<Rightarrow> Some (FControlMessage, d)
      | _ \<Rightarrow> None)"

lemma write_frame_ok: "length d < 2 ^ 32 \<Longrightarrow> write_frame (\<lambda>_. None) t d w = (Inr (), w @ frame_of (t, d))"
  by (simp add: write_frame_def frame_bytes_def frame_of_def)

lemma start_write_frame:
  assumes "sent_frame i = Some f" and "length (snd f) < 2 ^ 32"
  shows "start_write (\<lambda>_. None) (i # evs) w = start_write (\<lambda>_. None) evs (w @ frame_of f)"
proof (cases i)
  case (RelayedRecv x)
  with assms(1) obtain pk d where x: "x = Some (pk, d)" "f = (FSendPacket, key_bytes pk @ d)"
    by (cases x) (auto simp: sent_frame_def)
  then show ?thesis using write_frame_ok [of "key_bytes pk @ d" FSendPacket w] assms(2) by (simp only: RelayedRecv start_write.simps snd_conv) simp
next
  case (DirectRecv x)
  with assms(1) obtain d where x: "x = Some d" "f = (FControlMessage, d)"
    by (cases x) (auto simp: sent_frame_def)
  then show ?thesis using write_frame_ok [of d FControlMessage w] assms(2) by (simp only: DirectRecv start_write.simps snd_conv) simp
qed

lemma start_write_frames:
  assumes "\<forall>i \<in> set evs. \<exists>f. sent_frame i = Some f \<and> length (snd f) < 2 ^ 32"
  shows "start_write (\<lambda>_. None) evs w = (None, w @ concat (map frame_of (List.map_filter sent_frame evs)))"
  using assms
proof (induction evs arbitrary: w)
  case (Cons i evs)
  then obtain f where f: "sent_frame i = Some f" "length (snd f) < 2 ^ 32" by (meson list.set_intros(1))
  have "start_write (\<lambda>_. None) (i # evs) w = start_write (\<lambda>_. None) evs (w @ frame_of f)" by (rule start_write_frame [OF f])
  also have "\<dots> = (None, (w @ frame_of f) @ concat (map frame_of (List.map_filter sent_frame evs)))"
    using Cons.prems by (intro Cons.IH) (meson list.set_intros(2))
  finally show ?case using f(1) by simp
qed simp

end
