(* ===== verification/Derp_Relay.thy ===== *)
theory Derp_Relay
  imports Derp_Proto Proto_Codecs
begin

text \<open>
  The relay client (crates/telio-relay/src/derp.rs) and the messages it exchanges with the server
  (crates/telio-proto/src/packet/control/derppoll.rs and \<open>PacketControl\<close> of packet.rs). Hash sets and maps
  that the code iterates over are lists in the order of the iteration. The connection task is the loop
  \<open>connecting_loop\<close>, whose attempts are answered by a parameter; it may run forever. The event loop is
  a step on the state for one event, with the messages and events it sends as output.
\<close>

section \<open>Servers\<close>

record SortedServers =
  ss_servers :: "DerpServer list"
  current_server_num :: nat

definition SortedServers_new :: "DerpServer list \<Rightarrow> SortedServers" where
  "SortedServers_new servers = \<lparr>ss_servers = sort_key srv_weight servers, current_server_num = 0\<rparr>"

definition get_next :: "SortedServers \<Rightarrow> DerpServer option \<times> SortedServers" where
  "get_next s =
     (if current_server_num s < length (ss_servers s)
      then (Some (ss_servers s ! current_server_num s), s\<lparr>current_server_num := current_server_num s + 1\<rparr>)
      else (None, s))"

definition ss_contains :: "SortedServers \<Rightarrow> DerpServer \<Rightarrow> bool" where
  "ss_contains s server = list_ex (\<lambda>x. server_eq x server) (ss_servers s)"

definition reset_server_index :: "SortedServers \<Rightarrow> SortedServers" where
  "reset_server_index s = s\<lparr>current_server_num := 0\<rparr>"

section \<open>Messages to the server\<close>

datatype PacketTypeControl = CDerpPollRequest | CDerpPollResponse | CReserved | CInvalid

fun control_byte :: "PacketTypeControl \<Rightarrow> u8" where
  "control_byte CDerpPollRequest = 0x00"
| "control_byte CDerpPollResponse = 0x01"
| "control_byte CReserved = 0xfe"
| "control_byte CInvalid = 0xff"

definition control_from :: "u8 \<Rightarrow> PacketTypeControl" where
  "control_from val = (case find (\<lambda>t. control_byte t = val) [CDerpPollRequest, CDerpPollResponse, CReserved, CInvalid] of
     Some t \<Rightarrow> t | None \<Rightarrow> CInvalid)"

record DerpPollRequestMsg =
  req_session :: u64
  req_peers :: "string list"

record DerpPollResponseMsg =
  resp_session :: u64
  resp_states :: "(string \<times> bool) list"

datatype PacketControl = PollRequest DerpPollRequestMsg | PollResponse DerpPollResponseMsg

text \<open>The libraries: boxes, the generated messages, and the text forms of keys.\<close>

record derp_env =
  de_boxes :: box_env
  de_proto :: proto_env
  de_codecs :: codecs
  pb_poll_request :: "string list pb"
  pb_poll_response :: "(string \<times> bool) list pb"

definition DerpPollRequestMsg_new :: "codecs \<Rightarrow> u64 \<Rightarrow> PublicKey list \<Rightarrow> DerpPollRequestMsg" where
  "DerpPollRequestMsg_new K ses pks = \<lparr>req_session = ses, req_peers = map (PublicKey_display K) pks\<rparr>"

definition DerpPollResponseMsg_new :: "codecs \<Rightarrow> u64 \<Rightarrow> (PublicKey \<times> bool) list \<Rightarrow> DerpPollResponseMsg" where
  "DerpPollResponseMsg_new K ses states =
     \<lparr>resp_session = ses, resp_states = map (\<lambda>(pk, st). (PublicKey_display K pk, st)) states\<rparr>"

text \<open>Entries that are no keys are dropped; parsing a key may panic. A later entry replaces an earlier one.\<close>

fun parse_entries :: "codecs \<Rightarrow> (string \<times> 'v) list \<Rightarrow> (PublicKey \<times> 'v) list outcome" where
  "parse_entries K [] = Returns []"
| "parse_entries K ((peer, v) # es) =
     (case key_from_str K PublicKey peer of
        Panics \<Rightarrow> Panics
      | Returns r \<Rightarrow>
          (case parse_entries K es of
             Panics \<Rightarrow> Panics
           | Returns ps \<Rightarrow> Returns (case r of Inl _ \<Rightarrow> ps | Inr pk \<Rightarrow> (pk, v) # ps)))"

definition get_peers :: "codecs \<Rightarrow> DerpPollRequestMsg \<Rightarrow> PublicKey list outcome" where
  "get_peers K m =
     (case parse_entries K (map (\<lambda>p. (p, ())) (req_peers m)) of Panics \<Rightarrow> Panics | Returns ps \<Rightarrow> Returns (map fst ps))"

definition get_peers_statuses :: "codecs \<Rightarrow> DerpPollResponseMsg \<Rightarrow> (PublicKey \<rightharpoonup> bool) outcome" where
  "get_peers_statuses K m =
     (case parse_entries K (resp_states m) of Panics \<Rightarrow> Panics | Returns ps \<Rightarrow> Returns (map_of (rev ps)))"

text \<open>Both messages: a byte for the type, the session, and the generated body.\<close>

definition poll_decode :: "PacketTypeControl \<Rightarrow> 'b pb \<Rightarrow> (u64 \<Rightarrow> 'b \<Rightarrow> 'm) \<Rightarrow> bytes \<Rightarrow> CodecError + 'm" where
  "poll_decode t P mk bytes =
     (case bytes of
        [] \<Rightarrow> Inl CodecInvalidLength
      | b # rest \<Rightarrow>
          if control_from b = t then
            andThen (session_of 0 rest) (\<lambda>ses.
            andThen (ok_or CodecInvalidLength (get_from 8 rest)) (\<lambda>body.
            andThen (parsed P body) (\<lambda>m. Inr (mk ses m))))
          else Inl DecodeFailed)"

definition poll_encode :: "PacketTypeControl \<Rightarrow> 'b pb \<Rightarrow> u64 \<Rightarrow> 'b \<Rightarrow> CodecError + bytes" where
  "poll_encode t P ses body = andThen (written P body) (\<lambda>bs. Inr (control_byte t # put_u64 ses @ bs))"

definition PacketControl_decode :: "derp_env \<Rightarrow> bytes \<Rightarrow> CodecError + PacketControl" where
  "PacketControl_decode E bytes =
     (case bytes of
        [] \<Rightarrow> Inl CodecInvalidLength
      | b # _ \<Rightarrow>
          (case control_from b of
             CDerpPollRequest \<Rightarrow>
               map_ok PollRequest (poll_decode CDerpPollRequest (pb_poll_request E)
                 (\<lambda>ses m. \<lparr>req_session = ses, req_peers = m\<rparr>) bytes)
           | CDerpPollResponse \<Rightarrow>
               map_ok PollResponse (poll_decode CDerpPollResponse (pb_poll_response E)
                 (\<lambda>ses m. \<lparr>resp_session = ses, resp_states = m\<rparr>) bytes)
           | _ \<Rightarrow> Inl DecodeFailed))"

fun PacketControl_encode :: "derp_env \<Rightarrow> PacketControl \<Rightarrow> CodecError + bytes" where
  "PacketControl_encode E (PollRequest m) = poll_encode CDerpPollRequest (pb_poll_request E) (req_session m) (req_peers m)"
| "PacketControl_encode E (PollResponse m) = poll_encode CDerpPollResponse (pb_poll_response E) (resp_session m) (resp_states m)"

section \<open>Encryption between nodes\<close>

text \<open>Data packets are encrypted by WireGuard and pass; everything else is boxed for the peer.\<close>

definition encrypt_if_needed ::
  "box_env \<Rightarrow> bytes \<Rightarrow> SecretKey \<Rightarrow> PublicKey \<Rightarrow> bytes \<Rightarrow> string + bytes" where
  "encrypt_if_needed B nonce secret_key pk d =
     (case d of
        [] \<Rightarrow> Inl ''Invalid buffer''
      | b # _ \<Rightarrow>
          if packet_type_from b = TData then Inr d
          else (case box_encrypt B (ChaChaBox_new B pk secret_key) nonce d of
                  Inl e \<Rightarrow> Inl e
                | Inr cipher_text \<Rightarrow> Inr ([type_byte TEncrypted] @ nonce @ cipher_text)))"

definition decrypt_if_needed :: "box_env \<Rightarrow> SecretKey \<Rightarrow> PublicKey \<Rightarrow> bytes \<Rightarrow> string + bytes" where
  "decrypt_if_needed B secret_key pk d =
     (case d of
        [] \<Rightarrow> Inl ''Invalid buffer''
      | b # _ \<Rightarrow>
          (case packet_type_from b of
             TData \<Rightarrow> Inr d
           | TEncrypted \<Rightarrow>
               (case get_range 1 (NONCE_SIZE + 1) d of
                  None \<Rightarrow> Inl ''aead''
                | Some nonce \<Rightarrow>
                    (case get_range (NONCE_SIZE + 1) (length d) d of
                       None \<Rightarrow> Inl ''aead''
                     | Some cipher_text \<Rightarrow> box_decrypt B (ChaChaBox_new B pk secret_key) nonce cipher_text))
           | _ \<Rightarrow> Inl ''Malformed / Not encrypted package''))"

section \<open>Configuration and state\<close>

record FeatureDerp =
  fd_tcp_keepalive :: "u32 option"
  fd_derp_keepalive :: "u32 option"
  fd_poll_keepalive :: "bool option"

record DerpKeepaliveConfig =
  tcp_keepalive :: u32
  derp_keepalive :: u32
  poll_keepalive :: bool

definition DEFAULT_SERVER_KEEPALIVE_CONFIG :: DerpKeepaliveConfig where
  "DEFAULT_SERVER_KEEPALIVE_CONFIG = \<lparr>tcp_keepalive = 15, derp_keepalive = 60, poll_keepalive = False\<rparr>"

definition DerpKeepaliveConfig_from :: "FeatureDerp option \<Rightarrow> DerpKeepaliveConfig" where
  "DerpKeepaliveConfig_from f =
     (case f of
        None \<Rightarrow> \<lparr>tcp_keepalive = 15, derp_keepalive = 60, poll_keepalive = False\<rparr>
      | Some d \<Rightarrow>
          \<lparr>tcp_keepalive = (case fd_tcp_keepalive d of None \<Rightarrow> 15 | Some k \<Rightarrow> k),
           derp_keepalive = (case fd_derp_keepalive d of None \<Rightarrow> 60 | Some k \<Rightarrow> k),
           poll_keepalive = (case fd_poll_keepalive d of None \<Rightarrow> False | Some b \<Rightarrow> b)\<rparr>)"

record DerpConfig =
  dc_secret_key :: SecretKey
  dc_servers :: SortedServers
  meshnet_peers :: "PublicKey list"
  dc_timeout :: duration
  server_keepalives :: DerpKeepaliveConfig
  enable_polling :: bool
  use_built_in_root_certificates :: bool

text \<open>The derived \<open>PartialEq\<close>; sorted servers are compared without the position, sets as sets.\<close>

definition config_eq :: "DerpConfig \<Rightarrow> DerpConfig \<Rightarrow> bool" where
  "config_eq a b \<longleftrightarrow> dc_secret_key a = dc_secret_key b \<and> servers_eq (ss_servers (dc_servers a)) (ss_servers (dc_servers b))
     \<and> set (meshnet_peers a) = set (meshnet_peers b) \<and> dc_timeout a = dc_timeout b
     \<and> server_keepalives a = server_keepalives b \<and> enable_polling a = enable_polling b
     \<and> use_built_in_root_certificates a = use_built_in_root_certificates b"

datatype relay_out =
    ServerEvent DerpServer
  | RelayAnalytics DerpAnalyticsEvent
  | Slept nat
  | ToServerRelayed PublicKey bytes
  | ToServerDirect bytes
  | ToUpper PublicKey PacketRelayed

record DerpState =
  chan_open :: bool
  dc_config :: "DerpConfig option"
  relay_conn :: bool
  relay_server :: "DerpServer option"
  derp_poll_session :: u64
  remote_peers_states :: "PublicKey \<rightharpoonup> bool"
  has_aggregator :: bool
  last_disconnection_reason :: RelayConnectionChangeReason
  connecting :: bool

definition derp_start_with :: "bool \<Rightarrow> DerpState" where
  "derp_start_with aggregator =
     \<lparr>chan_open = True, dc_config = None, relay_conn = False, relay_server = None, derp_poll_session = 0,
      remote_peers_states = Map.empty, has_aggregator = aggregator, last_disconnection_reason = ConfigurationChange,
      connecting = False\<rparr>"

definition disconnect :: "DerpState \<Rightarrow> relay_out list \<times> DerpState" where
  "disconnect st =
     ((case relay_server st of None \<Rightarrow> [] | Some server \<Rightarrow> [ServerEvent (server\<lparr>conn_state := RelayDisconnected\<rparr>)]),
      st\<lparr>connecting := False, relay_conn := False, relay_server := None\<rparr>)"

definition derp_configure :: "DerpConfig option \<Rightarrow> DerpState \<Rightarrow> relay_out list \<times> DerpState" where
  "derp_configure config st =
     (if rel_option config_eq (dc_config st) config then ([], st)
      else
        let st = st\<lparr>dc_config := config\<rparr> in
        (case config of
           None \<Rightarrow> ([], st)
         | Some c \<Rightarrow>
             (case relay_server st of
                Some server \<Rightarrow> if \<not> ss_contains (dc_servers c) server then disconnect st else ([], st)
              | None \<Rightarrow> disconnect st)))"

definition derp_reconnect :: "DerpState \<Rightarrow> relay_out list \<times> DerpState" where
  "derp_reconnect st = disconnect st"

section \<open>Connecting\<close>

definition analytics :: "bool \<Rightarrow> DerpServer \<Rightarrow> RelayConnectionChangeReason \<Rightarrow> instant \<Rightarrow> relay_out list" where
  "analytics aggregator server reason now =
     (if aggregator then [RelayAnalytics (DerpAnalyticsEvent_new server reason now)] else [])"

text \<open>
  \<open>dial n server\<close> is the outcome of the attempt number \<open>n\<close>; \<open>sleep_time\<close> counts seconds (the
  floating-point values 1, 2, 4, ..., 60 of the code are exact). The loop looks at the clock for the analytics.
\<close>

partial_function (option) connecting_loop ::
  "(nat \<Rightarrow> DerpServer \<Rightarrow> DerpError + unit) \<Rightarrow> (nat \<Rightarrow> instant) \<Rightarrow> bool \<Rightarrow> nat \<Rightarrow> SortedServers \<Rightarrow> nat
     \<Rightarrow> RelayConnectionChangeReason \<Rightarrow> relay_out list \<Rightarrow> (DerpServer \<times> relay_out list) option" where
  "connecting_loop dial clk aggregator n servers sleep_time last_reason out =
     (case fst (get_next servers) of
        None \<Rightarrow>
          connecting_loop dial clk aggregator n (reset_server_index (snd (get_next servers))) (min (sleep_time * 2) 60) last_reason
            (out @ [Slept sleep_time])
      | Some next_server \<Rightarrow>
          (let server = next_server\<lparr>conn_state := RelayConnecting\<rparr>;
               out = out @ [ServerEvent server] @ analytics aggregator server last_reason (clk (2 * n))
           in case dial n server of
                Inr _ \<Rightarrow>
                  (let server = server\<lparr>conn_state := RelayConnected\<rparr>
                   in Some (server, out @ analytics aggregator server ConfigurationChange (clk (2 * n + 1))))
              | Inl err \<Rightarrow>
                  connecting_loop dial clk aggregator (n + 1) (snd (get_next servers)) sleep_time (reason_of err) out))"

definition start_connecting ::
  "(nat \<Rightarrow> DerpServer \<Rightarrow> DerpError + unit) \<Rightarrow> (nat \<Rightarrow> instant) \<Rightarrow> DerpState \<Rightarrow> DerpConfig \<Rightarrow> (DerpServer \<times> relay_out list) option" where
  "start_connecting dial clk st config =
     connecting_loop dial clk (has_aggregator st) 0 (dc_servers config) 1 (last_disconnection_reason st) []"

section \<open>Traffic\<close>

definition handle_outcoming_payload_relayed ::
  "derp_env \<Rightarrow> bytes \<Rightarrow> DerpConfig \<Rightarrow> PublicKey \<Rightarrow> PacketRelayed \<Rightarrow> relay_out list" where
  "handle_outcoming_payload_relayed E nonce config pk msg =
     (case PacketRelayed_encode (de_proto E) msg of
        Inl _ \<Rightarrow> []
      | Inr buf \<Rightarrow>
          (case encrypt_if_needed (de_boxes E) nonce (dc_secret_key config) pk buf of
             Inl _ \<Rightarrow> []
           | Inr cipher_text \<Rightarrow> [ToServerRelayed pk cipher_text]))"

definition handle_outcoming_payload_direct :: "derp_env \<Rightarrow> PacketControl \<Rightarrow> relay_out list" where
  "handle_outcoming_payload_direct E msg =
     (case PacketControl_encode E msg of Inl _ \<Rightarrow> [] | Inr buf \<Rightarrow> [ToServerDirect buf])"

definition handle_incoming_payload_relayed ::
  "derp_env \<Rightarrow> DerpConfig \<Rightarrow> PublicKey \<Rightarrow> bytes \<Rightarrow> relay_out list" where
  "handle_incoming_payload_relayed E config pk buf =
     (if pk \<in> set (meshnet_peers config) then
        (case decrypt_if_needed (de_boxes E) (dc_secret_key config) pk buf of
           Inl _ \<Rightarrow> []
         | Inr plain_text \<Rightarrow>
             (case PacketRelayed_decode (de_proto E) plain_text of Inl _ \<Rightarrow> [] | Inr msg \<Rightarrow> [ToUpper pk msg]))
      else [])"

definition handle_incoming_payload_direct :: "derp_env \<Rightarrow> u64 \<Rightarrow> bytes \<Rightarrow> (PublicKey \<rightharpoonup> bool) option outcome" where
  "handle_incoming_payload_direct E expected_session buf =
     (case PacketControl_decode E buf of
        Inr (PollResponse resp) \<Rightarrow>
          if resp_session resp \<noteq> expected_session then Returns None
          else (case get_peers_statuses (de_codecs E) resp of Panics \<Rightarrow> Panics | Returns m \<Rightarrow> Returns (Some m))
      | Inr (PollRequest _) \<Rightarrow> Returns None
      | Inl _ \<Rightarrow> Returns None)"

section \<open>The event loop\<close>

text \<open>
  \<open>ConnJoin\<close>: one of the transmission tasks has ended (\<open>None\<close>: it has panicked). \<open>UpperRead\<close>:
  \<open>None\<close> if the connection does not accept more, \<open>Some None\<close> if the upper channel is closed.
  \<open>ConnectingDone\<close>: the connection task has ended (\<open>None\<close>: it has panicked).
\<close>

datatype derp_event =
    ConnJoin "(DerpError + unit) option"
  | UpperRead "(PublicKey \<times> PacketRelayed) option option"
  | PollTick
  | RelayedRead PublicKey bytes
  | DirectRead bytes
  | ConnectingDone "DerpServer option"

definition lost :: "RelayConnectionChangeReason \<Rightarrow> DerpState \<Rightarrow> relay_out list \<times> DerpState" where
  "lost reason st = disconnect (st\<lparr>last_disconnection_reason := reason\<rparr>)"

definition derp_connected_step ::
  "derp_env \<Rightarrow> bytes \<Rightarrow> DerpConfig \<Rightarrow> derp_event \<Rightarrow> DerpState \<Rightarrow> (relay_out list \<times> DerpState) outcome" where
  "derp_connected_step E nonce config ev st =
     (case ev of
        ConnJoin err \<Rightarrow>
          Returns (lost (case err of Some (Inr _) \<Rightarrow> ConfigurationChange | Some (Inl e) \<Rightarrow> reason_of e | None \<Rightarrow> ClientError) st)
      | UpperRead (Some (Some (pk, msg))) \<Rightarrow> Returns (handle_outcoming_payload_relayed E nonce config pk msg, st)
      | UpperRead (Some None) \<Rightarrow> Returns (lost ClientError (st\<lparr>chan_open := False\<rparr>))
      | UpperRead None \<Rightarrow> Returns (lost ClientError st)
      | PollTick \<Rightarrow>
          Returns (if enable_polling config \<or> poll_keepalive (server_keepalives config)
             then let st = st\<lparr>derp_poll_session := derp_poll_session st + 1\<rparr>
                  in (handle_outcoming_payload_direct E (PollRequest (DerpPollRequestMsg_new (de_codecs E)
                        (derp_poll_session st) (meshnet_peers config))), st)
             else ([], st))
      | RelayedRead pk buf \<Rightarrow> Returns (handle_incoming_payload_relayed E config pk buf, st)
      | DirectRead buf \<Rightarrow>
          (case handle_incoming_payload_direct E (derp_poll_session st) buf of
             Panics \<Rightarrow> Panics
           | Returns r \<Rightarrow> Returns ([], st\<lparr>remote_peers_states := (case r of None \<Rightarrow> Map.empty | Some m \<Rightarrow> m)\<rparr>))
      | ConnectingDone _ \<Rightarrow> Returns ([], st))"

definition derp_connecting_step :: "derp_event \<Rightarrow> DerpState \<Rightarrow> relay_out list \<times> DerpState" where
  "derp_connecting_step ev st =
     (case ev of
        ConnectingDone (Some server) \<Rightarrow> ([ServerEvent server], st\<lparr>relay_server := Some server, relay_conn := True\<rparr>)
      | ConnectingDone None \<Rightarrow> ([], st\<lparr>last_disconnection_reason := ClientError\<rparr>)
      | _ \<Rightarrow> ([], st))"

definition derp_wait :: "derp_env \<Rightarrow> bytes \<Rightarrow> derp_event \<Rightarrow> DerpState \<Rightarrow> (relay_out list \<times> DerpState) outcome" where
  "derp_wait E nonce ev st =
     (case dc_config st of
        None \<Rightarrow> Returns (disconnect st)
      | Some config \<Rightarrow>
          if \<not> chan_open st then Returns ([], st)
          else if relay_conn st then derp_connected_step E nonce config ev (st\<lparr>connecting := False\<rparr>)
          else Returns (derp_connecting_step ev (st\<lparr>connecting := True\<rparr>)))"

end
