(* ===== verification/Derp_Theorems.thy ===== *)
theory Derp_Theorems
  imports Derp_Relay Proto_Theorems
begin

text \<open>
  Properties of the relay client: connecting, the delivery of packets from node to node through the
  relay, the authenticity of what is accepted, and the frames of the protocol.
\<close>

section \<open>Connecting\<close>

definition slept :: "relay_out list \<Rightarrow> nat list" where
  "slept outs = List.map_filter (\<lambda>x. case x of Slept t \<Rightarrow> Some t | _ \<Rightarrow> None) outs"

lemma slept_simps [simp]:
  "slept [] = []" "slept (xs @ ys) = slept xs @ slept ys" "slept [ServerEvent s] = []" "slept [Slept t] = [t]"
  "slept (ServerEvent s # xs) = slept xs" "slept (Slept t # xs) = t # slept xs" "slept (analytics a v r n) = []"
  by (simp_all add: slept_def analytics_def)

text \<open>The waits of \<open>m\<close> exhausted rounds, from a first one of \<open>s\<close> seconds.\<close>

definition waits :: "nat \<Rightarrow> nat \<Rightarrow> nat list" where "waits s m = map (\<lambda>i. min (s * 2 ^ i) 60) [0..<m]"

lemma waits_simps: "waits s 0 = []" "s \<le> 60 \<Longrightarrow> waits s (Suc m) = s # waits (min (s * 2) 60) m"
proof -
  show "waits s 0 = []" by (simp add: waits_def)
  have "min (s * 2 ^ Suc i) 60 = min (min (s * 2) 60 * 2 ^ i) 60" for i
  proof (cases "s * 2 \<le> 60")
    case False
    have one: "(1 :: nat) \<le> 2 ^ i" by simp
    have "60 \<le> s * 2 * 2 ^ i" using mult_le_mono [OF _ one, of 60 "s * 2"] False by simp
    then have "min (s * 2 ^ Suc i) 60 = 60" by (simp add: mult.assoc)
    moreover have "min (s * 2) 60 = 60" "min (60 * 2 ^ i) (60 :: nat) = 60"
      using False mult_le_mono2 [OF one, of 60] by simp_all
    ultimately show ?thesis by (simp only:)
  qed (simp add: mult.assoc)
  moreover have "[0..<Suc m] = 0 # map Suc [0..<m]" by (simp add: upt_conv_Cons map_Suc_upt del: upt_Suc)
  ultimately show "waits s (Suc m) = s # waits (min (s * 2) 60) m" if "s \<le> 60"
    using that by (simp add: waits_def comp_def del: upt_Suc power_Suc)
qed

abbreviation dialled :: "DerpServer list \<Rightarrow> nat \<Rightarrow> DerpServer" where
  "dialled ss i \<equiv> (ss ! (i mod length ss))\<lparr>conn_state := RelayConnecting\<rparr>"

lemma connecting_from:
  assumes "c < length ss" and "s \<le> 60"
    and "\<And>i. i < k \<Longrightarrow> \<exists>e. dial (j + i) (dialled ss (c + i)) = Inl e" and "dial (j + k) (dialled ss (c + k)) = Inr ()"
  shows "\<exists>outs. connecting_loop dial clk agg j \<lparr>ss_servers = ss, current_server_num = c\<rparr> s reason out =
      Some ((ss ! ((c + k) mod length ss))\<lparr>conn_state := RelayConnected\<rparr>, out @ outs)
    \<and> slept outs = waits s ((c + k) div length ss)"
  using assms
proof (induction k arbitrary: c j s reason out)
  case 0
  then show ?case
    by (subst connecting_loop.simps) (simp add: get_next_def Let_def waits_simps)
next
  case (Suc k)
  let ?n = "length ss"
  from Suc.prems(3) [of 0] Suc.prems(1) obtain e where e: "dial j (dialled ss c) = Inl e" by auto
  let ?out = "out @ [ServerEvent (dialled ss c)] @ analytics agg (dialled ss c) reason (clk (2 * j))"
  have step: "connecting_loop dial clk agg j \<lparr>ss_servers = ss, current_server_num = c\<rparr> s reason out =
      connecting_loop dial clk agg (j + 1) \<lparr>ss_servers = ss, current_server_num = c + 1\<rparr> s (reason_of e) ?out"
    using Suc.prems(1) e by (subst connecting_loop.simps) (simp add: get_next_def Let_def)
  show ?case
  proof (cases "c + 1 < ?n")
    case True
    have "\<exists>outs. connecting_loop dial clk agg (j + 1) \<lparr>ss_servers = ss, current_server_num = c + 1\<rparr> s (reason_of e) ?out =
        Some ((ss ! ((c + 1 + k) mod ?n))\<lparr>conn_state := RelayConnected\<rparr>, ?out @ outs) \<and> slept outs = waits s ((c + 1 + k) div ?n)"
      using True Suc.prems(2) Suc.prems(3) [of "Suc i" for i] Suc.prems(4) by (intro Suc.IH) auto
    then obtain outs where o: "connecting_loop dial clk agg (j + 1) \<lparr>ss_servers = ss, current_server_num = c + 1\<rparr> s (reason_of e) ?out =
        Some ((ss ! ((c + 1 + k) mod ?n))\<lparr>conn_state := RelayConnected\<rparr>, ?out @ outs)" "slept outs = waits s ((c + 1 + k) div ?n)"
      by blast
    show ?thesis unfolding step
      by (rule exI [of _ "[ServerEvent (dialled ss c)] @ analytics agg (dialled ss c) reason (clk (2 * j)) @ outs"])
        (use o in simp)
  next
    case False
    with Suc.prems(1) have n: "c + 1 = ?n" by simp
    have wrap: "connecting_loop dial clk agg (j + 1) \<lparr>ss_servers = ss, current_server_num = c + 1\<rparr> s (reason_of e) ?out =
        connecting_loop dial clk agg (j + 1) \<lparr>ss_servers = ss, current_server_num = 0\<rparr> (min (s * 2) 60) (reason_of e) (?out @ [Slept s])"
      using n by (subst connecting_loop.simps) (simp add: get_next_def reset_server_index_def)
    have shift: "c + Suc i = i + ?n" for i using n by simp
    have shift': "Suc (c + i) mod ?n = i mod ?n" for i using shift [of i] by (metis add_Suc_right mod_add_self2)
    have "\<exists>outs. connecting_loop dial clk agg (j + 1) \<lparr>ss_servers = ss, current_server_num = 0\<rparr> (min (s * 2) 60) (reason_of e) (?out @ [Slept s]) =
        Some ((ss ! ((0 + k) mod ?n))\<lparr>conn_state := RelayConnected\<rparr>, (?out @ [Slept s]) @ outs) \<and> slept outs = waits (min (s * 2) 60) ((0 + k) div ?n)"
      using n Suc.prems(3) [of "Suc i" for i] Suc.prems(4) by (intro Suc.IH) (auto simp: shift')
    moreover have "?n \<noteq> 0" using Suc.prems(1) by auto
    from div_add_self2 [OF this, of k] have "(c + Suc k) div ?n = Suc (k div ?n)" "(c + Suc k) mod ?n = k mod ?n"
      unfolding shift by simp_all
    ultimately obtain outs where o: "connecting_loop dial clk agg (j + 1) \<lparr>ss_servers = ss, current_server_num = 0\<rparr> (min (s * 2) 60) (reason_of e) (?out @ [Slept s]) =
        Some ((ss ! ((c + Suc k) mod ?n))\<lparr>conn_state := RelayConnected\<rparr>, (?out @ [Slept s]) @ outs)"
      "s # slept outs = waits s ((c + Suc k) div ?n)"
      using Suc.prems(2) by (auto simp: waits_simps)
    show ?thesis unfolding step wrap
      by (rule exI [of _ "[ServerEvent (dialled ss c)] @ analytics agg (dialled ss c) reason (clk (2 * j)) @ [Slept s] @ outs"])
        (use o in simp)
  qed
qed

text \<open>
  C6. Connecting ends with the first server that answers: if the attempts before number \<open>k\<close> fail and
  attempt \<open>k\<close> succeeds, where attempts go round the servers in the order of their weights, the connection
  task returns with the server of attempt \<open>k\<close>, and it has slept once per exhausted round, for 1, 2, 4, ...
  seconds and never longer than a minute.
\<close>

theorem connecting_ends:
  assumes "servers \<noteq> []" and "ss = sort_key srv_weight servers" and "dc_servers config = SortedServers_new servers"
    and "\<And>i. i < k \<Longrightarrow> \<exists>e. dial i (dialled ss i) = Inl e" and "dial k (dialled ss k) = Inr ()"
  shows "\<exists>outs. start_connecting dial clk st config =
      Some ((ss ! (k mod length ss))\<lparr>conn_state := RelayConnected\<rparr>, outs)
    \<and> slept outs = map (\<lambda>i. min (2 ^ i) 60) [0..<k div length ss]"
proof -
  have "0 < length ss" using assms(1,2) by simp
  then have "\<exists>outs. connecting_loop dial clk (has_aggregator st) 0 \<lparr>ss_servers = ss, current_server_num = 0\<rparr> 1
      (last_disconnection_reason st) [] = Some ((ss ! ((0 + k) mod length ss))\<lparr>conn_state := RelayConnected\<rparr>, [] @ outs)
    \<and> slept outs = waits 1 ((0 + k) div length ss)"
    using assms(4,5) by (intro connecting_from) simp_all
  then show ?thesis by (simp add: start_connecting_def assms(2,3) SortedServers_new_def waits_def)
qed

section \<open>From node to node\<close>

lemma encrypted_byte: "packet_type_from x = TEncrypted \<Longrightarrow> x = type_byte TEncrypted"
  by (auto simp: packet_type_from_def all_types_def split: if_splits)

lemma encrypt_decrypt:
  assumes "boxes B" and "length (secret_bytes a) = KEY_SIZE" and "length (secret_bytes b) = KEY_SIZE" and "length nonce = NONCE_SIZE"
    and "encrypt_if_needed B nonce a (public B b) d = Inr c"
  shows "decrypt_if_needed B b (public B a) c = Inr d"
proof (cases d)
  case (Cons x xs)
  show ?thesis
  proof (cases "packet_type_from x = TData")
    case True
    with Cons assms(5) show ?thesis by (auto simp: encrypt_if_needed_def decrypt_if_needed_def)
  next
    case False
    with Cons assms(5) obtain e where e: "aead_encrypt B (ChaChaBox_new B (public B b) a) nonce d = Inr e"
      "c = type_byte TEncrypted # nonce @ e"
      by (auto simp: encrypt_if_needed_def box_encrypt_def split: sum.splits)
    then have "aead_decrypt B (ChaChaBox_new B (public B a) b) nonce e = Inr d"
      using boxes.same_box [OF assms(1-3)] boxes.decrypts [OF assms(1)] by simp
    then show ?thesis using assms(4) by (simp add: e(2) decrypt_if_needed_def get_range_def box_decrypt_def)
  qed
qed (use assms(5) in \<open>simp add: encrypt_if_needed_def\<close>)

text \<open>
  C4. The relay path delivers: a packet that one node hands to its relay client leaves the writing loop as
  a frame for the other node, and when the relay passes its content on under the sender's key, the reading
  loop and the relay client of the other node hand up exactly this packet from exactly this sender, provided
  that the sender is a peer of the meshnet there.
\<close>

theorem relay_delivers:
  assumes "protobuf (de_proto E)" and "boxes (de_boxes E)"
    and a: "length (secret_bytes (dc_secret_key ca)) = KEY_SIZE" and b: "length (secret_bytes (dc_secret_key cb)) = KEY_SIZE"
    and "length nonce = NONCE_SIZE" and "packet_ok msg"
    and "public (de_boxes E) (dc_secret_key ca) \<in> set (meshnet_peers cb)"
    and out: "handle_outcoming_payload_relayed E nonce ca (public (de_boxes E) (dc_secret_key cb)) msg = [ToServerRelayed pk c]"
    and "KEY_SIZE + length c < 2 ^ 32"
  shows "pk = public (de_boxes E) (dc_secret_key cb)
    \<and> start_write (\<lambda>_. None) [RelayedRecv (Some (pk, c))] [] = (None, frame_of (FSendPacket, key_bytes pk @ c))
    \<and> start_read (\<lambda>_. True) (frame_of (FRecvPacket, key_bytes (public (de_boxes E) (dc_secret_key ca)) @ c)) [] =
        (Returns (Inl (DerpIoError UnexpectedEof [])), [Relayed (public (de_boxes E) (dc_secret_key ca)) c])
    \<and> handle_incoming_payload_relayed E cb (public (de_boxes E) (dc_secret_key ca)) c =
        [ToUpper (public (de_boxes E) (dc_secret_key ca)) msg]"
proof -
  let ?B = "de_boxes E" and ?a = "dc_secret_key ca" and ?b = "dc_secret_key cb"
  from out obtain buf where enc: "PacketRelayed_encode (de_proto E) msg = Inr buf"
    and c: "encrypt_if_needed ?B nonce ?a (public ?B ?b) buf = Inr c" and pk: "pk = public ?B ?b"
    by (auto simp: handle_outcoming_payload_relayed_def split: sum.splits)
  have len: "length (key_bytes (public ?B ?a)) = KEY_SIZE" "length (key_bytes pk) = KEY_SIZE"
    using boxes.public_length [OF assms(2)] a b by (simp_all add: public_def pk)
  have "PacketRelayed_decode (de_proto E) buf = Inr msg"
    using codec.roundtrip [OF protobuf.relayed_codec [OF assms(1)] assms(6) enc] .
  then have "handle_incoming_payload_relayed E cb (public ?B ?a) c = [ToUpper (public ?B ?a) msg]"
    using assms(7) encrypt_decrypt [OF assms(2) a b assms(5) c] by (simp add: handle_incoming_payload_relayed_def)
  moreover have "start_write (\<lambda>_. None) [RelayedRecv (Some (pk, c))] [] = (None, frame_of (FSendPacket, key_bytes pk @ c))"
    using start_write_frame [of "RelayedRecv (Some (pk, c))" "(FSendPacket, key_bytes pk @ c)" "[]" "[]"] assms(9) len(2)
    by (simp add: sent_frame_def)
  moreover have "start_read (\<lambda>_. True) (frame_of (FRecvPacket, key_bytes (public ?B ?a) @ c)) [] =
      (Returns (Inl (DerpIoError UnexpectedEof [])), [Relayed (public ?B ?a) c])"
    using start_read_frames [of "[(FRecvPacket, key_bytes (public ?B ?a) @ c)]" "[]"] assms(9) len(1)
    by (simp add: frame_ok_def delivered_def)
  ultimately show ?thesis using pk by blast
qed

text \<open>
  C5. What the relay client accepts is authentic: a packet is handed up only under the key of a configured
  peer, and unless it is WireGuard data, its bytes are a box that was made with the key shared with that
  peer. In particular, no packet of another type is accepted in the clear.
\<close>

theorem relayed_packet_is_authentic:
  assumes "boxes (de_boxes E)" and "ToUpper pk' msg \<in> set (handle_incoming_payload_relayed E config pk buf)"
  shows "pk' = pk \<and> pk \<in> set (meshnet_peers config)
    \<and> ((\<exists>d. msg = PData d \<and> DataMsg_packet_type d = TData)
       \<or> (\<exists>nonce plain cipher. length nonce = NONCE_SIZE \<and> buf = type_byte TEncrypted # nonce @ cipher
            \<and> box_encrypt (de_boxes E) (ChaChaBox_new (de_boxes E) pk (dc_secret_key config)) nonce plain = Inr cipher
            \<and> PacketRelayed_decode (de_proto E) plain = Inr msg))"
proof -
  have "pk' = pk \<and> pk \<in> set (meshnet_peers config)
      \<and> (\<exists>plain. decrypt_if_needed (de_boxes E) (dc_secret_key config) pk buf = Inr plain
           \<and> PacketRelayed_decode (de_proto E) plain = Inr msg)"
    using assms(2)
    by (cases "pk \<in> set (meshnet_peers config)"; cases "decrypt_if_needed (de_boxes E) (dc_secret_key config) pk buf")
      (simp_all add: handle_incoming_payload_relayed_def split: sum.splits)
  then obtain plain where pk: "pk' = pk" "pk \<in> set (meshnet_peers config)"
    and dec: "decrypt_if_needed (de_boxes E) (dc_secret_key config) pk buf = Inr plain"
    and msg: "PacketRelayed_decode (de_proto E) plain = Inr msg"
    by blast
  from dec obtain x xs where buf: "buf = x # xs" by (cases buf) (simp_all add: decrypt_if_needed_def)
  with dec consider "packet_type_from x = TData" "plain = buf" | "packet_type_from x = TEncrypted"
    by (cases "packet_type_from x") (auto simp: decrypt_if_needed_def)
  then show ?thesis
  proof cases
    case 1
    with msg buf have "\<exists>d. msg = PData d \<and> DataMsg_packet_type d = TData"
      by (auto simp: PacketRelayed_decode_def map_ok_def DataMsg_decode_def DataMsg_new_def DataMsg_packet_type_def)
    with pk show ?thesis by blast
  next
    case 2
    then have x: "x = type_byte TEncrypted" by (rule encrypted_byte)
    from dec buf 2 obtain nonce cipher where r: "get_range 1 (NONCE_SIZE + 1) buf = Some nonce"
      "get_range (NONCE_SIZE + 1) (length buf) buf = Some cipher"
      "aead_decrypt (de_boxes E) (ChaChaBox_new (de_boxes E) pk (dc_secret_key config)) nonce cipher = Inr plain"
      by (auto simp: decrypt_if_needed_def box_decrypt_def split: option.splits)
    then have "buf = x # nonce @ cipher" "length nonce = NONCE_SIZE"
      by (auto simp: buf get_range_def split: if_splits)
    with boxes.authentic [OF assms(1) r(3)] pk x msg show ?thesis by (auto simp: box_encrypt_def)
  qed
qed

section \<open>The exchange of keys\<close>

text \<open>
  C29. The exchange of keys succeeds: after the frame with the key of the server, the client writes exactly
  one frame, from which the server reads the key of the client and a nonce, and with these opens the box to
  the expected text; the rest of the stream is left for the next reader.
\<close>

theorem server_reads_client_info:
  assumes "salsa S" and "length nonce = NONCE_SIZE"
    and "salsa_encrypt S (salsa_public S server) sk nonce client_info = Inr c" and "length c < 2 ^ 31"
  shows "\<exists>f. exchange_keys S (\<lambda>_. None) nonce sk (frame_of (FServerKey, MAGIC @ key_bytes (salsa_public S server)) @ rest) [] =
        (Inr (), rest, f)
    \<and> (\<exists>d. read_frame f = (Inr (FClientInfo, d), [])
         \<and> PublicKey (take 32 d) = salsa_public S sk \<and> take 24 (drop 32 d) = nonce
         \<and> salsa_decrypt S (PublicKey (take 32 d)) server (take 24 (drop 32 d)) (drop 56 d) = Inr client_info)"
proof -
  let ?key = "key_bytes (salsa_public S server)" and ?d = "key_bytes (salsa_public S sk) @ nonce @ c"
  have len: "length ?key = 32" "length (key_bytes (salsa_public S sk)) = 32" "length nonce = 24"
    using salsa.public_size [OF assms(1)] assms(2) by (simp_all add: KEY_SIZE_def NONCE_SIZE_def)
  have "read_frame (frame_of (FServerKey, MAGIC @ ?key) @ rest) = (Inr (FServerKey, MAGIC @ ?key), rest)"
    using len by (intro read_frame_of) (simp add: MAGIC_def)
  then have "read_server_key (frame_of (FServerKey, MAGIC @ ?key) @ rest) = (Inr (salsa_public S server), rest)"
    using len by (simp add: read_server_key_def key_try_from_def KEY_SIZE_def MAGIC_def)
  moreover have d: "length ?d < 2 ^ 32" using assms(4) len by simp
  ultimately have "exchange_keys S (\<lambda>_. None) nonce sk (frame_of (FServerKey, MAGIC @ ?key) @ rest) [] =
      (Inr (), rest, frame_of (FClientInfo, ?d))"
    using assms(3) write_frame_ok [OF d, of FClientInfo "[]"] by (simp add: exchange_keys_def write_client_key_def)
  moreover have "read_frame (frame_of (FClientInfo, ?d)) = (Inr (FClientInfo, ?d), [])"
    using read_frame_of [OF d, of FClientInfo "[]"] by simp
  moreover have "salsa_decrypt S (salsa_public S sk) server nonce c = Inr client_info"
    by (rule salsa.opens [OF assms(1,3)])
  moreover have "take 32 ?d = key_bytes (salsa_public S sk)" "take 24 (drop 32 ?d) = nonce" "drop 56 ?d = c"
    using len by simp_all
  moreover have "PublicKey (key_bytes (salsa_public S sk)) = salsa_public S sk" by simp
  ultimately show ?thesis by metis
qed

text \<open>
  The comment on \<open>ServerKey\<close> reserves bytes after the key for future use; a frame that has them is refused.
\<close>

lemma reserved_bytes_are_refused:
  assumes "length key = 32" and "extra \<noteq> []" and "length extra < 1000"
  shows "read_server_key (frame_of (FServerKey, MAGIC @ key @ extra)) =
    (Inl (DerpIoError InvalidData ''invalid server public key''), [])"
proof -
  have "read_frame (frame_of (FServerKey, MAGIC @ key @ extra) @ []) = (Inr (FServerKey, MAGIC @ key @ extra), [])"
    using assms by (intro read_frame_of) (simp add: MAGIC_def)
  then show ?thesis using assms by (simp add: read_server_key_def key_try_from_def KEY_SIZE_def MAGIC_def)
qed

text \<open>A packet frame that is shorter than a key makes the reading loop panic.\<close>

lemma short_packet_panics:
  "length d < 32 \<Longrightarrow> start_read ok (frame_of (FRecvPacket, d) @ rest) sent = (Panics, sent)"
  by (subst start_read.simps) (simp add: read_frame_of KEY_SIZE_def)

section \<open>Configuration and polling\<close>

lemma config_change_keeps_connection:
  assumes "relay_server st = Some server" and "ss_contains (dc_servers c) server"
  shows "fst (derp_configure (Some c) st) = [] \<and> relay_conn (snd (derp_configure (Some c) st)) = relay_conn st
    \<and> relay_server (snd (derp_configure (Some c) st)) = Some server"
  using assms by (simp add: derp_configure_def Let_def)

text \<open>A new secret key alone does not renew the connection, which the server keeps under the old public key.\<close>

lemma new_key_keeps_old_connection:
  assumes "dc_config st = Some c" and "relay_server st = Some server" and "ss_contains (dc_servers c) server"
  shows "relay_conn (snd (derp_configure (Some (c\<lparr>dc_secret_key := sk\<rparr>)) st)) = relay_conn st"
  using config_change_keeps_connection [of st server "c\<lparr>dc_secret_key := sk\<rparr>"] assms by simp

text \<open>Any message of the server other than the answer to the last poll empties the table of states.\<close>

lemma stale_answer_empties_states:
  assumes "PacketControl_decode E buf = Inr (PollResponse resp)" and "resp_session resp \<noteq> derp_poll_session st"
  shows "derp_connected_step E nonce config (DirectRead buf) st = Returns ([], st\<lparr>remote_peers_states := Map.empty\<rparr>)"
  using assms by (simp add: derp_connected_step_def handle_incoming_payload_direct_def)

text \<open>What the generated messages of a poll promise: bytes that were written parse back.\<close>

locale poll_protobuf =
  fixes E :: derp_env
  assumes poll_request: "pb_write (pb_poll_request E) m = Inr b \<Longrightarrow> pb_parse (pb_poll_request E) b = Inr m"
    and poll_response: "pb_write (pb_poll_response E) m' = Inr b \<Longrightarrow> pb_parse (pb_poll_response E) b = Inr m'"
    and poll_keys: "key_codecs (de_codecs E)"
begin

lemma control_roundtrip: "PacketControl_encode E m = Inr b \<Longrightarrow> PacketControl_decode E b = Inr m"
  by (cases m) (auto simp: PacketControl_decode_def poll_encode_def poll_decode_def map_ok_def written_def parsed_def
      andThen_def ok_or_def get_from_def control_from_def control_byte.simps split: sum.splits dest: poll_request poll_response)

lemma parse_displayed:
  assumes "\<forall>e \<in> set es. length (key_bytes (fst e)) = KEY_SIZE"
  shows "parse_entries (de_codecs E) (map (\<lambda>(pk, v). (PublicKey_display (de_codecs E) pk, v)) es) = Returns es"
  using assms
proof (induction es)
  case (Cons e es)
  then show ?case using key_codecs.from_base64 [OF poll_keys, of "key_bytes (fst e)" PublicKey]
    by (cases e) (auto simp: PublicKey_display_def KEY_SIZE_def)
qed simp

end

text \<open>
  A poll brings the states of the peers: the server reads from the request a new session and the peers
  of the meshnet, and its answer in this session with a state for each of them replaces the table of states of
  the client by exactly these.
\<close>

theorem poll_updates_states:
  assumes "poll_protobuf E" and "enable_polling config \<or> poll_keepalive (server_keepalives config)"
    and "\<forall>pk \<in> set (meshnet_peers config). length (key_bytes pk) = KEY_SIZE"
    and "map fst states = meshnet_peers config" and "distinct (meshnet_peers config)"
    and tick: "derp_connected_step E nonce config PollTick st = Returns ([ToServerDirect request], st')"
    and answer: "PacketControl_encode E (PollResponse (DerpPollResponseMsg_new (de_codecs E) (derp_poll_session st') states)) = Inr response"
  shows "\<exists>m. PacketControl_decode E request = Inr (PollRequest m) \<and> req_session m = derp_poll_session st + 1
    \<and> get_peers (de_codecs E) m = Returns (meshnet_peers config)
    \<and> derp_connected_step E nonce' config (DirectRead response) st' =
        Returns ([], st'\<lparr>remote_peers_states := map_of states\<rparr>)"
proof -
  let ?m = "DerpPollRequestMsg_new (de_codecs E) (derp_poll_session st + 1) (meshnet_peers config)"
  from tick assms(2) have req: "PacketControl_encode E (PollRequest ?m) = Inr request"
    and st': "st' = st\<lparr>derp_poll_session := derp_poll_session st + 1\<rparr>"
    by (auto simp: derp_connected_step_def Let_def handle_outcoming_payload_direct_def split: sum.splits)
  have "parse_entries (de_codecs E) (map (\<lambda>(pk, v). (PublicKey_display (de_codecs E) pk, v)) (map (\<lambda>pk. (pk, ())) (meshnet_peers config))) =
      Returns (map (\<lambda>pk. (pk, ())) (meshnet_peers config))"
    using assms(3) by (intro poll_protobuf.parse_displayed [OF assms(1)]) auto
  then have "get_peers (de_codecs E) ?m = Returns (meshnet_peers config)"
    by (simp add: get_peers_def DerpPollRequestMsg_new_def comp_def)
  moreover have "PacketControl_decode E request = Inr (PollRequest ?m)"
    by (rule poll_protobuf.control_roundtrip [OF assms(1) req])
  moreover {
    have "\<forall>e \<in> set states. length (key_bytes (fst e)) = KEY_SIZE"
      using assms(3) unfolding assms(4) [symmetric] by simp
    then have "parse_entries (de_codecs E) (map (\<lambda>(pk, v). (PublicKey_display (de_codecs E) pk, v)) states) = Returns states"
      by (rule poll_protobuf.parse_displayed [OF assms(1)])
    moreover have "map_of (rev states) = map_of states"
      using assms(4,5) by (subst map_of_inject_set) (simp_all add: rev_map [symmetric])
    ultimately have "get_peers_statuses (de_codecs E) (DerpPollResponseMsg_new (de_codecs E) (derp_poll_session st') states) = Returns (map_of states)"
      by (simp add: get_peers_statuses_def DerpPollResponseMsg_new_def)
  }
  then have "derp_connected_step E nonce' config (DirectRead response) st' = Returns ([], st'\<lparr>remote_peers_states := map_of states\<rparr>)"
    using poll_protobuf.control_roundtrip [OF assms(1) answer]
    by (simp add: derp_connected_step_def handle_incoming_payload_direct_def) (simp add: DerpPollResponseMsg_new_def)
  ultimately show ?thesis by (intro exI [of _ ?m] conjI) (simp_all add: DerpPollRequestMsg_new_def)
qed

section \<open>Samples\<close>

definition sample_derp :: derp_env where
  "sample_derp = \<lparr>de_boxes = plain_boxes, de_proto = sample_proto, de_codecs = std_codecs,
     pb_poll_request = pb_of (w_list w_string), pb_poll_response = pb_of (w_list (w_pair w_string w_bool))\<rparr>"

interpretation sample_poll: poll_protobuf sample_derp
proof
  have "good (w_list w_string)" "good (w_list (w_pair w_string w_bool))"
    by (auto intro!: good_list good_pair good_basic)
  note wires = this [THEN pb_of_roundtrip]
  fix b
  show "pb_write (pb_poll_request sample_derp) m = Inr b \<Longrightarrow> pb_parse (pb_poll_request sample_derp) b = Inr m" for m
    using wires(1) [of m b] by (simp add: sample_derp_def)
  show "pb_write (pb_poll_response sample_derp) m = Inr b \<Longrightarrow> pb_parse (pb_poll_response sample_derp) b = Inr m" for m
    using wires(2) [of m b] by (simp add: sample_derp_def)
qed (simp_all add: sample_derp_def std_codecs.hex_round std_codecs.hex_len std_codecs.base64_round std_codecs.base64_len)

text \<open>A box that prepends a tag, which depends on both keys.\<close>

definition key_pad :: "bytes \<Rightarrow> bytes" where "key_pad bs = take 32 (bs @ replicate 32 0)"

definition plain_salsa :: salsa_env where
  "plain_salsa = \<lparr>salsa_public = (\<lambda>sk. PublicKey (key_pad (secret_bytes sk))),
     salsa_encrypt = (\<lambda>pk sk n m. Inr (map2 (XOR) (key_bytes pk) (key_pad (secret_bytes sk)) @ m)),
     salsa_decrypt = (\<lambda>pk sk n c. if take 32 c = map2 (XOR) (key_bytes pk) (key_pad (secret_bytes sk)) then Inr (drop 32 c)
        else Inl ''aead'')\<rparr>"

lemma length_key_pad [simp]: "length (key_pad bs) = 32" by (simp add: key_pad_def)

interpretation plain_salsa: salsa plain_salsa
proof
  fix a b n m c
  have "map2 (XOR) (key_pad (secret_bytes b)) (key_pad (secret_bytes a)) = map2 (XOR) (key_pad (secret_bytes a)) (key_pad (secret_bytes b))"
    by (simp add: zip_commute [of "key_pad (secret_bytes b)"] case_prod_unfold comp_def xor.commute)
  then show "salsa_encrypt plain_salsa (salsa_public plain_salsa b) a n m = Inr c \<Longrightarrow>
      salsa_decrypt plain_salsa (salsa_public plain_salsa a) b n c = Inr m"
    by (auto simp: plain_salsa_def)
qed (simp add: plain_salsa_def KEY_SIZE_def)

theorem server_reads_client_info_witness:
  "\<exists>f. exchange_keys plain_salsa (\<lambda>_. None) (replicate 24 7) (SecretKey (replicate 32 1))
       (frame_of (FServerKey, MAGIC @ key_bytes (salsa_public plain_salsa (SecretKey (replicate 32 2)))) @ [6]) [] = (Inr (), [6], f)
    \<and> (\<exists>d. read_frame f = (Inr (FClientInfo, d), [])
         \<and> PublicKey (take 32 d) = salsa_public plain_salsa (SecretKey (replicate 32 1)) \<and> take 24 (drop 32 d) = replicate 24 7
         \<and> salsa_decrypt plain_salsa (PublicKey (take 32 d)) (SecretKey (replicate 32 2)) (take 24 (drop 32 d)) (drop 56 d) = Inr client_info)"
  by (rule server_reads_client_info [OF plain_salsa.salsa_axioms, where
        c = "map2 (XOR) (key_pad (replicate 32 2)) (key_pad (replicate 32 1)) @ client_info"])
    (simp_all add: NONCE_SIZE_def plain_salsa_def client_info_def ascii_def)

definition sample_server :: "string \<Rightarrow> u32 \<Rightarrow> DerpServer" where
  "sample_server name weight = \<lparr>srv_ipv4 = 1, stun_port = 3479, srv_public_key = PublicKey [], srv_region_code = ''nl'',
     srv_name = name, srv_hostname = name, relay_port = 8765, stun_plaintext_port = 3480, srv_weight = weight,
     use_plain_text = True, conn_state = RelayDisconnected\<rparr>"

definition sample_config :: "u8 \<Rightarrow> PublicKey list \<Rightarrow> DerpConfig" where
  "sample_config n pks = \<lparr>dc_secret_key = SecretKey (replicate 32 n),
     dc_servers = SortedServers_new [sample_server ''b'' 2, sample_server ''a'' 1], meshnet_peers = pks, dc_timeout = 0,
     server_keepalives = DEFAULT_SERVER_KEEPALIVE_CONFIG, enable_polling = True, use_built_in_root_certificates = False\<rparr>"

theorem connecting_ends_witness:
  "\<exists>outs. start_connecting (\<lambda>n _. if n < 5 then Inl ConnectionTimeoutError else Inr ()) (\<lambda>n. 0) (derp_start_with True) (sample_config 1 []) =
      Some ((sample_server ''b'' 2)\<lparr>conn_state := RelayConnected\<rparr>, outs) \<and> slept outs = [1, 2]"
proof -
  let ?ss = "[sample_server ''a'' 1, sample_server ''b'' 2]"
  have two: "5 div length ?ss = Suc (Suc 0)" by (simp flip: numeral_2_eq_2)
  have waits: "map (\<lambda>i. min (2 ^ i) 60) [0..<5 div length ?ss] = [1 :: nat, 2]" unfolding two by simp
  have nth: "?ss ! (5 mod length ?ss) = sample_server ''b'' 2" by (simp flip: numeral_2_eq_2)
  have "?ss = sort_key srv_weight [sample_server ''b'' 2, sample_server ''a'' 1]"
    by (simp add: sample_server_def word_le_nat_alt)
  from connecting_ends [OF _ this, of "sample_config 1 []" 5 "\<lambda>n _. if n < 5 then Inl ConnectionTimeoutError else Inr ()"
      "\<lambda>n. 0" "derp_start_with True", unfolded waits nth]
  show ?thesis by (simp add: sample_config_def)
qed

definition sample_msg :: PacketRelayed where "sample_msg = PData (with_generation [1, 2, 3, 4, 5] 255 42)"

lemma sample_msg_simps:
  "PacketRelayed_encode sample_proto sample_msg = Inr [1, 255, 0, 42, 1, 2, 3, 4, 5]" "packet_ok sample_msg"
  "packet_type_from 1 \<noteq> TData"
  by (simp_all add: sample_msg_def DataMsg_encode_def with_generation_def put_u16_eq type_byte.simps packet_ok_def data_ok_def
      DataMsg_packet_type_def packet_type_from_def all_types_def)

abbreviation sample_key :: "u8 \<Rightarrow> PublicKey" where "sample_key n \<equiv> PublicKey (replicate 32 n)"

definition sample_cipher :: bytes where
  "sample_cipher = type_byte TEncrypted # replicate 24 7 @ [1, 255, 0, 42, 1, 2, 3, 4, 5]
     @ ChaChaBox_new plain_boxes (sample_key 2) (SecretKey (replicate 32 1)) @ replicate 24 7"

lemma sample_public: "public plain_boxes (SecretKey (replicate 32 n)) = sample_key n"
  by (simp add: public_def plain_boxes_def)

lemma sample_encrypted:
  "encrypt_if_needed plain_boxes (replicate 24 7) (SecretKey (replicate 32 1)) (public plain_boxes (SecretKey (replicate 32 2)))
     [1, 255, 0, 42, 1, 2, 3, 4, 5] = Inr sample_cipher"
  by (simp add: sample_msg_simps encrypt_if_needed_def box_encrypt_def sample_cipher_def public_def) (simp add: plain_boxes_def)

lemma sample_sent:
  "handle_outcoming_payload_relayed sample_derp (replicate 24 7) (sample_config 1 []) (sample_key 2) sample_msg =
    [ToServerRelayed (sample_key 2) sample_cipher]"
  using sample_encrypted
  by (simp add: handle_outcoming_payload_relayed_def sample_derp_def sample_msg_simps sample_config_def sample_public)

lemma sample_cipher_length: "length sample_cipher < 1000"
  by (simp add: sample_cipher_def ChaChaBox_new_def plain_boxes_def)

theorem relay_delivers_witness:
  "handle_outcoming_payload_relayed sample_derp (replicate 24 7) (sample_config 1 []) (sample_key 2) sample_msg =
      [ToServerRelayed (sample_key 2) sample_cipher]
   \<and> start_read (\<lambda>_. True) (frame_of (FRecvPacket, replicate 32 1 @ sample_cipher)) [] =
      (Returns (Inl (DerpIoError UnexpectedEof [])), [Relayed (sample_key 1) sample_cipher])
   \<and> handle_incoming_payload_relayed sample_derp (sample_config 2 [sample_key 1]) (sample_key 1) sample_cipher =
      [ToUpper (sample_key 1) sample_msg]"
  using relay_delivers [of sample_derp "sample_config 1 []" "sample_config 2 [sample_key 1]" "replicate 24 7" sample_msg
      "sample_key 2" sample_cipher]
    sample_sent sample_msg_simps(2) sample_cipher_length
  by (simp add: sample.protobuf_axioms plain.boxes_axioms sample_config_def sample_derp_def KEY_SIZE_def NONCE_SIZE_def sample_public)

lemma sample_received:
  "handle_incoming_payload_relayed sample_derp (sample_config 2 [sample_key 1]) (sample_key 1) sample_cipher =
    [ToUpper (sample_key 1) sample_msg]"
proof -
  have "decrypt_if_needed plain_boxes (SecretKey (replicate 32 2)) (sample_key 1) sample_cipher = Inr [1, 255, 0, 42, 1, 2, 3, 4, 5]"
    using encrypt_decrypt [OF plain.boxes_axioms _ _ _ sample_encrypted]
    by (simp add: sample_public KEY_SIZE_def NONCE_SIZE_def)
  moreover have "PacketRelayed_decode sample_proto [1, 255, 0, 42, 1, 2, 3, 4, 5] = Inr sample_msg"
    using codec.roundtrip [OF sample.relayed_codec sample_msg_simps(2,1)] .
  ultimately show ?thesis by (simp add: handle_incoming_payload_relayed_def sample_config_def sample_derp_def)
qed

theorem relayed_packet_is_authentic_witness:
  "\<exists>nonce plain cipher. length nonce = NONCE_SIZE \<and> sample_cipher = type_byte TEncrypted # nonce @ cipher
     \<and> box_encrypt plain_boxes (ChaChaBox_new plain_boxes (sample_key 1) (SecretKey (replicate 32 2))) nonce plain = Inr cipher
     \<and> PacketRelayed_decode sample_proto plain = Inr sample_msg"
proof -
  have "DataMsg_packet_type (with_generation [1, 2, 3, 4, 5] 255 42) \<noteq> TData"
    by (simp add: with_generation_def DataMsg_packet_type_def packet_type_from_def all_types_def type_byte.simps)
  then show ?thesis
    using relayed_packet_is_authentic [of sample_derp "sample_key 1" sample_msg "sample_config 2 [sample_key 1]" "sample_key 1" sample_cipher]
      sample_received
    by (simp add: plain.boxes_axioms sample_derp_def sample_msg_def) (simp add: sample_config_def)
qed

theorem poll_updates_states_witness:
  "\<exists>request response m. PacketControl_decode sample_derp request = Inr (PollRequest m) \<and> req_session m = 1
    \<and> get_peers std_codecs m = Returns [sample_key 1, sample_key 2]
    \<and> derp_connected_step sample_derp [] (sample_config 3 [sample_key 1, sample_key 2]) (DirectRead response)
        ((derp_start_with False)\<lparr>derp_poll_session := 1\<rparr>) =
      Returns ([], (derp_start_with False)\<lparr>derp_poll_session := 1,
        remote_peers_states := [sample_key 1 \<mapsto> True, sample_key 2 \<mapsto> False]\<rparr>)"
proof -
  let ?c = "sample_config 3 [sample_key 1, sample_key 2]" and ?st = "(derp_start_with False)\<lparr>derp_poll_session := 1\<rparr>"
  have out: "\<exists>b. PacketControl_encode sample_derp x = Inr b" for x
    by (cases x) (simp_all add: poll_encode_def written_def sample_derp_def pb_of_def andThen_def)
  then obtain request where req: "PacketControl_encode sample_derp (PollRequest (DerpPollRequestMsg_new std_codecs 1 [sample_key 1, sample_key 2])) = Inr request"
    by blast
  obtain response where resp: "PacketControl_encode sample_derp (PollResponse (DerpPollResponseMsg_new std_codecs 1
      [(sample_key 1, True), (sample_key 2, False)])) = Inr response"
    using out by blast
  have codecs: "de_codecs sample_derp = std_codecs" by (simp add: sample_derp_def)
  have tick: "derp_connected_step sample_derp [] ?c PollTick (derp_start_with False) = Returns ([ToServerDirect request], ?st)"
    using req by (simp add: derp_connected_step_def handle_outcoming_payload_direct_def codecs derp_start_with_def sample_config_def)
  have "\<exists>m. PacketControl_decode sample_derp request = Inr (PollRequest m) \<and> req_session m = derp_poll_session (derp_start_with False) + 1
      \<and> get_peers (de_codecs sample_derp) m = Returns (meshnet_peers ?c)
      \<and> derp_connected_step sample_derp [] ?c (DirectRead response) ?st =
          Returns ([], ?st\<lparr>remote_peers_states := map_of [(sample_key 1, True), (sample_key 2, False)]\<rparr>)"
    using resp by (intro poll_updates_states [OF sample_poll.poll_protobuf_axioms _ _ _ _ tick]) (simp_all add: sample_config_def KEY_SIZE_def codecs)
  moreover have "derp_poll_session (derp_start_with False) + 1 = 1" "meshnet_peers ?c = [sample_key 1, sample_key 2]"
    "?st\<lparr>remote_peers_states := map_of [(sample_key 1, True), (sample_key 2, False)]\<rparr> =
      (derp_start_with False)\<lparr>derp_poll_session := 1, remote_peers_states := [sample_key 1 \<mapsto> True, sample_key 2 \<mapsto> False]\<rparr>"
    by (auto simp: derp_start_with_def sample_config_def fun_upd_def)
  ultimately show ?thesis unfolding codecs by (simp only:) blast
qed

end
