(* ===== verification/Spec2Isabelle.thy ===== *)
theory Spec2Isabelle
  imports Firewall_Lifecycle Firewall_Addresses Wg_Theorems Controller_Permissions Upgrade_Theorems
    Stun_Theorems Starcast_Theorems Derp_Theorems
begin

text \<open>
  Verification of libtelio, a library that joins a device to a mesh of WireGuard peers (\<open>src/\<close>).

  \<^bold>\<open>The program.\<close> A configuration names the peers of the mesh, what each of them may do, and
  perhaps an exit node. The \<^emph>\<open>controller\<close> (src/src/device/wg_controller.rs) turns it into a list of
  requested WireGuard peers, chooses the endpoint of each (direct or over a relay), and applies the
  difference to the \<^emph>\<open>WireGuard task\<close> (src/crates/telio-wg/src/wg.rs). That task keeps the
  interface, talks to an \<^emph>\<open>adapter\<close> in the UAPI (src/crates/telio-wg/src/uapi.rs), watches the
  traffic of every peer for \<^emph>\<open>link detection\<close> (src/crates/telio-wg/src/link_detection.rs), and
  sends events. The controller also gives the permissions of the peers to the \<^emph>\<open>firewall\<close>
  (src/crates/telio-firewall/src/firewall.rs), which inspects every packet of the tunnel and tracks
  connections in bounded caches (src/crates/telio-utils/src/lru_cache.rs). Direct connections come from
  \<^emph>\<open>traversal\<close> (src/crates/telio-traversal): the cross-ping check finds endpoints over which two nodes
  reach each other, with pings and pongs, and the upgrade synchronisation lets both switch to them. The
  addresses under which a node may be reached come, among others, from \<^emph>\<open>STUN\<close> servers. Until there is
  a direct connection, packets travel over the \<^emph>\<open>relay\<close> (src/crates/telio-relay), whose client keeps a
  connection to one of the DERP servers. Multicast between the nodes is carried by \<^emph>\<open>starcast\<close>
  (src/crates/telio-starcast): a virtual WireGuard peer hands the packets to a transport, which sends them to
  every peer that allows it and translates the addresses of what comes back.

  \<^bold>\<open>Shared theories.\<close> \<open>Telio_Prelude\<close> has machine integers, bytes, time, addresses, public keys and the
  facts on lists and maps. \<open>Byte_Order\<close> has the big endian forms of integers. \<open>Linked_Hash_Map\<close> is the
  contract of the crate \<open>hashlink\<close> (locale \<open>linked_hash_map\<close>, with a list as its model); \<open>BTree_Map\<close> the ordered maps of the standard library.

  \<^bold>\<open>Caches.\<close> \<open>Lru_Cache\<close> has one definition per method of \<open>LruCache\<close>, over any linked hash map. In the
  locale \<open>lru\<close> it is shown that every method keeps the invariant (entries in the order of their last
  use, at most \<open>capacity\<close> of them) and acts on the live view of the cache as a finite map with
  expiry; an insertion into a full cache evicts the oldest entry.

  \<^bold>\<open>Firewall.\<close> \<open>Firewall_Types\<close> holds the data and the extraction of connection keys, \<open>Firewall\<close> the packet
  handlers and the whitelist, \<open>Firewall_Reset\<close> the reset packets. The crate \<open>pnet_packet\<close>, checksums and
  the hash maps are the record \<open>fw_env\<close>. \<open>Firewall_Props\<close> computes the verdict of every handler in
  terms of live connections (locale \<open>firewall_env\<close>), \<open>Firewall_Security\<close> defines runs, any
  interleaving of the methods with a clock that does not go back. The history of a run has only the
  packets that were let out or in, not those that were dropped. \<open>Firewall_Theorems\<close> and
  \<open>Firewall_Lifecycle\<close> show what gets in without permission (only answers to what was let out, and
  errors that quote it), that tables stay bounded, that a pinhole stays open while other peers send what they like,
  that a request of ICMP lets one reply in, that the FIN handshake closes a TCP connection
  whichever side begins it, that a peer taken from the whitelist is cut off, and what is written on a reset.
  \<open>Firewall_Addresses\<close> gives the address classes as prefixes.

  \<^bold>\<open>Keys.\<close> \<open>Crypto\<close> has the key types of src/crates/telio-crypto/src/lib.rs: clamping, order, text
  forms. The codecs are parameters (locale \<open>key_codecs\<close>, interpreted on an executable pair).

  \<^bold>\<open>UAPI.\<close> \<open>Uapi\<close> has peers, interfaces, events and conversions to the structures of the crate
  \<open>wireguard_uapi\<close>, with src/crates/telio-utils/src/dual_target.rs; \<open>Uapi_Parse\<close> the line parser,
  panics included as a result. \<open>Uapi_Theorems\<close> shows that the parser reads the text of a device to the
  same interface as the conversion of the native structure (locale \<open>wg_text_forms\<close>: what the parsers
  of networks and addresses promise; the text of a socket address has no flow information, so the
  promise is for addresses without it).

  \<^bold>\<open>WireGuard task.\<close> \<open>Link_Detection\<close> has the counters and the state machine of a link, \<open>Link_Theorems\<close>
  that a silent link goes down after the delay and not before, over any sequence of polls. \<open>Wg_State\<close> has the state of the task and its
  operations over any adapter, the record \<open>wg_env\<close>; counters shared between the task and the link
  detection are cells of a store. \<open>Wg_Props\<close> has the contract of an adapter (locale \<open>wg_adapter\<close>),
  runs of the task, the invariant and the replay of events. \<open>Wg_Theorems\<close> interprets the contract on
  the Linux adapter (src/crates/telio-wg/src/adapter/linux_native_wg.rs, the netlink socket being a
  parameter) and shows that events track the interface, that a set request brings the kernel to the
  requested networks (locale \<open>netlink\<close>: what the kernel documents), that a peer is refused when and
  only when one of its networks is also a network of another peer, and that the adapter is given up once
  it has refused often enough in a row.

  \<^bold>\<open>Controller.\<close> \<open>Controller\<close> has one definition per function of the controller, and per loop body of
  \<open>consolidate_wg_peers\<close>, in a monad with errors: each call to another task may fail, the answers may
  depend on all calls made before, and what it tells other tasks is the list \<open>ctl_calls\<close>. The WireGuard
  task is reached through its operations, and its polls do not run between the calls of one consolidation.
  \<open>Controller_State\<close> adds the firewall and the whole consolidation. \<open>Controller_Props\<close> shows what each
  loop does to the configuration of the interface, and \<open>Controller_Theorems\<close> that a consolidation which
  succeeds leaves exactly the requested peers configured as requested, how endpoints are chosen, that
  addresses are not given twice, and a case in which a consolidation cannot succeed.
  \<open>Controller_Permissions\<close> shows that the permissions of the firewall follow the configuration, and what
  happens on failure.

  \<^bold>\<open>Messages.\<close> \<open>Encryption\<close> has the two kinds of encrypted messages of
  src/crates/telio-crypto/src/encryption.rs and chachabox.rs over abstract primitives (locale \<open>boxes\<close>:
  both ends derive the same key, and the cipher decrypts exactly what it encrypted). \<open>Proto\<close> and
  \<open>Proto_Codecs\<close> have the messages and codecs of src/crates/telio-proto; the trait \<open>Codec\<close> is the locale
  \<open>codec\<close>, and the code generated from the files in protos is a parameter (locale \<open>protobuf\<close>: what was
  written parses to the message). \<open>Proto_Theorems\<close> shows the round trip of every packet and has an
  executable instance of the parameter.

  \<^bold>\<open>Traversal.\<close> \<open>Backoff\<close> has the exponential backoff (src/crates/telio-utils/src/exponential_backoff.rs)
  and its contract, the locale \<open>backoff\<close>. \<open>Cross_Ping\<close> has the state machine of a session and every
  handler of cross_ping_check.rs; random numbers, hash orders, the backoff and the clock are the
  record \<open>cpc_env\<close>. \<open>Cross_Ping_Props\<close> has the runs of the task and their invariant (locale
  \<open>cross_ping\<close>), \<open>Cross_Ping_Theorems\<close> that offered endpoints were confirmed, that a failed connection
  withdraws them, that a session without an endpoint keeps asking, and the instance with the backoff
  and the cache of this development. \<open>Upgrade_Sync\<close> has upgrade_sync.rs, and \<open>Upgrade_Theorems\<close> that
  crossing requests of two nodes end in agreement and that a request is accepted only for a
  session that the peer announced. \<open>Ping_Pong\<close> has ping_pong_handler.rs on top of the messages and
  their encryption: pings come back as pongs, strangers get no answer, and pongs cannot be forged. \<open>Stun\<close>
  has endpoint_providers/stun.rs: sessions of two requests, the state machine of the provider, and every
  operation as a step of the predicate \<open>stun_reachable\<close>, which keeps the trace; the message format
  (crate \<open>stun_codec\<close>) is a parameter. \<open>Stun_Theorems\<close> shows that candidates in every run come from the
  answers to the two requests of one session, that a search ends once both answers arrive, that silent
  servers are tried in turn, and some cases in which the provider searches less than it could.

  \<^bold>\<open>Relay.\<close> \<open>Relay_Types\<close> has the servers of src/crates/telio-model/src/config.rs. \<open>Derp_Proto\<close> has
  derp/proto.rs: frames, the loops that read and write them, and the exchange of keys (locale \<open>salsa\<close>: the
  box of the crate \<open>crypto_box\<close>). \<open>Derp_Relay\<close> has derp.rs and the poll messages of
  src/crates/telio-proto: the connection task, which may run forever and is a partial function, the
  configuration, and the traffic. \<open>Derp_Theorems\<close> shows that connecting ends with the first
  server that answers, after one wait per exhausted list (1, 2, 4, ... and at most 60 seconds), that packets reach the other node unchanged, that what is
  accepted is authentic, that the server can read what the client sends in the exchange of keys, and
  that a poll brings the states of the peers (locale \<open>poll_protobuf\<close>).

  \<^bold>\<open>Starcast.\<close> \<open>Starcast_Checksum\<close> has the incremental checksums of utils.rs at their widths, and that they
  give the checksum of the changed data. \<open>Starcast_Nat\<close> has the trait of the two IP families and nat.rs over
  the LRU cache; views of packets (crate \<open>pnet_packet\<close>) are parameters (locales \<open>ip_view\<close>,
  \<open>ip_checksum_view\<close>, \<open>udp_view\<close>, \<open>packet_views\<close>), and the search for a port ends (locale
  \<open>translation\<close> carries both directions). \<open>Starcast_Transport\<close> has transport.rs and starcast_peer.rs.
  \<open>Starcast_Theorems\<close> shows that an answer to a translated packet goes back to its sender, that mappings are
  not taken over, and that only permitted packets pass in either direction.

  \<^bold>\<open>Conventions.\<close> Errors are the left of a sum. Instants and durations are natural numbers of
  clock ticks; clock readings of a method are the values of a function, so that they may differ.
  Integers whose overflow matters are words. Hash sets are iterated in an arbitrary order that a
  parameter gives. No fuel is used: all functions are total but the task that connects to the relay, which
  tries its servers forever and is shown to return once one of them answers.

  \<^bold>\<open>Not modelled.\<close> Logging; the asynchronous runtime (a task is its state and its operations, run in any
  order); the opening of sockets and of connections to the relay, whose outcomes are arguments; the discovery of
  local and UPnP endpoints, the multiplexer of the relay, DNS, analytics, the post-quantum exchange, path MTU
  discovery, the event loop of src/src/device.rs and the bindings: they are input and output, plumbing between channels, or
  foreign code, and enter as what the controller is told by them.
\<close>

end
